(* ===== verification/Prelude.thy ===== *)
theory Prelude
  imports Main "HOL-Library.Char_ord" "HOL-Library.List_Lexorder" "HOL-Library.AList"
begin

text \<open>
  What every other theory of the development shares: Go's strings and maps, the functions of
  Go's \<^verbatim>\<open>strings\<close> package the program calls, the outcome of a call that may panic, and the
  generic lemmas about them.

  A Go string is a sequence of bytes, here a \<^typ>\<open>string\<close> (a list of 8-bit characters), ordered
  byte by byte. Case folding is written out for ASCII, which is what HTTP header names, methods
  and host names are made of; the bytes from 128 on are left alone. A Go map is an association list with distinct keys: the order of the list is the order
  in which a \<^verbatim>\<open>range\<close> loop of that run visits the map (Go leaves it unspecified), and a theorem that
  must not depend on it says so. A map that may be nil is an \<^verbatim>\<open>option\<close>: nil is \<^const>\<open>None\<close>.
  A pointer is an \<^verbatim>\<open>option\<close> too. An \<^verbatim>\<open>(x, err)\<close> pair of which only one half is ever used is a sum,
  \<^const>\<open>Inl\<close> the error text.
\<close>

named_theorems go_defs \<open>definitions that are unfolded wherever they occur\<close>

type_synonym 'v gomap = "(string \<times> 'v) list"
type_synonym header_map = "string list gomap"
type_synonym headers = "header_map option"

section \<open>Outcomes: a value or a run-time panic\<close>

datatype 'a outcome = Returns 'a | Panics string

fun bind_outcome :: "'a outcome \<Rightarrow> ('a \<Rightarrow> 'b outcome) \<Rightarrow> 'b outcome" where
  "bind_outcome (Returns x) f = f x"
| "bind_outcome (Panics m) f = Panics m"

fun panics :: "'a outcome \<Rightarrow> bool" where
  "panics (Returns x) = False"
| "panics (Panics m) = True"

definition nil_deref :: string where
  "nil_deref = ''runtime error: invalid memory address or nil pointer dereference''"

lemma bind_outcome_Returns_iff:
  "bind_outcome m f = Returns y \<longleftrightarrow> (\<exists>x. m = Returns x \<and> f x = Returns y)"
  by (cases m) auto

lemma not_panics_iff: "\<not> panics m \<longleftrightarrow> (\<exists>x. m = Returns x)"
  by (cases m) auto

text \<open>
  A step of the program on a state: it returns a value and the next state, or panics.
\<close>

type_synonym ('s, 'a) prog = "'s \<Rightarrow> ('a \<times> 's) outcome"

definition retp :: "'a \<Rightarrow> ('s, 'a) prog" where
  "retp x s = Returns (x, s)"

definition bindp :: "('s, 'a) prog \<Rightarrow> ('a \<Rightarrow> ('s, 'b) prog) \<Rightarrow> ('s, 'b) prog" where
  "bindp m f s = bind_outcome (m s) (\<lambda>(x, s'). f x s')"

lemma bindp_Returns: "bindp m f s = Returns y \<longleftrightarrow> (\<exists>x s'. m s = Returns (x, s') \<and> f x s' = Returns y)"
  by (auto simp: bindp_def bind_outcome_Returns_iff)

text \<open>A call that always returns, as a step.\<close>

definition liftp :: "('s \<Rightarrow> 'a \<times> 's) \<Rightarrow> ('s, 'a) prog" where
  "liftp f s = Returns (f s)"

lemma liftp_Returns [simp]: "liftp f s = Returns y \<longleftrightarrow> y = f s"
  by (auto simp: liftp_def)

lemma bindp_step: "m s = Returns (x, s') \<Longrightarrow> bindp m f s = f x s'"
  by (simp add: bindp_def)

lemma retp_Returns [simp]: "retp x s = Returns y \<longleftrightarrow> y = (x, s)"
  by (auto simp: retp_def)

text \<open>
  What every result of a step satisfies, and that a step returns: the rules take a composed step
  apart.
\<close>

named_theorems step_rules \<open>how \<open>always\<close> and \<open>returns\<close> pass through the steps of a program\<close>

definition always :: "('s, 'a) prog \<Rightarrow> ('a \<Rightarrow> 's \<Rightarrow> bool) \<Rightarrow> 's \<Rightarrow> bool" where
  "always m P s = (\<forall>x s'. m s = Returns (x, s') \<longrightarrow> P x s')"

definition returns :: "('s, 'a) prog \<Rightarrow> 's \<Rightarrow> bool" where
  "returns m s = (\<not> panics (m s))"

lemma always_retp [step_rules]: "always (retp x) P = P x"
  by (simp add: fun_eq_iff always_def retp_def)

lemma always_bindp [step_rules]: "always (bindp m f) P = always m (\<lambda>x. always (f x) P)"
  by (fastforce simp: fun_eq_iff always_def bindp_Returns)

lemma returns_retp [step_rules]: "returns (retp x) = (\<lambda>s. True)"
  by (simp add: fun_eq_iff returns_def retp_def)

lemma always_liftp [step_rules]: "always (liftp f) P = (\<lambda>s. P (fst (f s)) (snd (f s)))"
  by (simp add: fun_eq_iff always_def liftp_def prod_eq_iff)

lemma returns_liftp [step_rules]: "returns (liftp f) = (\<lambda>s. True)"
  by (simp add: fun_eq_iff returns_def liftp_def)

lemma returns_bindp_at:
  "returns (bindp m f) s = (returns m s \<and> always m (\<lambda>x. returns (f x)) s)"
  by (cases "m s") (auto simp: returns_def always_def bindp_def)

lemma returns_bindp [step_rules]:
  "returns (bindp m f) = (\<lambda>s. returns m s \<and> always m (\<lambda>x. returns (f x)) s)"
  by (simp add: fun_eq_iff returns_bindp_at)

lemma always_cases [step_rules]:
  "always (if c then m else n) P = (if c then always m P else always n P)"
  "always (case p of (a, b) \<Rightarrow> f a b) P = (case p of (a, b) \<Rightarrow> always (f a b) P)"
  "always (case e of Inl a \<Rightarrow> g a | Inr b \<Rightarrow> h b) P =
     (case e of Inl a \<Rightarrow> always (g a) P | Inr b \<Rightarrow> always (h b) P)"
  "always (case r of None \<Rightarrow> m | Some x \<Rightarrow> k x) P =
     (case r of None \<Rightarrow> always m P | Some x \<Rightarrow> always (k x) P)"
  by (simp_all split: prod.split sum.split option.split)

lemma returns_cases [step_rules]:
  "returns (if c then m else n) = (if c then returns m else returns n)"
  "returns (case p of (a, b) \<Rightarrow> f a b) = (case p of (a, b) \<Rightarrow> returns (f a b))"
  "returns (case e of Inl a \<Rightarrow> g a | Inr b \<Rightarrow> h b) =
     (case e of Inl a \<Rightarrow> returns (g a) | Inr b \<Rightarrow> returns (h b))"
  "returns (case r of None \<Rightarrow> m | Some x \<Rightarrow> k x) =
     (case r of None \<Rightarrow> returns m | Some x \<Rightarrow> returns (k x))"
  by (simp_all split: prod.split sum.split option.split)

lemma always_mono: "always m P s \<Longrightarrow> (\<And>x s'. P x s' \<Longrightarrow> Q x s') \<Longrightarrow> always m Q s"
  by (simp add: always_def)

lemma always_True [simp]: "always m (\<lambda>x s. True) s"
  by (simp add: always_def)

lemma always_panics [step_rules]: "always (\<lambda>s. Panics e) P = (\<lambda>s. True)"
  by (simp add: fun_eq_iff always_def)

lemma always_all: "(\<And>x s'. P x s') \<Longrightarrow> always m P s"
  by (simp add: always_def)

lemma always_Returns: "always m P s \<Longrightarrow> m s = Returns (x, s') \<Longrightarrow> P x s'"
  by (simp add: always_def)

lemma returns_iff: "returns m s \<longleftrightarrow> (\<exists>x s'. m s = Returns (x, s'))"
  by (cases "m s") (auto simp: returns_def)

text \<open>Numbers as \<^verbatim>\<open>strconv.Itoa\<close> and \<^verbatim>\<open>%d\<close> print them.\<close>

fun show_nat :: "nat \<Rightarrow> string" where
  "show_nat n = (if n < 10 then [char_of (48 + n)] else show_nat (n div 10) @ [char_of (48 + n mod 10)])"

declare show_nat.simps [simp del]

definition Itoa :: "int \<Rightarrow> string" where
  "Itoa i = (if i < 0 then CHR ''-'' # show_nat (nat (- i)) else show_nat (nat i))"

text \<open>
  \<^verbatim>\<open>strconv.Atoi\<close>: an optional sign and decimal digits, within 64 bits; the text of the error is
  shortened.
\<close>

definition is_digit :: "char \<Rightarrow> bool" where
  "is_digit c = ((48::nat) \<le> of_char c \<and> (of_char c :: nat) \<le> 57)"

definition digits_value :: "string \<Rightarrow> int" where
  "digits_value ds = foldl (\<lambda>n c. 10 * n + (of_char c - 48)) 0 ds"

definition Atoi :: "string \<Rightarrow> string + int" where
  "Atoi s =
     (let (neg, ds) = (case s of [] \<Rightarrow> (False, [])
          | c # cs \<Rightarrow> if c = CHR ''-'' then (True, cs) else if c = CHR ''+'' then (False, cs) else (False, s));
          n = digits_value ds; v = (if neg then - n else n)
      in if ds = [] \<or> \<not> list_all is_digit ds then Inl ''invalid syntax''
         else if v < - (2 ^ 63) \<or> v > 2 ^ 63 - 1 then Inl ''value out of range''
         else Inr v)"

text \<open>Printed integers are read back.\<close>

lemma digits_value_snoc: "digits_value (ds @ [c]) = 10 * digits_value ds + (of_char c - 48)"
  by (simp add: digits_value_def)

lemma show_nat_digits: "show_nat n \<noteq> [] \<and> list_all is_digit (show_nat n) \<and> digits_value (show_nat n) = int n"
proof (induction n rule: show_nat.induct)
  case (1 n)
  have digit: "is_digit (char_of (48 + d))" "(of_char (char_of (48 + d) :: char) :: int) = 48 + int d" if "d < 10" for d :: nat
    using that of_nat_of_char[of "char_of (48 + d)", where 'a=int] by (simp_all add: is_digit_def)
  show ?case
  proof (cases "n < 10")
    case True
    then show ?thesis using digit[of n] by (simp add: show_nat.simps[of n] digits_value_def)
  next
    case False
    have "10 * int (n div 10) + int (n mod 10) = int n" by presburger
    with False show ?thesis using 1[OF False] digit[of "n mod 10"]
      by (simp add: show_nat.simps[of n] digits_value_snoc)
  qed
qed

lemma Atoi_Itoa:
  assumes "- (2 ^ 63) \<le> i" and "i < 2 ^ 63"
  shows "Atoi (Itoa i) = Inr i"
proof -
  have shape: "\<exists>c cs. show_nat n = c # cs \<and> c \<noteq> CHR ''-'' \<and> c \<noteq> CHR ''+'' \<and> list_all is_digit (c # cs) \<and>
      digits_value (c # cs) = int n" for n
    using show_nat_digits[of n] by (cases "show_nat n") (auto simp: is_digit_def)
  show ?thesis
  proof (cases "i < 0")
    case True
    then show ?thesis using shape[of "nat (- i)"] assms by (auto simp: Itoa_def Atoi_def)
  next
    case False
    then show ?thesis using shape[of "nat i"] assms by (auto simp: Itoa_def Atoi_def)
  qed
qed

section \<open>Programs that keep a property of the state\<close>

named_theorems keeping \<open>how \<open>preserves\<close> passes through the steps of a program\<close>

definition preserves :: "('s \<Rightarrow> bool) \<Rightarrow> ('s, 'a) prog \<Rightarrow> bool" where
  "preserves I m = (\<forall>s. I s \<longrightarrow> always m (\<lambda>x s'. I s') s)"

lemma preservesD: "preserves I m \<Longrightarrow> I s \<Longrightarrow> m s = Returns (x, s') \<Longrightarrow> I s'"
  by (auto simp: preserves_def always_def)

lemma preservesI: "(\<And>s x s'. I s \<Longrightarrow> m s = Returns (x, s') \<Longrightarrow> I s') \<Longrightarrow> preserves I m"
  by (auto simp: preserves_def always_def)

lemma preserves_retp [keeping]: "preserves I (retp x)"
  by (simp add: preserves_def always_retp)

lemma preserves_bindp [keeping]: "preserves I m \<Longrightarrow> (\<And>x. preserves I (f x)) \<Longrightarrow> preserves I (bindp m f)"
  by (auto simp: preserves_def always_bindp elim!: always_mono)

lemma preserves_panics [keeping]: "preserves I (\<lambda>s. Panics e)"
  by (simp add: preserves_def always_def)

lemma preserves_cases [keeping]:
  "(c \<Longrightarrow> preserves I m) \<Longrightarrow> (\<not> c \<Longrightarrow> preserves I n) \<Longrightarrow> preserves I (if c then m else n)"
  "(\<And>a b. preserves I (f a b)) \<Longrightarrow> preserves I (case p of (a, b) \<Rightarrow> f a b)"
  "(\<And>a. preserves I (g a)) \<Longrightarrow> (\<And>b. preserves I (h b)) \<Longrightarrow> preserves I (case e of Inl a \<Rightarrow> g a | Inr b \<Rightarrow> h b)"
  "preserves I m \<Longrightarrow> (\<And>x. preserves I (k x)) \<Longrightarrow> preserves I (case r of None \<Rightarrow> m | Some x \<Rightarrow> k x)"
  by (simp_all split: prod.split sum.split option.split)

lemma preserves_either:
  "\<lbrakk>preserves I m; preserves I n; \<And>s. k s = m s \<or> k s = n s\<rbrakk> \<Longrightarrow> preserves I k"
  by (rule preservesI) (metis preservesD)

section \<open>The strings package\<close>

fun HasPrefix :: "string \<Rightarrow> string \<Rightarrow> bool" where
  "HasPrefix s [] = True"
| "HasPrefix [] (p # ps) = False"
| "HasPrefix (c # cs) (p # ps) = (c = p \<and> HasPrefix cs ps)"

definition HasSuffix :: "string \<Rightarrow> string \<Rightarrow> bool" where
  "HasSuffix s suf = (length suf \<le> length s \<and> drop (length s - length suf) s = suf)"

text \<open>\<^verbatim>\<open>strings.Index\<close>: the first position of the substring, or -1.\<close>

fun Index_from :: "nat \<Rightarrow> string \<Rightarrow> string \<Rightarrow> int" where
  "Index_from i [] sub = (if sub = [] then int i else -1)"
| "Index_from i (c # cs) sub =
     (if HasPrefix (c # cs) sub then int i else Index_from (Suc i) cs sub)"

definition Index :: "string \<Rightarrow> string \<Rightarrow> int" where
  "Index s sub = Index_from 0 s sub"

definition Contains :: "string \<Rightarrow> string \<Rightarrow> bool" where
  "Contains s sub = (Index s sub \<ge> 0)"

text \<open>\<^verbatim>\<open>strings.IndexAny\<close> and \<^verbatim>\<open>strings.IndexByte\<close>: the first byte that is one of a set.\<close>

fun IndexAny_from :: "nat \<Rightarrow> string \<Rightarrow> string \<Rightarrow> int" where
  "IndexAny_from i [] cs = -1"
| "IndexAny_from i (x # xs) cs = (if x \<in> set cs then int i else IndexAny_from (Suc i) xs cs)"

definition IndexAny :: "string \<Rightarrow> string \<Rightarrow> int" where
  "IndexAny s cs = IndexAny_from 0 s cs"

text \<open>\<^verbatim>\<open>strings.Split\<close> with a separator of one byte, the only kind the program uses.\<close>

fun Split :: "string \<Rightarrow> char \<Rightarrow> string list" where
  "Split [] c = [[]]"
| "Split (x # xs) c =
     (if x = c then [] # Split xs c
      else (case Split xs c of [] \<Rightarrow> [[x]] | p # ps \<Rightarrow> (x # p) # ps))"

fun Join :: "string list \<Rightarrow> string \<Rightarrow> string" where
  "Join [] sep = []"
| "Join [x] sep = x"
| "Join (x # y # ys) sep = x @ sep @ Join (y # ys) sep"

definition lower_char :: "char \<Rightarrow> char" where
  "lower_char c =
     (if (65::nat) \<le> of_char c \<and> (of_char c :: nat) \<le> 90 then char_of ((of_char c :: nat) + 32) else c)"

definition ToLower :: "string \<Rightarrow> string" where
  "ToLower s = map lower_char s"

definition EqualFold :: "string \<Rightarrow> string \<Rightarrow> bool" where
  "EqualFold a b = (ToLower a = ToLower b)"

definition is_space :: "char \<Rightarrow> bool" where
  "is_space c = ((of_char c :: nat) \<in> {9, 10, 11, 12, 13, 32})"

definition TrimSpace :: "string \<Rightarrow> string" where
  "TrimSpace s = rev (dropWhile is_space (rev (dropWhile is_space s)))"

lemma HasPrefix_iff: "HasPrefix s p \<longleftrightarrow> (\<exists>t. s = p @ t)"
  by (induction s p rule: HasPrefix.induct) auto

lemma HasSuffix_iff: "HasSuffix s p \<longleftrightarrow> (\<exists>t. s = t @ p)"
proof
  assume h: "HasSuffix s p"
  then have "s = take (length s - length p) s @ p"
    by (metis HasSuffix_def append_take_drop_id)
  then show "\<exists>t. s = t @ p" ..
next
  assume "\<exists>t. s = t @ p"
  then show "HasSuffix s p" by (auto simp: HasSuffix_def)
qed

lemma Index_from_le: "Index_from i s sub = -1 \<or> int i \<le> Index_from i s sub"
proof (induction i s sub rule: Index_from.induct)
  case (2 i c cs sub)
  then show ?case by auto
qed simp

lemma Index_from_bounds:
  "Index_from i s sub \<ge> 0 \<Longrightarrow> nat (Index_from i s sub) - i + length sub \<le> length s"
proof (induction i s sub rule: Index_from.induct)
  case (2 i c cs sub)
  show ?case
  proof (cases "HasPrefix (c # cs) sub")
    case True
    then obtain t where "c # cs = sub @ t" by (auto simp: HasPrefix_iff)
    then have "length sub \<le> length (c # cs)" by simp
    with True show ?thesis by simp
  next
    case False
    with 2 Index_from_le[of "Suc i" cs sub] show ?thesis by auto
  qed
qed (simp split: if_splits)

lemma Index_from_found:
  "Index_from i s sub \<ge> 0 \<Longrightarrow>
     s = take (nat (Index_from i s sub) - i) s @ sub @
         drop (nat (Index_from i s sub) - i + length sub) s"
proof (induction i s sub rule: Index_from.induct)
  case (2 i c cs sub)
  show ?case
  proof (cases "HasPrefix (c # cs) sub")
    case True
    then obtain t where t: "c # cs = sub @ t" by (auto simp: HasPrefix_iff)
    from True have "Index_from i (c # cs) sub = int i" by simp
    then show ?thesis by (simp add: t del: Index_from.simps)
  next
    case False
    let ?k = "nat (Index_from (Suc i) cs sub)"
    from False "2.prems" have nn: "Index_from (Suc i) cs sub \<ge> 0" by simp
    then have ge: "Suc i \<le> ?k" using Index_from_le[of "Suc i" cs sub] by auto
    then have sd: "?k - i = Suc (?k - Suc i)" by simp
    from "2.IH"[OF False nn] show ?thesis using False sd by simp
  qed
qed (simp split: if_splits)

lemma Index_from_first:
  "s = u @ sub @ v \<Longrightarrow>
     0 \<le> Index_from i s sub \<and> nat (Index_from i s sub) - i \<le> length u"
proof (induction u arbitrary: i s)
  case Nil
  then have "HasPrefix s sub" by (auto simp: HasPrefix_iff)
  then show ?case by (cases s) (auto elim: HasPrefix.elims)
next
  case (Cons x u)
  let ?t = "u @ sub @ v"
  from Cons.prems have s: "s = x # ?t" by simp
  show ?case
  proof (cases "HasPrefix (x # ?t) sub")
    case True
    with s show ?thesis by simp
  next
    case False
    from Cons.IH[of ?t "Suc i"]
    have "0 \<le> Index_from (Suc i) ?t sub \<and> nat (Index_from (Suc i) ?t sub) - Suc i \<le> length u"
      by simp
    with s False show ?thesis by auto
  qed
qed

lemma Index_found:
  "Index s sub \<ge> 0 \<Longrightarrow> s = take (nat (Index s sub)) s @ sub @ drop (nat (Index s sub) + length sub) s"
  using Index_from_found[of 0 s sub] by (simp add: Index_def)

lemma Index_first:
  "s = u @ sub @ v \<Longrightarrow> 0 \<le> Index s sub \<and> nat (Index s sub) \<le> length u"
  using Index_from_first[of s u sub v 0] by (simp add: Index_def)

lemma Contains_iff: "Contains s sub \<longleftrightarrow> (\<exists>u v. s = u @ sub @ v)"
  unfolding Contains_def using Index_found Index_first by blast

lemma Index_empty [simp]: "Index s [] = 0"
  by (cases s) (simp_all add: Index_def)

lemma Split_not_Nil [simp]: "Split s c \<noteq> []"
  by (cases s) (auto split: list.splits)

lemma Split_no_sep: "c \<notin> set s \<Longrightarrow> Split s c = [s]"
  by (induction s) auto

lemma Split_sep: "p \<in> set (Split s c) \<Longrightarrow> c \<notin> set p"
proof (induction s arbitrary: p)
  case (Cons x xs)
  then show ?case by (auto split: if_splits list.splits)
qed simp

lemma Split_append_sep: "c \<notin> set p \<Longrightarrow> Split (p @ c # s) c = p # Split s c"
  by (induction p) auto

lemma Join_Split: "Join (Split s c) [c] = s"
proof (induction s)
  case (Cons x xs)
  obtain p ps where sp: "Split xs c = p # ps" by (cases "Split xs c") auto
  show ?case using Cons sp by (cases ps) auto
qed simp

lemma lower_char_idem [simp]: "lower_char (lower_char c) = lower_char c"
  by (auto simp: lower_char_def)

lemma ToLower_idem [simp]: "ToLower (ToLower s) = ToLower s"
  by (simp add: ToLower_def)

section \<open>Go maps\<close>

definition map_get :: "'v gomap \<Rightarrow> string \<Rightarrow> 'v option" where
  "map_get m k = map_of m k"

definition map_put :: "string \<Rightarrow> 'v \<Rightarrow> 'v gomap \<Rightarrow> 'v gomap" where
  "map_put k v m = AList.update k v m"

definition map_del :: "string \<Rightarrow> 'v gomap \<Rightarrow> 'v gomap" where
  "map_del k m = AList.delete k m"

definition map_keys :: "'v gomap \<Rightarrow> string list" where
  "map_keys m = map fst m"

definition wf_map :: "'v gomap \<Rightarrow> bool" where
  "wf_map m = distinct (map fst m)"

text \<open>\<^verbatim>\<open>m[k]\<close> for a map of slices: a missing key reads as the nil slice.\<close>

definition map_index :: "'a list gomap \<Rightarrow> string \<Rightarrow> 'a list" where
  "map_index m k = (case map_get m k of None \<Rightarrow> [] | Some v \<Rightarrow> v)"

definition map_append :: "string \<Rightarrow> 'a \<Rightarrow> 'a list gomap \<Rightarrow> 'a list gomap" where
  "map_append k x m = map_put k (map_index m k @ [x]) m"

text \<open>\<^verbatim>\<open>reflect.DeepEqual\<close> of two maps: the same entries in any order.\<close>

definition map_equal :: "'v gomap \<Rightarrow> 'v gomap \<Rightarrow> bool" where
  "map_equal m n =
     (length m = length n \<and> (\<forall>k \<in> set (map fst m). map_of m k = map_of n k))"

lemma map_get_put [simp]: "map_get (map_put k v m) j = (if j = k then Some v else map_get m j)"
  by (simp add: map_get_def map_put_def update_conv')

lemma map_get_del [simp]: "map_get (map_del k m) j = (if j = k then None else map_get m j)"
  by (simp add: map_get_def map_del_def delete_conv')

lemma map_get_Nil [simp]: "map_get [] k = None"
  by (simp add: map_get_def)

lemma wf_map_Nil [simp]: "wf_map []"
  by (simp add: wf_map_def)

lemma wf_map_put [simp]: "wf_map m \<Longrightarrow> wf_map (map_put k v m)"
  by (simp add: wf_map_def map_put_def distinct_update)

lemma wf_map_del [simp]: "wf_map m \<Longrightarrow> wf_map (map_del k m)"
  by (simp add: wf_map_def map_del_def distinct_delete)

lemma map_get_Some_mem: "map_get m k = Some v \<Longrightarrow> (k, v) \<in> set m"
  by (simp add: map_get_def map_of_SomeD)

lemma map_get_eq_SomeI: "wf_map m \<Longrightarrow> (k, v) \<in> set m \<Longrightarrow> map_get m k = Some v"
  by (simp add: map_get_def wf_map_def)

lemma map_get_None_iff: "map_get m k = None \<longleftrightarrow> k \<notin> set (map_keys m)"
  by (simp add: map_get_def map_keys_def map_of_eq_None_iff)

lemma map_get_Some_iff: "(\<exists>v. map_get m k = Some v) \<longleftrightarrow> k \<in> set (map_keys m)"
  using map_get_None_iff[of m k] by (cases "map_get m k") auto

lemma set_map_keys_put: "set (map_keys (map_put k v m)) = insert k (set (map_keys m))"
  by (simp add: map_keys_def map_put_def dom_update)

lemma map_equal_refl [simp]: "map_equal m m"
  by (simp add: map_equal_def)

lemma length_wf_map: "wf_map m \<Longrightarrow> length m = card (set (map fst m))"
  by (metis distinct_card length_map wf_map_def)

lemma map_equal_iff:
  assumes "wf_map m" "wf_map n"
  shows "map_equal m n \<longleftrightarrow> map_of m = map_of n"
proof
  assume h: "map_equal m n"
  have sub: "set (map fst m) \<subseteq> set (map fst n)"
  proof
    fix k assume k: "k \<in> set (map fst m)"
    then obtain v where "map_of m k = Some v"
      using map_get_Some_iff[of m k] by (auto simp: map_get_def map_keys_def)
    with h k have "map_of n k = Some v" by (metis map_equal_def)
    then show "k \<in> set (map fst n)" by (metis map_of_SomeD fst_conv image_eqI set_map)
  qed
  have "card (set (map fst m)) = card (set (map fst n))"
    using h length_wf_map[OF assms(1)] length_wf_map[OF assms(2)] by (metis map_equal_def)
  then have eq: "set (map fst m) = set (map fst n)"
    using sub by (simp add: card_subset_eq)
  show "map_of m = map_of n"
  proof
    fix k show "map_of m k = map_of n k"
    proof (cases "k \<in> set (map fst m)")
      case True
      then show ?thesis using h by (metis map_equal_def)
    next
      case False
      then show ?thesis using eq by (metis map_of_eq_None_iff set_map)
    qed
  qed
next
  assume eq: "map_of m = map_of n"
  then have "set (map fst m) = set (map fst n)"
    by (metis dom_map_of_conv_image_fst set_map)
  then have "length m = length n" using assms by (simp add: length_wf_map)
  with eq show "map_equal m n" by (simp add: map_equal_def)
qed

end
