(* ===== verification/Glob.thy ===== *)
theory Glob
  imports Prelude
begin

text \<open>
  The glob matcher behind \<^verbatim>\<open>globMatch\<close> fields and behind every header matcher:
  \<^verbatim>\<open>glob.Glob\<close> (vendored, \<^verbatim>\<open>github.com/ryanuber/go-glob\<close>) and
  \<^verbatim>\<open>GlobMatch\<close> of \<^verbatim>\<open>core/matching/glob_match.go\<close>. The code splits the pattern at the stars and
  searches each part greedily; the specification is the language of the pattern, in which a
  star stands for any string.
\<close>

definition GLOB :: char where
  "GLOB = CHR ''*''"

text \<open>
  The loop over the leading parts; \<open>i\<close> is the loop variable. \<^const>\<open>None\<close> is \<^verbatim>\<open>return false\<close>
  inside the loop, \<^const>\<open>Some\<close> the rest of the subject after it.
\<close>

fun glob_loop :: "bool \<Rightarrow> nat \<Rightarrow> string list \<Rightarrow> string \<Rightarrow> string option" where
  "glob_loop leadingGlob i [] subj = Some subj"
| "glob_loop leadingGlob i (part # parts) subj =
     (let idx = Index subj part in
      if i = 0 \<and> \<not> leadingGlob \<and> idx \<noteq> 0 then None
      else if i \<noteq> 0 \<and> idx < 0 then None
      else glob_loop leadingGlob (Suc i) parts (drop (nat (idx + int (length part))) subj))"

definition Glob :: "string \<Rightarrow> string \<Rightarrow> bool" where
  "Glob pattern subj =
     (if pattern = [] then subj = pattern
      else if pattern = [GLOB] then True
      else
        let parts = Split pattern GLOB in
        if length parts = 1 then subj = pattern
        else
          let leadingGlob = HasPrefix pattern [GLOB];
              trailingGlob = HasSuffix pattern [GLOB]
          in (case glob_loop leadingGlob 0 (butlast parts) subj of
                None \<Rightarrow> False
              | Some rest \<Rightarrow> trailingGlob \<or> HasSuffix rest (last parts)))"

definition GlobMatch :: "string \<Rightarrow> string \<Rightarrow> bool" where
  "GlobMatch matchingString toMatch = Glob matchingString toMatch"

section \<open>The language of a pattern\<close>

fun glob_language :: "string \<Rightarrow> string \<Rightarrow> bool" where
  "glob_language [] s = (s = [])"
| "glob_language (c # p) s =
     (if c = GLOB then (\<exists>n \<in> set [0..<Suc (length s)]. glob_language p (drop n s))
      else (case s of [] \<Rightarrow> False | x # xs \<Rightarrow> x = c \<and> glob_language p xs))"

text \<open>What remains to be matched after a star, part by part.\<close>

fun after_star :: "string list \<Rightarrow> string \<Rightarrow> bool" where
  "after_star [] s = True"
| "after_star [p] s = (\<exists>u. s = u @ p)"
| "after_star (p # q # ps) s = (\<exists>u v. s = u @ p @ v \<and> after_star (q # ps) v)"

lemma after_star_mono: "after_star ps v \<Longrightarrow> after_star ps (u @ v)"
proof (induction ps v rule: after_star.induct)
  case (2 p s)
  then show ?case by auto
next
  case (3 p q ps s)
  then obtain w v where "s = w @ p @ v" "after_star (q # ps) v" by auto
  then have "u @ s = (u @ w) @ p @ v \<and> after_star (q # ps) v" by simp
  then show ?case by (simp only: after_star.simps) blast
qed simp

lemma glob_language_star:
  "glob_language (GLOB # p) s \<longleftrightarrow> (\<exists>u v. s = u @ v \<and> glob_language p v)"
proof
  assume "glob_language (GLOB # p) s"
  then have "\<exists>n \<in> set [0..<Suc (length s)]. glob_language p (drop n s)"
    by (simp only: glob_language.simps if_True refl)
  then obtain n where "glob_language p (drop n s)" by blast
  moreover have "s = take n s @ drop n s" by simp
  ultimately show "\<exists>u v. s = u @ v \<and> glob_language p v" by blast
next
  assume "\<exists>u v. s = u @ v \<and> glob_language p v"
  then obtain u v where uv: "s = u @ v" "glob_language p v" by blast
  have "length u \<in> set [0..<Suc (length s)]" using uv by simp
  moreover have "glob_language p (drop (length u) s)" using uv by simp
  ultimately show "glob_language (GLOB # p) s" by auto
qed

lemma glob_language_literal:
  "GLOB \<notin> set l \<Longrightarrow> glob_language (l @ p) s \<longleftrightarrow> (\<exists>v. s = l @ v \<and> glob_language p v)"
proof (induction l arbitrary: s)
  case (Cons c l)
  then have c: "c \<noteq> GLOB" by auto
  from Cons have IH: "\<And>s. glob_language (l @ p) s \<longleftrightarrow> (\<exists>v. s = l @ v \<and> glob_language p v)" by simp
  from c IH show ?case by (auto split: list.splits)
qed simp

text \<open>Patterns seen as parts: \<open>p0\<close> literally, then \<^const>\<open>after_star\<close> of the rest.\<close>

lemma glob_language_after_star:
  "\<lbrakk>ps \<noteq> []; \<forall>p \<in> set ps. GLOB \<notin> set p\<rbrakk> \<Longrightarrow>
     glob_language (GLOB # Join ps [GLOB]) s \<longleftrightarrow> after_star ps s"
proof (induction ps s rule: after_star.induct)
  case (2 p s)
  then show ?case
    using glob_language_literal[of p "[]"] by (auto simp: glob_language_star simp del: glob_language.simps(2))
next
  case (3 p q ps s)
  then show ?case
    using glob_language_literal[of p "GLOB # Join (q # ps) [GLOB]"]
    by (auto simp: glob_language_star simp del: glob_language.simps(2))
qed simp

lemma glob_loop_later:
  "glob_loop lead (Suc i) ps s = Some r \<Longrightarrow> HasSuffix r q \<Longrightarrow> after_star (ps @ [q]) s"
proof (induction ps arbitrary: s i)
  case Nil
  then show ?case by (auto simp: HasSuffix_iff)
next
  case (Cons p ps)
  then have idx: "Index s p \<ge> 0" by (auto simp: Let_def split: if_splits)
  let ?v = "drop (nat (Index s p) + length p) s"
  have v: "drop (nat (Index s p + int (length p))) s = ?v"
    using idx by (simp add: nat_add_distrib)
  from Cons.prems idx have "glob_loop lead (Suc (Suc i)) ps ?v = Some r"
    by (simp add: Let_def v)
  from Cons.IH[OF this Cons.prems(2)] have a: "after_star (ps @ [q]) ?v" .
  obtain q' qs where qs: "ps @ [q] = q' # qs" by (cases ps) auto
  from Index_found[OF idx] a show ?case unfolding append_Cons qs after_star.simps by blast
qed

lemma after_star_loop:
  "after_star (ps @ [q]) s \<Longrightarrow> \<exists>r. glob_loop lead (Suc i) ps s = Some r \<and> HasSuffix r q"
proof (induction ps arbitrary: s i)
  case Nil
  then show ?case by (auto simp: HasSuffix_iff)
next
  case (Cons p ps)
  obtain q' qs where qs: "ps @ [q] = q' # qs" by (cases ps) auto
  from Cons.prems obtain u v where uv: "s = u @ p @ v" "after_star (ps @ [q]) v"
    unfolding append_Cons qs after_star.simps by blast
  from Index_first[OF uv(1)] have idx: "0 \<le> Index s p" "nat (Index s p) \<le> length u" by auto
  let ?d = "drop (nat (Index s p) + length p) s"
  have "?d = drop (nat (Index s p) + length p) (u @ p) @ v"
    using idx(2) uv(1) by simp
  with uv(2) have "after_star (ps @ [q]) ?d" using after_star_mono by metis
  from Cons.IH[OF this] obtain r where
    "glob_loop lead (Suc (Suc i)) ps ?d = Some r" "HasSuffix r q" by blast
  moreover have "drop (nat (Index s p + int (length p))) s = ?d"
    using idx(1) by (simp add: nat_add_distrib)
  ultimately show ?case using idx(1) by (simp add: Let_def)
qed

lemma glob_loop_after_star:
  "(\<exists>r. glob_loop lead (Suc i) ps s = Some r \<and> HasSuffix r q) \<longleftrightarrow> after_star (ps @ [q]) s"
  using glob_loop_later after_star_loop by blast

text \<open>The first part: with a leading star it is empty, without one it must be a prefix.\<close>

lemma Index_zero_iff: "Index s p = 0 \<longleftrightarrow> HasPrefix s p"
proof
  assume "Index s p = 0"
  then show "HasPrefix s p" using Index_found[of s p] by (auto simp: HasPrefix_iff)
next
  assume "HasPrefix s p"
  then obtain t where "s = [] @ p @ t" by (auto simp: HasPrefix_iff)
  from Index_first[OF this] show "Index s p = 0" by simp
qed

lemma glob_loop_first:
  assumes "lead \<longleftrightarrow> p = []"
  shows "glob_loop lead 0 (p # ps) s =
     (if HasPrefix s p then glob_loop lead 1 ps (drop (length p) s) else None)"
proof (cases "HasPrefix s p")
  case True
  then have "Index s p = 0" by (simp add: Index_zero_iff)
  with True show ?thesis by (simp add: Let_def)
next
  case False
  then have "Index s p \<noteq> 0" and "p \<noteq> []" by (auto simp: Index_zero_iff)
  with False assms show ?thesis by (simp add: Let_def)
qed

lemma Split_parts:
  assumes "length (Split pattern GLOB) \<noteq> 1"
  obtains p ps q where "Split pattern GLOB = p # ps @ [q]"
  by (metis append_butlast_last_id assms length_Cons list.exhaust list.size(3) One_nat_def
      Split_not_Nil butlast.simps(2))

lemma HasPrefix_GLOB: "Split pattern GLOB = p # q # ps \<Longrightarrow> HasPrefix pattern [GLOB] \<longleftrightarrow> p = []"
  by (cases pattern) (auto split: if_splits list.splits elim: HasPrefix.elims)

lemma HasSuffix_GLOB:
  assumes "Split pattern GLOB = ps @ [q]" and "ps \<noteq> []"
  shows "HasSuffix pattern [GLOB] \<longleftrightarrow> q = []"
proof -
  have pat: "pattern = Join (ps @ [q]) [GLOB]" using assms(1) Join_Split[of pattern GLOB] by simp
  have j: "\<exists>w. Join (ps @ [q]) [GLOB] = w @ GLOB # q" using assms(2)
  proof (induction ps)
    case (Cons a ps)
    then show ?case
    proof (cases ps)
      case (Cons b bs)
      with Cons.IH obtain w where "Join (ps @ [q]) [GLOB] = w @ GLOB # q" by auto
      with Cons have "Join ((a # ps) @ [q]) [GLOB] = (a @ [GLOB] @ w) @ GLOB # q" by simp
      then show ?thesis by blast
    qed auto
  qed simp
  then obtain w where w: "pattern = w @ GLOB # q" using pat by blast
  have "GLOB \<notin> set q" using Split_sep[of q pattern GLOB] assms(1) by simp
  then show ?thesis unfolding HasSuffix_iff w by (cases q rule: rev_cases) auto
qed

text \<open>The matcher on a pattern with at least one star, as prefix and \<^const>\<open>after_star\<close>.\<close>

lemma Glob_parts:
  assumes sp: "Split pattern GLOB = p # ps @ [q]" and ne: "pattern \<noteq> []" "pattern \<noteq> [GLOB]"
  shows "Glob pattern s \<longleftrightarrow> (\<exists>v. s = p @ v \<and> after_star (ps @ [q]) v)"
proof -
  obtain q' qs where qs: "ps @ [q] = q' # qs" by (cases ps) auto
  have lead: "HasPrefix pattern [GLOB] \<longleftrightarrow> p = []"
    using sp qs by (intro HasPrefix_GLOB) simp
  have trail: "HasSuffix pattern [GLOB] \<longleftrightarrow> q = []"
    using sp HasSuffix_GLOB[of pattern "p # ps" q] by simp
  have len: "length (Split pattern GLOB) \<noteq> 1" by (simp add: sp)
  have bl: "butlast (Split pattern GLOB) = p # ps" "last (Split pattern GLOB) = q"
    by (simp_all add: sp butlast_append)
  have "Glob pattern s \<longleftrightarrow>
     (\<exists>r. glob_loop (p = []) 0 (p # ps) s = Some r \<and> (q = [] \<or> HasSuffix r q))"
    using ne len unfolding Glob_def Let_def bl lead trail by (auto split: option.splits)
  also have "\<dots> \<longleftrightarrow> HasPrefix s p \<and>
     (\<exists>r. glob_loop (p = []) 1 ps (drop (length p) s) = Some r \<and> HasSuffix r q)"
    by (subst glob_loop_first) (auto simp: HasSuffix_iff)
  also have "\<dots> \<longleftrightarrow> (\<exists>v. s = p @ v \<and> after_star (ps @ [q]) v)"
    unfolding One_nat_def glob_loop_after_star by (auto simp: HasPrefix_iff)
  finally show ?thesis .
qed

lemma Glob_language_parts:
  assumes "Split pattern GLOB = p # ps @ [q]"
  shows "glob_language pattern s \<longleftrightarrow> (\<exists>v. s = p @ v \<and> after_star (ps @ [q]) v)"
proof -
  obtain q' qs where qs: "ps @ [q] = q' # qs" by (cases ps) auto
  have pat: "pattern = p @ GLOB # Join (ps @ [q]) [GLOB]"
    using Join_Split[of pattern GLOB] assms by (simp add: qs)
  have no: "GLOB \<notin> set p" "\<forall>x \<in> set (ps @ [q]). GLOB \<notin> set x"
    using Split_sep[of _ pattern GLOB] assms by auto
  show ?thesis
    unfolding pat using no glob_language_literal[OF no(1)] glob_language_after_star[of "ps @ [q]"]
    by simp
qed

lemma glob_language_plain: "GLOB \<notin> set pattern \<Longrightarrow> glob_language pattern s \<longleftrightarrow> s = pattern"
  using glob_language_literal[of pattern "[]" s] by auto

lemma Split_single: "Split s c = [p] \<Longrightarrow> s = p \<and> c \<notin> set s"
  by (metis Join.simps(2) Join_Split Split_sep list.set_intros(1))

lemma Glob_language: "Glob pattern subj \<longleftrightarrow> glob_language pattern subj"
proof (cases "pattern = [] \<or> pattern = [GLOB] \<or> length (Split pattern GLOB) = 1")
  case True
  then consider "pattern = []" | "pattern = [GLOB]"
    | p where "pattern \<noteq> []" "pattern \<noteq> [GLOB]" "Split pattern GLOB = [p]"
    by (auto simp: length_Suc_conv)
  then show ?thesis
  proof cases
    case 2
    then show ?thesis using glob_language_star[of "[]" subj] by (auto simp: Glob_def)
  next
    case 3
    then show ?thesis
      using Split_single[OF 3(3)] glob_language_plain[of pattern subj] by (auto simp: Glob_def)
  qed (simp add: Glob_def)
next
  case False
  then obtain p ps q where "Split pattern GLOB = p # ps @ [q]" using Split_parts by metis
  with False show ?thesis by (simp add: Glob_parts Glob_language_parts)
qed

text \<open>
  C33: the greedy matcher behind the glob matchers decides exactly the language of its pattern: a
  star stands for any string, every other character for itself.
\<close>

theorem GlobMatch_correct: "GlobMatch matchingString toMatch \<longleftrightarrow> glob_language matchingString toMatch"
  by (simp add: GlobMatch_def Glob_language)

lemma Glob_star [simp]: "Glob [GLOB] s"
  by (simp add: Glob_def)

lemma Glob_literal: "GLOB \<notin> set pattern \<Longrightarrow> Glob pattern s \<longleftrightarrow> s = pattern"
  by (auto simp: Glob_def Split_no_sep)

end
