(* ===== verification/Util.thy ===== *)
theory Util
  imports Prelude "HOL-Library.Product_Lexorder" "HOL-Library.Multiset"
begin

text \<open>
  \<^verbatim>\<open>core/util/util.go\<close>: the query-string normal form every request and every imported query
  matcher goes through, content types, pointers, and the body readers. The specification of
  \<^verbatim>\<open>SortQueryString\<close> is a sort of the list of parameters.
\<close>

definition StringToPointer :: "string \<Rightarrow> string option" where
  "StringToPointer value = Some value"

definition PointerToString :: "string option \<Rightarrow> string" where
  "PointerToString value = (case value of None \<Rightarrow> '''' | Some s \<Rightarrow> s)"

lemma PointerToString_StringToPointer [simp]: "PointerToString (StringToPointer s) = s"
  by (simp add: PointerToString_def StringToPointer_def)

section \<open>Reading bodies\<close>

text \<open>
  A body is an \<^verbatim>\<open>io.ReadCloser\<close>: the bytes it still has to give and whether reading ends in an
  error. Reading it to the end consumes it; the code then puts a fresh reader of the same bytes
  in its place.
\<close>

record body_reader =
  remaining :: string
  read_error :: "string option"

definition new_body :: "string \<Rightarrow> body_reader" where
  "new_body s = \<lparr>remaining = s, read_error = None\<rparr>"

definition ReadAll :: "body_reader \<Rightarrow> (string + string) \<times> body_reader" where
  "ReadAll b = (case read_error b of
     Some e \<Rightarrow> (Inl e, b\<lparr>remaining := ''''\<rparr>)
   | None \<Rightarrow> (Inr (remaining b), b\<lparr>remaining := ''''\<rparr>))"

definition GetRequestBody :: "body_reader \<Rightarrow> (string + string) \<times> body_reader" where
  "GetRequestBody body = (case ReadAll body of
     (Inl err, b) \<Rightarrow> (Inl err, b)
   | (Inr bodyBytes, b) \<Rightarrow> (Inr bodyBytes, new_body bodyBytes))"

definition GetResponseBody :: "body_reader \<Rightarrow> (string + string) \<times> body_reader" where
  "GetResponseBody body = (case ReadAll body of
     (Inl err, b) \<Rightarrow> (Inl err, b)
   | (Inr bodyBytes, b) \<Rightarrow> (Inr bodyBytes, new_body bodyBytes))"

lemma GetResponseBody_new_body [simp]: "GetResponseBody (new_body s) = (Inr s, new_body s)"
  by (simp add: GetResponseBody_def ReadAll_def new_body_def)

lemma ReadAll_new_body [simp]: "fst (ReadAll (new_body s)) = Inr s"
  by (simp add: ReadAll_def new_body_def)

section \<open>Sorting a query string\<close>

text \<open>One parameter added to the \<^verbatim>\<open>url.Values\<close> map; the key keeps its \<^verbatim>\<open>=\<close>.\<close>

definition split_key :: "string \<Rightarrow> string \<times> string" where
  "split_key key =
     (let i = Index key ''='' in
      if i \<ge> 0 then (take (nat i + 1) key, drop (nat i + 1) key) else (key, ''''))"

definition add_param :: "string \<Rightarrow> string list gomap \<Rightarrow> string list gomap" where
  "add_param key keyValues =
     (if key = '''' then keyValues
      else (case split_key key of (k, value) \<Rightarrow> map_append k value keyValues))"

lemma IndexAny_from_bound:
  "IndexAny_from i xs cs \<ge> 0 \<Longrightarrow> i \<le> nat (IndexAny_from i xs cs) \<and> nat (IndexAny_from i xs cs) < i + length xs"
proof (induction xs arbitrary: i)
  case (Cons x xs)
  then show ?case using Cons.IH[of "Suc i"] by (cases "x \<in> set cs") force+
qed simp

lemma IndexAny_bound: "IndexAny s cs \<ge> 0 \<Longrightarrow> nat (IndexAny s cs) < length s"
  using IndexAny_from_bound[of 0 s cs] by (simp add: IndexAny_def)

text \<open>The loop that takes one parameter at a time off the query string.\<close>

function collect_params :: "string \<Rightarrow> string list gomap \<Rightarrow> string list gomap" where
  "collect_params query keyValues =
     (if query = '''' then keyValues
      else
        let i = IndexAny query ''&;'' in
        if i \<ge> 0
        then collect_params (drop (nat i + 1) query) (add_param (take (nat i) query) keyValues)
        else add_param query keyValues)"
  by pat_completeness auto
termination
  by (relation "measure (\<lambda>(query, keyValues). length query)") auto

declare collect_params.simps [simp del]

text \<open>The loops that write the sorted parameters to the buffer.\<close>

definition write_param :: "string \<Rightarrow> string \<Rightarrow> string \<Rightarrow> string" where
  "write_param key buffer value = (if length buffer > 0 then buffer @ ''&'' else buffer) @ key @ value"

definition write_key :: "string list gomap \<Rightarrow> string \<Rightarrow> string \<Rightarrow> string" where
  "write_key keyValues buffer key = foldl (write_param key) buffer (sort (map_index keyValues key))"

definition SortQueryString :: "string \<Rightarrow> string" where
  "SortQueryString query =
     (let keyValues = collect_params query [];
          keys = sort (map_keys keyValues)
      in foldl (write_key keyValues) '''' keys)"

section \<open>The normal form as a sort of the parameters\<close>

definition is_amp :: "char \<Rightarrow> bool" where
  "is_amp c = (c \<in> set ''&;'')"

text \<open>The non-empty parameters of a query string, in order.\<close>

fun raw_params :: "string \<Rightarrow> string list" where
  "raw_params [] = [[]]"
| "raw_params (x # xs) =
     (if is_amp x then [] # raw_params xs
      else (case raw_params xs of [] \<Rightarrow> [[x]] | p # ps \<Rightarrow> (x # p) # ps))"

definition query_params :: "string \<Rightarrow> string list" where
  "query_params q = filter (\<lambda>p. p \<noteq> []) (raw_params q)"

definition sorted_params :: "string \<Rightarrow> (string \<times> string) list" where
  "sorted_params q = sort (map split_key (query_params q))"

definition key_value :: "string \<times> string \<Rightarrow> string" where
  "key_value kv = fst kv @ snd kv"

lemma key_value_split_key [simp]: "key_value (split_key p) = p"
  by (simp add: key_value_def split_key_def Let_def)

lemma fst_split_key_nonempty: "p \<noteq> [] \<Longrightarrow> fst (split_key p) \<noteq> []"
  by (auto simp: split_key_def Let_def)

lemma raw_params_not_Nil [simp]: "raw_params q \<noteq> []"
  by (cases q) (auto split: list.splits)

lemma raw_params_no_amp: "p \<in> set (raw_params q) \<Longrightarrow> \<forall>c \<in> set p. \<not> is_amp c"
proof (induction q arbitrary: p)
  case (Cons x xs)
  obtain r rs where r: "raw_params xs = r # rs" by (cases "raw_params xs") auto
  with Cons.IH[of r] Cons.IH[of p] Cons.prems show ?case by (auto split: if_splits)
qed simp

lemma raw_params_literal: "\<forall>c \<in> set p. \<not> is_amp c \<Longrightarrow> raw_params p = [p]"
  by (induction p) auto

lemma raw_params_append:
  "\<forall>c \<in> set p. \<not> is_amp c \<Longrightarrow> is_amp x \<Longrightarrow> raw_params (p @ x # q) = p # raw_params q"
  by (induction p) auto

lemma raw_params_IndexAny_from:
  "(if IndexAny_from i q ''&;'' \<ge> 0
    then raw_params q = take (nat (IndexAny_from i q ''&;'') - i) q #
           raw_params (drop (Suc (nat (IndexAny_from i q ''&;'') - i)) q)
    else raw_params q = [q])"
proof (induction q arbitrary: i)
  case (Cons x xs)
  show ?case
  proof (cases "is_amp x")
    case True
    then have "IndexAny_from i (x # xs) ''&;'' = int i" by (auto simp: is_amp_def)
    with True show ?thesis by simp
  next
    case False
    then have eq: "IndexAny_from i (x # xs) ''&;'' = IndexAny_from (Suc i) xs ''&;''"
      by (auto simp: is_amp_def)
    show ?thesis
    proof (cases "IndexAny_from (Suc i) xs ''&;'' \<ge> 0")
      case True
      then have "Suc i \<le> nat (IndexAny_from (Suc i) xs ''&;'')" using IndexAny_from_bound by blast
      then have sd: "nat (IndexAny_from (Suc i) xs ''&;'') - i =
          Suc (nat (IndexAny_from (Suc i) xs ''&;'') - Suc i)" by simp
      from Cons[of "Suc i"] True False show ?thesis by (simp only: eq sd if_True) simp
    next
      case no: False
      from Cons[of "Suc i"] no False show ?thesis by (simp only: eq if_False) simp
    qed
  qed
qed simp

lemma raw_params_IndexAny:
  "IndexAny q ''&;'' \<ge> 0 \<Longrightarrow> raw_params q =
     take (nat (IndexAny q ''&;'')) q # raw_params (drop (nat (IndexAny q ''&;'') + 1) q)"
  "\<not> IndexAny q ''&;'' \<ge> 0 \<Longrightarrow> raw_params q = [q]"
  using raw_params_IndexAny_from[of 0 q] by (simp_all add: IndexAny_def)

text \<open>The loop inserts the parameters one after the other.\<close>

lemma add_param_empty [simp]: "add_param [] kv = kv"
  by (simp add: add_param_def)

lemma collect_params_foldl: "collect_params q kv = foldl (\<lambda>m p. add_param p m) kv (query_params q)"
proof (induction q kv rule: collect_params.induct)
  case (1 q kv)
  show ?case
  proof (cases "q = []")
    case True
    then show ?thesis by (subst collect_params.simps) (simp add: query_params_def)
  next
    case ne: False
    show ?thesis
    proof (cases "IndexAny q ''&;'' \<ge> 0")
      case True
      show ?thesis
        using ne True "1.IH"[OF ne refl True]
        by (subst collect_params.simps)
          (simp add: query_params_def raw_params_IndexAny(1)[OF True] Let_def)
    next
      case False
      then show ?thesis using ne
        by (subst collect_params.simps)
          (simp add: query_params_def raw_params_IndexAny(2)[OF False] Let_def)
    qed
  qed
qed

text \<open>The map it builds: distinct keys, each with the values it had, in order.\<close>

definition values_of :: "string \<Rightarrow> string list \<Rightarrow> string list" where
  "values_of k ps = map (snd \<circ> split_key) (filter (\<lambda>p. fst (split_key p) = k) ps)"

lemma map_index_append:
  "map_index (map_append k v m) j = (if j = k then map_index m k @ [v] else map_index m j)"
  by (simp add: map_append_def map_index_def)

lemma params_map:
  assumes "\<forall>p \<in> set ps. p \<noteq> []"
  shows "wf_map m \<Longrightarrow> wf_map (foldl (\<lambda>m p. add_param p m) m ps)"
    and "set (map_keys (foldl (\<lambda>m p. add_param p m) m ps)) =
           set (map_keys m) \<union> fst ` split_key ` set ps"
    and "map_index (foldl (\<lambda>m p. add_param p m) m ps) k = map_index m k @ values_of k ps"
proof -
  have step: "add_param p m = map_append (fst (split_key p)) (snd (split_key p)) m"
    if "p \<noteq> []" for p m using that by (simp add: add_param_def split_beta)
  show "wf_map m \<Longrightarrow> wf_map (foldl (\<lambda>m p. add_param p m) m ps)"
    using assms by (induction ps arbitrary: m) (auto simp: step map_append_def)
  show "set (map_keys (foldl (\<lambda>m p. add_param p m) m ps)) =
      set (map_keys m) \<union> fst ` split_key ` set ps"
    using assms by (induction ps arbitrary: m) (auto simp: step map_append_def set_map_keys_put)
  show "map_index (foldl (\<lambda>m p. add_param p m) m ps) k = map_index m k @ values_of k ps"
    using assms by (induction ps arbitrary: m) (auto simp: step map_index_append values_of_def)
qed

text \<open>Visiting the sorted keys and their sorted values is visiting the sorted parameters.\<close>

lemma filter_fst_pairs:
  "filter (\<lambda>kv. fst kv = k) (map split_key ps) = map (Pair k) (values_of k ps)"
  by (induction ps) (auto simp: values_of_def)

lemma mset_by_key:
  "distinct ks \<Longrightarrow> fst ` set xs \<subseteq> set ks \<Longrightarrow>
     mset (concat (map (\<lambda>k. filter (\<lambda>kv. fst kv = k) xs) ks)) = mset xs"
proof (induction ks arbitrary: xs)
  case (Cons k ks)
  let ?ys = "filter (\<lambda>kv. fst kv \<noteq> k) xs"
  have "concat (map (\<lambda>k. filter (\<lambda>kv. fst kv = k) xs) ks) =
      concat (map (\<lambda>k. filter (\<lambda>kv. fst kv = k) ?ys) ks)"
    using Cons.prems(1) by (auto intro!: arg_cong[where f = concat] map_cong filter_cong)
  also have "mset \<dots> = mset ?ys" using Cons.prems by (intro Cons.IH) auto
  finally have "mset (concat (map (\<lambda>k. filter (\<lambda>kv. fst kv = k) (xs)) ks)) = mset ?ys" .
  moreover have "mset (filter (\<lambda>kv. fst kv = k) xs) + mset ?ys = mset xs"
    by (induction xs) auto
  ultimately show ?case by simp
qed simp

lemma sorted_by_key:
  "sorted_wrt (<) ks \<Longrightarrow> \<forall>k \<in> set ks. sorted (f k) \<Longrightarrow>
     sorted (concat (map (\<lambda>k. map (Pair (k :: string)) (f k :: string list)) ks))"
proof (induction ks)
  case (Cons k ks)
  have "sorted (map (Pair k) (f k))"
    using Cons.prems(2) by (auto simp: sorted_map less_eq_prod_def intro: sorted_wrt_mono_rel)
  moreover have "sorted (concat (map (\<lambda>k. map (Pair k) (f k)) ks))" using Cons by simp
  ultimately show ?case using Cons.prems(1)
    unfolding list.map concat.simps sorted_append by (auto simp: less_eq_prod_def)
qed simp

lemma sort_pairs_by_key:
  assumes "distinct ks" and "set ks = fst ` split_key ` set ps"
  shows "concat (map (\<lambda>k. map (Pair k) (sort (values_of k ps))) (sort ks)) = sort (map split_key ps)"
proof -
  let ?c = "concat (map (\<lambda>k. map (Pair k) (sort (values_of k ps))) (sort ks))"
  have "mset ?c = mset (concat (map (\<lambda>k. map (Pair k) (values_of k ps)) (sort ks)))"
    by (simp only: mset_concat map_map comp_def mset_map mset_sort)
  also have "\<dots> = mset (map split_key ps)"
    using assms mset_by_key[of "sort ks" "map split_key ps"] by (simp add: filter_fst_pairs)
  finally have m: "mset ?c = mset (map split_key ps)" .
  have "sorted ?c" using assms(1) by (intro sorted_by_key) (simp_all add: strict_sorted_iff)
  from properties_for_sort[OF m this] show ?thesis by simp
qed

lemma foldl_write_key:
  "foldl (write_key kv) b ks =
     foldl (\<lambda>b p. write_param (fst p) b (snd p)) b
       (concat (map (\<lambda>k. map (Pair k) (sort (map_index kv k))) ks))"
  by (induction ks arbitrary: b) (simp_all add: write_key_def foldl_map)

lemma foldl_write_param:
  "\<forall>p \<in> set ps. fst p \<noteq> [] \<Longrightarrow>
     foldl (\<lambda>b p. write_param (fst p) b (snd p)) b ps =
       (if b = [] then Join (map key_value ps) ''&''
        else b @ concat (map (\<lambda>p. ''&'' @ key_value p) ps))"
proof (induction ps arbitrary: b)
  case (Cons p ps)
  have j: "Join (map key_value (p # ps)) ''&'' =
      key_value p @ concat (map (\<lambda>p. ''&'' @ key_value p) ps)" for p ps
    by (induction ps arbitrary: p) (auto simp: key_value_def)
  from Cons have ne: "fst p \<noteq> []" "\<forall>p \<in> set ps. fst p \<noteq> []" by auto
  from ne(1) have nb: "write_param (fst p) b (snd p) \<noteq> []" by (simp add: write_param_def)
  have "foldl (\<lambda>b p. write_param (fst p) b (snd p)) b (p # ps) =
      write_param (fst p) b (snd p) @ concat (map (\<lambda>p. ''&'' @ key_value p) ps)"
    using Cons.IH[OF ne(2)] nb by simp
  then show ?case unfolding j by (simp add: write_param_def key_value_def)
qed simp

text \<open>
  The query string a request or a query matcher is stored with is the list of its
  non-empty parameters, each cut behind its first equals sign, sorted by key and then by value,
  and joined by ampersands. It does not depend on the order in which Go visits the map of
  parameters.
\<close>

lemma SortQueryString_eq: "SortQueryString q = Join (map key_value (sorted_params q)) ''&''"
proof -
  let ?ps = "query_params q"
  let ?m = "collect_params q []"
  have ne: "\<forall>p \<in> set ?ps. p \<noteq> []" by (simp add: query_params_def)
  have m: "?m = foldl (\<lambda>m p. add_param p m) [] ?ps" by (rule collect_params_foldl)
  have wf: "distinct (map_keys ?m)"
    using params_map(1)[OF ne, of "[]"] by (simp add: m wf_map_def map_keys_def)
  have ks: "set (map_keys ?m) = fst ` split_key ` set ?ps"
    using params_map(2)[OF ne, of "[]"] by (simp add: m map_keys_def)
  have vs: "map_index ?m k = values_of k ?ps" for k
    using params_map(3)[OF ne, of "[]" k] by (simp add: m map_index_def)
  have "SortQueryString q =
      foldl (\<lambda>b p. write_param (fst p) b (snd p)) [] (sort (map split_key ?ps))"
    by (simp add: SortQueryString_def Let_def foldl_write_key vs sort_pairs_by_key[OF wf ks])
  also have "\<dots> = Join (map key_value (sorted_params q)) ''&''"
    using ne fst_split_key_nonempty by (subst foldl_write_param) (auto simp: sorted_params_def)
  finally show ?thesis .
qed

section \<open>Normal form: idempotence and permutation\<close>

lemma query_params_Join:
  "\<forall>p \<in> set ps. p \<noteq> [] \<and> (\<forall>c \<in> set p. \<not> is_amp c) \<Longrightarrow> query_params (Join ps ''&'') = ps"
proof (induction ps)
  case Nil
  show ?case by (simp add: query_params_def)
next
  case (Cons p ps)
  have amp: "is_amp CHR ''&''" by (simp add: is_amp_def)
  show ?case
  proof (cases ps)
    case Nil
    with Cons.prems show ?thesis by (simp add: query_params_def raw_params_literal)
  next
    case (Cons p' ps')
    then show ?thesis using Cons.IH Cons.prems raw_params_append[OF _ amp, of p]
      by (simp add: query_params_def)
  qed
qed

lemma query_params_props: "p \<in> set (query_params q) \<Longrightarrow> p \<noteq> [] \<and> (\<forall>c \<in> set p. \<not> is_amp c)"
  using raw_params_no_amp by (auto simp: query_params_def)

lemma query_params_SortQueryString:
  "query_params (SortQueryString q) = map key_value (sorted_params q)"
  unfolding SortQueryString_eq
proof (rule query_params_Join, rule ballI)
  fix p assume "p \<in> set (map key_value (sorted_params q))"
  then have "p \<in> set (query_params q)" by (auto simp: sorted_params_def)
  then show "p \<noteq> [] \<and> (\<forall>c \<in> set p. \<not> is_amp c)" by (rule query_params_props)
qed

lemma sorted_params_SortQueryString [simp]: "sorted_params (SortQueryString q) = sorted_params q"
proof -
  have "map (split_key \<circ> key_value) (sorted_params q) = sorted_params q"
    by (rule map_idI) (auto simp: sorted_params_def)
  then show ?thesis
    by (simp add: sorted_params_def[of "SortQueryString q"] query_params_SortQueryString)
      (simp add: sorted_params_def sorted_sort_id)
qed

lemma SortQueryString_idem [simp]: "SortQueryString (SortQueryString q) = SortQueryString q"
  by (simp add: SortQueryString_eq[of "SortQueryString q"] flip: SortQueryString_eq)

lemma SortQueryString_perm:
  "mset (query_params q) = mset (query_params q') \<Longrightarrow> SortQueryString q = SortQueryString q'"
  unfolding SortQueryString_eq sorted_params_def
  by (metis mset_map mset_sort properties_for_sort sorted_sort)

lemma mset_query_params_SortQueryString:
  "mset (query_params (SortQueryString q)) = mset (query_params q)"
  by (simp add: query_params_SortQueryString sorted_params_def multiset.map_comp comp_def)

text \<open>
  C34: the query string a request or a query matcher is stored with is the list of its non-empty
  parameters, sorted by key and then by value and joined with \<^verbatim>\<open>&\<close>. Two query strings are stored
  alike exactly when they have the same parameters, each as often, in whatever order; normalising
  twice changes nothing.
\<close>

theorem SortQueryString_normal_form:
  "SortQueryString q = Join (map key_value (sorted_params q)) ''&'' \<and>
   (SortQueryString q = SortQueryString q' \<longleftrightarrow> mset (query_params q) = mset (query_params q'))
   \<and> SortQueryString (SortQueryString q) = SortQueryString q"
  using SortQueryString_perm mset_query_params_SortQueryString SortQueryString_eq[of q]
  by (metis SortQueryString_idem)

section \<open>Content types\<close>

text \<open>The two fixed patterns \<^verbatim>\<open>[/+]json$\<close> and \<^verbatim>\<open>[/+]xml$\<close> of the code.\<close>

definition matches_subtype :: "string \<Rightarrow> string \<Rightarrow> bool" where
  "matches_subtype name v = (HasSuffix v (CHR ''/'' # name) \<or> HasSuffix v (CHR ''+'' # name))"

fun content_type_of_values :: "string list \<Rightarrow> string" where
  "content_type_of_values [] = ''''"
| "content_type_of_values (v # vs) =
     (if matches_subtype ''json'' v then ''json''
      else if matches_subtype ''xml'' v then ''xml''
      else content_type_of_values vs)"

definition GetContentTypeFromHeaders :: "headers \<Rightarrow> string" where
  "GetContentTypeFromHeaders hs =
     (case hs of None \<Rightarrow> '''' | Some m \<Rightarrow> content_type_of_values (map_index m ''Content-Type''))"

lemma GetContentTypeFromHeaders_range:
  "GetContentTypeFromHeaders hs \<in> {'''', ''json'', ''xml''}"
proof -
  have "content_type_of_values vs \<in> {'''', ''json'', ''xml''}" for vs
    by (induction vs) auto
  then show ?thesis by (simp add: GetContentTypeFromHeaders_def split: option.splits)
qed

end
