(* ===== verification/Schemas.thy ===== *)
theory Schemas
  imports Prelude
begin

text \<open>
  The JSON schemas of simulations, \<^verbatim>\<open>core/handlers/v2/simulation_views_validation.go\<close>, and their
  validation: \<^verbatim>\<open>ValidateSimulation\<close> with the part of the vendored library gojsonschema that the two
  schemas use. A schema with a keyword beyond it is refused by the model, and the two schemas are
  shown to have none.
\<close>

section \<open>JSON values\<close>

text \<open>
  A decoded JSON value, as \<^verbatim>\<open>json.Unmarshal\<close> puts it in an \<^verbatim>\<open>interface{}\<close>. Numbers are kept as
  their text.
\<close>

datatype json =
    JNull
  | JBool bool
  | JNumber string
  | JString string
  | JArray "json list"
  | JObject "(string \<times> json) list"

section \<open>The schemas\<close>

definition typed :: "string \<Rightarrow> json" where
  "typed t = JObject [(''type'', JString t)]"

definition ref :: "string \<Rightarrow> json" where
  "ref name = JObject [(''$ref'', JString (''#/definitions/'' @ name))]"

definition requestResponsePairDefinition :: json where
  "requestResponsePairDefinition = JObject
     [(''type'', JString ''object''), (''required'', JArray [JString ''request'', JString ''response'']),
      (''properties'', JObject [(''request'', ref ''request''), (''response'', ref ''response'')])]"

definition requestV1Definition :: json where
  "requestV1Definition = JObject
     [(''type'', JString ''object''),
      (''properties'', JObject
         [(''scheme'', typed ''string''), (''destination'', typed ''string''), (''path'', typed ''string''),
          (''query'', typed ''string''), (''body'', typed ''string''), (''headers'', ref ''headers'')])]"

definition requestV2Definition :: json where
  "requestV2Definition = JObject
     [(''type'', JString ''object''),
      (''properties'', JObject
         [(''scheme'', ref ''field-matchers''), (''destination'', ref ''field-matchers''), (''path'', ref ''field-matchers''),
          (''query'', ref ''field-matchers''), (''body'', ref ''field-matchers''), (''headers'', ref ''headers'')])]"

definition responseDefinition :: json where
  "responseDefinition = JObject
     [(''type'', JString ''object''),
      (''properties'', JObject
         [(''body'', typed ''string''), (''encodedBody'', typed ''boolean''), (''headers'', ref ''headers''),
          (''status'', typed ''integer'')])]"

definition requestFieldMatchersV2Definition :: json where
  "requestFieldMatchersV2Definition = JObject
     [(''type'', JString ''object''),
      (''properties'', JObject
         [(''exactMatch'', typed ''string''), (''globMatch'', typed ''string''), (''regexMatch'', typed ''string''),
          (''xpathMatch'', typed ''string''), (''jsonMatch'', typed ''string'')])]"

definition headersDefinition :: json where
  "headersDefinition = JObject
     [(''type'', JString ''object''),
      (''additionalProperties'', JObject [(''type'', JString ''array''), (''items'', typed ''string'')])]"

definition delaysDefinition :: json where
  "delaysDefinition = JObject
     [(''type'', JString ''object''),
      (''properties'', JObject
         [(''urlPattern'', typed ''string''), (''httpMethod'', typed ''string''), (''delay'', typed ''integer'')])]"

definition metaDefinition :: json where
  "metaDefinition = JObject
     [(''type'', JString ''object''), (''required'', JArray [JString ''schemaVersion'']),
      (''properties'', JObject
         [(''schemaVersion'', typed ''string''), (''hoverflyVersion'', typed ''string''), (''timeExported'', typed ''string'')])]"

definition SimulationViewV2Schema :: json where
  "SimulationViewV2Schema = JObject
     [(''description'', JString ''Hoverfly simulation schema''), (''type'', JString ''object''),
      (''required'', JArray [JString ''data'', JString ''meta'']), (''additionalProperties'', JBool False),
      (''properties'', JObject
         [(''data'', JObject
             [(''type'', JString ''object''),
              (''properties'', JObject
                 [(''pairs'', JObject [(''type'', JString ''array''), (''items'', ref ''request-response-pair'')]),
                  (''globalActions'', JObject
                     [(''type'', JString ''object''),
                      (''properties'', JObject
                         [(''delays'', JObject [(''type'', JString ''array''), (''items'', ref ''delay'')])])])])]),
          (''meta'', ref ''meta'')]),
      (''definitions'', JObject
         [(''request-response-pair'', requestResponsePairDefinition), (''request'', requestV2Definition),
          (''response'', responseDefinition), (''field-matchers'', requestFieldMatchersV2Definition),
          (''headers'', headersDefinition), (''delay'', delaysDefinition), (''meta'', metaDefinition)])]"

definition SimulationViewV1Schema :: json where
  "SimulationViewV1Schema = JObject
     [(''description'', JString ''Hoverfly simulation schema''), (''type'', JString ''object''),
      (''required'', JArray [JString ''data'', JString ''meta'']), (''additionalProperties'', JBool False),
      (''properties'', JObject
         [(''data'', JObject
             [(''type'', JString ''object''),
              (''properties'', JObject
                 [(''pairs'', JObject [(''type'', JString ''array''), (''items'', ref ''request-response-pair'')]),
                  (''globalActions'', JObject
                     [(''type'', JString ''object''),
                      (''properties'', JObject
                         [(''delays'', JObject [(''type'', JString ''array''), (''items'', ref ''delay'')])])])])]),
          (''meta'', ref ''meta'')]),
      (''definitions'', JObject
         [(''request-response-pair'', requestResponsePairDefinition), (''request'', requestV1Definition),
          (''response'', responseDefinition), (''headers'', headersDefinition),
          (''delay'', delaysDefinition), (''meta'', metaDefinition)])]"

section \<open>Reading a schema\<close>

text \<open>
  Types (none means any), required properties, properties, additional properties and items. A
  reference is replaced by what it refers to.
\<close>

datatype schema = Schema "string list" "string list" "(string \<times> schema) list" "(bool + schema) option" "schema option"

definition bind_result :: "string + 'a \<Rightarrow> ('a \<Rightarrow> string + 'b) \<Rightarrow> string + 'b" where
  "bind_result r f = (case r of Inl e \<Rightarrow> Inl e | Inr x \<Rightarrow> f x)"

fun map_result :: "('a \<Rightarrow> string + 'b) \<Rightarrow> 'a list \<Rightarrow> string + 'b list" where
  "map_result f [] = Inr []"
| "map_result f (x # xs) = bind_result (f x) (\<lambda>y. bind_result (map_result f xs) (\<lambda>ys. Inr (y # ys)))"

definition JSON_TYPES :: "string list" where
  "JSON_TYPES = [''array'', ''boolean'', ''integer'', ''number'', ''null'', ''object'', ''string'']"

definition unused_keywords :: "string list" where
  "unused_keywords = [''$schema'', ''id'', ''title'', ''patternProperties'', ''dependencies'', ''additionalItems'', ''multipleOf'',
     ''minimum'', ''exclusiveMinimum'', ''maximum'', ''exclusiveMaximum'', ''minLength'', ''maxLength'', ''pattern'', ''format'',
     ''minProperties'', ''maxProperties'', ''minItems'', ''maxItems'', ''uniqueItems'', ''enum'', ''oneOf'', ''anyOf'', ''allOf'', ''not'']"

text \<open>A JSON pointer into a document, token by token; indices and escapes are refused by the model.\<close>

fun pointer_get :: "string list \<Rightarrow> json \<Rightarrow> string + json" where
  "pointer_get [] node = Inr node"
| "pointer_get (token # tokens) node = (if CHR ''~'' \<in> set token then Inl ''token not modelled'' else case node of
     JObject m \<Rightarrow> (case map_get m token of
       None \<Rightarrow> Inl (''Object has no key '' @ token) | Some v \<Rightarrow> pointer_get tokens v)
   | JArray vs \<Rightarrow> Inl ''token not modelled''
   | _ \<Rightarrow> Inl (''Invalid token reference '' @ token))"

definition parse_types :: "json option \<Rightarrow> string + string list" where
  "parse_types v = (case v of
     None \<Rightarrow> Inr []
   | Some (JString k) \<Rightarrow> if k \<in> set JSON_TYPES then Inr [k] else Inl (k @ '' is not a valid type'')
   | Some other \<Rightarrow> Inl ''keyword not modelled'')"

definition parse_required :: "json option \<Rightarrow> string + string list" where
  "parse_required v = (case v of
     None \<Rightarrow> Inr []
   | Some (JArray xs) \<Rightarrow> bind_result (map_result (\<lambda>x. case x of JString s \<Rightarrow> Inr s
         | _ \<Rightarrow> Inl ''required items must be of type string'') xs)
       (\<lambda>names. if distinct names then Inr names else Inl ''required items must be unique'')
   | Some other \<Rightarrow> Inl ''required must be of an array'')"

text \<open>
  \<open>fuel\<close> bounds the depth of the schema with its references followed; the library follows each
  reference once, which is the same for schemas that do not refer to themselves.
\<close>

fun parse_schema :: "nat \<Rightarrow> json \<Rightarrow> json \<Rightarrow> string + schema" where
  "parse_schema 0 root doc = Inl ''out of fuel''"
| "parse_schema (Suc fuel) root doc = (case doc of
     JObject m \<Rightarrow> (case map_get m ''$ref'' of
       Some (JString k) \<Rightarrow>
         if \<not> HasPrefix k ''#'' then Inl ''reference not modelled'' else
         bind_result (pointer_get (tl (Split k (CHR ''/''))) root) (\<lambda>d. parse_schema fuel root d)
     | Some other \<Rightarrow> Inl ''Invalid type. Expected: string, given: $ref''
     | None \<Rightarrow>
         if list_ex (\<lambda>k. map_get m k \<noteq> None) unused_keywords then Inl ''keyword not modelled''
         else
         bind_result (case map_get m ''definitions'' of None \<Rightarrow> Inr []
           | Some (JObject ds) \<Rightarrow> map_result (\<lambda>(k, d). parse_schema fuel root d) ds
           | Some other \<Rightarrow> Inl ''Invalid type. Expected: array of schemas, given: definitions'') (\<lambda>defs.
         bind_result (parse_types (map_get m ''type'')) (\<lambda>types.
         bind_result (case map_get m ''properties'' of None \<Rightarrow> Inr []
           | Some (JObject ps) \<Rightarrow> map_result (\<lambda>(k, d). bind_result (parse_schema fuel root d) (\<lambda>s. Inr (k, s))) ps
           | Some other \<Rightarrow> Inl ''properties must be of type object'') (\<lambda>properties.
         bind_result (case map_get m ''additionalProperties'' of None \<Rightarrow> Inr None
           | Some (JBool b) \<Rightarrow> Inr (Some (Inl b))
           | Some (JObject a) \<Rightarrow> bind_result (parse_schema fuel root (JObject a)) (\<lambda>s. Inr (Some (Inr s)))
           | Some other \<Rightarrow> Inl ''Invalid type. Expected: boolean/schema, given: additionalProperties'') (\<lambda>additional.
         bind_result (case map_get m ''items'' of None \<Rightarrow> Inr None
           | Some (JObject a) \<Rightarrow> bind_result (parse_schema fuel root (JObject a)) (\<lambda>s. Inr (Some s))
           | Some other \<Rightarrow> Inl ''keyword not modelled'') (\<lambda>items.
         bind_result (parse_required (map_get m ''required'')) (\<lambda>required.
           Inr (Schema types required properties additional items))))))))
   | _ \<Rightarrow> Inl ''Invalid type. Expected: object, given: schema'')"

section \<open>Validation\<close>

text \<open>
  \<open>is_int64\<close> tells of the text of a number whether the library takes it for an integer of 64 bits.
  An error is its field and its description; the context is the path to the value.
\<close>

definition given_type :: "(string \<Rightarrow> bool) \<Rightarrow> json \<Rightarrow> string" where
  "given_type is_int64 node = (case node of
     JNull \<Rightarrow> ''null'' | JBool b \<Rightarrow> ''boolean'' | JNumber n \<Rightarrow> (if is_int64 n then ''integer'' else ''number'')
   | JString s \<Rightarrow> ''string'' | JArray vs \<Rightarrow> ''array'' | JObject m \<Rightarrow> ''object'')"

definition has_type :: "(string \<Rightarrow> bool) \<Rightarrow> string list \<Rightarrow> json \<Rightarrow> bool" where
  "has_type is_int64 types node =
     (given_type is_int64 node \<in> set types \<or> given_type is_int64 node = ''integer'' \<and> ''number'' \<in> set types)"

definition types_String :: "string list \<Rightarrow> string" where
  "types_String types = (case types of [] \<Rightarrow> ''undefined'' | [t] \<Rightarrow> t | _ \<Rightarrow> ''['' @ Join types '','' @ '']'')"

definition context_field :: "string \<Rightarrow> string" where
  "context_field ctx = (if HasPrefix ctx ''(root).'' then drop 7 ctx else ctx)"

fun validateRecursive :: "(string \<Rightarrow> bool) \<Rightarrow> schema \<Rightarrow> json \<Rightarrow> string \<Rightarrow> (string \<times> string) list" where
  "validateRecursive is_int64 (Schema types required properties additional items) node ctx =
     (if types \<noteq> [] \<and> \<not> has_type is_int64 types node
      then [(context_field ctx, ''Invalid type. Expected: '' @ types_String types @ '', given: '' @ given_type is_int64 node)]
      else case node of
        JObject m \<Rightarrow>
          concat (map (\<lambda>r. if map_get m r = None then [(r, r @ '' is required'')] else []) required) @
          (case additional of
             None \<Rightarrow> []
           | Some (Inl allowed) \<Rightarrow> if allowed then [] else
               concat (map (\<lambda>(k, v). if k \<in> set (map fst properties) then []
                                     else [(k, ''Additional property '' @ k @ '' is not allowed'')]) m)
           | Some (Inr s) \<Rightarrow>
               concat (map (\<lambda>(k, v). if k \<in> set (map fst properties) then [] else validateRecursive is_int64 s v ctx) m)) @
          concat (map (\<lambda>(k, s). case map_get m k of None \<Rightarrow> []
                                | Some v \<Rightarrow> validateRecursive is_int64 s v (ctx @ ''.'' @ k)) properties)
      | JArray vs \<Rightarrow> (case items of None \<Rightarrow> []
          | Some s \<Rightarrow> concat (map (\<lambda>(i, v). validateRecursive is_int64 s v (ctx @ ''.'' @ Itoa (int i))) (enumerate 0 vs)))
      | _ \<Rightarrow> [])"

text \<open>
  The message: of each error what is between the first colon and the second of \<^verbatim>\<open>field: description\<close>.
\<close>

definition error_text :: "string \<times> string \<Rightarrow> string" where
  "error_text e = (case e of (field, description) \<Rightarrow> TrimSpace (Split (field @ '': '' @ description) (CHR '':'') ! 1))"

definition validation_message :: "(string \<times> string) list \<Rightarrow> string" where
  "validation_message errs =
     foldl (\<lambda>message (i, e). message @ (if i \<noteq> 0 then '','' else '''') @ '' '' @ error_text e) '''' (enumerate 0 errs)"

definition schema_fuel :: nat where
  "schema_fuel = 16"

definition ValidateSimulation :: "(string \<Rightarrow> bool) \<Rightarrow> (string \<times> json) list \<Rightarrow> json \<Rightarrow> string option" where
  "ValidateSimulation is_int64 jsonMap schemaDocument = (case parse_schema schema_fuel schemaDocument schemaDocument of
     Inl err \<Rightarrow> Some ''Error when validating simulaton''
   | Inr s \<Rightarrow> (case validateRecursive is_int64 s (JObject jsonMap) ''(root)'' of
       [] \<Rightarrow> None | errs \<Rightarrow> Some (validation_message errs)))"

section \<open>The schemas as they are read\<close>

definition string_schema :: schema where "string_schema = Schema [''string''] [] [] None None"
definition integer_schema :: schema where "integer_schema = Schema [''integer''] [] [] None None"
definition boolean_schema :: schema where "boolean_schema = Schema [''boolean''] [] [] None None"

definition array_schema :: "schema \<Rightarrow> schema" where
  "array_schema s = Schema [''array''] [] [] None (Some s)"

definition object_schema :: "string list \<Rightarrow> (string \<times> schema) list \<Rightarrow> schema" where
  "object_schema required properties = Schema [''object''] required properties None None"

definition headers_schema :: schema where
  "headers_schema = Schema [''object''] [] [] (Some (Inr (array_schema string_schema))) None"

definition matchers_schema :: schema where
  "matchers_schema = object_schema [] (map (\<lambda>k. (k, string_schema))
     [''exactMatch'', ''globMatch'', ''regexMatch'', ''xpathMatch'', ''jsonMatch''])"

definition request_schema :: "schema \<Rightarrow> schema" where
  "request_schema field = object_schema [] (map (\<lambda>k. (k, field)) [''scheme'', ''destination'', ''path'', ''query'', ''body''] @
     [(''headers'', headers_schema)])"

definition response_schema :: schema where
  "response_schema = object_schema [] [(''body'', string_schema), (''encodedBody'', boolean_schema),
     (''headers'', headers_schema), (''status'', integer_schema)]"

definition delay_schema :: schema where
  "delay_schema = object_schema [] [(''urlPattern'', string_schema), (''httpMethod'', string_schema), (''delay'', integer_schema)]"

definition meta_schema :: schema where
  "meta_schema = object_schema [''schemaVersion''] (map (\<lambda>k. (k, string_schema)) [''schemaVersion'', ''hoverflyVersion'', ''timeExported''])"

definition simulation_schema :: "schema \<Rightarrow> schema" where
  "simulation_schema field = Schema [''object''] [''data'', ''meta'']
     [(''data'', object_schema []
        [(''pairs'', array_schema (object_schema [''request'', ''response'']
           [(''request'', request_schema field), (''response'', response_schema)])),
         (''globalActions'', object_schema [] [(''delays'', array_schema delay_schema)])]),
      (''meta'', meta_schema)] (Some (Inl False)) None"

lemmas schema_defs = string_schema_def integer_schema_def boolean_schema_def array_schema_def object_schema_def
  headers_schema_def matchers_schema_def request_schema_def response_schema_def delay_schema_def meta_schema_def
  simulation_schema_def

text \<open>Both schemas are read without an error: every reference resolves, and no other keyword occurs.\<close>

lemma parse_V2: "parse_schema schema_fuel SimulationViewV2Schema SimulationViewV2Schema = Inr (simulation_schema matchers_schema)"
  by code_simp

lemma parse_V1: "parse_schema schema_fuel SimulationViewV1Schema SimulationViewV1Schema = Inr (simulation_schema string_schema)"
  by code_simp

section \<open>What a valid document is\<close>

fun conforms :: "(string \<Rightarrow> bool) \<Rightarrow> schema \<Rightarrow> json \<Rightarrow> bool" where
  "conforms is_int64 (Schema types required properties additional items) node =
     ((types = [] \<or> has_type is_int64 types node) \<and>
      (case node of
        JObject m \<Rightarrow>
          (\<forall>r \<in> set required. map_get m r \<noteq> None) \<and>
          (\<forall>(k, v) \<in> set m. k \<notin> set (map fst properties) \<longrightarrow> (case additional of
             None \<Rightarrow> True | Some (Inl allowed) \<Rightarrow> allowed | Some (Inr s) \<Rightarrow> conforms is_int64 s v)) \<and>
          (\<forall>(k, s) \<in> set properties. case map_get m k of None \<Rightarrow> True | Some v \<Rightarrow> conforms is_int64 s v)
      | JArray vs \<Rightarrow> (case items of None \<Rightarrow> True | Some s \<Rightarrow> \<forall>v \<in> set vs. conforms is_int64 s v)
      | _ \<Rightarrow> True))"

lemma concat_map_Nil: "concat (map f xs) = [] \<longleftrightarrow> (\<forall>x \<in> set xs. f x = [])"
  by auto

text \<open>The object and array cases, given that the parts are validated as they should be.\<close>

definition rule_holds :: "(string \<Rightarrow> bool) \<Rightarrow> (bool + schema) option \<Rightarrow> json \<Rightarrow> bool" where
  "rule_holds is_int64 additional v = (case additional of
     None \<Rightarrow> True | Some (Inl allowed) \<Rightarrow> allowed | Some (Inr s) \<Rightarrow> conforms is_int64 s v)"

lemma valid_items:
  assumes "\<And>i v. (i, v) \<in> set (enumerate 0 vs) \<Longrightarrow> validateRecursive is_int64 s v (ctx @ ''.'' @ Itoa (int i)) = [] \<longleftrightarrow> conforms is_int64 s v"
  shows "concat (map (\<lambda>(i, v). validateRecursive is_int64 s v (ctx @ ''.'' @ Itoa (int i))) (enumerate 0 vs)) = [] \<longleftrightarrow>
    (\<forall>v \<in> set vs. conforms is_int64 s v)"
proof -
  have "set vs = snd ` set (enumerate 0 vs)" by (metis map_snd_enumerate set_map)
  then show ?thesis using assms by (auto simp: concat_map_Nil)
qed

lemma valid_additional:
  assumes "\<forall>s k v. additional = Some (Inr s) \<longrightarrow> (k, v) \<in> set m \<longrightarrow> k \<notin> ps \<longrightarrow>
    (validateRecursive is_int64 s v ctx = [] \<longleftrightarrow> conforms is_int64 s v)"
  shows "(case additional of None \<Rightarrow> []
     | Some (Inl allowed) \<Rightarrow> if allowed then [] else
         concat (map (\<lambda>(k, v). if k \<in> ps then [] else [(k, ''Additional property '' @ k @ '' is not allowed'')]) m)
     | Some (Inr s) \<Rightarrow> concat (map (\<lambda>(k, v). if k \<in> ps then [] else validateRecursive is_int64 s v ctx) m)) = [] \<longleftrightarrow>
    (\<forall>(k, v) \<in> set m. k \<notin> ps \<longrightarrow> rule_holds is_int64 additional v)"
  using assms by (cases additional; cases "the additional") (auto simp: rule_holds_def concat_map_Nil split: if_splits)

lemma valid_properties:
  assumes "\<forall>s k v. (k, s) \<in> set properties \<longrightarrow> map_get m k = Some v \<longrightarrow>
    (validateRecursive is_int64 s v (ctx @ ''.'' @ k) = [] \<longleftrightarrow> conforms is_int64 s v)"
  shows "concat (map (\<lambda>(k, s). case map_get m k of None \<Rightarrow> []
      | Some v \<Rightarrow> validateRecursive is_int64 s v (ctx @ ''.'' @ k)) properties) = [] \<longleftrightarrow>
    (\<forall>(k, s) \<in> set properties. case map_get m k of None \<Rightarrow> True | Some v \<Rightarrow> conforms is_int64 s v)"
  unfolding concat_map_Nil using assms by (intro ball_cong refl) (auto split: option.splits)

lemma validateRecursive_iff: "validateRecursive is_int64 s node ctx = [] \<longleftrightarrow> conforms is_int64 s node"
proof (induction is_int64 s node ctx rule: validateRecursive.induct)
  case (1 is_int64 types required properties additional items node ctx)
  show ?case
  proof (cases "types \<noteq> [] \<and> \<not> has_type is_int64 types node")
    case False
    note IH = "1.IH"(1)[OF False] "1.IH"(2)[OF False _ _ refl _ refl] "1.IH"(3)[OF False _ _ refl]
    show ?thesis
    proof (cases node)
      case (JArray vs)
      with False valid_items[of vs is_int64 _ ctx] IH(1)[OF JArray _ _ refl] show ?thesis
        by (auto split: option.splits)
    next
      case (JObject m)
      have required: "concat (map (\<lambda>r. if map_get m r = None then [(r, r @ '' is required'')] else []) required) = [] \<longleftrightarrow>
          (\<forall>r \<in> set required. map_get m r \<noteq> None)"
        unfolding concat_map_Nil by auto
      have additional: "\<forall>s k v. additional = Some (Inr s) \<longrightarrow> (k, v) \<in> set m \<longrightarrow> k \<notin> set (map fst properties) \<longrightarrow>
          (validateRecursive is_int64 s v ctx = [] \<longleftrightarrow> conforms is_int64 s v)"
        using IH(2)[OF JObject] by blast
      have props: "\<forall>s k v. (k, s) \<in> set properties \<longrightarrow> map_get m k = Some v \<longrightarrow>
          (validateRecursive is_int64 s v (ctx @ ''.'' @ k) = [] \<longleftrightarrow> conforms is_int64 s v)"
        using IH(3)[OF JObject] by blast
      note parts = required valid_additional[of additional m "set (map fst properties)" is_int64 ctx, OF additional]
        valid_properties[of properties m is_int64 ctx, OF props]
      show ?thesis using False JObject
        by (simp only: validateRecursive.simps conforms.simps json.case if_False append_is_Nil_conv parts
            rule_holds_def) blast
    qed (use False in auto)
  qed simp
qed

text \<open>The two schemas accept exactly what conforms to them.\<close>

lemma ValidateSimulation_V2:
  "ValidateSimulation is_int64 m SimulationViewV2Schema = None \<longleftrightarrow> conforms is_int64 (simulation_schema matchers_schema) (JObject m)"
  by (simp add: ValidateSimulation_def parse_V2 validateRecursive_iff[symmetric, of _ _ _ "''(root)''"] split: list.split)

lemma ValidateSimulation_V1:
  "ValidateSimulation is_int64 m SimulationViewV1Schema = None \<longleftrightarrow> conforms is_int64 (simulation_schema string_schema) (JObject m)"
  by (simp add: ValidateSimulation_def parse_V1 validateRecursive_iff[symmetric, of _ _ _ "''(root)''"] split: list.split)

text \<open>
  What a type error tells: the description has a colon of its own, and the expected and the given
  type are after it.
\<close>

lemma type_error_text:
  assumes "CHR '':'' \<notin> set field"
  shows "error_text (field, ''Invalid type. Expected: '' @ rest) = ''Invalid type. Expected''"
  using Split_append_sep[OF assms, of "'' Invalid type. Expected: '' @ rest"]
  by (simp add: error_text_def TrimSpace_def is_space_def)

end
