(* ===== verification/Views.thy ===== *)
theory Views
  imports Util Schemas
begin

text \<open>
  The data of the HTTP APIs: \<^verbatim>\<open>core/interfaces/interfaces.go\<close>, \<^verbatim>\<open>core/handlers/v1/views.go\<close>,
  \<^verbatim>\<open>core/handlers/v2/views.go\<close> and \<^verbatim>\<open>core/handlers/v2/simulation_views.go\<close>, with the upgrade of
  version 1 simulations and the reader of simulation files. A record is a Go struct; its
  field names carry a prefix for the struct, since Isabelle's field names are global.
\<close>

section \<open>The v1 views\<close>

record ResponseDelayView =
  dv_UrlPattern :: string
  dv_HttpMethod :: string
  dv_Delay :: int

text \<open>\<open>Data\<close> is a slice that may be nil, which the delays handler tells from an empty one.\<close>

record ResponseDelayPayloadView =
  dp_Data :: "ResponseDelayView list option"

record StateRequest =
  st_Mode :: string
  st_Destination :: string

record SetMetadata =
  sm_Key :: string
  sm_Value :: string

record MessageResponse =
  msg_Message :: string

section \<open>Requests and responses as views\<close>

record RequestFieldMatchersView =
  fv_ExactMatch :: "string option"
  fv_XmlMatch :: "string option"
  fv_XpathMatch :: "string option"
  fv_JsonMatch :: "string option"
  fv_JsonPathMatch :: "string option"
  fv_RegexMatch :: "string option"
  fv_GlobMatch :: "string option"

record RequestDetailsViewV2 =
  v2_Path :: "RequestFieldMatchersView option"
  v2_Method :: "RequestFieldMatchersView option"
  v2_Destination :: "RequestFieldMatchersView option"
  v2_Scheme :: "RequestFieldMatchersView option"
  v2_Query :: "RequestFieldMatchersView option"
  v2_Body :: "RequestFieldMatchersView option"
  v2_Headers :: headers

record RequestDetailsViewV1 =
  v1_RequestType :: "string option"
  v1_Path :: "string option"
  v1_Method :: "string option"
  v1_Destination :: "string option"
  v1_Scheme :: "string option"
  v1_Query :: "string option"
  v1_Body :: "string option"
  v1_Headers :: headers

record ResponseDetailsView =
  rv_Status :: int
  rv_Body :: string
  rv_EncodedBody :: bool
  rv_Headers :: headers

record RequestResponsePairViewV2 =
  p2_Response :: ResponseDetailsView
  p2_Request :: RequestDetailsViewV2

record RequestResponsePairViewV1 =
  p1_Response :: ResponseDetailsView
  p1_Request :: RequestDetailsViewV1

record GlobalActionsView =
  ga_Delays :: "ResponseDelayView list option"

record MetaView =
  mv_SchemaVersion :: string
  mv_HoverflyVersion :: string
  mv_TimeExported :: string

record DataViewV2 =
  d2_RequestResponsePairs :: "RequestResponsePairViewV2 list"
  d2_GlobalActions :: GlobalActionsView

record DataViewV1 =
  d1_RequestResponsePairViewV1 :: "RequestResponsePairViewV1 list"
  d1_GlobalActions :: GlobalActionsView

record SimulationViewV2 =
  s2_DataViewV2 :: DataViewV2
  s2_MetaView :: MetaView

record SimulationViewV1 =
  s1_DataViewV1 :: DataViewV1
  s1_MetaView :: MetaView

section \<open>The other v2 views\<close>

record DestinationView =
  ds_Destination :: string

record MiddlewareView =
  mw_Binary :: string
  mw_Script :: string
  mw_Remote :: string

record ModeArgumentsView =
  ma_Headers :: "string list"

record ModeView =
  mo_Mode :: string
  mo_Arguments :: ModeArgumentsView

record CachedResponseView =
  cv_Key :: string
  cv_MatchingPair :: "RequestResponsePairViewV2 option"
  cv_HeaderMatch :: bool

record CacheView =
  cv_Cache :: "CachedResponseView list"

section \<open>The accessors behind interfaces.Request and interfaces.Response\<close>

definition GetPath :: "RequestDetailsViewV1 \<Rightarrow> string option" where
  "GetPath this = v1_Path this"

definition GetMethod :: "RequestDetailsViewV1 \<Rightarrow> string option" where
  "GetMethod this = v1_Method this"

definition GetDestination :: "RequestDetailsViewV1 \<Rightarrow> string option" where
  "GetDestination this = v1_Destination this"

definition GetScheme :: "RequestDetailsViewV1 \<Rightarrow> string option" where
  "GetScheme this = v1_Scheme this"

definition GetQuery :: "RequestDetailsViewV1 \<Rightarrow> string option" where
  "GetQuery this =
     (case v1_Query this of None \<Rightarrow> None | Some q \<Rightarrow> Some (SortQueryString q))"

definition GetBody :: "RequestDetailsViewV1 \<Rightarrow> string option" where
  "GetBody this = v1_Body this"

definition GetHeaders :: "RequestDetailsViewV1 \<Rightarrow> headers" where
  "GetHeaders this = v1_Headers this"

section \<open>Upgrading version 1 simulations\<close>

definition empty_matchers_view :: RequestFieldMatchersView where
  "empty_matchers_view = \<lparr>fv_ExactMatch = None, fv_XmlMatch = None, fv_XpathMatch = None,
     fv_JsonMatch = None, fv_JsonPathMatch = None, fv_RegexMatch = None, fv_GlobMatch = None\<rparr>"

text \<open>Each field that is set becomes an exact matcher.\<close>

definition upgrade_field :: "string option \<Rightarrow> RequestFieldMatchersView option" where
  "upgrade_field f =
     (if f \<noteq> None then Some (empty_matchers_view\<lparr>fv_ExactMatch := f\<rparr>) else None)"

definition upgrade_headers :: "RequestDetailsViewV1 \<Rightarrow> headers" where
  "upgrade_headers r =
     (case v1_RequestType r of
        None \<Rightarrow> None
      | Some t \<Rightarrow> if t \<noteq> ''recording'' then v1_Headers r else None)"

definition upgrade_pair :: "RequestResponsePairViewV1 \<Rightarrow> RequestResponsePairViewV2" where
  "upgrade_pair pairV1 =
     \<lparr>p2_Response = p1_Response pairV1,
      p2_Request = \<lparr>v2_Path = upgrade_field (v1_Path (p1_Request pairV1)),
                    v2_Method = upgrade_field (v1_Method (p1_Request pairV1)),
                    v2_Destination = upgrade_field (v1_Destination (p1_Request pairV1)),
                    v2_Scheme = upgrade_field (v1_Scheme (p1_Request pairV1)),
                    v2_Query = upgrade_field (v1_Query (p1_Request pairV1)),
                    v2_Body = upgrade_field (v1_Body (p1_Request pairV1)),
                    v2_Headers = upgrade_headers (p1_Request pairV1)\<rparr>\<rparr>"

definition empty_global_actions :: GlobalActionsView where
  "empty_global_actions = \<lparr>ga_Delays = None\<rparr>"

definition Upgrade :: "SimulationViewV1 \<Rightarrow> SimulationViewV2" where
  "Upgrade this =
     \<lparr>s2_DataViewV2 =
        \<lparr>d2_RequestResponsePairs = map upgrade_pair (d1_RequestResponsePairViewV1 (s1_DataViewV1 this)),
         d2_GlobalActions = empty_global_actions\<rparr>,
      s2_MetaView =
        \<lparr>mv_SchemaVersion = ''v2'',
         mv_HoverflyVersion = mv_HoverflyVersion (s1_MetaView this),
         mv_TimeExported = mv_TimeExported (s1_MetaView this)\<rparr>\<rparr>"

definition NewMetaView :: "string \<Rightarrow> string \<Rightarrow> MetaView" where
  "NewMetaView now version =
     \<lparr>mv_SchemaVersion = ''v2'', mv_HoverflyVersion = version, mv_TimeExported = now\<rparr>"

section \<open>Reading a simulation\<close>

text \<open>
  The parsers are library code: \<open>unmarshal_map\<close> is \<^verbatim>\<open>json.Unmarshal\<close> into a
  \<^verbatim>\<open>map[string]interface{}\<close> (\<^const>\<open>None\<close> an error), \<open>unmarshal_v2\<close> and \<open>unmarshal_v1\<close> are
  \<^verbatim>\<open>json.Unmarshal\<close> into the views, \<open>rd_is_int64\<close> tells which numbers are integers.
\<close>

record simulation_reader =
  unmarshal_map :: "string \<Rightarrow> (string \<times> json) list option"
  rd_is_int64 :: "string \<Rightarrow> bool"
  unmarshal_v2 :: "string \<Rightarrow> string + SimulationViewV2"
  unmarshal_v1 :: "string \<Rightarrow> string + SimulationViewV1"

definition is_nil :: "json option \<Rightarrow> bool" where
  "is_nil v = (v = None \<or> v = Some JNull)"

definition as_map :: "json option \<Rightarrow> (string \<times> json) list outcome" where
  "as_map v = (case v of Some (JObject m) \<Rightarrow> Returns m
     | _ \<Rightarrow> Panics ''interface conversion: not map[string]interface {}'')"

definition as_string :: "json option \<Rightarrow> string outcome" where
  "as_string v = (case v of Some (JString s) \<Rightarrow> Returns s
     | _ \<Rightarrow> Panics ''interface conversion: not string'')"

definition empty_simulation_view :: SimulationViewV2 where
  "empty_simulation_view =
     \<lparr>s2_DataViewV2 = \<lparr>d2_RequestResponsePairs = [], d2_GlobalActions = empty_global_actions\<rparr>,
      s2_MetaView = \<lparr>mv_SchemaVersion = '''', mv_HoverflyVersion = '''', mv_TimeExported = ''''\<rparr>\<rparr>"

definition read_version :: "simulation_reader \<Rightarrow> string \<Rightarrow> (string \<times> json) list \<Rightarrow> string \<Rightarrow> string + SimulationViewV2"
where
  "read_version rd body jsonMap schemaVersion =
     (if schemaVersion = ''v2'' then
        (case ValidateSimulation (rd_is_int64 rd) jsonMap SimulationViewV2Schema of
           Some err \<Rightarrow> Inl (''Invalid v2 simulation:'' @ err)
         | None \<Rightarrow> unmarshal_v2 rd body)
      else if schemaVersion = ''v1'' then
        (case ValidateSimulation (rd_is_int64 rd) jsonMap SimulationViewV1Schema of
           Some err \<Rightarrow> Inl (''Invalid v1 simulation:'' @ err)
         | None \<Rightarrow> (case unmarshal_v1 rd body of
              Inl err \<Rightarrow> Inl err
            | Inr v1 \<Rightarrow> Inr (Upgrade v1)))
      else Inr empty_simulation_view)"

definition NewSimulationViewFromResponseBody ::
  "simulation_reader \<Rightarrow> string \<Rightarrow> (string + SimulationViewV2) outcome" where
  "NewSimulationViewFromResponseBody rd responseBody =
     (case unmarshal_map rd responseBody of
        None \<Rightarrow> Returns (Inl ''Invalid JSON'')
      | Some jsonMap \<Rightarrow>
          if is_nil (map_get jsonMap ''meta'')
          then Returns (Inl ''Invalid JSON, missing \"meta\" object'')
          else bind_outcome (as_map (map_get jsonMap ''meta'')) (\<lambda>meta.
            if is_nil (map_get meta ''schemaVersion'')
            then Returns (Inl ''Invalid JSON, missing \"meta.schemaVersion\" string'')
            else bind_outcome (as_string (map_get meta ''schemaVersion'')) (\<lambda>schemaVersion.
              Returns (read_version rd responseBody jsonMap schemaVersion))))"

lemma NewSimulationViewFromResponseBody_panics:
  "panics (NewSimulationViewFromResponseBody rd body) \<longleftrightarrow>
     (\<exists>m v. unmarshal_map rd body = Some m \<and> map_get m ''meta'' = Some v \<and> v \<noteq> JNull \<and>
        ((\<nexists>meta. v = JObject meta) \<or>
         (\<exists>meta w. v = JObject meta \<and> map_get meta ''schemaVersion'' = Some w \<and>
            w \<noteq> JNull \<and> (\<nexists>s. w = JString s))))"
  by (auto simp: NewSimulationViewFromResponseBody_def is_nil_def as_map_def as_string_def
      split: option.splits json.splits)

end
