(* ===== verification/Base64.thy ===== *)
theory Base64
  imports Prelude
begin

text \<open>
  \<^verbatim>\<open>encoding/base64\<close>, standard alphabet with padding, as \<^verbatim>\<open>EncodeToString\<close> and \<^verbatim>\<open>DecodeString\<close> use it:
  response bodies that are not text travel through the export format in it. The decoder drops
  line ends, stops at the first quantum it cannot read and returns the bytes before it
  together with an error, which the importing code ignores.
\<close>

definition b64_alphabet :: string where
  "b64_alphabet = ''ABCDEFGHIJKLMNOPQRSTUVWXYZabcdefghijklmnopqrstuvwxyz0123456789+/''"

definition b64_char :: "nat \<Rightarrow> char" where
  "b64_char n = b64_alphabet ! n"

fun position :: "nat \<Rightarrow> string \<Rightarrow> char \<Rightarrow> nat option" where
  "position i [] c = None"
| "position i (x # xs) c = (if x = c then Some i else position (Suc i) xs c)"

definition b64_value :: "char \<Rightarrow> nat option" where
  "b64_value c = position 0 b64_alphabet c"

definition byte :: "char \<Rightarrow> nat" where
  "byte c = of_char c"

definition b64_pad :: char where
  "b64_pad = CHR ''=''"

fun EncodeToString :: "string \<Rightarrow> string" where
  "EncodeToString [] = []"
| "EncodeToString [a] =
     [b64_char (byte a div 4), b64_char (byte a mod 4 * 16), b64_pad, b64_pad]"
| "EncodeToString [a, b] =
     [b64_char (byte a div 4), b64_char (byte a mod 4 * 16 + byte b div 16),
      b64_char (byte b mod 16 * 4), b64_pad]"
| "EncodeToString (a # b # c # rest) =
     b64_char (byte a div 4) # b64_char (byte a mod 4 * 16 + byte b div 16) #
     b64_char (byte b mod 16 * 4 + byte c div 64) # b64_char (byte c mod 64) #
     EncodeToString rest"

fun decode_quanta :: "string \<Rightarrow> string \<times> bool" where
  "decode_quanta [] = ([], False)"
| "decode_quanta (p # q # r # s # rest) =
     (case (b64_value p, b64_value q) of
        (Some w, Some x) \<Rightarrow>
          if r = b64_pad then
            (if s = b64_pad then ([char_of (w * 4 + x div 16)], rest \<noteq> []) else ([], True))
          else (case b64_value r of
             None \<Rightarrow> ([], True)
           | Some y \<Rightarrow>
               if s = b64_pad then
                 ([char_of (w * 4 + x div 16), char_of (x mod 16 * 16 + y div 4)], rest \<noteq> [])
               else (case b64_value s of
                  None \<Rightarrow> ([], True)
                | Some z \<Rightarrow>
                    (case decode_quanta rest of (bs, err) \<Rightarrow>
                       (char_of (w * 4 + x div 16) # char_of (x mod 16 * 16 + y div 4) #
                        char_of (y mod 4 * 64 + z) # bs, err))))
      | _ \<Rightarrow> ([], True))"
| "decode_quanta _ = ([], True)"

definition DecodeString :: "string \<Rightarrow> string \<times> bool" where
  "DecodeString s = decode_quanta (filter (\<lambda>c. c \<noteq> CHR 0x0A \<and> c \<noteq> CHR 0x0D) s)"

section \<open>Decoding undoes encoding\<close>

lemma b64_alphabet_values:
  "\<forall>n \<in> set [0..<64]. b64_value (b64_char n) = Some n \<and> b64_char n \<noteq> b64_pad \<and>
     b64_char n \<noteq> CHR 0x0A \<and> b64_char n \<noteq> CHR 0x0D"
  by code_simp

lemma b64_value_char [simp]: "n < 64 \<Longrightarrow> b64_value (b64_char n) = Some n"
  and b64_char_not_pad [simp]: "n < 64 \<Longrightarrow> b64_char n \<noteq> b64_pad"
  and b64_char_not_newline [simp]: "n < 64 \<Longrightarrow> b64_char n \<noteq> CHR 0x0A \<and> b64_char n \<noteq> CHR 0x0D"
  using b64_alphabet_values by auto

lemma byte_bound [simp]: "byte c < 256"
  by (metis byte_def of_char_mod_256 mod_less_divisor zero_less_numeral)

lemma char_of_byte [simp]: "char_of (byte c) = c"
  by (simp add: byte_def)

lemma sextets [simp]:
  "byte c div 4 < 64" "byte c mod 64 < 64" "byte c mod 4 * 16 < 64" "byte c mod 16 * 4 < 64"
  "byte a mod 4 * 16 + byte b div 16 < 64" "byte a mod 16 * 4 + byte b div 64 < 64"
  using byte_bound[of c] byte_bound[of b] by linarith+

lemma split_digits:
  fixes x d k :: nat
  assumes "d < k"
  shows "(x * k + d) div k = x" and "(x * k + d) mod k = d"
  using assms by simp_all

lemma join_bytes:
  fixes a b c :: nat
  assumes "b < 256" and "c < 256"
  shows "a div 4 * 4 + (a mod 4 * 16) div 16 = a"
    and "a div 4 * 4 + (a mod 4 * 16 + b div 16) div 16 = a"
    and "(a mod 4 * 16 + b div 16) mod 16 * 16 + (b mod 16 * 4) div 4 = b"
    and "(a mod 4 * 16 + b div 16) mod 16 * 16 + (b mod 16 * 4 + c div 64) div 4 = b"
    and "(b mod 16 * 4 + c div 64) mod 4 * 64 + c mod 64 = c"
proof -
  have "b div 16 < 16" "c div 64 < 4" using assms by linarith+
  note d = split_digits[OF this(1), of "a mod 4"] split_digits[OF this(2), of "b mod 16"]
  show "a div 4 * 4 + (a mod 4 * 16) div 16 = a" by simp
  show "a div 4 * 4 + (a mod 4 * 16 + b div 16) div 16 = a" by (simp only: d div_mult_mod_eq)
  show "(a mod 4 * 16 + b div 16) mod 16 * 16 + (b mod 16 * 4) div 4 = b"
    using \<open>b div 16 < 16\<close> by simp
  show "(a mod 4 * 16 + b div 16) mod 16 * 16 + (b mod 16 * 4 + c div 64) div 4 = b"
    by (simp only: d div_mult_mod_eq)
  show "(b mod 16 * 4 + c div 64) mod 4 * 64 + c mod 64 = c" by (simp only: d div_mult_mod_eq)
qed

lemma decode_encode: "decode_quanta (EncodeToString s) = (s, False)"
proof (induction s rule: EncodeToString.induct)
  case (2 a)
  then show ?case using join_bytes(1)[of 0 0 "byte a"] by simp
next
  case (3 a b)
  then show ?case
    using join_bytes(2,3)[of "byte b" 0 "byte a"] by simp
next
  case (4 a b c rest)
  then show ?case
    using join_bytes(2,4)[of "byte b" "byte c" "byte a"] join_bytes(5)[of "byte b" "byte c"] by simp
qed simp

lemma EncodeToString_chars: "c \<in> set (EncodeToString s) \<Longrightarrow> c \<noteq> CHR 0x0A \<and> c \<noteq> CHR 0x0D"
  by (induction s rule: EncodeToString.induct) (auto simp: b64_pad_def)

lemma DecodeString_EncodeToString [simp]: "DecodeString (EncodeToString s) = (s, False)"
proof -
  have "filter (\<lambda>c. c \<noteq> CHR 0x0A \<and> c \<noteq> CHR 0x0D) (EncodeToString s) = EncodeToString s"
    using EncodeToString_chars by (intro filter_True) blast
  then show ?thesis by (simp add: DecodeString_def decode_encode)
qed

lemma length_EncodeToString: "length (EncodeToString s) = 4 * ((length s + 2) div 3)"
proof (induction s rule: EncodeToString.induct)
  case (4 a b c rest)
  have "(length (a # b # c # rest) + 2) div 3 = (length rest + 2) div 3 + 1" by simp
  with 4 show ?case by simp
qed simp_all

end
