(* ===== verification/Md5.thy ===== *)
theory Md5
  imports Prelude "HOL-Library.Word"
begin

unbundle bit_operations_syntax

text \<open>
  \<^verbatim>\<open>crypto/md5\<close> and the \<^verbatim>\<open>%x\<close> format, the standard-library calls with which
  \<^verbatim>\<open>RequestDetails.Hash\<close> turns a request into a cache key (RFC 1321): the padded message is
  cut into blocks of sixteen little-endian 32-bit words, each block updates four chaining words in
  sixty-four steps, and the digest is printed as thirty-two hexadecimal digits.
\<close>

type_synonym u32 = "32 word"

definition md5_sines :: "u32 list" where
  "md5_sines =
    [0xd76aa478, 0xe8c7b756, 0x242070db, 0xc1bdceee, 0xf57c0faf, 0x4787c62a,
     0xa8304613, 0xfd469501, 0x698098d8, 0x8b44f7af, 0xffff5bb1, 0x895cd7be,
     0x6b901122, 0xfd987193, 0xa679438e, 0x49b40821, 0xf61e2562, 0xc040b340,
     0x265e5a51, 0xe9b6c7aa, 0xd62f105d, 0x02441453, 0xd8a1e681, 0xe7d3fbc8,
     0x21e1cde6, 0xc33707d6, 0xf4d50d87, 0x455a14ed, 0xa9e3e905, 0xfcefa3f8,
     0x676f02d9, 0x8d2a4c8a, 0xfffa3942, 0x8771f681, 0x6d9d6122, 0xfde5380c,
     0xa4beea44, 0x4bdecfa9, 0xf6bb4b60, 0xbebfbc70, 0x289b7ec6, 0xeaa127fa,
     0xd4ef3085, 0x04881d05, 0xd9d4d039, 0xe6db99e5, 0x1fa27cf8, 0xc4ac5665,
     0xf4292244, 0x432aff97, 0xab9423a7, 0xfc93a039, 0x655b59c3, 0x8f0ccc92,
     0xffeff47d, 0x85845dd1, 0x6fa87e4f, 0xfe2ce6e0, 0xa3014314, 0x4e0811a1,
     0xf7537e82, 0xbd3af235, 0x2ad7d2bb, 0xeb86d391]"

definition md5_shifts :: "nat list" where
  "md5_shifts =
    [7, 12, 17, 22, 7, 12, 17, 22, 7, 12, 17, 22, 7, 12, 17, 22,
     5, 9, 14, 20, 5, 9, 14, 20, 5, 9, 14, 20, 5, 9, 14, 20,
     4, 11, 16, 23, 4, 11, 16, 23, 4, 11, 16, 23, 4, 11, 16, 23,
     6, 10, 15, 21, 6, 10, 15, 21, 6, 10, 15, 21, 6, 10, 15, 21]"

definition md5_mix :: "nat \<Rightarrow> u32 \<Rightarrow> u32 \<Rightarrow> u32 \<Rightarrow> u32" where
  "md5_mix i b c d =
     (if i < 16 then (b AND c) OR (NOT b AND d)
      else if i < 32 then (d AND b) OR (NOT d AND c)
      else if i < 48 then b XOR c XOR d
      else c XOR (b OR NOT d))"

definition md5_word :: "nat \<Rightarrow> nat" where
  "md5_word i =
     (if i < 16 then i
      else if i < 32 then (5 * i + 1) mod 16
      else if i < 48 then (3 * i + 5) mod 16
      else (7 * i) mod 16)"

type_synonym md5_state = "u32 \<times> u32 \<times> u32 \<times> u32"

definition md5_step :: "u32 list \<Rightarrow> nat \<Rightarrow> md5_state \<Rightarrow> md5_state" where
  "md5_step block i st = (case st of (a, b, c, d) \<Rightarrow>
     (d, b + word_rotl (md5_shifts ! i)
               (a + md5_mix i b c d + md5_sines ! i + block ! md5_word i), b, c))"

definition md5_block :: "u32 list \<Rightarrow> md5_state \<Rightarrow> md5_state" where
  "md5_block block st =
     (case st of (a0, b0, c0, d0) \<Rightarrow>
      case fold (md5_step block) [0..<64] st of (a, b, c, d) \<Rightarrow> (a0 + a, b0 + b, c0 + c, d0 + d))"

definition byte_of :: "char \<Rightarrow> int" where
  "byte_of c = of_char c"

fun le_bytes :: "nat \<Rightarrow> int \<Rightarrow> int list" where
  "le_bytes 0 n = []"
| "le_bytes (Suc k) n = n mod 256 # le_bytes k (n div 256)"

definition md5_pad :: "int list \<Rightarrow> int list" where
  "md5_pad bs =
     bs @ [128] @ replicate ((119 - length bs mod 64) mod 64) 0
        @ le_bytes 8 (8 * int (length bs) mod 2 ^ 64)"

fun words_of :: "int list \<Rightarrow> u32 list" where
  "words_of (a # b # c # d # rest) =
     of_int (a + 256 * (b + 256 * (c + 256 * d))) # words_of rest"
| "words_of _ = []"

fun md5_blocks :: "nat \<Rightarrow> u32 list \<Rightarrow> md5_state \<Rightarrow> md5_state" where
  "md5_blocks 0 ws st = st"
| "md5_blocks (Suc n) ws st = md5_blocks n (drop 16 ws) (md5_block (take 16 ws) st)"

definition hex_digit :: "int \<Rightarrow> char" where
  "hex_digit n = ''0123456789abcdef'' ! nat n"

definition hex_byte :: "int \<Rightarrow> string" where
  "hex_byte n = [hex_digit (n div 16), hex_digit (n mod 16)]"

definition hex_word :: "u32 \<Rightarrow> string" where
  "hex_word w = concat (map hex_byte (le_bytes 4 (uint w)))"

definition md5_hex :: "string \<Rightarrow> string" where
  "md5_hex s =
     (let ws = words_of (md5_pad (map byte_of s)) in
      case md5_blocks (length ws div 16) ws (0x67452301, 0xefcdab89, 0x98badcfe, 0x10325476) of
        (a, b, c, d) \<Rightarrow> hex_word a @ hex_word b @ hex_word c @ hex_word d)"

lemma length_le_bytes [simp]: "length (le_bytes k n) = k"
  by (induction k arbitrary: n) auto

lemma le_bytes_bound: "b \<in> set (le_bytes k n) \<Longrightarrow> b < 256"
  by (induction k arbitrary: n) auto

lemma length_hex_bytes: "length (concat (map hex_byte bs)) = 2 * length bs"
  by (induction bs) (auto simp: hex_byte_def)

lemma length_hex_word [simp]: "length (hex_word w) = 8"
  by (simp add: hex_word_def length_hex_bytes)

lemma length_md5_hex [simp]: "length (md5_hex s) = 32"
  by (simp add: md5_hex_def Let_def split: prod.splits)

lemma md5_hex_abc: "md5_hex ''abc'' = ''900150983cd24fb0d6963f7d28e17f72''"
  by code_simp

text \<open>The padded message is a whole number of blocks, so no word of it is left unread.\<close>

lemma md5_pad_length: "length (md5_pad bs) mod 64 = 0"
proof -
  have "((119 - n mod 64) mod 64 + n + 9) mod 64 = 0" for n :: nat
  proof -
    have "119 - n mod 64 = 119 - n mod 64" "n mod 64 < 64" by simp_all
    then have "((119 - n mod 64) + (n mod 64) + 9) mod 64 = 0" by simp
    then show ?thesis by (metis (no_types, opaque_lifting) mod_add_left_eq mod_add_right_eq add.assoc)
  qed
  from this[of "length bs"] show ?thesis by (simp add: md5_pad_def ac_simps)
qed

end
