(* ===== verification/Models.thy ===== *)
theory Models
  imports Views Base64 Md5
begin

text \<open>
  \<^verbatim>\<open>core/models\<close>: the requests, responses and matchers Hoverfly works on
  (\<^verbatim>\<open>payload.go\<close>, \<^verbatim>\<open>request_matcher.go\<close>, \<^verbatim>\<open>cached_response.go\<close>), the simulation
  (\<^verbatim>\<open>simulation.go\<close>) and the response delays (\<^verbatim>\<open>delay.go\<close>). The lemmas show that the conversions to the
  views of the API and back lose nothing, what the cache key depends on, and that a validated
  delay list cannot panic.
\<close>

section \<open>Requests and responses\<close>

record RequestDetails =
  rq_Path :: string
  rq_Method :: string
  rq_Destination :: string
  rq_Scheme :: string
  rq_Query :: string
  rq_Body :: string
  rq_Headers :: headers

record ResponseDetails =
  rs_Status :: int
  rs_Body :: string
  rs_Headers :: headers

record RequestResponsePair =
  pr_Response :: ResponseDetails
  pr_Request :: RequestDetails

text \<open>The zero value of the struct, which the code builds with a partial literal.\<close>

definition zero_response :: ResponseDetails where
  "zero_response = \<lparr>rs_Status = 0, rs_Body = '''', rs_Headers = None\<rparr>"

definition zero_request :: RequestDetails where
  "zero_request = \<lparr>rq_Path = '''', rq_Method = '''', rq_Destination = '''', rq_Scheme = '''',
     rq_Query = '''', rq_Body = '''', rq_Headers = None\<rparr>"

text \<open>The part of an incoming \<^verbatim>\<open>http.Request\<close> the code reads. A nil body reads as an empty one.\<close>

record http_request =
  hq_Method :: string
  hq_Host :: string
  hq_URL_Scheme :: string
  hq_URL_Host :: string
  hq_URL_Path :: string
  hq_URL_RawQuery :: string
  hq_Header :: headers
  hq_Body :: "body_reader option"
  hq_RequestURI :: string

definition NewRequestDetailsFromHttpRequest ::
  "http_request \<Rightarrow> (string + RequestDetails) \<times> http_request" where
  "NewRequestDetailsFromHttpRequest req =
     (let body = (case hq_Body req of None \<Rightarrow> new_body '''' | Some b \<Rightarrow> b) in
      case GetRequestBody body of
        (Inl err, b) \<Rightarrow> (Inl err, req\<lparr>hq_Body := Some b\<rparr>)
      | (Inr reqBody, b) \<Rightarrow>
          (Inr \<lparr>rq_Path = hq_URL_Path req, rq_Method = hq_Method req,
                rq_Destination = ToLower (hq_Host req), rq_Scheme = hq_URL_Scheme req,
                rq_Query = SortQueryString (hq_URL_RawQuery req), rq_Body = reqBody,
                rq_Headers = hq_Header req\<rparr>,
           req\<lparr>hq_Body := Some b\<rparr>))"

definition NewRequestDetailsFromRequest :: "RequestDetailsViewV1 \<Rightarrow> RequestDetails" where
  "NewRequestDetailsFromRequest data =
     \<lparr>rq_Path = PointerToString (GetPath data),
      rq_Method = PointerToString (GetMethod data),
      rq_Destination = PointerToString (GetDestination data),
      rq_Scheme = PointerToString (GetScheme data),
      rq_Query = PointerToString (GetQuery data),
      rq_Body = PointerToString (GetBody data),
      rq_Headers = GetHeaders data\<rparr>"

definition ConvertToRequestDetailsView :: "RequestDetails \<Rightarrow> RequestDetailsViewV1" where
  "ConvertToRequestDetailsView this =
     \<lparr>v1_RequestType = None,
      v1_Path = Some (rq_Path this), v1_Method = Some (rq_Method this),
      v1_Destination = Some (rq_Destination this), v1_Scheme = Some (rq_Scheme this),
      v1_Query = Some (rq_Query this), v1_Body = Some (rq_Body this),
      v1_Headers = rq_Headers this\<rparr>"

definition concatenate :: "RequestDetails \<Rightarrow> bool \<Rightarrow> string" where
  "concatenate r withHost =
     (if withHost then rq_Destination r else '''') @ rq_Path r @ rq_Method r @ rq_Query r @
     (if length (rq_Body r) > 0 then rq_Body r else '''')"

definition Hash :: "RequestDetails \<Rightarrow> string" where
  "Hash r = md5_hex (concatenate r True)"

definition HashWithoutHost :: "RequestDetails \<Rightarrow> string" where
  "HashWithoutHost r = md5_hex (concatenate r False)"

definition NewResponseDetailsFromResponse :: "ResponseDetailsView \<Rightarrow> ResponseDetails" where
  "NewResponseDetailsFromResponse data =
     \<lparr>rs_Status = rv_Status data,
      rs_Body = (if rv_EncodedBody data then fst (DecodeString (rv_Body data)) else rv_Body data),
      rs_Headers = rv_Headers data\<rparr>"

definition supportedMimeTypes :: "string list" where
  "supportedMimeTypes =
     [''text'', ''plain'', ''css'', ''html'', ''json'', ''xml'', ''js'', ''javascript'']"

text \<open>\<^verbatim>\<open>h[k]\<close> on a header map that may be nil.\<close>

definition header_values :: "headers \<Rightarrow> string \<Rightarrow> string list" where
  "header_values hs k = (case hs of None \<Rightarrow> [] | Some m \<Rightarrow> map_index m k)"

text \<open>\<open>sniff\<close> is \<^verbatim>\<open>http.DetectContentType\<close>, the content sniffer of the standard library.\<close>

definition needs_encoding :: "(string \<Rightarrow> string) \<Rightarrow> ResponseDetails \<Rightarrow> bool" where
  "needs_encoding sniff r =
     (if length (header_values (rs_Headers r) ''Content-Encoding'') > 0 then True
      else \<not> list_ex (\<lambda>v. Contains (sniff (rs_Body r)) v) supportedMimeTypes)"

definition ConvertToResponseDetailsView ::
  "(string \<Rightarrow> string) \<Rightarrow> ResponseDetails \<Rightarrow> ResponseDetailsView" where
  "ConvertToResponseDetailsView sniff r =
     (let needsEncoding = needs_encoding sniff r;
          body = (if needsEncoding then EncodeToString (rs_Body r) else rs_Body r)
      in \<lparr>rv_Status = rs_Status r, rv_Body = body, rv_EncodedBody = needsEncoding,
          rv_Headers = rs_Headers r\<rparr>)"

definition ConvertToRequestResponsePairView ::
  "(string \<Rightarrow> string) \<Rightarrow> RequestResponsePair \<Rightarrow> RequestResponsePairViewV1" where
  "ConvertToRequestResponsePairView sniff this =
     \<lparr>p1_Response = ConvertToResponseDetailsView sniff (pr_Response this),
      p1_Request = ConvertToRequestDetailsView (pr_Request this)\<rparr>"

definition NewRequestResponsePairFromRequestResponsePairView ::
  "RequestResponsePairViewV1 \<Rightarrow> RequestResponsePair" where
  "NewRequestResponsePairFromRequestResponsePairView pairView =
     \<lparr>pr_Response = NewResponseDetailsFromResponse (p1_Response pairView),
      pr_Request = NewRequestDetailsFromRequest (p1_Request pairView)\<rparr>"

section \<open>Request matchers\<close>

record RequestFieldMatchers =
  fm_ExactMatch :: "string option"
  fm_XmlMatch :: "string option"
  fm_XpathMatch :: "string option"
  fm_JsonMatch :: "string option"
  fm_JsonPathMatch :: "string option"
  fm_RegexMatch :: "string option"
  fm_GlobMatch :: "string option"

definition NewRequestFieldMatchersFromView ::
  "RequestFieldMatchersView option \<Rightarrow> RequestFieldMatchers option" where
  "NewRequestFieldMatchersFromView matchers = (case matchers of None \<Rightarrow> None | Some v \<Rightarrow>
     Some \<lparr>fm_ExactMatch = fv_ExactMatch v, fm_XmlMatch = fv_XmlMatch v,
           fm_XpathMatch = fv_XpathMatch v, fm_JsonMatch = fv_JsonMatch v,
           fm_JsonPathMatch = fv_JsonPathMatch v, fm_RegexMatch = fv_RegexMatch v,
           fm_GlobMatch = fv_GlobMatch v\<rparr>)"

definition FieldMatchers_BuildView :: "RequestFieldMatchers \<Rightarrow> RequestFieldMatchersView" where
  "FieldMatchers_BuildView this =
     \<lparr>fv_ExactMatch = fm_ExactMatch this, fv_XmlMatch = fm_XmlMatch this,
      fv_XpathMatch = fm_XpathMatch this, fv_JsonMatch = fm_JsonMatch this,
      fv_JsonPathMatch = fm_JsonPathMatch this, fv_RegexMatch = fm_RegexMatch this,
      fv_GlobMatch = fm_GlobMatch this\<rparr>"

record RequestMatcher =
  rm_Path :: "RequestFieldMatchers option"
  rm_Method :: "RequestFieldMatchers option"
  rm_Destination :: "RequestFieldMatchers option"
  rm_Scheme :: "RequestFieldMatchers option"
  rm_Query :: "RequestFieldMatchers option"
  rm_Body :: "RequestFieldMatchers option"
  rm_Headers :: headers

record RequestMatcherResponsePair =
  mp_RequestMatcher :: RequestMatcher
  mp_Response :: ResponseDetails

text \<open>An exact query matcher is normalised before it is stored.\<close>

definition sort_query_matcher :: "RequestFieldMatchersView option \<Rightarrow> RequestFieldMatchersView option"
where
  "sort_query_matcher q = (case q of
     None \<Rightarrow> None
   | Some v \<Rightarrow> (case fv_ExactMatch v of
        None \<Rightarrow> Some v
      | Some s \<Rightarrow> Some (v\<lparr>fv_ExactMatch := Some (SortQueryString s)\<rparr>)))"

definition NewRequestMatcherResponsePairFromView ::
  "RequestResponsePairViewV2 \<Rightarrow> RequestMatcherResponsePair" where
  "NewRequestMatcherResponsePairFromView view =
     (let r = p2_Request view in
      \<lparr>mp_RequestMatcher =
         \<lparr>rm_Path = NewRequestFieldMatchersFromView (v2_Path r),
          rm_Method = NewRequestFieldMatchersFromView (v2_Method r),
          rm_Destination = NewRequestFieldMatchersFromView (v2_Destination r),
          rm_Scheme = NewRequestFieldMatchersFromView (v2_Scheme r),
          rm_Query = NewRequestFieldMatchersFromView (sort_query_matcher (v2_Query r)),
          rm_Body = NewRequestFieldMatchersFromView (v2_Body r),
          rm_Headers = v2_Headers r\<rparr>,
       mp_Response = NewResponseDetailsFromResponse (p2_Response view)\<rparr>)"

definition BuildView :: "(string \<Rightarrow> string) \<Rightarrow> RequestMatcherResponsePair \<Rightarrow> RequestResponsePairViewV2"
where
  "BuildView sniff this =
     (let m = mp_RequestMatcher this in
      \<lparr>p2_Response = ConvertToResponseDetailsView sniff (mp_Response this),
       p2_Request =
         \<lparr>v2_Path = map_option FieldMatchers_BuildView (rm_Path m),
          v2_Method = map_option FieldMatchers_BuildView (rm_Method m),
          v2_Destination = map_option FieldMatchers_BuildView (rm_Destination m),
          v2_Scheme = map_option FieldMatchers_BuildView (rm_Scheme m),
          v2_Query = map_option FieldMatchers_BuildView (rm_Query m),
          v2_Body = map_option FieldMatchers_BuildView (rm_Body m),
          v2_Headers = rm_Headers m\<rparr>\<rparr>)"

text \<open>The exact matcher of a field, if the field has one.\<close>

definition exact_of :: "RequestFieldMatchers option \<Rightarrow> string option" where
  "exact_of f = (case f of None \<Rightarrow> None | Some m \<Rightarrow> fm_ExactMatch m)"

definition BuildRequestDetailsFromExactMatches :: "RequestMatcher \<Rightarrow> RequestDetails option" where
  "BuildRequestDetailsFromExactMatches this =
     (case (exact_of (rm_Body this), exact_of (rm_Destination this), exact_of (rm_Method this),
            exact_of (rm_Path this), exact_of (rm_Query this), exact_of (rm_Scheme this)) of
        (Some body, Some destination, Some method, Some path, Some query, Some scheme) \<Rightarrow>
          Some \<lparr>rq_Path = path, rq_Method = method, rq_Destination = destination,
                rq_Scheme = scheme, rq_Query = query, rq_Body = body,
                rq_Headers = rm_Headers this\<rparr>
      | _ \<Rightarrow> None)"

record CachedResponse =
  cr_Request :: RequestDetails
  cr_MatchingPair :: "RequestMatcherResponsePair option"
  cr_HeaderMatch :: bool

section \<open>Conversions lose nothing\<close>

lemma NewRequestFieldMatchersFromView_BuildView [simp]:
  "NewRequestFieldMatchersFromView (map_option FieldMatchers_BuildView f) = f"
  by (cases f) (simp_all add: NewRequestFieldMatchersFromView_def FieldMatchers_BuildView_def)

lemma NewResponseDetails_Convert [simp]:
  "NewResponseDetailsFromResponse (ConvertToResponseDetailsView sniff r) = r"
  by (simp add: NewResponseDetailsFromResponse_def ConvertToResponseDetailsView_def Let_def)

lemma NewRequestDetails_Convert:
  "NewRequestDetailsFromRequest (ConvertToRequestDetailsView r) =
     r\<lparr>rq_Query := SortQueryString (rq_Query r)\<rparr>"
  by (simp add: NewRequestDetailsFromRequest_def ConvertToRequestDetailsView_def PointerToString_def
      GetPath_def GetMethod_def GetDestination_def GetScheme_def GetQuery_def GetBody_def GetHeaders_def)

text \<open>A stored pair keeps its exact query matcher in normal form.\<close>

definition query_normal :: "RequestMatcherResponsePair \<Rightarrow> bool" where
  "query_normal p = (case exact_of (rm_Query (mp_RequestMatcher p)) of
     None \<Rightarrow> True | Some q \<Rightarrow> SortQueryString q = q)"

lemma query_normal_NewPair [simp]: "query_normal (NewRequestMatcherResponsePairFromView v)"
  by (auto simp: query_normal_def exact_of_def NewRequestMatcherResponsePairFromView_def Let_def
      NewRequestFieldMatchersFromView_def sort_query_matcher_def split: option.splits)

lemma sort_query_matcher_normal:
  "query_normal p \<Longrightarrow>
     sort_query_matcher (map_option FieldMatchers_BuildView (rm_Query (mp_RequestMatcher p))) =
       map_option FieldMatchers_BuildView (rm_Query (mp_RequestMatcher p))"
  by (auto simp: query_normal_def exact_of_def sort_query_matcher_def FieldMatchers_BuildView_def
      split: option.splits)

lemma NewPair_BuildView:
  "query_normal p \<Longrightarrow> NewRequestMatcherResponsePairFromView (BuildView sniff p) = p"
  by (simp add: NewRequestMatcherResponsePairFromView_def BuildView_def Let_def
      sort_query_matcher_normal)



text \<open>
  The payload handed to middleware and read back is the payload, but for the query of the
  request, which comes back in normal form; a payload built from an HTTP request has it in normal
  form already.
\<close>

lemma middleware_payload:
  "NewRequestResponsePairFromRequestResponsePairView (ConvertToRequestResponsePairView sniff p) =
     p\<lparr>pr_Request := (pr_Request p)\<lparr>rq_Query := SortQueryString (rq_Query (pr_Request p))\<rparr>\<rparr>"
  "fst (NewRequestDetailsFromHttpRequest req) = Inr d \<Longrightarrow> SortQueryString (rq_Query d) = rq_Query d"
  by (simp_all add: NewRequestResponsePairFromRequestResponsePairView_def
      ConvertToRequestResponsePairView_def NewRequestDetails_Convert)
    (auto simp: NewRequestDetailsFromHttpRequest_def Let_def split: prod.splits sum.splits)

text \<open>
  A payload whose request was read from an HTTP request comes back unchanged through the
  format middleware speaks, with any response.
\<close>

lemma middleware_payload_roundtrip:
  assumes "fst (NewRequestDetailsFromHttpRequest req) = Inr (pr_Request p)"
  shows "NewRequestResponsePairFromRequestResponsePairView (ConvertToRequestResponsePairView sniff p) = p"
  using middleware_payload(1)[of sniff p] middleware_payload(2)[OF assms] by simp

lemma middleware_payload_roundtrip_witness:
  "let req = \<lparr>hq_Method = ''GET'', hq_Host = ''Test.com'', hq_URL_Scheme = ''http'', hq_URL_Host = ''Test.com'',
       hq_URL_Path = ''/'', hq_URL_RawQuery = ''b=2&a=1'', hq_Header = Some [], hq_Body = None,
       hq_RequestURI = ''/''\<rparr>;
     p = \<lparr>pr_Response = zero_response, pr_Request = \<lparr>rq_Path = ''/'', rq_Method = ''GET'',
       rq_Destination = ''test.com'', rq_Scheme = ''http'', rq_Query = ''a=1&b=2'', rq_Body = [],
       rq_Headers = Some []\<rparr>\<rparr>
   in NewRequestResponsePairFromRequestResponsePairView (ConvertToRequestResponsePairView (\<lambda>_. ''text/plain'') p) = p"
  (is "let req = ?req; p = ?p in _")
proof -
  have h: "fst (NewRequestDetailsFromHttpRequest ?req) = Inr (pr_Request ?p)" by code_simp
  show ?thesis unfolding Let_def by (rule middleware_payload_roundtrip[OF h])
qed

lemma BuildRequestDetailsFromExactMatches_Some:
  "BuildRequestDetailsFromExactMatches m = Some r \<longleftrightarrow>
     exact_of (rm_Body m) = Some (rq_Body r) \<and> exact_of (rm_Destination m) = Some (rq_Destination r) \<and>
     exact_of (rm_Method m) = Some (rq_Method r) \<and> exact_of (rm_Path m) = Some (rq_Path r) \<and>
     exact_of (rm_Query m) = Some (rq_Query r) \<and> exact_of (rm_Scheme m) = Some (rq_Scheme r) \<and>
     rm_Headers m = rq_Headers r"
  by (cases r) (auto simp: BuildRequestDetailsFromExactMatches_def split: option.splits)

section \<open>The cache key\<close>

lemma concatenate_eq:
  "concatenate r withHost =
     (if withHost then rq_Destination r else '''') @ rq_Path r @ rq_Method r @ rq_Query r @ rq_Body r"
  by (simp add: concatenate_def)

lemma Hash_cong:
  "\<lbrakk>rq_Destination r = rq_Destination r'; rq_Path r = rq_Path r'; rq_Method r = rq_Method r';
    rq_Query r = rq_Query r'; rq_Body r = rq_Body r'\<rbrakk> \<Longrightarrow> Hash r = Hash r'"
  by (simp add: Hash_def concatenate_eq)

section \<open>Response delays\<close>

record ResponseDelay =
  dl_UrlPattern :: string
  dl_HttpMethod :: string
  dl_Delay :: int

type_synonym ResponseDelayList = "ResponseDelay list"

text \<open>
  The regular-expression engine: \<open>re_compiles\<close> says whether \<^verbatim>\<open>regexp.Compile\<close> accepts a pattern,
  \<open>re_matches\<close> whether a pattern that compiles matches a text.
\<close>

record regexp_engine =
  re_compiles :: "string \<Rightarrow> bool"
  re_matches :: "string \<Rightarrow> string \<Rightarrow> bool"

fun validate_delays :: "'a regexp_engine_scheme \<Rightarrow> ResponseDelayView list \<Rightarrow> string option" where
  "validate_delays re [] = None"
| "validate_delays re (delay # delays) =
     (if dv_UrlPattern delay \<noteq> '''' \<and> dv_Delay delay \<noteq> 0 then
        (if \<not> re_compiles re (dv_UrlPattern delay)
         then Some (''Response delay entry skipped due to invalid pattern : '' @ dv_UrlPattern delay)
         else validate_delays re delays)
      else Some (''Config error - Missing values found in: {'' @ dv_UrlPattern delay @ '' '' @
        dv_HttpMethod delay @ '' '' @ Itoa (dv_Delay delay) @ ''}''))"

definition ValidateResponseDelayPayload ::
  "'a regexp_engine_scheme \<Rightarrow> ResponseDelayPayloadView \<Rightarrow> string option" where
  "ValidateResponseDelayPayload re j =
     (case dp_Data j of None \<Rightarrow> None | Some ds \<Rightarrow> validate_delays re ds)"

fun GetDelay ::
  "'a regexp_engine_scheme \<Rightarrow> ResponseDelayList \<Rightarrow> RequestDetails \<Rightarrow> ResponseDelay option outcome"
where
  "GetDelay re [] request = Returns None"
| "GetDelay re (val # vals) request =
     (if \<not> re_compiles re (dl_UrlPattern val) then Panics ''regexp: Compile''
      else if re_matches re (dl_UrlPattern val) (rq_Destination request @ rq_Path request) \<and>
              (dl_HttpMethod val = '''' \<or> EqualFold (dl_HttpMethod val) (rq_Method request))
      then Returns (Some val)
      else GetDelay re vals request)"

definition delay_view :: "ResponseDelay \<Rightarrow> ResponseDelayView" where
  "delay_view d = \<lparr>dv_UrlPattern = dl_UrlPattern d, dv_HttpMethod = dl_HttpMethod d,
     dv_Delay = dl_Delay d\<rparr>"

definition ConvertToResponseDelayPayloadView :: "ResponseDelayList \<Rightarrow> ResponseDelayPayloadView" where
  "ConvertToResponseDelayPayloadView this = \<lparr>dp_Data = Some (map delay_view this)\<rparr>"

text \<open>\<^verbatim>\<open>Execute\<close> sleeps for this many nanoseconds: a product of two 64-bit integers.\<close>

type_synonym i64 = "64 word"

definition Execute_nanoseconds :: "ResponseDelay \<Rightarrow> int" where
  "Execute_nanoseconds this = sint (word_of_int (dl_Delay this) * (1000000 :: i64))"

definition valid_delay :: "'a regexp_engine_scheme \<Rightarrow> ResponseDelay \<Rightarrow> bool" where
  "valid_delay re d = (dl_UrlPattern d \<noteq> '''' \<and> dl_Delay d \<noteq> 0 \<and> re_compiles re (dl_UrlPattern d))"

lemma validate_delays_None:
  "validate_delays re ds = None \<longleftrightarrow>
     (\<forall>d \<in> set ds. dv_UrlPattern d \<noteq> '''' \<and> dv_Delay d \<noteq> 0 \<and> re_compiles re (dv_UrlPattern d))"
  by (induction ds) auto

lemma GetDelay_no_panic:
  "\<forall>d \<in> set ds. re_compiles re (dl_UrlPattern d) \<Longrightarrow> \<not> panics (GetDelay re ds request)"
  by (induction ds) auto

lemma GetDelay_Some:
  "GetDelay re ds request = Returns (Some d) \<Longrightarrow>
     d \<in> set ds \<and> re_matches re (dl_UrlPattern d) (rq_Destination request @ rq_Path request) \<and>
     (dl_HttpMethod d = '''' \<or> EqualFold (dl_HttpMethod d) (rq_Method request))"
  by (induction ds) (auto split: if_splits)

definition delay_applies :: "'a regexp_engine_scheme \<Rightarrow> ResponseDelay \<Rightarrow> RequestDetails \<Rightarrow> bool" where
  "delay_applies re d request =
     (re_matches re (dl_UrlPattern d) (rq_Destination request @ rq_Path request) \<and>
      (dl_HttpMethod d = '''' \<or> EqualFold (dl_HttpMethod d) (rq_Method request)))"

lemma GetDelay_find:
  "\<forall>d \<in> set ds. re_compiles re (dl_UrlPattern d) \<Longrightarrow>
     GetDelay re ds request = Returns (find (\<lambda>d. delay_applies re d request) ds)"
  by (induction ds) (auto simp: delay_applies_def)

lemma Execute_exact:
  assumes "\<bar>dl_Delay d\<bar> \<le> 9223372036854"
  shows "Execute_nanoseconds d = dl_Delay d * 1000000"
proof -
  have "word_of_int (dl_Delay d) * (1000000 :: i64) = word_of_int (dl_Delay d * 1000000)"
    by simp
  then have "Execute_nanoseconds d = signed_take_bit 63 (dl_Delay d * 1000000)"
    unfolding Execute_nanoseconds_def by (simp only: sint_sbintrunc') simp
  also have "\<dots> = dl_Delay d * 1000000"
    using assms by (intro signed_take_bit_int_eq_self) auto
  finally show ?thesis .
qed

section \<open>The simulation\<close>

record Simulation =
  si_MatchingPairs :: "RequestMatcherResponsePair list"
  si_ResponseDelays :: ResponseDelayList

definition NewSimulation :: Simulation where
  "NewSimulation = \<lparr>si_MatchingPairs = [], si_ResponseDelays = []\<rparr>"

text \<open>
  \<^verbatim>\<open>reflect.DeepEqual\<close> of two matchers: pointers by what they point to, header maps by their entries,
  a nil map equal only to a nil map.
\<close>

definition headers_equal :: "headers \<Rightarrow> headers \<Rightarrow> bool" where
  "headers_equal a b = (case (a, b) of
     (None, None) \<Rightarrow> True | (Some m, Some n) \<Rightarrow> map_equal m n | _ \<Rightarrow> False)"

definition matcher_equal :: "RequestMatcher \<Rightarrow> RequestMatcher \<Rightarrow> bool" where
  "matcher_equal a b =
     (a\<lparr>rm_Headers := None\<rparr> = b\<lparr>rm_Headers := None\<rparr> \<and> headers_equal (rm_Headers a) (rm_Headers b))"

fun has_duplicate :: "RequestMatcher \<Rightarrow> RequestMatcherResponsePair list \<Rightarrow> bool" where
  "has_duplicate m [] = False"
| "has_duplicate m (savedPair # pairs) =
     (if matcher_equal m (mp_RequestMatcher savedPair) then True else has_duplicate m pairs)"

definition AddRequestMatcherResponsePair ::
  "Simulation \<Rightarrow> RequestMatcherResponsePair \<Rightarrow> Simulation" where
  "AddRequestMatcherResponsePair this pair =
     (if has_duplicate (mp_RequestMatcher pair) (si_MatchingPairs this) then this
      else this\<lparr>si_MatchingPairs := si_MatchingPairs this @ [pair]\<rparr>)"

lemma headers_equal_refl [simp]: "headers_equal h h"
  by (cases h) (simp_all add: headers_equal_def)

lemma matcher_equal_refl [simp]: "matcher_equal m m"
  by (simp add: matcher_equal_def)

lemma has_duplicate_iff:
  "has_duplicate m ps \<longleftrightarrow> (\<exists>p \<in> set ps. matcher_equal m (mp_RequestMatcher p))"
  by (induction ps) auto

text \<open>No two stored pairs have equal matchers; capturing keeps it so.\<close>

fun no_duplicates :: "RequestMatcherResponsePair list \<Rightarrow> bool" where
  "no_duplicates [] = True"
| "no_duplicates (p # ps) =
     (no_duplicates ps \<and> (\<forall>q \<in> set ps. \<not> matcher_equal (mp_RequestMatcher q) (mp_RequestMatcher p)))"

lemma no_duplicates_snoc:
  "no_duplicates (ps @ [p]) \<longleftrightarrow> no_duplicates ps \<and> \<not> has_duplicate (mp_RequestMatcher p) ps"
  by (induction ps) (auto simp: has_duplicate_iff)

lemma AddRequestMatcherResponsePair_no_duplicates:
  "no_duplicates (si_MatchingPairs s) \<Longrightarrow>
     no_duplicates (si_MatchingPairs (AddRequestMatcherResponsePair s p))"
  by (simp add: AddRequestMatcherResponsePair_def no_duplicates_snoc)

end
