(* ===== verification/Matching.thy ===== *)
theory Matching
  imports Glob Models
begin

text \<open>
  \<^verbatim>\<open>core/matching\<close>: field, header and request matchers. The lemmas show that a field matcher is the
  conjunction of the matchers that are set, that header matching is insensitive to the case of
  names and values and to everything the lower-casing of the request's own header map does on the
  way, and that the request matcher returns the first pair of the simulation that matches.
\<close>

section \<open>The libraries behind the matchers\<close>

text \<open>
  The regular-expression engine, the minifiers, XPath and JSONPath evaluation, the
  content sniffer and the gob codec are library code, given to the model as a record of
  functions: \<open>min_json\<close> and \<open>min_xml\<close> are the minifier's (\<^const>\<open>None\<close> an error);
  \<open>xpath_parses\<close>, \<open>xml_parses\<close> and \<open>xpath_exec\<close> the three calls of \<^verbatim>\<open>XpathMatch\<close>, the last
  giving the number of nodes found; \<open>jsonpath_parses\<close>, \<open>jsonpath_evals\<close> and \<open>jsonpath_next\<close> those of
  \<^verbatim>\<open>JsonPathMatch\<close>; \<open>sniff\<close> is \<^verbatim>\<open>http.DetectContentType\<close>; \<open>gob_enc\<close> and \<open>gob_dec\<close> are
  the gob encoder and decoder on cached responses.
\<close>

record libs = regexp_engine +
  min_json :: "string \<Rightarrow> string option"
  min_xml :: "string \<Rightarrow> string option"
  xpath_parses :: "string \<Rightarrow> bool"
  xml_parses :: "string \<Rightarrow> bool"
  xpath_exec :: "string \<Rightarrow> string \<Rightarrow> nat option"
  jsonpath_parses :: "string \<Rightarrow> bool"
  jsonpath_evals :: "string \<Rightarrow> string \<Rightarrow> bool"
  jsonpath_next :: "string \<Rightarrow> string \<Rightarrow> bool"
  sniff :: "string \<Rightarrow> string"
  gob_enc :: "CachedResponse \<Rightarrow> string + string"
  gob_dec :: "string \<Rightarrow> string + CachedResponse"

text \<open>\<^verbatim>\<open>matcher.go\<close>: the error of a request that cannot be matched.\<close>

record MatchingError =
  me_StatusCode :: int
  me_Description :: string

definition MatchingError_Error :: "MatchingError \<Rightarrow> string" where
  "MatchingError_Error this = me_Description this"

section \<open>Field matchers\<close>

definition ExactMatch :: "string \<Rightarrow> string \<Rightarrow> bool" where
  "ExactMatch matchingString toMatch = (matchingString = toMatch)"

definition MinifyJson :: "libs \<Rightarrow> string \<Rightarrow> string option" where
  "MinifyJson L toMinify = min_json L toMinify"

definition MinifyXml :: "libs \<Rightarrow> string \<Rightarrow> string option" where
  "MinifyXml L toMinify = min_xml L toMinify"

definition JsonMatch :: "libs \<Rightarrow> string \<Rightarrow> string \<Rightarrow> bool" where
  "JsonMatch L matchingString toMatch =
     (case MinifyJson L matchingString of
        None \<Rightarrow> False
      | Some minifiedMatchingString \<Rightarrow> (case MinifyJson L toMatch of
          None \<Rightarrow> False
        | Some minifiedToMatch \<Rightarrow> minifiedMatchingString = minifiedToMatch))"

definition XmlMatch :: "libs \<Rightarrow> string \<Rightarrow> string \<Rightarrow> bool" where
  "XmlMatch L matchingString toMatch =
     (case MinifyXml L matchingString of
        None \<Rightarrow> False
      | Some minifiedMatchingString \<Rightarrow> (case MinifyXml L toMatch of
          None \<Rightarrow> False
        | Some minifiedToMatch \<Rightarrow> minifiedMatchingString = minifiedToMatch))"

definition XpathMatch :: "libs \<Rightarrow> string \<Rightarrow> string \<Rightarrow> bool" where
  "XpathMatch L matchingString toMatch =
     (if \<not> xpath_parses L matchingString then False
      else if \<not> xml_parses L toMatch then False
      else (case xpath_exec L matchingString toMatch of None \<Rightarrow> False | Some results \<Rightarrow> results > 0))"

definition JsonPathMatch :: "libs \<Rightarrow> string \<Rightarrow> string \<Rightarrow> bool" where
  "JsonPathMatch L matchingString toMatch =
     (if \<not> jsonpath_parses L matchingString then False
      else if \<not> jsonpath_evals L matchingString toMatch then False
      else jsonpath_next L matchingString toMatch)"

definition RegexMatch :: "libs \<Rightarrow> string \<Rightarrow> string \<Rightarrow> bool" where
  "RegexMatch L matchingString toMatch =
     (if \<not> re_compiles L matchingString then False else re_matches L matchingString toMatch)"

text \<open>One \<^verbatim>\<open>if field.X != nil && !XMatch(...)\<close> of the code.\<close>

definition rejects :: "(string \<Rightarrow> string \<Rightarrow> bool) \<Rightarrow> string option \<Rightarrow> string \<Rightarrow> bool" where
  "rejects match pattern toMatch = (case pattern of None \<Rightarrow> False | Some p \<Rightarrow> \<not> match p toMatch)"

definition FieldMatcher :: "libs \<Rightarrow> RequestFieldMatchers option \<Rightarrow> string \<Rightarrow> bool" where
  "FieldMatcher L field toMatch = (case field of
     None \<Rightarrow> True
   | Some f \<Rightarrow>
       if rejects ExactMatch (fm_ExactMatch f) toMatch then False
       else if rejects (XmlMatch L) (fm_XmlMatch f) toMatch then False
       else if rejects (XpathMatch L) (fm_XpathMatch f) toMatch then False
       else if rejects (JsonMatch L) (fm_JsonMatch f) toMatch then False
       else if rejects (JsonPathMatch L) (fm_JsonPathMatch f) toMatch then False
       else if rejects (RegexMatch L) (fm_RegexMatch f) toMatch then False
       else if rejects GlobMatch (fm_GlobMatch f) toMatch then False
       else True)"

lemma FieldMatcher_None [simp]: "FieldMatcher L None s"
  by (simp add: FieldMatcher_def)

lemma FieldMatcher_conjunction:
  "FieldMatcher L (Some f) s \<longleftrightarrow>
     \<not> rejects ExactMatch (fm_ExactMatch f) s \<and> \<not> rejects (XmlMatch L) (fm_XmlMatch f) s \<and>
     \<not> rejects (XpathMatch L) (fm_XpathMatch f) s \<and> \<not> rejects (JsonMatch L) (fm_JsonMatch f) s \<and>
     \<not> rejects (JsonPathMatch L) (fm_JsonPathMatch f) s \<and> \<not> rejects (RegexMatch L) (fm_RegexMatch f) s \<and>
     \<not> rejects GlobMatch (fm_GlobMatch f) s"
  by (simp add: FieldMatcher_def)

lemma FieldMatcher_exact: "FieldMatcher L f s \<Longrightarrow> exact_of f = Some e \<Longrightarrow> e = s"
  by (auto simp: FieldMatcher_def exact_of_def rejects_def ExactMatch_def split: option.splits if_splits)

definition exact_matchers :: "string \<Rightarrow> RequestFieldMatchers" where
  "exact_matchers e = \<lparr>fm_ExactMatch = Some e, fm_XmlMatch = None, fm_XpathMatch = None,
     fm_JsonMatch = None, fm_JsonPathMatch = None, fm_RegexMatch = None, fm_GlobMatch = None\<rparr>"

lemma FieldMatcher_exact_matchers [simp]: "FieldMatcher L (Some (exact_matchers e)) s \<longleftrightarrow> e = s"
  by (simp add: FieldMatcher_def exact_matchers_def rejects_def ExactMatch_def)

section \<open>Header matchers\<close>

text \<open>
  The inner loop of \<^verbatim>\<open>HeaderMatcher\<close> renames every key of the request's map to lower case while
  it ranges over it. A key the range has not reached when it is deleted is not visited, and
  the value is the one stored at the visit. Whether the range also visits the entries it adds is
  unspecified, and makes no difference: renaming a lower-case key changes nothing.
\<close>

definition lower_key :: "'v gomap \<Rightarrow> string \<Rightarrow> 'v gomap" where
  "lower_key m k = (case map_get m k of None \<Rightarrow> m | Some v \<Rightarrow> map_put (ToLower k) v (map_del k m))"

definition lower_keys :: "'v gomap \<Rightarrow> 'v gomap" where
  "lower_keys m = foldl lower_key m (map_keys m)"

definition values_match :: "string list \<Rightarrow> string list \<Rightarrow> bool" where
  "values_match matcherValues toMatchValues =
     list_all (\<lambda>mv. list_ex (\<lambda>tv. Glob (ToLower mv) (ToLower tv)) toMatchValues) matcherValues"

fun header_loop :: "header_map \<Rightarrow> headers \<Rightarrow> bool \<times> headers" where
  "header_loop [] toMatch = (True, toMatch)"
| "header_loop ((matcherKey, matcherValues) # rest) toMatch =
     (let toMatch' = map_option lower_keys toMatch in
      case (case toMatch' of None \<Rightarrow> None | Some m \<Rightarrow> map_get m (ToLower matcherKey)) of
        None \<Rightarrow> (False, toMatch')
      | Some toMatchValues \<Rightarrow>
          if values_match matcherValues toMatchValues then header_loop rest toMatch'
          else (False, toMatch'))"

definition HeaderMatcher :: "headers \<Rightarrow> headers \<Rightarrow> bool \<times> headers" where
  "HeaderMatcher matchingHeaders toMatch =
     header_loop (case matchingHeaders of None \<Rightarrow> [] | Some m \<Rightarrow> m) toMatch"

lemma lower_key_lower: "ToLower k = k \<Longrightarrow> map_get (lower_key m k) = map_get m"
  by (rule ext) (simp add: lower_key_def split: option.splits)

lemma lower_key_keys:
  "set (map_keys (lower_key m k)) \<subseteq> insert (ToLower k) (set (map_keys m) - (if ToLower k = k then {} else {k}))"
proof
  fix j assume "j \<in> set (map_keys (lower_key m k))"
  then obtain v where v: "map_get (lower_key m k) j = Some v" using map_get_Some_iff by metis
  show "j \<in> insert (ToLower k) (set (map_keys m) - (if ToLower k = k then {} else {k}))"
    using v map_get_Some_iff[of m j] by (auto simp: lower_key_def split: option.splits if_splits)
qed

lemma lower_keys_lower_aux:
  "set (map_keys m) \<subseteq> set ks \<union> {j. ToLower j = j} \<Longrightarrow>
     \<forall>j \<in> set (map_keys (foldl lower_key m ks)). ToLower j = j"
proof (induction ks arbitrary: m)
  case (Cons k ks)
  have "set (map_keys (lower_key m k)) \<subseteq> set ks \<union> {j. ToLower j = j}"
    using lower_key_keys[of m k] Cons.prems by (auto split: if_splits)
  from Cons.IH[OF this] show ?case by simp
qed auto

lemma lower_keys_lower: "j \<in> set (map_keys (lower_keys m)) \<Longrightarrow> ToLower j = j"
  using lower_keys_lower_aux[of m "map_keys m"] by (simp add: lower_keys_def)

lemma foldl_lower_key_id:
  "\<forall>k \<in> set ks. ToLower k = k \<Longrightarrow> map_get (foldl lower_key m ks) = map_get m"
  by (induction ks arbitrary: m) (simp_all add: lower_key_lower)

lemma lower_keys_idem [simp]: "map_get (lower_keys (lower_keys m)) = map_get (lower_keys m)"
  unfolding lower_keys_def[of "lower_keys m"]
  by (rule foldl_lower_key_id) (blast intro: lower_keys_lower)

text \<open>Looking a header up as the matcher does, in the lower-cased map.\<close>

definition lower_get :: "headers \<Rightarrow> string \<Rightarrow> string list option" where
  "lower_get hs k = (case hs of None \<Rightarrow> None | Some m \<Rightarrow> map_get (lower_keys m) (ToLower k))"

definition header_matches :: "headers \<Rightarrow> string \<times> string list \<Rightarrow> bool" where
  "header_matches toMatch kv = (case kv of (k, vs) \<Rightarrow>
     (case lower_get toMatch k of None \<Rightarrow> False | Some tvs \<Rightarrow> values_match vs tvs))"

definition headers_match :: "headers \<Rightarrow> headers \<Rightarrow> bool" where
  "headers_match matchingHeaders toMatch =
     list_all (header_matches toMatch) (case matchingHeaders of None \<Rightarrow> [] | Some m \<Rightarrow> m)"

lemma lower_get_lower_keys [simp]: "lower_get (map_option lower_keys hs) = lower_get hs"
  by (rule ext) (cases hs, simp_all add: lower_get_def)

lemma lower_get_unfold:
  "(case map_option lower_keys hs of None \<Rightarrow> None | Some m \<Rightarrow> map_get m (ToLower k)) = lower_get hs k"
  by (cases hs) (simp_all add: lower_get_def)

lemma header_matches_lower_keys [simp]:
  "header_matches (map_option lower_keys hs) = header_matches hs"
  by (rule ext) (simp add: header_matches_def)

lemma header_loop_spec:
  "fst (header_loop mh hs) = list_all (header_matches hs) mh"
  "lower_get (snd (header_loop mh hs)) = lower_get hs"
proof (induction mh arbitrary: hs)
  case (Cons kv mh)
  obtain k vs where kv: "kv = (k, vs)" by (cases kv)
  { case 1 show ?case unfolding kv header_loop.simps Let_def lower_get_unfold
      using Cons.IH(1)[of "map_option lower_keys hs"]
      by (simp add: header_matches_def split: option.splits) }
  { case 2 show ?case unfolding kv header_loop.simps Let_def lower_get_unfold
      using Cons.IH(2)[of "map_option lower_keys hs"] by (simp split: option.splits) }
qed simp_all

lemma HeaderMatcher_fst: "fst (HeaderMatcher mh hs) = headers_match mh hs"
  by (simp add: HeaderMatcher_def headers_match_def header_loop_spec)

lemma HeaderMatcher_snd [simp]: "lower_get (snd (HeaderMatcher mh hs)) = lower_get hs"
  by (simp add: HeaderMatcher_def header_loop_spec)

lemma headers_match_None [simp]: "headers_match None hs"
  by (simp add: headers_match_def)

lemma headers_match_cong: "lower_get hs = lower_get hs' \<Longrightarrow> headers_match mh hs = headers_match mh hs'"
  by (simp add: headers_match_def header_matches_def[abs_def])

text \<open>
  When no two names of the request differ in case only, as in every request net/http parses, the
  lower-cased map holds exactly the request's headers under their lower-case names.
\<close>

lemma map_get_lower_key:
  "map_get m k = Some v \<Longrightarrow>
     map_get (lower_key m k) j = (if j = ToLower k then Some v else if j = k then None else map_get m j)"
  by (simp add: lower_key_def)

lemma foldl_lower_key_get:
  assumes "distinct (map ToLower ks)" and "\<forall>k \<in> set ks. map_get m k = Some (f k)"
    and "\<forall>j \<in> set (map_keys m). j \<notin> set ks \<longrightarrow> ToLower j \<notin> ToLower ` set ks"
  shows "(\<forall>k \<in> set ks. map_get (foldl lower_key m ks) (ToLower k) = Some (f k)) \<and>
    (\<forall>j. ToLower j \<notin> ToLower ` set ks \<longrightarrow> map_get (foldl lower_key m ks) j = map_get m j)"
  using assms
proof (induction ks arbitrary: m)
  case (Cons k ks)
  let ?m = "lower_key m k"
  have get: "map_get ?m j = (if j = ToLower k then Some (f k) else if j = k then None else map_get m j)"
    for j using Cons.prems(2) by (intro map_get_lower_key) simp
  have nin: "ToLower k \<notin> ToLower ` set ks" and dist: "distinct (map ToLower ks)"
    using Cons.prems(1) by auto
  have p2: "\<forall>k' \<in> set ks. map_get ?m k' = Some (f k')"
  proof
    fix k' assume k': "k' \<in> set ks"
    with nin have "ToLower k' \<noteq> ToLower k" by (metis image_eqI)
    then have "k' \<noteq> ToLower k" "k' \<noteq> k" by (metis ToLower_idem)+
    with Cons.prems(2) k' show "map_get ?m k' = Some (f k')" by (simp add: get)
  qed
  have p3: "\<forall>j \<in> set (map_keys ?m). j \<notin> set ks \<longrightarrow> ToLower j \<notin> ToLower ` set ks"
  proof (intro ballI impI)
    fix j assume j: "j \<in> set (map_keys ?m)" "j \<notin> set ks"
    then have "j = ToLower k \<or> (j \<in> set (map_keys m) \<and> j \<noteq> k)"
      using lower_key_keys[of m k] by (auto split: if_splits)
    then show "ToLower j \<notin> ToLower ` set ks"
      using nin j(2) Cons.prems(3) by auto
  qed
  from Cons.IH[OF dist p2 p3]
  have IH1: "\<forall>k \<in> set ks. map_get (foldl lower_key ?m ks) (ToLower k) = Some (f k)"
    and IH2: "\<forall>j. ToLower j \<notin> ToLower ` set ks \<longrightarrow> map_get (foldl lower_key ?m ks) j = map_get ?m j"
    by blast+
  from IH2 nin have "map_get (foldl lower_key ?m ks) (ToLower k) = Some (f k)" by (simp add: get)
  moreover have "map_get ?m j = map_get m j" if "ToLower j \<notin> ToLower ` set (k # ks)" for j
  proof -
    from that have "ToLower j \<noteq> ToLower k" by simp
    then have "j \<noteq> ToLower k" "j \<noteq> k" by (metis ToLower_idem)+
    then show ?thesis by (simp add: get)
  qed
  ultimately show ?case using IH1 IH2 by simp
qed simp

definition canonical_headers :: "headers \<Rightarrow> bool" where
  "canonical_headers hs = (case hs of None \<Rightarrow> True | Some m \<Rightarrow> distinct (map ToLower (map_keys m)))"

lemma canonical_wf: "canonical_headers (Some m) \<Longrightarrow> wf_map m"
  by (metis canonical_headers_def distinct_map map_keys_def option.simps(5) wf_map_def)

lemma lower_get_canonical:
  assumes "canonical_headers (Some m)"
  shows "lower_get (Some m) k = Some vs \<longleftrightarrow> (\<exists>(j, ws) \<in> set m. ToLower j = ToLower k \<and> ws = vs)"
proof -
  note wf = canonical_wf[OF assms]
  have g: "\<forall>j \<in> set (map_keys m). map_get m j = Some (the (map_get m j))"
    using map_get_Some_iff[of m] by force
  have dist: "distinct (map ToLower (map_keys m))" using assms by (simp add: canonical_headers_def)
  have low: "(\<forall>j \<in> set (map_keys m). map_get (lower_keys m) (ToLower j) = Some (the (map_get m j))) \<and>
    (\<forall>j. ToLower j \<notin> ToLower ` set (map_keys m) \<longrightarrow> map_get (lower_keys m) j = map_get m j)"
    unfolding lower_keys_def using dist g by (intro foldl_lower_key_get) auto
  then have low': "map_get (lower_keys m) (ToLower j) = map_get m j" if "j \<in> set (map_keys m)" for j
    using g that by simp
  show ?thesis
  proof
    assume h: "lower_get (Some m) k = Some vs"
    then have k: "ToLower k \<in> set (map_keys (lower_keys m))"
      using map_get_Some_iff by (fastforce simp: lower_get_def)
    have "\<exists>j \<in> set (map_keys m). ToLower j = ToLower k"
    proof (rule ccontr)
      assume no: "\<not> ?thesis"
      have "map_get (lower_keys m) (ToLower k) = map_get m (ToLower k)"
        using conjunct2[OF low, THEN spec, of "ToLower k"] no by (fastforce simp: image_iff)
      also have "\<dots> = None" using no by (metis ToLower_idem map_get_None_iff)
      finally show False using k map_get_None_iff by fastforce
    qed
    then obtain j where "j \<in> set (map_keys m)" "ToLower j = ToLower k" by blast
    with low'[of j] h have "map_get m j = Some vs" "ToLower j = ToLower k" by (auto simp: lower_get_def)
    then have "(j, vs) \<in> set m" by (blast intro: map_get_Some_mem)
    with \<open>ToLower j = ToLower k\<close> show "\<exists>(j, ws) \<in> set m. ToLower j = ToLower k \<and> ws = vs"
      by (intro bexI[of _ "(j, vs)"]) simp_all
  next
    assume "\<exists>(j, ws) \<in> set m. ToLower j = ToLower k \<and> ws = vs"
    then obtain j where j: "(j, vs) \<in> set m" "ToLower j = ToLower k" by auto
    then have "j \<in> set (map_keys m)" by (force simp: map_keys_def)
    with low'[of j] j map_get_eq_SomeI[OF wf j(1)] show "lower_get (Some m) k = Some vs"
      by (simp add: lower_get_def)
  qed
qed

text \<open>
  C10: a header matcher accepts a request exactly when, for every header it names, the
  request has a header of that name up to case, and every pattern listed for it matches one of the
  values, up to case, as a glob.
\<close>

theorem HeaderMatcher_correct:
  assumes "canonical_headers (Some hs)"
  shows "fst (HeaderMatcher (Some mh) (Some hs)) \<longleftrightarrow>
    (\<forall>(k, patterns) \<in> set mh. \<exists>(j, values) \<in> set hs. ToLower j = ToLower k \<and>
       (\<forall>p \<in> set patterns. \<exists>v \<in> set values. glob_language (ToLower p) (ToLower v)))"
proof -
  have "header_matches (Some hs) (k, patterns) \<longleftrightarrow>
      (\<exists>(j, values) \<in> set hs. ToLower j = ToLower k \<and>
         (\<forall>p \<in> set patterns. \<exists>v \<in> set values. glob_language (ToLower p) (ToLower v)))" for k patterns
  proof -
    have "header_matches (Some hs) (k, patterns) \<longleftrightarrow>
        (\<exists>tvs. lower_get (Some hs) k = Some tvs \<and> values_match patterns tvs)"
      by (simp add: header_matches_def split: option.splits)
    then show ?thesis
      by (fastforce simp: lower_get_canonical[OF assms] values_match_def list_all_iff list_ex_iff
          Glob_language)
  qed
  then show ?thesis by (auto simp: HeaderMatcher_fst headers_match_def list_all_iff)
qed

theorem HeaderMatcher_correct_witness:
  "fst (HeaderMatcher (Some [(''X-Auth'', [''tok*''])])
     (Some [(''x-auth'', [''Token 1'']), (''Accept'', [''b''])]))"
proof -
  have c: "canonical_headers (Some [(''x-auth'', [''Token 1'']), (''Accept'', [''b''])])" by code_simp
  show ?thesis unfolding HeaderMatcher_correct[OF c] by code_simp
qed

section \<open>Request matchers\<close>

fun match_loop :: "libs \<Rightarrow> bool \<Rightarrow> RequestMatcherResponsePair list \<Rightarrow> RequestDetails \<Rightarrow>
  RequestMatcherResponsePair option \<times> RequestDetails" where
  "match_loop L webserver [] req = (None, req)"
| "match_loop L webserver (matchingPair # pairs) req =
     (let requestMatcher = mp_RequestMatcher matchingPair in
      if \<not> FieldMatcher L (rm_Body requestMatcher) (rq_Body req) then match_loop L webserver pairs req
      else if \<not> webserver \<and> \<not> FieldMatcher L (rm_Destination requestMatcher) (rq_Destination req)
      then match_loop L webserver pairs req
      else if \<not> FieldMatcher L (rm_Path requestMatcher) (rq_Path req) then match_loop L webserver pairs req
      else if \<not> FieldMatcher L (rm_Query requestMatcher) (rq_Query req) then match_loop L webserver pairs req
      else if \<not> FieldMatcher L (rm_Method requestMatcher) (rq_Method req) then match_loop L webserver pairs req
      else (case HeaderMatcher (rm_Headers requestMatcher) (rq_Headers req) of (ok, hs) \<Rightarrow>
        let req' = req\<lparr>rq_Headers := hs\<rparr> in
        if \<not> ok then match_loop L webserver pairs req'
        else (Some \<lparr>mp_RequestMatcher = requestMatcher, mp_Response = mp_Response matchingPair\<rparr>, req')))"

text \<open>
  The function and the headers of the request as it leaves them: the map is shared with the
  caller, so the renaming of its keys stays.
\<close>

definition RequestMatcher_fn :: "libs \<Rightarrow> RequestDetails \<Rightarrow> bool \<Rightarrow> Simulation \<Rightarrow>
  (string + RequestMatcherResponsePair) \<times> RequestDetails" where
  "RequestMatcher_fn L req webserver simulation =
     (case match_loop L webserver (si_MatchingPairs simulation) req of
        (None, req') \<Rightarrow> (Inl ''No match found'', req')
      | (Some pair, req') \<Rightarrow> (Inr pair, req'))"

definition fields_match :: "libs \<Rightarrow> bool \<Rightarrow> RequestDetails \<Rightarrow> RequestMatcherResponsePair \<Rightarrow> bool" where
  "fields_match L webserver req p =
     (let m = mp_RequestMatcher p in
      FieldMatcher L (rm_Body m) (rq_Body req) \<and>
      (webserver \<or> FieldMatcher L (rm_Destination m) (rq_Destination req)) \<and>
      FieldMatcher L (rm_Path m) (rq_Path req) \<and> FieldMatcher L (rm_Query m) (rq_Query req) \<and>
      FieldMatcher L (rm_Method m) (rq_Method req))"

definition pair_matches :: "libs \<Rightarrow> bool \<Rightarrow> RequestDetails \<Rightarrow> RequestMatcherResponsePair \<Rightarrow> bool" where
  "pair_matches L webserver req p =
     (fields_match L webserver req p \<and> headers_match (rm_Headers (mp_RequestMatcher p)) (rq_Headers req))"

lemma match_loop_Cons:
  "match_loop L webserver (p # ps) req =
     (if fields_match L webserver req p then
        (case HeaderMatcher (rm_Headers (mp_RequestMatcher p)) (rq_Headers req) of (ok, hs) \<Rightarrow>
           if ok then (Some p, req\<lparr>rq_Headers := hs\<rparr>)
           else match_loop L webserver ps (req\<lparr>rq_Headers := hs\<rparr>))
      else match_loop L webserver ps req)"
proof -
  have "\<lparr>mp_RequestMatcher = mp_RequestMatcher p, mp_Response = mp_Response p\<rparr> = p" by simp
  then show ?thesis by (auto simp: fields_match_def Let_def split: prod.split)
qed

declare match_loop.simps(2) [simp del]

lemma fields_match_headers [simp]:
  "fields_match L webserver (req\<lparr>rq_Headers := hs\<rparr>) = fields_match L webserver req"
  by (rule ext) (simp add: fields_match_def)

lemma pair_matches_headers:
  "lower_get hs = lower_get (rq_Headers req) \<Longrightarrow>
     pair_matches L webserver (req\<lparr>rq_Headers := hs\<rparr>) = pair_matches L webserver req"
  by (rule ext) (simp add: pair_matches_def headers_match_cong[of hs])

lemma HeaderMatcher_split:
  obtains ok hs where "HeaderMatcher mh h = (ok, hs)" "ok = headers_match mh h" "lower_get hs = lower_get h"
  using HeaderMatcher_fst[of mh h] HeaderMatcher_snd[of mh h] by (cases "HeaderMatcher mh h") auto

lemma match_loop_find: "fst (match_loop L webserver ps req) = find (pair_matches L webserver req) ps"
proof (induction ps arbitrary: req)
  case (Cons p ps)
  from HeaderMatcher_split obtain ok hs
    where hm: "HeaderMatcher (rm_Headers (mp_RequestMatcher p)) (rq_Headers req) = (ok, hs)"
      "ok = headers_match (rm_Headers (mp_RequestMatcher p)) (rq_Headers req)"
      "lower_get hs = lower_get (rq_Headers req)" by metis
  show ?case
    using Cons.IH pair_matches_headers[OF hm(3)]
    by (simp add: match_loop_Cons hm(1)) (simp add: pair_matches_def hm(2))
qed simp

lemma match_loop_req:
  "\<exists>hs. snd (match_loop L webserver ps req) = req\<lparr>rq_Headers := hs\<rparr> \<and> lower_get hs = lower_get (rq_Headers req)"
proof (induction ps arbitrary: req)
  case Nil
  show ?case by (intro exI[of _ "rq_Headers req"]) simp
next
  case (Cons p ps)
  from HeaderMatcher_split obtain ok hs
    where hm: "HeaderMatcher (rm_Headers (mp_RequestMatcher p)) (rq_Headers req) = (ok, hs)"
      "lower_get hs = lower_get (rq_Headers req)" by metis
  show ?case using Cons.IH[of req] Cons.IH[of "req\<lparr>rq_Headers := hs\<rparr>"] hm(2)
    by (auto simp: match_loop_Cons hm(1))
qed


lemma RequestMatcher_snd:
  "\<exists>hs. snd (RequestMatcher_fn L req webserver simulation) = req\<lparr>rq_Headers := hs\<rparr> \<and>
     lower_get hs = lower_get (rq_Headers req)"
  using match_loop_req[of L webserver "si_MatchingPairs simulation" req]
  by (auto simp: RequestMatcher_fn_def split: prod.splits option.splits)

lemma pair_matches_same_key_fields:
  "\<lbrakk>rq_Destination r = rq_Destination r'; rq_Path r = rq_Path r'; rq_Method r = rq_Method r';
    rq_Query r = rq_Query r'; rq_Body r = rq_Body r'; rm_Headers (mp_RequestMatcher p) = None \<or>
    rm_Headers (mp_RequestMatcher p) = Some []\<rbrakk> \<Longrightarrow>
   pair_matches L webserver r p = pair_matches L webserver r' p"
  by (auto simp: pair_matches_def fields_match_def Let_def headers_match_def)

end
