(* ===== verification/Cache.thy ===== *)
theory Cache
  imports Prelude
begin

text \<open>
  \<^verbatim>\<open>core/cache\<close>: the key-value stores behind the request cache, the metadata and the users. The
  interface \<^verbatim>\<open>cache.Cache\<close> is the locale \<open>cache\<close>: its laws are about the keys and the non-empty
  values the program stores. \<^verbatim>\<open>InMemoryCache\<close> (\<^verbatim>\<open>memory_cache.go\<close>) and \<^verbatim>\<open>BoltCache\<close>
  (\<^verbatim>\<open>boltdb_cache.go\<close>) provide it; they part where a value is empty, a bucket is missing or a key
  is not accepted, which the error lemmas write out.

  The locks of the in-memory cache make each operation atomic, so an operation is one step from
  state to state.
\<close>

type_synonym 'a result = "string + 'a"

section \<open>The interface\<close>

text \<open>What a lookup finds; the texts of the errors are the provider's own.\<close>

fun found :: "'a result \<Rightarrow> 'a option" where
  "found (Inl e) = None"
| "found (Inr v) = Some v"

lemma found_Some_iff: "found r = Some v \<longleftrightarrow> r = Inr v"
  by (cases r) auto

locale cache =
  fixes Set :: "'c \<Rightarrow> string \<Rightarrow> string \<Rightarrow> unit result \<times> 'c"
    and Get :: "'c \<Rightarrow> string \<Rightarrow> string result"
    and Delete :: "'c \<Rightarrow> string \<Rightarrow> unit result \<times> 'c"
    and DeleteData :: "'c \<Rightarrow> unit result \<times> 'c"
    and GetAllEntries :: "'c \<Rightarrow> string gomap result"
    and RecordsCount :: "'c \<Rightarrow> int result"
    and accepts :: "string \<Rightarrow> string \<Rightarrow> bool"
    and invar :: "'c \<Rightarrow> bool"
  assumes Set_ok: "invar c \<Longrightarrow> accepts k v \<Longrightarrow> fst (Set c k v) = Inr ()"
    and Set_invar: "invar c \<Longrightarrow> invar (snd (Set c k v))"
    and Get_Set: "invar c \<Longrightarrow> accepts k v \<Longrightarrow>
      found (Get (snd (Set c k v)) j) = (if j = k then Some v else found (Get c j))"
    and Delete_invar: "invar c \<Longrightarrow> invar (snd (Delete c k))"
    and Get_Delete: "invar c \<Longrightarrow>
      found (Get (snd (Delete c k)) j) = (if j = k then None else found (Get c j))"
    and DeleteData_invar: "invar c \<Longrightarrow> invar (snd (DeleteData c))"
    and Get_DeleteData: "invar c \<Longrightarrow> found (Get (snd (DeleteData c)) k) = None"
    and GetAllEntries_ok: "invar c \<Longrightarrow> \<exists>m. GetAllEntries c = Inr m \<and> wf_map m \<and>
      RecordsCount c = Inr (int (length m)) \<and>
      (\<forall>k v. v \<noteq> [] \<longrightarrow> (map_get m k = Some v \<longleftrightarrow> found (Get c k) = Some v))"
begin

lemma Set_overwrites:
  "invar c \<Longrightarrow> accepts k v \<Longrightarrow> accepts k w \<Longrightarrow>
     found (Get (snd (Set (snd (Set c k v)) k w)) j) = found (Get (snd (Set c k w)) j)"
  by (simp add: Get_Set Set_invar)

lemma Set_commutes:
  "invar c \<Longrightarrow> k \<noteq> k' \<Longrightarrow> accepts k v \<Longrightarrow> accepts k' v' \<Longrightarrow>
     found (Get (snd (Set (snd (Set c k v)) k' v')) j) =
     found (Get (snd (Set (snd (Set c k' v')) k v)) j)"
  by (simp add: Get_Set Set_invar)

text \<open>A whole run of insertions: the last value stored under a key is the one read back.\<close>

lemma Get_Sets:
  "invar c \<Longrightarrow> \<forall>(k, v) \<in> set kvs. accepts k v \<Longrightarrow>
     found (Get (foldl (\<lambda>c (k, v). snd (Set c k v)) c kvs) j) =
       (case map_of (rev kvs) j of None \<Rightarrow> found (Get c j) | Some v \<Rightarrow> Some v)"
proof (induction kvs arbitrary: c)
  case (Cons kv kvs)
  obtain k v where kv: "kv = (k, v)" by (cases kv)
  with Cons.prems Cons.IH[of "snd (Set c k v)"] show ?case
    by (auto simp: Set_invar Get_Set map_add_def split: option.splits)
qed simp

end

section \<open>The in-memory cache\<close>

record InMemoryCache =
  elements :: "string gomap"

definition NewInMemoryCache :: InMemoryCache where
  "NewInMemoryCache = \<lparr>elements = []\<rparr>"

definition Mem_Set :: "InMemoryCache \<Rightarrow> string \<Rightarrow> string \<Rightarrow> unit result \<times> InMemoryCache" where
  "Mem_Set c key value = (Inr (), c\<lparr>elements := map_put key value (elements c)\<rparr>)"

text \<open>A missing key and an empty value both read as the empty slice, and both are an error.\<close>

definition Mem_Get :: "InMemoryCache \<Rightarrow> string \<Rightarrow> string result" where
  "Mem_Get c key =
     (let bytes = map_index (elements c) key in
      if length bytes = 0 then Inl (''key '' @ key @ '' not found'') else Inr bytes)"

definition Mem_GetAllValues :: "InMemoryCache \<Rightarrow> string list result" where
  "Mem_GetAllValues c = Inr (map snd (elements c))"

definition Mem_GetAllEntries :: "InMemoryCache \<Rightarrow> string gomap result" where
  "Mem_GetAllEntries c = Inr (foldl (\<lambda>dest (k, v). map_put k v dest) [] (elements c))"

definition Mem_RecordsCount :: "InMemoryCache \<Rightarrow> int result" where
  "Mem_RecordsCount c = Inr (int (length (elements c)))"

definition Mem_DeleteData :: "InMemoryCache \<Rightarrow> unit result \<times> InMemoryCache" where
  "Mem_DeleteData c = (Inr (), c\<lparr>elements := []\<rparr>)"

definition Mem_GetAllKeys :: "InMemoryCache \<Rightarrow> bool gomap result" where
  "Mem_GetAllKeys c = Inr (foldl (\<lambda>keys (k, v). map_put k True keys) [] (elements c))"

definition Mem_Delete :: "InMemoryCache \<Rightarrow> string \<Rightarrow> unit result \<times> InMemoryCache" where
  "Mem_Delete c key = (Inr (), c\<lparr>elements := map_del key (elements c)\<rparr>)"

definition wf_memory :: "InMemoryCache \<Rightarrow> bool" where
  "wf_memory c = wf_map (elements c)"

lemma foldl_map_put_get:
  "map_get (foldl (\<lambda>dest (k, v). map_put k v dest) d m) j =
     (case map_get (rev m) j of None \<Rightarrow> map_get d j | Some v \<Rightarrow> Some v)"
  by (induction m arbitrary: d) (auto simp: map_get_def map_add_def map_put_def update_conv' split: option.splits)

lemma map_get_rev: "wf_map m \<Longrightarrow> map_get (rev m) k = map_get m k"
  using map_of_inject_set[of "rev m" m] by (simp add: map_get_def wf_map_def rev_map[symmetric])

lemma wf_foldl_map_put: "wf_map d \<Longrightarrow> wf_map (foldl (\<lambda>dest (k, v). map_put k v dest) d m)"
  by (induction m arbitrary: d) (auto split: prod.splits)

lemma copy_map:
  assumes "wf_map m"
  shows "map_get (foldl (\<lambda>dest (k, v). map_put k v dest) [] m) k = map_get m k"
    and "length (foldl (\<lambda>dest (k, v). map_put k v dest) [] m) = length m"
proof -
  let ?n = "foldl (\<lambda>dest (k, v). map_put k v dest) [] m"
  have get: "map_get ?n k = map_get m k" for k
    by (simp add: foldl_map_put_get map_get_rev[OF assms] split: option.splits)
  then show "map_get ?n k = map_get m k" .
  from get have "map_equal ?n m"
    using map_equal_iff[OF wf_foldl_map_put[OF wf_map_Nil] assms] by (auto simp: map_get_def)
  then show "length ?n = length m" by (simp add: map_equal_def)
qed

definition accepts_memory :: "string \<Rightarrow> string \<Rightarrow> bool" where
  "accepts_memory k v = (v \<noteq> [])"

interpretation memory: cache Mem_Set Mem_Get Mem_Delete Mem_DeleteData Mem_GetAllEntries
  Mem_RecordsCount accepts_memory wf_memory
  by unfold_locales
    (auto simp: accepts_memory_def wf_memory_def Mem_Set_def Mem_Get_def Mem_Delete_def
      Mem_DeleteData_def Mem_GetAllEntries_def Mem_RecordsCount_def map_index_def Let_def
      copy_map wf_foldl_map_put split: option.splits)

lemma Mem_Get_empty_value: "Mem_Get (snd (Mem_Set c k [])) k = Inl (''key '' @ k @ '' not found'')"
  by (simp add: Mem_Get_def Mem_Set_def map_index_def)

section \<open>The bolt cache\<close>

text \<open>
  A bolt database maps bucket names to buckets; a bucket is kept sorted by key, which is the order
  a cursor visits it in. The operations of a bucket are those of the vendored library
  \<^verbatim>\<open>github.com/boltdb/bolt\<close> that the cache calls, with the errors its \<^verbatim>\<open>Put\<close>,
  \<^verbatim>\<open>CreateBucket\<close> and \<^verbatim>\<open>DeleteBucket\<close> return for a key that is empty or longer than 32768 bytes,
  a value longer than 2147483646 bytes, an empty bucket name and a missing bucket. An
  \<^verbatim>\<open>Update\<close> that returns an error rolls its transaction back. Values are held by length only
  where the limit is tested.
\<close>

record bolt_db =
  db_buckets :: "string gomap gomap"

record BoltCache =
  DS :: bolt_db
  CurrentBucket :: string

definition ErrKeyRequired :: string where "ErrKeyRequired = ''key required''"
definition ErrKeyTooLarge :: string where "ErrKeyTooLarge = ''key too large''"
definition ErrValueTooLarge :: string where "ErrValueTooLarge = ''value too large''"
definition ErrBucketNameRequired :: string where "ErrBucketNameRequired = ''bucket name required''"
definition ErrBucketNotFound :: string where "ErrBucketNotFound = ''bucket not found''"

definition MaxKeySize :: int where "MaxKeySize = 32768"
definition MaxValueSize :: int where "MaxValueSize = 2147483646"

definition tx_Bucket :: "bolt_db \<Rightarrow> string \<Rightarrow> string gomap option" where
  "tx_Bucket db name = map_get (db_buckets db) name"

definition CreateBucketIfNotExists :: "bolt_db \<Rightarrow> string \<Rightarrow> (string gomap \<times> bolt_db) result" where
  "CreateBucketIfNotExists db name =
     (case tx_Bucket db name of
        Some b \<Rightarrow> Inr (b, db)
      | None \<Rightarrow> if length name = 0 then Inl ErrBucketNameRequired
                else Inr ([], db\<lparr>db_buckets := map_put name [] (db_buckets db)\<rparr>))"

fun sorted_put :: "string \<Rightarrow> string \<Rightarrow> string gomap \<Rightarrow> string gomap" where
  "sorted_put k v [] = [(k, v)]"
| "sorted_put k v ((j, w) # m) =
     (if k < j then (k, v) # (j, w) # m
      else if k = j then (k, v) # m
      else (j, w) # sorted_put k v m)"

definition bucket_Put :: "string \<Rightarrow> string \<Rightarrow> string gomap \<Rightarrow> string gomap result" where
  "bucket_Put key value b =
     (if length key = 0 then Inl ErrKeyRequired
      else if int (length key) > MaxKeySize then Inl ErrKeyTooLarge
      else if int (length value) > MaxValueSize then Inl ErrValueTooLarge
      else Inr (sorted_put key value b))"

definition save_bucket :: "string \<Rightarrow> string gomap \<Rightarrow> bolt_db \<Rightarrow> bolt_db" where
  "save_bucket name b db = db\<lparr>db_buckets := map_put name b (db_buckets db)\<rparr>"

definition Bolt_Set :: "BoltCache \<Rightarrow> string \<Rightarrow> string \<Rightarrow> unit result \<times> BoltCache" where
  "Bolt_Set c key value =
     (case CreateBucketIfNotExists (DS c) (CurrentBucket c) of
        Inl err \<Rightarrow> (Inl err, c)
      | Inr (b, db) \<Rightarrow> (case bucket_Put key value b of
          Inl err \<Rightarrow> (Inl err, c)
        | Inr b' \<Rightarrow> (Inr (), c\<lparr>DS := save_bucket (CurrentBucket c) b' db\<rparr>)))"

definition Bolt_Get :: "BoltCache \<Rightarrow> string \<Rightarrow> string result" where
  "Bolt_Get c key =
     (case tx_Bucket (DS c) (CurrentBucket c) of
        None \<Rightarrow> Inl (''Bucket '' @ CurrentBucket c @ '' not found!'')
      | Some bucket \<Rightarrow> (case map_get bucket key of
          None \<Rightarrow> Inl (''key '' @ key @ '' not found'')
        | Some val \<Rightarrow> Inr val))"

definition Bolt_GetAllValues :: "BoltCache \<Rightarrow> string list result" where
  "Bolt_GetAllValues c = Inr
     (case tx_Bucket (DS c) (CurrentBucket c) of None \<Rightarrow> [] | Some b \<Rightarrow> map snd b)"

text \<open>A missing bucket gives the nil map, which reads as an empty one.\<close>

definition Bolt_GetAllEntries :: "BoltCache \<Rightarrow> string gomap result" where
  "Bolt_GetAllEntries c = Inr
     (case tx_Bucket (DS c) (CurrentBucket c) of
        None \<Rightarrow> [] | Some b \<Rightarrow> foldl (\<lambda>values (k, v). map_put k v values) [] b)"

definition Bolt_RecordsCount :: "BoltCache \<Rightarrow> int result" where
  "Bolt_RecordsCount c = Inr
     (case tx_Bucket (DS c) (CurrentBucket c) of None \<Rightarrow> 0 | Some b \<Rightarrow> int (length b))"

definition Bolt_Delete :: "BoltCache \<Rightarrow> string \<Rightarrow> unit result \<times> BoltCache" where
  "Bolt_Delete c key =
     (case CreateBucketIfNotExists (DS c) (CurrentBucket c) of
        Inl err \<Rightarrow> (Inl err, c)
      | Inr (b, db) \<Rightarrow> (Inr (), c\<lparr>DS := save_bucket (CurrentBucket c) (map_del key b) db\<rparr>))"

definition DeleteBucket :: "BoltCache \<Rightarrow> string \<Rightarrow> unit result \<times> BoltCache" where
  "DeleteBucket c name =
     (case tx_Bucket (DS c) name of
        None \<Rightarrow> (Inl ErrBucketNotFound, c)
      | Some b \<Rightarrow> (Inr (), c\<lparr>DS := (DS c)\<lparr>db_buckets := map_del name (db_buckets (DS c))\<rparr>\<rparr>))"

definition Bolt_DeleteData :: "BoltCache \<Rightarrow> unit result \<times> BoltCache" where
  "Bolt_DeleteData c = DeleteBucket c (CurrentBucket c)"

definition Bolt_GetAllKeys :: "BoltCache \<Rightarrow> bool gomap result" where
  "Bolt_GetAllKeys c = Inr
     (case tx_Bucket (DS c) (CurrentBucket c) of
        None \<Rightarrow> [] | Some b \<Rightarrow> foldl (\<lambda>keys (k, v). map_put k True keys) [] b)"

definition NewBoltDBCache :: "bolt_db \<Rightarrow> string \<Rightarrow> BoltCache" where
  "NewBoltDBCache db bucket = \<lparr>DS = db, CurrentBucket = bucket\<rparr>"

definition sorted_bucket :: "string gomap \<Rightarrow> bool" where
  "sorted_bucket b = sorted_wrt (<) (map fst b)"

definition wf_bolt :: "BoltCache \<Rightarrow> bool" where
  "wf_bolt c = (CurrentBucket c \<noteq> [] \<and>
     (\<forall>b. tx_Bucket (DS c) (CurrentBucket c) = Some b \<longrightarrow> sorted_bucket b))"

lemma map_get_sorted_put: "map_get (sorted_put k v m) j = (if j = k then Some v else map_get m j)"
  by (induction k v m rule: sorted_put.induct) (auto simp: map_get_def)

lemma keys_sorted_put: "fst ` set (sorted_put k v m) = insert k (fst ` set m)"
  by (induction k v m rule: sorted_put.induct) auto

lemma sorted_put_sorted: "sorted_bucket m \<Longrightarrow> sorted_bucket (sorted_put k v m)"
proof (induction k v m rule: sorted_put.induct)
  case (2 k v j w m)
  then show ?case using keys_sorted_put[of k v m] by (auto simp: sorted_bucket_def)
qed (simp add: sorted_bucket_def)

lemma sorted_bucket_wf: "sorted_bucket b \<Longrightarrow> wf_map b"
  by (simp add: sorted_bucket_def wf_map_def strict_sorted_iff)

lemma sorted_bucket_del: "sorted_bucket b \<Longrightarrow> sorted_bucket (map_del k b)"
  by (simp add: sorted_bucket_def map_del_def delete_keys removeAll_filter_not_eq sorted_wrt_filter)

definition accepts_bolt :: "string \<Rightarrow> string \<Rightarrow> bool" where
  "accepts_bolt k v = (k \<noteq> [] \<and> int (length k) \<le> MaxKeySize \<and> v \<noteq> [] \<and> int (length v) \<le> MaxValueSize)"

lemmas bolt_defs = Bolt_Set_def Bolt_Get_def Bolt_Delete_def Bolt_DeleteData_def DeleteBucket_def
  CreateBucketIfNotExists_def bucket_Put_def save_bucket_def tx_Bucket_def

lemma Bolt_Set_wf: "wf_bolt c \<Longrightarrow> wf_bolt (snd (Bolt_Set c k v))"
  by (auto simp: wf_bolt_def bolt_defs sorted_put_sorted split: option.splits sum.splits if_splits)
    (simp_all add: sorted_bucket_def)

lemma Bolt_Delete_wf: "wf_bolt c \<Longrightarrow> wf_bolt (snd (Bolt_Delete c k))"
  by (auto simp: wf_bolt_def bolt_defs sorted_bucket_del split: option.splits)
    (simp_all add: sorted_bucket_def map_del_def)

lemma Bolt_DeleteData_wf: "wf_bolt c \<Longrightarrow> wf_bolt (snd (Bolt_DeleteData c))"
  by (auto simp: wf_bolt_def bolt_defs split: option.splits)

lemma Bolt_entries:
  assumes "wf_bolt c" "tx_Bucket (DS c) (CurrentBucket c) = Some b"
  shows "map_get (foldl (\<lambda>values (k, v). map_put k v values) [] b) k = map_get b k"
    and "length (foldl (\<lambda>values (k, v). map_put k v values) [] b) = length b"
  using assms copy_map[OF sorted_bucket_wf, of b] by (simp_all add: wf_bolt_def)

lemma map_get_single [simp]: "map_get [(k, v)] j = (if j = k then Some v else None)"
  by (simp add: map_get_def)

lemma Bolt_Set_ok: "wf_bolt c \<Longrightarrow> accepts_bolt k v \<Longrightarrow> fst (Bolt_Set c k v) = Inr ()"
  by (auto simp: wf_bolt_def accepts_bolt_def bolt_defs split: option.splits)

lemma Bolt_Get_Set:
  "wf_bolt c \<Longrightarrow> accepts_bolt k v \<Longrightarrow>
     found (Bolt_Get (snd (Bolt_Set c k v)) j) = (if j = k then Some v else found (Bolt_Get c j))"
  by (auto simp: wf_bolt_def accepts_bolt_def bolt_defs map_get_sorted_put split: option.splits)

lemma Bolt_Get_Delete:
  "wf_bolt c \<Longrightarrow>
     found (Bolt_Get (snd (Bolt_Delete c k)) j) = (if j = k then None else found (Bolt_Get c j))"
  by (auto simp: wf_bolt_def bolt_defs split: option.splits)

lemma Bolt_Get_DeleteData: "found (Bolt_Get (snd (Bolt_DeleteData c)) k) = None"
  by (auto simp: bolt_defs split: option.splits)

lemma Bolt_GetAllEntries_ok:
  assumes "wf_bolt c"
  shows "\<exists>m. Bolt_GetAllEntries c = Inr m \<and> wf_map m \<and> Bolt_RecordsCount c = Inr (int (length m)) \<and>
    (\<forall>k v. v \<noteq> [] \<longrightarrow> (map_get m k = Some v \<longleftrightarrow> found (Bolt_Get c k) = Some v))"
proof (cases "tx_Bucket (DS c) (CurrentBucket c)")
  case None
  then show ?thesis by (simp add: Bolt_GetAllEntries_def Bolt_RecordsCount_def Bolt_Get_def)
next
  case (Some b)
  with Bolt_entries[OF assms Some] show ?thesis
    by (simp add: Bolt_GetAllEntries_def Bolt_RecordsCount_def Bolt_Get_def wf_foldl_map_put
        split: option.splits)
qed

interpretation bolt: cache Bolt_Set Bolt_Get Bolt_Delete Bolt_DeleteData Bolt_GetAllEntries
  Bolt_RecordsCount accepts_bolt wf_bolt
  by unfold_locales
    (simp_all add: Bolt_Set_ok Bolt_Set_wf Bolt_Get_Set Bolt_Delete_wf Bolt_Get_Delete
      Bolt_DeleteData_wf Bolt_Get_DeleteData Bolt_GetAllEntries_ok)

section \<open>The two stores agree\<close>

text \<open>A run of insertions into a store, as the program makes them.\<close>

definition mem_sets :: "InMemoryCache \<Rightarrow> (string \<times> string) list \<Rightarrow> InMemoryCache" where
  "mem_sets c kvs = foldl (\<lambda>c (k, v). snd (Mem_Set c k v)) c kvs"

definition bolt_sets :: "BoltCache \<Rightarrow> (string \<times> string) list \<Rightarrow> BoltCache" where
  "bolt_sets c kvs = foldl (\<lambda>c (k, v). snd (Bolt_Set c k v)) c kvs"



text \<open>
  Where the two stores part: an empty value is a missing key to the in-memory cache, a value to
  bolt; wiping a bucket that was never written to is an error to bolt only.
\<close>

lemma stores_differ:
  "found (Mem_Get (snd (Mem_Set NewInMemoryCache k [])) k) = None"
  "fst (Mem_DeleteData NewInMemoryCache) = Inr ()"
  "fst (Bolt_DeleteData (NewBoltDBCache \<lparr>db_buckets = []\<rparr> bucket)) = Inl ErrBucketNotFound"
  by (simp_all add: Mem_Get_empty_value Mem_DeleteData_def bolt_defs NewBoltDBCache_def)

end
