(* ===== verification/CacheMatcher.thy ===== *)
theory CacheMatcher
  imports Matching Cache
begin

text \<open>
  \<^verbatim>\<open>core/matching/cache_matcher.go\<close>: the cache in front of the request matcher. An entry is the
  gob encoding of a \<^verbatim>\<open>models.CachedResponse\<close> (\<^verbatim>\<open>core/models/cached_response.go\<close>) under the hash of
  the request. The request cache is any \<^verbatim>\<open>cache.Cache\<close>, here either of the two providers; the
  locale of the interface is interpreted on the dispatch between them.
\<close>

section \<open>A cache of either kind\<close>

datatype store = Memory InMemoryCache | Bolt BoltCache

fun store_Set :: "store \<Rightarrow> string \<Rightarrow> string \<Rightarrow> unit result \<times> store" where
  "store_Set (Memory c) k v = apsnd Memory (Mem_Set c k v)"
| "store_Set (Bolt c) k v = apsnd Bolt (Bolt_Set c k v)"

fun store_Get :: "store \<Rightarrow> string \<Rightarrow> string result" where
  "store_Get (Memory c) k = Mem_Get c k"
| "store_Get (Bolt c) k = Bolt_Get c k"

fun store_Delete :: "store \<Rightarrow> string \<Rightarrow> unit result \<times> store" where
  "store_Delete (Memory c) k = apsnd Memory (Mem_Delete c k)"
| "store_Delete (Bolt c) k = apsnd Bolt (Bolt_Delete c k)"

fun store_DeleteData :: "store \<Rightarrow> unit result \<times> store" where
  "store_DeleteData (Memory c) = apsnd Memory (Mem_DeleteData c)"
| "store_DeleteData (Bolt c) = apsnd Bolt (Bolt_DeleteData c)"

fun store_GetAllEntries :: "store \<Rightarrow> string gomap result" where
  "store_GetAllEntries (Memory c) = Mem_GetAllEntries c"
| "store_GetAllEntries (Bolt c) = Bolt_GetAllEntries c"

fun store_GetAllValues :: "store \<Rightarrow> string list result" where
  "store_GetAllValues (Memory c) = Mem_GetAllValues c"
| "store_GetAllValues (Bolt c) = Bolt_GetAllValues c"

fun store_RecordsCount :: "store \<Rightarrow> int result" where
  "store_RecordsCount (Memory c) = Mem_RecordsCount c"
| "store_RecordsCount (Bolt c) = Bolt_RecordsCount c"

fun wf_store :: "store \<Rightarrow> bool" where
  "wf_store (Memory c) = wf_memory c"
| "wf_store (Bolt c) = wf_bolt c"

lemma accepts_bolt_memory: "accepts_bolt k v \<Longrightarrow> accepts_memory k v"
  by (simp add: accepts_bolt_def accepts_memory_def)

lemma store_laws:
  "accepts_bolt k v \<Longrightarrow> wf_store c \<Longrightarrow> fst (store_Set c k v) = Inr ()"
  "wf_store c \<Longrightarrow> wf_store (snd (store_Set c k v))"
  "accepts_bolt k v \<Longrightarrow> wf_store c \<Longrightarrow>
     found (store_Get (snd (store_Set c k v)) j) = (if j = k then Some v else found (store_Get c j))"
  "wf_store c \<Longrightarrow> wf_store (snd (store_Delete c k))"
  "wf_store c \<Longrightarrow> found (store_Get (snd (store_Delete c k)) j) = (if j = k then None else found (store_Get c j))"
  "wf_store c \<Longrightarrow> wf_store (snd (store_DeleteData c))"
  "wf_store c \<Longrightarrow> found (store_Get (snd (store_DeleteData c)) k) = None"
  by (cases c; simp add: accepts_bolt_memory memory.Set_ok memory.Set_invar memory.Get_Set
      memory.Delete_invar memory.Get_Delete memory.DeleteData_invar memory.Get_DeleteData
      bolt.Set_ok bolt.Set_invar bolt.Get_Set bolt.Delete_invar bolt.Get_Delete
      bolt.DeleteData_invar bolt.Get_DeleteData)+

lemma store_GetAllEntries_ok:
  "wf_store c \<Longrightarrow> \<exists>m. store_GetAllEntries c = Inr m \<and> wf_map m \<and>
     store_RecordsCount c = Inr (int (length m)) \<and>
     (\<forall>k v. v \<noteq> [] \<longrightarrow> (map_get m k = Some v \<longleftrightarrow> found (store_Get c k) = Some v))"
  by (cases c) (simp_all add: memory.GetAllEntries_ok bolt.GetAllEntries_ok)

interpretation store: cache store_Set store_Get store_Delete store_DeleteData store_GetAllEntries
  store_RecordsCount accepts_bolt wf_store
  by unfold_locales (simp_all add: store_laws store_GetAllEntries_ok)

section \<open>Encoding cached responses\<close>

definition Encode :: "libs \<Rightarrow> CachedResponse \<Rightarrow> string + string" where
  "Encode L this = gob_enc L this"

definition NewCachedResponseFromBytes :: "libs \<Rightarrow> string \<Rightarrow> string + CachedResponse" where
  "NewCachedResponseFromBytes L data = gob_dec L data"

text \<open>
  Gob flattens pointers and leaves out zero values, so a pointer to the empty string comes
  back as nil. \<open>gob_normal\<close> is a cached response as it comes back, and \<open>storable\<close> says that the codec
  does this for one cached response, with bytes a cache accepts.
\<close>

definition gob_string :: "string option \<Rightarrow> string option" where
  "gob_string s = (if s = Some '''' then None else s)"

definition gob_matchers :: "RequestFieldMatchers \<Rightarrow> RequestFieldMatchers" where
  "gob_matchers f =
     \<lparr>fm_ExactMatch = gob_string (fm_ExactMatch f), fm_XmlMatch = gob_string (fm_XmlMatch f),
      fm_XpathMatch = gob_string (fm_XpathMatch f), fm_JsonMatch = gob_string (fm_JsonMatch f),
      fm_JsonPathMatch = gob_string (fm_JsonPathMatch f), fm_RegexMatch = gob_string (fm_RegexMatch f),
      fm_GlobMatch = gob_string (fm_GlobMatch f)\<rparr>"

definition gob_pair :: "RequestMatcherResponsePair \<Rightarrow> RequestMatcherResponsePair" where
  "gob_pair p =
     (let m = mp_RequestMatcher p in
      p\<lparr>mp_RequestMatcher :=
         \<lparr>rm_Path = map_option gob_matchers (rm_Path m), rm_Method = map_option gob_matchers (rm_Method m),
          rm_Destination = map_option gob_matchers (rm_Destination m),
          rm_Scheme = map_option gob_matchers (rm_Scheme m),
          rm_Query = map_option gob_matchers (rm_Query m), rm_Body = map_option gob_matchers (rm_Body m),
          rm_Headers = rm_Headers m\<rparr>\<rparr>)"

definition gob_normal :: "CachedResponse \<Rightarrow> CachedResponse" where
  "gob_normal c = c\<lparr>cr_MatchingPair := map_option gob_pair (cr_MatchingPair c)\<rparr>"

definition storable :: "libs \<Rightarrow> CachedResponse \<Rightarrow> bool" where
  "storable L c = (case gob_enc L c of
     Inl e \<Rightarrow> False
   | Inr b \<Rightarrow> b \<noteq> [] \<and> int (length b) \<le> MaxValueSize \<and> gob_dec L b = Inr (gob_normal c))"

lemma gob_pair_Response [simp]: "mp_Response (gob_pair p) = mp_Response p"
  by (simp add: gob_pair_def Let_def)

section \<open>The cache matcher\<close>

record CacheMatcher =
  cm_RequestCache :: "store option"
  cm_Webserver :: bool

definition cache_key :: "CacheMatcher \<Rightarrow> RequestDetails \<Rightarrow> string" where
  "cache_key this req = (if cm_Webserver this then HashWithoutHost req else Hash req)"

definition GetCachedResponse ::
  "libs \<Rightarrow> CacheMatcher \<Rightarrow> RequestDetails \<Rightarrow> MatchingError + CachedResponse" where
  "GetCachedResponse L this req =
     (case cm_RequestCache this of
        None \<Rightarrow> Inl \<lparr>me_StatusCode = 0, me_Description = ''No cache set''\<rparr>
      | Some c \<Rightarrow> (case store_Get c (cache_key this req) of
          Inl err \<Rightarrow> Inl \<lparr>me_StatusCode = 412,
            me_Description = ''Could not find recorded request in cache''\<rparr>
        | Inr pairBytes \<Rightarrow> (case NewCachedResponseFromBytes L pairBytes of
            Inl err \<Rightarrow> Inl \<lparr>me_StatusCode = 500,
              me_Description = ''Failed to decode payload from cache''\<rparr>
          | Inr cachedResponse \<Rightarrow> Inr cachedResponse)))"

fun responses_loop :: "libs \<Rightarrow> string gomap \<Rightarrow> CacheView \<Rightarrow> CacheView \<times> string option" where
  "responses_loop L [] cacheView = (cacheView, None)"
| "responses_loop L ((key, v) # records) cacheView =
     (case NewCachedResponseFromBytes L v of
        Inl err \<Rightarrow> (cacheView, Some err)
      | Inr cachedResponse \<Rightarrow>
          responses_loop L records
            (cacheView\<lparr>cv_Cache := cv_Cache cacheView @
               [\<lparr>cv_Key = key,
                 cv_MatchingPair = map_option (BuildView (sniff L)) (cr_MatchingPair cachedResponse),
                 cv_HeaderMatch = cr_HeaderMatch cachedResponse\<rparr>]\<rparr>))"

definition GetAllResponses :: "libs \<Rightarrow> CacheMatcher \<Rightarrow> CacheView \<times> string option" where
  "GetAllResponses L this =
     (case cm_RequestCache this of
        None \<Rightarrow> (\<lparr>cv_Cache = []\<rparr>, Some ''No cache set'')
      | Some c \<Rightarrow> (case store_GetAllEntries c of
          Inl err \<Rightarrow> (\<lparr>cv_Cache = []\<rparr>, Some err)
        | Inr records \<Rightarrow> responses_loop L records \<lparr>cv_Cache = []\<rparr>))"

text \<open>\<^verbatim>\<open>len(pair.RequestMatcher.Headers) > 0\<close>, false for a nil pair.\<close>

definition has_header_matchers :: "RequestMatcher \<Rightarrow> bool" where
  "has_header_matchers m = (case rm_Headers m of None \<Rightarrow> False | Some hs \<Rightarrow> length hs > 0)"

definition cached_response :: "RequestDetails \<Rightarrow> RequestMatcherResponsePair option \<Rightarrow> CachedResponse" where
  "cached_response request pair =
     \<lparr>cr_Request = request, cr_MatchingPair = pair,
      cr_HeaderMatch = (case pair of None \<Rightarrow> False | Some p \<Rightarrow> has_header_matchers (mp_RequestMatcher p))\<rparr>"

definition SaveRequestMatcherResponsePair ::
  "libs \<Rightarrow> CacheMatcher \<Rightarrow> RequestDetails \<Rightarrow> RequestMatcherResponsePair option \<Rightarrow>
   string option \<times> CacheMatcher" where
  "SaveRequestMatcherResponsePair L this request pair =
     (case cm_RequestCache this of
        None \<Rightarrow> (Some ''No cache set'', this)
      | Some c \<Rightarrow> (case Encode L (cached_response request pair) of
          Inl err \<Rightarrow> (Some err, this)
        | Inr pairBytes \<Rightarrow> (case store_Set c (cache_key this request) pairBytes of
            (Inl err, c') \<Rightarrow> (Some err, this\<lparr>cm_RequestCache := Some c'\<rparr>)
          | (Inr u, c') \<Rightarrow> (None, this\<lparr>cm_RequestCache := Some c'\<rparr>))))"

definition FlushCache :: "CacheMatcher \<Rightarrow> string option \<times> CacheMatcher" where
  "FlushCache this =
     (case cm_RequestCache this of
        None \<Rightarrow> (Some ''No cache set'', this)
      | Some c \<Rightarrow> (case store_DeleteData c of
          (Inl err, c') \<Rightarrow> (Some err, this\<lparr>cm_RequestCache := Some c'\<rparr>)
        | (Inr u, c') \<Rightarrow> (None, this\<lparr>cm_RequestCache := Some c'\<rparr>)))"

text \<open>Errors of the single saves are dropped.\<close>

definition preload_pair :: "libs \<Rightarrow> CacheMatcher \<Rightarrow> RequestMatcherResponsePair \<Rightarrow> CacheMatcher" where
  "preload_pair L this pair =
     (case BuildRequestDetailsFromExactMatches (mp_RequestMatcher pair) of
        None \<Rightarrow> this
      | Some requestDetails \<Rightarrow> snd (SaveRequestMatcherResponsePair L this requestDetails (Some pair)))"

definition PreloadCache :: "libs \<Rightarrow> CacheMatcher \<Rightarrow> Simulation \<Rightarrow> string option \<times> CacheMatcher" where
  "PreloadCache L this simulation =
     (case cm_RequestCache this of
        None \<Rightarrow> (Some ''No cache set'', this)
      | Some c \<Rightarrow> (None, foldl (preload_pair L) this (si_MatchingPairs simulation)))"

definition wf_matcher :: "CacheMatcher \<Rightarrow> bool" where
  "wf_matcher this = (case cm_RequestCache this of None \<Rightarrow> True | Some c \<Rightarrow> wf_store c)"

lemma length_cache_key [simp]: "length (cache_key this req) = 32"
  by (simp add: cache_key_def Hash_def HashWithoutHost_def)

lemma accepts_cache_key:
  "b \<noteq> [] \<Longrightarrow> int (length b) \<le> MaxValueSize \<Longrightarrow> accepts_bolt (cache_key this req) b"
  using length_cache_key[of this req]
  by (cases "cache_key this req") (simp_all add: accepts_bolt_def MaxKeySize_def del: length_cache_key)

lemma cm_Webserver_Save [simp]:
  "cm_Webserver (snd (SaveRequestMatcherResponsePair L this request pair)) = cm_Webserver this"
  by (auto simp: SaveRequestMatcherResponsePair_def split: option.splits sum.splits prod.splits)

lemma cm_Webserver_Flush [simp]: "cm_Webserver (snd (FlushCache this)) = cm_Webserver this"
  by (auto simp: FlushCache_def split: option.splits sum.splits prod.splits)

lemma cm_Webserver_preload [simp]: "cm_Webserver (foldl (preload_pair L) this ps) = cm_Webserver this"
  by (induction ps arbitrary: this) (simp_all add: preload_pair_def split: option.splits)

lemma cm_Webserver_PreloadCache [simp]: "cm_Webserver (snd (PreloadCache L this sim)) = cm_Webserver this"
  by (simp add: PreloadCache_def split: option.splits)

lemma cache_set_Save [simp]:
  "(cm_RequestCache (snd (SaveRequestMatcherResponsePair L this request pair)) = None) =
     (cm_RequestCache this = None)"
  by (auto simp: SaveRequestMatcherResponsePair_def split: option.splits sum.splits prod.splits)

lemma cache_set_Flush [simp]:
  "(cm_RequestCache (snd (FlushCache this)) = None) = (cm_RequestCache this = None)"
  by (auto simp: FlushCache_def split: option.splits sum.splits prod.splits)

lemma wf_matcher_Save: "wf_matcher this \<Longrightarrow> wf_matcher (snd (SaveRequestMatcherResponsePair L this request pair))"
proof (cases "cm_RequestCache this")
  case (Some c)
  assume "wf_matcher this"
  then have wf: "wf_store c" by (simp add: wf_matcher_def Some)
  show ?thesis
  proof (cases "Encode L (cached_response request pair)")
    case (Inr b)
    obtain r c' where set: "store_Set c (cache_key this request) b = (r, c')"
      by (cases "store_Set c (cache_key this request) b")
    then have "wf_store c'" using store.Set_invar[OF wf] by (metis snd_conv)
    then show ?thesis
      by (cases r) (simp_all add: SaveRequestMatcherResponsePair_def Some Inr set wf_matcher_def)
  qed (simp add: SaveRequestMatcherResponsePair_def Some wf_matcher_def wf)
qed (simp add: SaveRequestMatcherResponsePair_def wf_matcher_def)

lemma wf_matcher_Flush: "wf_matcher this \<Longrightarrow> wf_matcher (snd (FlushCache this))"
proof (cases "cm_RequestCache this")
  case (Some c)
  assume "wf_matcher this"
  then have wf: "wf_store c" by (simp add: wf_matcher_def Some)
  obtain r c' where del: "store_DeleteData c = (r, c')" by (cases "store_DeleteData c")
  then have "wf_store c'" using store.DeleteData_invar[OF wf] by (metis snd_conv)
  then show ?thesis by (cases r) (simp_all add: FlushCache_def Some del wf_matcher_def)
qed (simp add: FlushCache_def wf_matcher_def)

lemma wf_matcher_preload: "wf_matcher this \<Longrightarrow> wf_matcher (foldl (preload_pair L) this ps)"
  by (induction ps arbitrary: this) (simp_all add: preload_pair_def wf_matcher_Save split: option.splits)

lemma wf_matcher_PreloadCache: "wf_matcher this \<Longrightarrow> wf_matcher (snd (PreloadCache L this sim))"
  by (simp add: PreloadCache_def wf_matcher_preload split: option.splits)

lemma SaveRequestMatcherResponsePair_ok:
  assumes "wf_matcher this" and "cm_RequestCache this \<noteq> None"
    and "storable L (cached_response request pair)"
  shows "fst (SaveRequestMatcherResponsePair L this request pair) = None"
proof -
  obtain c where c: "cm_RequestCache this = Some c" using assms(2) by blast
  then have wf: "wf_store c" using assms(1) by (simp add: wf_matcher_def)
  obtain b where b: "gob_enc L (cached_response request pair) = Inr b" "b \<noteq> []" "int (length b) \<le> MaxValueSize"
    using assms(3) by (auto simp: storable_def split: sum.splits)
  obtain c' where "store_Set c (cache_key this request) b = (Inr (), c')"
    using store.Set_ok[OF wf accepts_cache_key[OF b(2,3), of this request]] by (metis prod.collapse)
  then show ?thesis by (simp add: SaveRequestMatcherResponsePair_def c Encode_def b(1))
qed

lemma GetCachedResponse_Save:
  assumes "wf_matcher this" and "cm_RequestCache this \<noteq> None"
    and "storable L (cached_response request pair)"
  shows "GetCachedResponse L (snd (SaveRequestMatcherResponsePair L this request pair)) req =
    (if cache_key this req = cache_key this request
     then Inr (gob_normal (cached_response request pair))
     else GetCachedResponse L this req)"
proof -
  obtain c where c: "cm_RequestCache this = Some c" using assms(2) by blast
  then have wf: "wf_store c" using assms(1) by (simp add: wf_matcher_def)
  obtain b where b: "gob_enc L (cached_response request pair) = Inr b" "b \<noteq> []"
      "int (length b) \<le> MaxValueSize" "gob_dec L b = Inr (gob_normal (cached_response request pair))"
    using assms(3) by (auto simp: storable_def split: sum.splits)
  note acc = accepts_cache_key[OF b(2,3), of this request]
  obtain c' where set: "store_Set c (cache_key this request) b = (Inr (), c')"
    using store.Set_ok[OF wf acc] by (metis prod.collapse)
  have get: "found (store_Get c' j) = (if j = cache_key this request then Some b else found (store_Get c j))" for j
    using store.Get_Set[OF wf acc, of j] by (simp add: set)
  have save: "snd (SaveRequestMatcherResponsePair L this request pair) = this\<lparr>cm_RequestCache := Some c'\<rparr>"
    by (simp add: SaveRequestMatcherResponsePair_def c Encode_def b(1) set)
  have key: "cache_key (this\<lparr>cm_RequestCache := Some c'\<rparr>) req = cache_key this req"
    by (simp add: cache_key_def)
  show ?thesis
    using get[of "cache_key this req"]
    by (auto simp: save GetCachedResponse_def key c NewCachedResponseFromBytes_def b(4) found_Some_iff
        split: sum.splits if_splits)
qed

text \<open>
  C11: a response saved in the cache is the one a later request finds, whatever its headers and
  scheme, as long as it has the same hash; entries under other hashes stay as they are. (The
  hypothesis is that the gob codec returns what was encoded, up to pointers to empty strings.)
\<close>

theorem cache_save_get:
  assumes "wf_matcher this" and "cm_RequestCache this \<noteq> None"
    and "storable L (cached_response request pair)"
  shows "fst (SaveRequestMatcherResponsePair L this request pair) = None \<and>
    GetCachedResponse L (snd (SaveRequestMatcherResponsePair L this request pair)) req =
      (if cache_key this req = cache_key this request
       then Inr (gob_normal (cached_response request pair))
       else GetCachedResponse L this req)"
  using GetCachedResponse_Save[OF assms] SaveRequestMatcherResponsePair_ok[OF assms] by simp

theorem cache_save_get_witness:
  "let L = \<lparr>re_compiles = (\<lambda>_. True), re_matches = (=), min_json = Some, min_xml = Some,
       xpath_parses = (\<lambda>_. True), xml_parses = (\<lambda>_. True), xpath_exec = (\<lambda>_ _. None),
       jsonpath_parses = (\<lambda>_. True), jsonpath_evals = (\<lambda>_ _. True), jsonpath_next = (\<lambda>_ _. True),
       sniff = (\<lambda>_. ''text/plain''), gob_enc = (\<lambda>_. Inr ''gob''),
       gob_dec = (\<lambda>_. Inr (cached_response zero_request None))\<rparr>
   in GetCachedResponse L
        (snd (SaveRequestMatcherResponsePair L
          \<lparr>cm_RequestCache = Some (Memory NewInMemoryCache), cm_Webserver = False\<rparr> zero_request None))
        (zero_request\<lparr>rq_Headers := Some []\<rparr>)
      = Inr (cached_response zero_request None)"
  unfolding Let_def
  by (subst cache_save_get[THEN conjunct2])
    (simp_all add: wf_matcher_def wf_memory_def NewInMemoryCache_def storable_def MaxValueSize_def
      gob_normal_def cached_response_def cache_key_def Hash_def concatenate_eq)

lemma GetCachedResponse_flushed:
  assumes "wf_matcher this"
  shows "\<exists>e. GetCachedResponse L (snd (FlushCache this)) req = Inl e"
proof (cases "cm_RequestCache this")
  case (Some c)
  then have "wf_store c" using assms by (simp add: wf_matcher_def)
  then have n: "found (store_Get (snd (store_DeleteData c)) k) = None" for k by (rule store.Get_DeleteData)
  obtain r c' where d: "store_DeleteData c = (r, c')" by (cases "store_DeleteData c")
  have "snd (FlushCache this) = this\<lparr>cm_RequestCache := Some c'\<rparr>"
    by (simp add: FlushCache_def Some d split: sum.splits)
  moreover obtain e where "store_Get c' (cache_key (this\<lparr>cm_RequestCache := Some c'\<rparr>) req) = Inl e"
    using n d by (metis found.simps(2) option.distinct(1) snd_conv sumE)
  ultimately show ?thesis by (simp add: GetCachedResponse_def)
qed (simp add: FlushCache_def GetCachedResponse_def)

end
