(* ===== verification/Http.thy ===== *)
theory Http
  imports Models
begin

text \<open>
  The parts of \<^verbatim>\<open>net/http\<close> and of the proxy library that the modes and the proxy use: responses,
  header maps with canonical names, \<^verbatim>\<open>http.NewRequest\<close> and \<^verbatim>\<open>goproxy.NewResponse\<close>. Parsing of URLs is
  a parameter.
\<close>

section \<open>Header maps\<close>

definition token_char :: "char \<Rightarrow> bool" where
  "token_char c =
     (let n = (of_char c :: nat) in
      (48 \<le> n \<and> n \<le> 57) \<or> (65 \<le> n \<and> n \<le> 90) \<or> (97 \<le> n \<and> n \<le> 122) \<or>
      c \<in> set ''!#$%&*+-.^_`|~'' \<or> n = 39)"

definition upper_char :: "char \<Rightarrow> char" where
  "upper_char c =
     (if (97::nat) \<le> of_char c \<and> (of_char c :: nat) \<le> 122 then char_of ((of_char c :: nat) - 32) else c)"

fun canonical_from :: "bool \<Rightarrow> string \<Rightarrow> string" where
  "canonical_from upper [] = []"
| "canonical_from upper (c # cs) =
     (if upper then upper_char c else lower_char c) # canonical_from (c = CHR ''-'') cs"

definition CanonicalHeaderKey :: "string \<Rightarrow> string" where
  "CanonicalHeaderKey s = (if list_all token_char s then canonical_from True s else s)"

definition Header_Add :: "string \<Rightarrow> string \<Rightarrow> header_map \<Rightarrow> header_map" where
  "Header_Add k v h = map_append (CanonicalHeaderKey k) v h"

definition Header_Set :: "string \<Rightarrow> string \<Rightarrow> header_map \<Rightarrow> header_map" where
  "Header_Set k v h = map_put (CanonicalHeaderKey k) [v] h"

definition Header_Get :: "string \<Rightarrow> header_map \<Rightarrow> string" where
  "Header_Get k h = (case map_index h (CanonicalHeaderKey k) of [] \<Rightarrow> '''' | v # vs \<Rightarrow> v)"

text \<open>A loop that adds every value of every header to a map.\<close>

definition Header_AddAll :: "header_map \<Rightarrow> header_map \<Rightarrow> header_map" where
  "Header_AddAll hs h = foldl (\<lambda>h (k, values). foldl (\<lambda>h v. Header_Add k v h) h values) h hs"

section \<open>Requests and responses\<close>

record url =
  url_Scheme :: string
  url_Host :: string
  url_Path :: string
  url_RawQuery :: string

text \<open>
  A response. \<open>hp_Request\<close> is the request it points back to, with the fields it had when the
  response was built.
\<close>

record http_response =
  hp_Status :: int
  hp_Header :: headers
  hp_Body :: body_reader
  hp_ContentLength :: int
  hp_Request :: "http_request option"

text \<open>
  \<^verbatim>\<open>http.NewRequest\<close>: the empty method is GET, other methods must be tokens. \<open>url_parse\<close> is
  \<^verbatim>\<open>url.Parse\<close> with the removal of an empty port; the error text is without the escapes
  \<^verbatim>\<open>%q\<close> puts.
\<close>

definition NewRequest ::
  "(string \<Rightarrow> string + url) \<Rightarrow> string \<Rightarrow> string \<Rightarrow> string \<Rightarrow> string + http_request" where
  "NewRequest url_parse method urlStr body =
     (if method \<noteq> '''' \<and> \<not> list_all token_char method
      then Inl (''net/http: invalid method \"'' @ method @ ''\"'')
      else (case url_parse urlStr of
        Inl err \<Rightarrow> Inl err
      | Inr u \<Rightarrow> Inr \<lparr>hq_Method = (if method = '''' then ''GET'' else method), hq_Host = url_Host u,
          hq_URL_Scheme = url_Scheme u, hq_URL_Host = url_Host u, hq_URL_Path = url_Path u,
          hq_URL_RawQuery = url_RawQuery u, hq_Header = Some [], hq_Body = Some (new_body body),
          hq_RequestURI = ''''\<rparr>))"

definition goproxy_NewResponse :: "http_request \<Rightarrow> string \<Rightarrow> int \<Rightarrow> string \<Rightarrow> http_response" where
  "goproxy_NewResponse r contentType status body =
     \<lparr>hp_Status = status, hp_Header = Some (Header_Add ''Content-Type'' contentType []),
      hp_Body = new_body body, hp_ContentLength = int (length body), hp_Request = Some r\<rparr>"

text \<open>A GET of the root of a host, for the examples.\<close>

definition plain_get :: "string \<Rightarrow> http_request" where
  "plain_get host = \<lparr>hq_Method = ''GET'', hq_Host = host, hq_URL_Scheme = ''http'', hq_URL_Host = host,
     hq_URL_Path = ''/'', hq_URL_RawQuery = [], hq_Header = Some [], hq_Body = Some (new_body []),
     hq_RequestURI = ''/''\<rparr>"

section \<open>Lemmas on header maps\<close>

lemma upper_char_not_dash: "upper_char c = CHR ''-'' \<longleftrightarrow> c = CHR ''-''"
proof -
  have "char_of (n - 32) \<noteq> CHR ''-''" if "97 \<le> n" "n \<le> 122" for n :: nat
  proof
    assume "char_of (n - 32) = CHR ''-''"
    then have "(of_char (char_of (n - 32)) :: nat) = 45" by simp
    with that show False by (simp add: of_char_of)
  qed
  then show ?thesis by (auto simp: upper_char_def)
qed

lemma lower_char_not_dash: "lower_char c = CHR ''-'' \<longleftrightarrow> c = CHR ''-''"
proof -
  have "char_of (n + 32) \<noteq> CHR ''-''" if "65 \<le> n" "n \<le> 90" for n :: nat
  proof
    assume "char_of (n + 32) = CHR ''-''"
    then have "(of_char (char_of (n + 32)) :: nat) = 45" by simp
    with that show False by (simp add: of_char_of)
  qed
  then show ?thesis by (auto simp: lower_char_def)
qed

lemma upper_char_idem [simp]: "upper_char (upper_char c) = upper_char c"
  by (auto simp: upper_char_def of_char_of)

lemma canonical_from_idem [simp]: "canonical_from u (canonical_from u s) = canonical_from u s"
proof (induction s arbitrary: u)
  case (Cons c s)
  then show ?case by (simp add: upper_char_not_dash lower_char_not_dash)
qed simp

lemma token_upper [simp]: "token_char c \<Longrightarrow> token_char (upper_char c)"
  by (auto simp: token_char_def upper_char_def of_char_of Let_def)

lemma token_lower [simp]: "token_char c \<Longrightarrow> token_char (lower_char c)"
  by (auto simp: token_char_def lower_char_def of_char_of Let_def)

lemma token_canonical_from: "list_all token_char s \<Longrightarrow> list_all token_char (canonical_from u s)"
  by (induction s arbitrary: u) auto

lemma CanonicalHeaderKey_idem [simp]: "CanonicalHeaderKey (CanonicalHeaderKey s) = CanonicalHeaderKey s"
  by (simp add: CanonicalHeaderKey_def token_canonical_from)

lemma Header_Get_Set: "Header_Get k (Header_Set k v h) = v"
  by (simp add: Header_Get_def Header_Set_def map_index_def)

lemma map_get_Header_Set:
  "map_get (Header_Set k v h) j = (if j = CanonicalHeaderKey k then Some [v] else map_get h j)"
  by (simp add: Header_Set_def)

text \<open>Headers as net/http keeps them: distinct canonical names, each with a value.\<close>

definition stable_headers :: "header_map \<Rightarrow> bool" where
  "stable_headers hs = (wf_map hs \<and> (\<forall>(k, vs) \<in> set hs. CanonicalHeaderKey k = k \<and> vs \<noteq> []))"

lemma map_put_new: "k \<notin> set (map fst h) \<Longrightarrow> map_put k v (h @ m) = h @ map_put k v m"
  by (induction h) (auto simp: map_put_def)

lemma map_put_last: "k \<notin> set (map fst h) \<Longrightarrow> map_put k v (h @ [(k, w)]) = h @ [(k, v)]"
  by (simp add: map_put_new) (simp add: map_put_def)

lemma map_get_last: "k \<notin> set (map fst h) \<Longrightarrow> map_get (h @ [(k, w)]) k = Some w"
  by (induction h) (auto simp: map_get_def)

lemma Header_Add_values:
  "\<lbrakk>CanonicalHeaderKey k = k; k \<notin> set (map fst h)\<rbrakk> \<Longrightarrow>
     foldl (\<lambda>h v. Header_Add k v h) (h @ [(k, ws)]) vs = h @ [(k, ws @ vs)]"
  by (induction vs arbitrary: ws) (simp_all add: Header_Add_def map_append_def map_index_def
      map_get_last map_put_last)

lemma Header_AddAll_stable:
  "\<lbrakk>stable_headers hs; set (map fst h) \<inter> set (map fst hs) = {}\<rbrakk> \<Longrightarrow> Header_AddAll hs h = h @ hs"
proof (induction hs arbitrary: h)
  case (Cons kv hs)
  obtain k vs where kv: "kv = (k, vs)" by (cases kv)
  with Cons.prems have k: "CanonicalHeaderKey k = k" "k \<notin> set (map fst h)" and "vs \<noteq> []"
    by (auto simp: stable_headers_def)
  then obtain v ws where vs: "vs = v # ws" by (cases vs) auto
  have first: "Header_Add k v h = h @ [(k, [v])]"
    using k map_put_new[of k h "[v]" "[]"] map_get_None_iff[of h k]
    by (simp add: Header_Add_def map_append_def map_index_def map_keys_def) (simp add: map_put_def)
  have "foldl (\<lambda>h v. Header_Add k v h) h vs = h @ [(k, vs)]"
    using Header_Add_values[OF k, of "[v]" ws] by (simp add: vs first)
  then have "Header_AddAll (kv # hs) h = Header_AddAll hs (h @ [(k, vs)])"
    by (simp add: Header_AddAll_def kv)
  also have "\<dots> = (h @ [(k, vs)]) @ hs"
    using Cons.prems by (intro Cons.IH) (auto simp: stable_headers_def wf_map_def kv)
  finally show ?case by (simp add: kv)
qed (simp add: Header_AddAll_def)

corollary Header_AddAll_empty: "stable_headers hs \<Longrightarrow> Header_AddAll hs [] = hs"
  using Header_AddAll_stable[of hs "[]"] by simp

end
