(* ===== verification/Modes.thy ===== *)
theory Modes
  imports Http Matching
begin

text \<open>
  \<^verbatim>\<open>core/modes\<close>: what Hoverfly does with a request in each of its four modes. What a mode asks of
  Hoverfly is the Go interface of its file, here the record \<open>mode_ops\<close> of operations on a state.
  The locale \<open>mode_host\<close> states what the modes rely on; the Hoverfly theory interprets it.

  The entries a mode writes to the log are left out.
\<close>

section \<open>Requests and responses from payloads\<close>

definition ReconstructRequest ::
  "(string \<Rightarrow> string + url) \<Rightarrow> RequestResponsePair \<Rightarrow> string + http_request" where
  "ReconstructRequest url_parse pair =
     (let r = pr_Request pair in
      if rq_Destination r = '''' then Inl ''failed to reconstruct request, destination not specified''
      else (case NewRequest url_parse (rq_Method r) (rq_Scheme r @ ''://'' @ rq_Destination r) (rq_Body r) of
          Inl err \<Rightarrow> Inl err
        | Inr newRequest \<Rightarrow>
            Inr (newRequest\<lparr>hq_Method := rq_Method r, hq_URL_Path := rq_Path r,
              hq_URL_RawQuery := rq_Query r, hq_Header := rq_Headers r\<rparr>)))"

definition ReconstructResponse :: "http_request \<Rightarrow> RequestResponsePair \<Rightarrow> http_response" where
  "ReconstructResponse request pair =
     (let r = pr_Response pair in
      \<lparr>hp_Status = rs_Status r,
       hp_Header = Some (case rs_Headers r of None \<Rightarrow> [] | Some hs \<Rightarrow> Header_AddAll hs []),
       hp_Body = new_body (rs_Body r), hp_ContentLength = int (length (rs_Body r)),
       hp_Request = Some request\<rparr>)"

text \<open>The fields of the log entries, a value being a text, a header map or a number.\<close>

datatype log_value = LogText string | LogHeaders headers | LogInt int

definition GetRequestLogFields :: "RequestDetails option \<Rightarrow> log_value gomap" where
  "GetRequestLogFields request = (case request of
     None \<Rightarrow> [(''error'', LogText ''nil request'')]
   | Some r \<Rightarrow>
       [(''method'', LogText (rq_Method r)), (''scheme'', LogText (rq_Scheme r)),
        (''destination'', LogText (rq_Destination r)), (''path'', LogText (rq_Path r)),
        (''query'', LogText (rq_Query r)), (''headers'', LogHeaders (rq_Headers r)),
        (''body'', LogText (rq_Body r))])"

definition GetResponseLogFields :: "ResponseDetails option \<Rightarrow> log_value gomap" where
  "GetResponseLogFields response = (case response of
     None \<Rightarrow> [(''error'', LogText ''nil response'')]
   | Some r \<Rightarrow>
       if rs_Status r = 0 then [(''error'', LogText ''nil response'')]
       else [(''body'', LogText (rs_Body r)), (''headers'', LogHeaders (rs_Headers r)),
             (''status'', LogInt (rs_Status r))])"

definition ErrorResponse :: "http_request \<Rightarrow> string \<Rightarrow> string \<Rightarrow> http_response" where
  "ErrorResponse req err msg =
     goproxy_NewResponse req ''text/plain'' 502
       (''Hoverfly Error! '' @ [CHR 0x0A, CHR 0x0A] @ msg @ [CHR 0x0A, CHR 0x0A] @ ''Got error: '' @ err)"

text \<open>A response and an error, as \<^verbatim>\<open>Process\<close> returns them: both are set when there is an error.\<close>

type_synonym processed = "http_response \<times> string option"

definition ReturnErrorAndLog :: "http_request \<Rightarrow> string \<Rightarrow> string \<Rightarrow> processed" where
  "ReturnErrorAndLog request err msg = (ErrorResponse request err msg, Some err)"

section \<open>What a mode asks of Hoverfly\<close>

text \<open>
  The operations get and return the state; \<^verbatim>\<open>GetResponse\<close> also returns the request as it leaves
  it, since its header map is shared, and \<^verbatim>\<open>DoRequest\<close> the request whose body it has replaced.
\<close>

record 's mode_ops =
  op_GetResponse :: "RequestDetails \<Rightarrow> ('s, (MatchingError + ResponseDetails) \<times> RequestDetails) prog"
  op_ApplyMiddleware :: "RequestResponsePair \<Rightarrow> ('s, RequestResponsePair \<times> string option) prog"
  op_DoRequest :: "http_request \<Rightarrow> ('s, (string + http_response) \<times> http_request) prog"
  op_IsMiddlewareSet :: "'s \<Rightarrow> bool"
  op_Save :: "RequestDetails \<Rightarrow> ResponseDetails \<Rightarrow> string list \<Rightarrow> ('s, string option) prog"
  op_url_parse :: "string \<Rightarrow> string + url"

record ModeArguments =
  ar_Headers :: "string list"

section \<open>The modes\<close>

definition SimulateMode_Process ::
  "'s mode_ops \<Rightarrow> http_request \<Rightarrow> RequestDetails \<Rightarrow> ('s, processed) prog" where
  "SimulateMode_Process h request details =
     bindp (op_GetResponse h details) (\<lambda>(result, details'). case result of
       Inl matchingErr \<Rightarrow>
         retp (ReturnErrorAndLog request (MatchingError_Error matchingErr) ''There was an error when matching'')
     | Inr response \<Rightarrow>
         bindp (op_ApplyMiddleware h \<lparr>pr_Response = response, pr_Request = details'\<rparr>) (\<lambda>(pair, err). case err of
           Some err \<Rightarrow>
             retp (ReturnErrorAndLog request err ''There was an error when executing middleware'')
         | None \<Rightarrow> retp (ReconstructResponse request pair, None)))"

definition SynthesizeMode_Process ::
  "'s mode_ops \<Rightarrow> http_request \<Rightarrow> RequestDetails \<Rightarrow> ('s, processed) prog" where
  "SynthesizeMode_Process h request details =
     bindp (\<lambda>s. Returns (op_IsMiddlewareSet h s, s)) (\<lambda>isSet.
       if \<not> isSet
       then retp (ReturnErrorAndLog request ''Middleware not set''
              ''There was an error when creating a synthetic response'')
       else bindp (op_ApplyMiddleware h \<lparr>pr_Response = zero_response, pr_Request = details\<rparr>)
         (\<lambda>(pair, err). case err of
            Some err \<Rightarrow>
              retp (ReturnErrorAndLog request err ''There was an error when executing middleware'')
          | None \<Rightarrow> retp (ReconstructResponse request pair, None)))"

definition ModifyMode_Process ::
  "'s mode_ops \<Rightarrow> http_request \<Rightarrow> RequestDetails \<Rightarrow> ('s, processed) prog" where
  "ModifyMode_Process h request details =
     bindp (op_ApplyMiddleware h \<lparr>pr_Response = zero_response, pr_Request = details\<rparr>) (\<lambda>(pair, err). case err of
       Some err \<Rightarrow> retp (ReturnErrorAndLog request err ''There was an error when executing middleware'')
     | None \<Rightarrow> (case ReconstructRequest (op_url_parse h) pair of
         Inl err \<Rightarrow>
           retp (ReturnErrorAndLog request err ''There was an error when rebuilding the modified http request'')
       | Inr modifiedRequest \<Rightarrow>
           bindp (op_DoRequest h modifiedRequest) (\<lambda>(result, modifiedRequest). case result of
             Inl err \<Rightarrow> retp (ReturnErrorAndLog request err
               ''There was an error when forwarding the request to the intended desintation'')
           | Inr resp \<Rightarrow> (case fst (ReadAll (hp_Body resp)) of
               Inl err \<Rightarrow> retp (ReturnErrorAndLog request err
                 ''There was an error when reading the http response body'')
             | Inr bodyBytes \<Rightarrow>
                 bindp (op_ApplyMiddleware h (pair\<lparr>pr_Response :=
                     \<lparr>rs_Status = hp_Status resp, rs_Body = bodyBytes, rs_Headers = hp_Header resp\<rparr>\<rparr>))
                   (\<lambda>(pair, err). case err of
                     Some err \<Rightarrow> retp (ReturnErrorAndLog request err
                       ''There was an error when executing middleware'')
                   | None \<Rightarrow> retp (ReconstructResponse modifiedRequest pair, None))))))"

text \<open>
  The body of a response that cannot be read is saved as the empty body, and what is left of it
  is what the client gets.
\<close>

definition CaptureMode_Process ::
  "'s mode_ops \<Rightarrow> ModeArguments \<Rightarrow> http_request \<Rightarrow> RequestDetails \<Rightarrow> ('s, processed) prog" where
  "CaptureMode_Process h arguments request0 details =
     (let request = (if hq_Body request0 = None then request0\<lparr>hq_Body := Some (new_body '''')\<rparr> else request0) in
      bindp (op_ApplyMiddleware h \<lparr>pr_Response = zero_response, pr_Request = details\<rparr>) (\<lambda>(pair, err). case err of
        Some err \<Rightarrow> retp (ReturnErrorAndLog request err
          ''There was an error when applying middleware to http request'')
      | None \<Rightarrow> (case ReconstructRequest (op_url_parse h) pair of
          Inl err \<Rightarrow> retp (ReturnErrorAndLog request err
            ''There was an error when applying middleware to http request'')
        | Inr modifiedRequest \<Rightarrow>
            bindp (op_DoRequest h modifiedRequest) (\<lambda>(result, modifiedRequest). case result of
              Inl err \<Rightarrow> retp (ReturnErrorAndLog request err
                ''There was an error when forwarding the request to the intended desintation'')
            | Inr response \<Rightarrow> (case GetResponseBody (hp_Body response) of (read, body) \<Rightarrow>
                let respBody = (case read of Inl e \<Rightarrow> '''' | Inr b \<Rightarrow> b);
                    responseObj = \<lparr>rs_Status = hp_Status response, rs_Body = respBody,
                                   rs_Headers = hp_Header response\<rparr>
                in bindp (op_Save h (pr_Request pair) responseObj (ar_Headers arguments)) (\<lambda>err. case err of
                     Some err \<Rightarrow> retp (ReturnErrorAndLog request err
                       ''There was an error when saving request and response'')
                   | None \<Rightarrow> retp (response\<lparr>hp_Body := body\<rparr>, None)))))))"

datatype mode = CaptureMode ModeArguments | SimulateMode | ModifyMode | SynthesizeMode

fun Process :: "'s mode_ops \<Rightarrow> mode \<Rightarrow> http_request \<Rightarrow> RequestDetails \<Rightarrow> ('s, processed) prog" where
  "Process h (CaptureMode arguments) = CaptureMode_Process h arguments"
| "Process h SimulateMode = SimulateMode_Process h"
| "Process h ModifyMode = ModifyMode_Process h"
| "Process h SynthesizeMode = SynthesizeMode_Process h"

fun SetArguments :: "ModeArguments \<Rightarrow> mode \<Rightarrow> mode" where
  "SetArguments arguments (CaptureMode old) = CaptureMode arguments"
| "SetArguments arguments m = m"

section \<open>Errors\<close>

text \<open>What the client gets when \<^verbatim>\<open>Process\<close> returns an error.\<close>

definition is_error_response :: "string \<Rightarrow> http_response \<Rightarrow> bool" where
  "is_error_response err resp =
     (hp_Status resp = 502 \<and> hp_Header resp = Some [(''Content-Type'', [''text/plain''])] \<and>
      HasPrefix (remaining (hp_Body resp)) ''Hoverfly Error! '' \<and>
      HasSuffix (remaining (hp_Body resp)) (''Got error: '' @ err) \<and>
      hp_ContentLength resp = int (length (remaining (hp_Body resp))))"

definition error_or_ok :: "processed \<Rightarrow> bool" where
  "error_or_ok p = (case snd p of None \<Rightarrow> True | Some err \<Rightarrow> is_error_response err (fst p))"

lemma Header_Add_Content_Type: "Header_Add ''Content-Type'' v [] = [(''Content-Type'', [v])]"
proof -
  have "CanonicalHeaderKey ''Content-Type'' = ''Content-Type''" by code_simp
  then show ?thesis by (simp add: Header_Add_def map_append_def map_index_def map_put_def)
qed

lemma is_error_response_ErrorResponse [simp]: "is_error_response err (ErrorResponse request err msg)"
  by (simp add: is_error_response_def ErrorResponse_def goproxy_NewResponse_def new_body_def
      Header_Add_Content_Type HasSuffix_iff)

lemma error_or_ok_simps [simp]:
  "error_or_ok (resp, None)" "error_or_ok (ReturnErrorAndLog request err msg)"
  by (simp_all add: error_or_ok_def ReturnErrorAndLog_def)

lemma always_error_or_ok: "always (Process h m request details) (\<lambda>p s. error_or_ok p) s"
proof (cases m)
  case SimulateMode
  then show ?thesis
    by (simp add: SimulateMode_Process_def)
      (simp add: step_rules Let_def split: prod.split sum.split option.split
        | rule allI impI conjI always_all)+
next
  case SynthesizeMode
  then show ?thesis
    by (simp add: SynthesizeMode_Process_def)
      (simp add: step_rules Let_def split: prod.split sum.split option.split
        | rule allI impI conjI always_all)+
next
  case ModifyMode
  then show ?thesis
    by (simp add: ModifyMode_Process_def)
      (simp add: step_rules Let_def split: prod.split sum.split option.split
        | rule allI impI conjI always_all)+
next
  case (CaptureMode args)
  then show ?thesis
    by (simp add: CaptureMode_Process_def)
      (simp add: step_rules Let_def split: prod.split sum.split option.split
        | rule allI impI conjI always_all)+
qed

text \<open>
  C37: whatever the mode, when \<^verbatim>\<open>Process\<close> returns an error the client gets a 502 in plain text,
  whose body names Hoverfly and ends in the error, with a matching content length.
\<close>

theorem Process_error:
  assumes "Process h m request details s = Returns ((resp, Some err), s')"
  shows "is_error_response err resp"
  using always_Returns[OF always_error_or_ok assms] by (simp add: error_or_ok_def)

definition idle_ops :: "unit mode_ops" where
  "idle_ops = \<lparr>op_GetResponse = (\<lambda>r. retp (Inl \<lparr>me_StatusCode = 412, me_Description = ''no''\<rparr>, r)),
     op_ApplyMiddleware = (\<lambda>p. retp (p, None)), op_DoRequest = (\<lambda>r. retp (Inl ''refused'', r)),
     op_IsMiddlewareSet = (\<lambda>s. False), op_Save = (\<lambda>r d hs. retp None),
     op_url_parse = (\<lambda>u. Inl ''no URL'')\<rparr>"

theorem Process_error_witness:
  "\<exists>resp. Process idle_ops SynthesizeMode (plain_get ''test.com'') zero_request () =
       Returns ((resp, Some ''Middleware not set''), ()) \<and> is_error_response ''Middleware not set'' resp"
proof -
  have "Process idle_ops SynthesizeMode (plain_get ''test.com'') zero_request () =
      Returns ((ErrorResponse (plain_get ''test.com'') ''Middleware not set''
        ''There was an error when creating a synthetic response'', Some ''Middleware not set''), ())"
    by (simp add: SynthesizeMode_Process_def idle_ops_def bindp_def retp_def ReturnErrorAndLog_def)
  with Process_error[OF this] show ?thesis by blast
qed

section \<open>The modes without middleware\<close>

text \<open>
  What the modes rely on: with no middleware set, applying it changes nothing; matching a request
  and forwarding one do not set middleware; matching a request and saving a pair return.
\<close>

locale mode_host =
  fixes h :: "'s mode_ops"
  assumes ApplyMiddleware_unset:
      "\<not> op_IsMiddlewareSet h s \<Longrightarrow> op_ApplyMiddleware h p s = Returns ((p, None), s)"
    and GetResponse_keeps:
      "always (op_GetResponse h r) (\<lambda>x s'. op_IsMiddlewareSet h s' = op_IsMiddlewareSet h s) s"
    and DoRequest_keeps:
      "always (op_DoRequest h q) (\<lambda>x s'. op_IsMiddlewareSet h s' = op_IsMiddlewareSet h s) s"
    and GetResponse_returns: "returns (op_GetResponse h r) s"
    and Save_returns: "\<exists>s'. op_Save h r d ws s = Returns (None, s')"
begin

lemma simulate_found:
  assumes "\<not> op_IsMiddlewareSet h s" and "op_GetResponse h details s = Returns ((Inr response, details'), s')"
  shows "Process h SimulateMode request details s =
    Returns ((ReconstructResponse request \<lparr>pr_Response = response, pr_Request = details'\<rparr>, None), s')"
proof -
  have "\<not> op_IsMiddlewareSet h s'" using assms GetResponse_keeps by (auto simp: always_def)
  then show ?thesis
    by (simp add: SimulateMode_Process_def bindp_def assms(2) ApplyMiddleware_unset retp_def)
qed

lemma simulate_missed:
  assumes "op_GetResponse h details s = Returns ((Inl e, details'), s')"
  shows "Process h SimulateMode request details s =
    Returns ((ErrorResponse request (me_Description e) ''There was an error when matching'',
      Some (me_Description e)), s')"
  by (simp add: SimulateMode_Process_def bindp_def assms retp_def ReturnErrorAndLog_def
      MatchingError_Error_def)

lemma simulate_returns:
  assumes "\<not> op_IsMiddlewareSet h s"
  shows "returns (Process h SimulateMode request details) s"
proof -
  obtain x d s' where x: "op_GetResponse h details s = Returns ((x, d), s')"
    using GetResponse_returns[of details s] by (auto simp: returns_iff)
  show ?thesis
  proof (cases x)
    case (Inl e)
    show ?thesis unfolding returns_iff using simulate_missed[OF x[unfolded Inl]] by blast
  next
    case (Inr r)
    show ?thesis unfolding returns_iff using simulate_found[OF assms x[unfolded Inr]] by blast
  qed
qed

lemma synthesize_unset:
  assumes "\<not> op_IsMiddlewareSet h s"
  shows "Process h SynthesizeMode request details s =
    Returns ((ErrorResponse request ''Middleware not set''
      ''There was an error when creating a synthetic response'', Some ''Middleware not set''), s)"
  using assms by (simp add: SynthesizeMode_Process_def bindp_def retp_def ReturnErrorAndLog_def)

text \<open>Capture mode answers with the response it saves.\<close>

lemma capture_saves:
  assumes "\<not> op_IsMiddlewareSet h s"
    and "ReconstructRequest (op_url_parse h) \<lparr>pr_Response = zero_response, pr_Request = details\<rparr> = Inr q"
    and "op_DoRequest h q s = Returns ((Inr response, q'), s1)" and "hp_Body response = new_body b"
    and "op_Save h details \<lparr>rs_Status = hp_Status response, rs_Body = b, rs_Headers = hp_Header response\<rparr>
           (ar_Headers args) s1 = Returns (None, s2)"
  shows "Process h (CaptureMode args) request details s = Returns ((response, None), s2)"
proof -
  have "response\<lparr>hp_Body := new_body b\<rparr> = response" using assms(4) by (cases response) simp
  with assms show ?thesis
    by (simp add: CaptureMode_Process_def bindp_def Let_def ApplyMiddleware_unset retp_def)
qed

text \<open>Modify mode passes the upstream response on, with its header names made canonical.\<close>

lemma modify_passes:
  assumes "\<not> op_IsMiddlewareSet h s"
    and "ReconstructRequest (op_url_parse h) \<lparr>pr_Response = zero_response, pr_Request = details\<rparr> = Inr q"
    and "op_DoRequest h q s = Returns ((Inr response, q'), s1)" and "hp_Body response = new_body b"
  shows "Process h ModifyMode request details s =
    Returns ((ReconstructResponse q' \<lparr>pr_Response =
        \<lparr>rs_Status = hp_Status response, rs_Body = b, rs_Headers = hp_Header response\<rparr>,
      pr_Request = details\<rparr>, None), s1)"
proof -
  have "\<not> op_IsMiddlewareSet h s1"
    using assms(1,3) DoRequest_keeps by (auto simp: always_def)
  with assms show ?thesis
    by (simp add: ModifyMode_Process_def bindp_def ApplyMiddleware_unset retp_def)
qed

end

lemma ReconstructResponse_stable:
  assumes "rs_Headers (pr_Response pair) = Some hs" and "stable_headers hs"
  shows "hp_Header (ReconstructResponse request pair) = Some hs"
  by (simp add: ReconstructResponse_def Let_def assms Header_AddAll_empty)

lemma ReconstructResponse_fields [simp]:
  "hp_Status (ReconstructResponse request pair) = rs_Status (pr_Response pair)"
  "hp_Body (ReconstructResponse request pair) = new_body (rs_Body (pr_Response pair))"
  "hp_ContentLength (ReconstructResponse request pair) = int (length (rs_Body (pr_Response pair)))"
  by (simp_all add: ReconstructResponse_def Let_def)

end
