(* ===== verification/Middleware.thy ===== *)
theory Middleware
  imports Http Matching
begin

text \<open>
  \<^verbatim>\<open>core/middleware.go\<close>: middleware is a local command, run on a script with the payload as its
  input, or a remote endpoint the payload is posted to. What the code does outside the process
  (files, commands, network) is a record of functions on a world of any type.
\<close>

section \<open>The world\<close>

text \<open>The end of a command: it did not start, it failed, or it wrote this to its standard output.\<close>

datatype run_result = FailedToStart string | FailedToFinish string | Finished string

text \<open>
  \<open>w_start_kill\<close> starts a command without arguments and kills it; \<open>w_run\<close> runs a command with its
  arguments on a standard input; \<open>w_http_do\<close> is the \<^verbatim>\<open>Do\<close> of a client, given as the upstream proxy it
  uses and whether it skips the verification of certificates; \<open>w_http_post\<close> posts an empty body and
  gives the status. \<open>w_script_dir\<close> is \<^verbatim>\<open>path.Join(os.TempDir(), "hoverfly")\<close>. \<open>w_marshal_pair\<close> and
  \<open>w_unmarshal_pair\<close> are the JSON codec on payloads. \<open>w_listen\<close> opens the port of the proxy.
\<close>

record http_client =
  hc_Proxy :: string
  hc_InsecureSkipVerify :: bool

record 'w world =
  w_libs :: libs
  w_url_parse :: "string \<Rightarrow> string + url"
  w_marshal_pair :: "RequestResponsePairViewV1 \<Rightarrow> string + string"
  w_unmarshal_pair :: "string \<Rightarrow> string + RequestResponsePairViewV1"
  w_script_dir :: string
  w_remove_all :: "string \<Rightarrow> 'w \<Rightarrow> string option \<times> 'w"
  w_mkdir :: "string \<Rightarrow> 'w \<Rightarrow> string option \<times> 'w"
  w_temp_file :: "string \<Rightarrow> string \<Rightarrow> 'w \<Rightarrow> (string + string) \<times> 'w"
  w_write :: "string \<Rightarrow> string \<Rightarrow> 'w \<Rightarrow> string option \<times> 'w"
  w_read_file :: "string \<Rightarrow> 'w \<Rightarrow> (string + string) \<times> 'w"
  w_start_kill :: "string \<Rightarrow> 'w \<Rightarrow> string option \<times> 'w"
  w_run :: "string \<Rightarrow> string list \<Rightarrow> string \<Rightarrow> 'w \<Rightarrow> run_result \<times> 'w"
  w_http_post :: "string \<Rightarrow> 'w \<Rightarrow> (string + int) \<times> 'w"
  w_http_do :: "http_client \<Rightarrow> http_request \<Rightarrow> 'w \<Rightarrow> (string + http_response) \<times> 'w"
  w_listen :: "string \<Rightarrow> 'w \<Rightarrow> string option \<times> 'w"

text \<open>\<^verbatim>\<open>http.DefaultClient\<close>: no upstream proxy, certificates verified.\<close>

definition DefaultClient :: http_client where
  "DefaultClient = \<lparr>hc_Proxy = '''', hc_InsecureSkipVerify = False\<rparr>"

section \<open>Setting middleware\<close>

record Middleware =
  mi_Binary :: string
  mi_Script :: "string option"
  mi_Remote :: string

definition no_middleware :: Middleware where
  "no_middleware = \<lparr>mi_Binary = '''', mi_Script = None, mi_Remote = ''''\<rparr>"

definition IsSet :: "Middleware \<Rightarrow> bool" where
  "IsSet this = (mi_Binary this \<noteq> '''' \<or> mi_Remote this \<noteq> '''')"

definition DeleteScripts ::
  "'w world \<Rightarrow> Middleware \<Rightarrow> string \<Rightarrow> ('w, string option \<times> Middleware) prog" where
  "DeleteScripts W this path =
     bindp (liftp (w_remove_all W path)) (\<lambda>err. case err of
       Some err \<Rightarrow> retp (Some err, this)
     | None \<Rightarrow> retp (None, this\<lparr>mi_Script := None\<rparr>))"

definition SetScript ::
  "'w world \<Rightarrow> Middleware \<Rightarrow> string \<Rightarrow> ('w, string option \<times> Middleware) prog" where
  "SetScript W this scriptContent =
     (let tempDir = w_script_dir W in
      bindp (DeleteScripts W this tempDir) (\<lambda>(ignored, this).
      bindp (liftp (w_mkdir W tempDir)) (\<lambda>ignored.
      bindp (liftp (w_temp_file W tempDir ''hoverfly_'')) (\<lambda>script. case script of
        Inl err \<Rightarrow> retp (Some err, this)
      | Inr name \<Rightarrow>
          bindp (liftp (w_write W name scriptContent)) (\<lambda>err. case err of
            Some err \<Rightarrow> retp (Some err, this)
          | None \<Rightarrow> retp (None, this\<lparr>mi_Script := Some name\<rparr>))))))"

definition GetScript :: "'w world \<Rightarrow> Middleware \<Rightarrow> ('w, string + string) prog" where
  "GetScript W this = (case mi_Script this of
     None \<Rightarrow> retp (Inr '''')
   | Some name \<Rightarrow> liftp (w_read_file W name))"

definition SetBinary ::
  "'w world \<Rightarrow> Middleware \<Rightarrow> string \<Rightarrow> ('w, string option \<times> Middleware) prog" where
  "SetBinary W this binary =
     (if binary = '''' then retp (None, this\<lparr>mi_Binary := ''''\<rparr>)
      else bindp (liftp (w_start_kill W binary)) (\<lambda>err. case err of
        Some err \<Rightarrow> retp (Some err, this)
      | None \<Rightarrow> retp (None, this\<lparr>mi_Binary := binary\<rparr>)))"

definition SetRemote ::
  "'w world \<Rightarrow> Middleware \<Rightarrow> string \<Rightarrow> ('w, string option \<times> Middleware) prog" where
  "SetRemote W this remoteUrl =
     (if remoteUrl = '''' then retp (None, this\<lparr>mi_Remote := ''''\<rparr>)
      else bindp (liftp (w_http_post W remoteUrl)) (\<lambda>response. case response of
        Inl err \<Rightarrow> retp (Some ''Could not reach remote middleware'', this)
      | Inr statusCode \<Rightarrow>
          if statusCode \<noteq> 200 then retp (Some ''Could not reach remote middleware'', this)
          else retp (None, this\<lparr>mi_Remote := remoteUrl\<rparr>)))"

text \<open>The result is the middleware, or an error and no middleware.\<close>

definition ConvertToNewMiddleware :: "'w world \<Rightarrow> string \<Rightarrow> ('w, string + Middleware) prog" where
  "ConvertToNewMiddleware W middleware =
     (let newMiddleware = no_middleware in
      if HasPrefix middleware ''http'' then
        bindp (SetRemote W newMiddleware middleware) (\<lambda>(err, newMiddleware). case err of
          Some err \<Rightarrow> retp (Inl err) | None \<Rightarrow> retp (Inr newMiddleware))
      else if Contains middleware '' '' then
        (let splitMiddleware = Split middleware (CHR '' '') in
         bindp (liftp (w_read_file W (splitMiddleware ! 1))) (\<lambda>read.
         let fileContents = (case read of Inl e \<Rightarrow> '''' | Inr c \<Rightarrow> c) in
         bindp (SetBinary W newMiddleware (splitMiddleware ! 0)) (\<lambda>(ignored, newMiddleware).
         bindp (SetScript W newMiddleware fileContents) (\<lambda>(ignored, newMiddleware).
         retp (Inr newMiddleware)))))
      else
        bindp (SetBinary W newMiddleware middleware) (\<lambda>(err, newMiddleware). case err of
          Some err \<Rightarrow> retp (Inl err) | None \<Rightarrow> retp (Inr newMiddleware)))"

definition toString :: "Middleware \<Rightarrow> string" where
  "toString this =
     (if mi_Remote this \<noteq> '''' then mi_Remote this
      else (case mi_Script this of
        Some name \<Rightarrow> mi_Binary this @ '' '' @ name
      | None \<Rightarrow> mi_Binary this))"

section \<open>Executing middleware\<close>

text \<open>A payload and an error: with an error the payload is the one that went in.\<close>

type_synonym executed = "RequestResponsePair \<times> string option"

definition executeMiddlewareLocally ::
  "'w world \<Rightarrow> Middleware \<Rightarrow> RequestResponsePair \<Rightarrow> ('w, executed) prog" where
  "executeMiddlewareLocally W this pair = (case mi_Script this of
     None \<Rightarrow> (\<lambda>w. Panics nil_deref)
   | Some name \<Rightarrow>
       (case w_marshal_pair W (ConvertToRequestResponsePairView (sniff (w_libs W)) pair) of
          Inl err \<Rightarrow> retp (pair, Some ''Failed to marshal request to JSON'')
        | Inr pairViewBytes \<Rightarrow>
            bindp (liftp (w_run W (mi_Binary this) [name] pairViewBytes)) (\<lambda>result. case result of
              FailedToStart err \<Rightarrow> retp (pair, Some err)
            | FailedToFinish err \<Rightarrow> retp (pair, Some err)
            | Finished stdout \<Rightarrow>
                if length stdout > 0 then
                  (case w_unmarshal_pair W stdout of
                     Inl err \<Rightarrow> retp (pair, Some ''Failed to unmarshal JSON from middleware'')
                   | Inr newPairView \<Rightarrow>
                       retp (NewRequestResponsePairFromRequestResponsePairView newPairView, None))
                else retp (pair, None))))"

definition executeMiddlewareRemotely ::
  "'w world \<Rightarrow> Middleware \<Rightarrow> RequestResponsePair \<Rightarrow> ('w, executed) prog" where
  "executeMiddlewareRemotely W this pair =
     (let pairViewBytes =
            (case w_marshal_pair W (ConvertToRequestResponsePairView (sniff (w_libs W)) pair) of
               Inl err \<Rightarrow> '''' | Inr bytes \<Rightarrow> bytes)
      in
      if mi_Remote this = '''' then retp (pair, Some ''Error when communicating with remote middleware'')
      else (case NewRequest (w_url_parse W) ''POST'' (mi_Remote this) pairViewBytes of
          Inl err \<Rightarrow> (\<lambda>w. Panics nil_deref)
        | Inr req \<Rightarrow>
            bindp (liftp (w_http_do W DefaultClient
                (req\<lparr>hq_Header := map_option (Header_Add ''Content-Type'' ''application/json'') (hq_Header req)\<rparr>)))
              (\<lambda>result. case result of
                Inl err \<Rightarrow> retp (pair, Some err)
              | Inr resp \<Rightarrow>
                  if hp_Status resp \<noteq> 200
                  then retp (pair, Some ''Error when communicating with remote middleware'')
                  else (case fst (ReadAll (hp_Body resp)) of
                      Inl err \<Rightarrow> retp (pair, Some err)
                    | Inr returnedPairViewBytes \<Rightarrow>
                        (case w_unmarshal_pair W returnedPairViewBytes of
                           Inl err \<Rightarrow> retp (pair, Some err)
                         | Inr newPairView \<Rightarrow>
                             retp (NewRequestResponsePairFromRequestResponsePairView newPairView, None))))))"

definition Execute :: "'w world \<Rightarrow> Middleware \<Rightarrow> RequestResponsePair \<Rightarrow> ('w, executed) prog" where
  "Execute W this pair =
     (if \<not> IsSet this
      then retp (pair, Some ''Cannot execute middleware as middleware has not been correctly set'')
      else if mi_Remote this = '''' then executeMiddlewareLocally W this pair
      else executeMiddlewareRemotely W this pair)"

section \<open>What middleware may do\<close>

lemma Execute_unset: "\<not> IsSet this \<Longrightarrow>
  Execute W this pair w =
    Returns ((pair, Some ''Cannot execute middleware as middleware has not been correctly set''), w)"
  by (simp add: Execute_def retp_def)

lemma executeMiddlewareLocally_error:
  "always (executeMiddlewareLocally W this pair) (\<lambda>(pair', err) w'. err \<noteq> None \<longrightarrow> pair' = pair) w"
proof (cases "mi_Script this")
  case (Some name)
  then show ?thesis
    by (simp add: executeMiddlewareLocally_def)
      (simp add: step_rules split: prod.split sum.split option.split run_result.split
        | rule allI impI conjI always_all)+
qed (simp add: executeMiddlewareLocally_def always_def)

lemma executeMiddlewareRemotely_error:
  "always (executeMiddlewareRemotely W this pair) (\<lambda>(pair', err) w'. err \<noteq> None \<longrightarrow> pair' = pair) w"
  unfolding executeMiddlewareRemotely_def Let_def
  by (cases "NewRequest (w_url_parse W) ''POST'' (mi_Remote this)
       (case w_marshal_pair W (ConvertToRequestResponsePairView (sniff (w_libs W)) pair) of
          Inl err \<Rightarrow> [] | Inr bytes \<Rightarrow> bytes)")
    (simp_all add: step_rules always_panics split: prod.split sum.split option.split)

text \<open>
  Middleware that fails, in whichever way, leaves the payload as it was.
\<close>

lemma Execute_error_keeps_payload:
  assumes "Execute W this pair w = Returns ((pair', Some err), w')"
  shows "pair' = pair"
  using assms always_Returns[OF executeMiddlewareLocally_error, of W this pair w]
    always_Returns[OF executeMiddlewareRemotely_error, of W this pair w]
  by (auto simp: Execute_def split: if_splits)

definition no_libs :: libs where
  "no_libs = \<lparr>re_compiles = (\<lambda>p. True), re_matches = (\<lambda>p s. Contains s p), min_json = Some, min_xml = Some,
     xpath_parses = (\<lambda>_. True), xml_parses = (\<lambda>_. True), xpath_exec = (\<lambda>_ _. None),
     jsonpath_parses = (\<lambda>_. True), jsonpath_evals = (\<lambda>_ _. True), jsonpath_next = (\<lambda>_ _. True),
     sniff = (\<lambda>_. ''text/plain''), gob_enc = (\<lambda>_. Inl ''gob''), gob_dec = (\<lambda>_. Inl ''gob'')\<rparr>"

text \<open>A world of no state, in which a command ends as given.\<close>

definition quiet_world :: "run_result \<Rightarrow> unit world" where
  "quiet_world result = \<lparr>w_libs = no_libs,
     w_url_parse = (\<lambda>u. Inr \<lparr>url_Scheme = ''http'', url_Host = ''h'', url_Path = ''/'', url_RawQuery = []\<rparr>),
     w_marshal_pair = (\<lambda>v. Inr ''{}''), w_unmarshal_pair = (\<lambda>s. Inl ''json''), w_script_dir = ''/tmp/hoverfly'',
     w_remove_all = (\<lambda>p w. (None, w)), w_mkdir = (\<lambda>p w. (None, w)),
     w_temp_file = (\<lambda>d p w. (Inr (d @ ''/'' @ p @ ''1''), w)), w_write = (\<lambda>n c w. (None, w)),
     w_read_file = (\<lambda>n w. (Inr [], w)), w_start_kill = (\<lambda>b w. (None, w)), w_run = (\<lambda>b a i w. (result, w)),
     w_http_post = (\<lambda>u w. (Inr 200, w)), w_http_do = (\<lambda>c q w. (Inl ''refused'', w)),
     w_listen = (\<lambda>p w. (None, w))\<rparr>"

lemma Execute_error_keeps_payload_witness:
  "\<exists>pair'. Execute (quiet_world (FailedToFinish ''exit status 1''))
       \<lparr>mi_Binary = ''python'', mi_Script = Some ''s.py'', mi_Remote = ''''\<rparr>
       \<lparr>pr_Response = zero_response, pr_Request = zero_request\<rparr> () =
     Returns ((pair', Some ''exit status 1''), ()) \<and>
     pair' = \<lparr>pr_Response = zero_response, pr_Request = zero_request\<rparr>"
proof -
  have "Execute (quiet_world (FailedToFinish ''exit status 1''))
       \<lparr>mi_Binary = ''python'', mi_Script = Some ''s.py'', mi_Remote = ''''\<rparr>
       \<lparr>pr_Response = zero_response, pr_Request = zero_request\<rparr> () =
     Returns ((\<lparr>pr_Response = zero_response, pr_Request = zero_request\<rparr>, Some ''exit status 1''), ())"
    by (simp add: Execute_def IsSet_def executeMiddlewareLocally_def quiet_world_def bindp_def liftp_def retp_def)
  with Execute_error_keeps_payload[OF this] show ?thesis by blast
qed

text \<open>A script that copies its input to its output changes nothing but the order of the query.\<close>

lemma Execute_echo:
  assumes "mi_Remote this = ''''" and "mi_Binary this \<noteq> ''''" and "mi_Script this = Some name"
    and "w_marshal_pair W (ConvertToRequestResponsePairView (sniff (w_libs W)) pair) = Inr bytes"
    and "bytes \<noteq> []" and "w_run W (mi_Binary this) [name] bytes w = (Finished bytes, w')"
    and "w_unmarshal_pair W bytes = Inr (ConvertToRequestResponsePairView (sniff (w_libs W)) pair)"
    and "SortQueryString (rq_Query (pr_Request pair)) = rq_Query (pr_Request pair)"
  shows "Execute W this pair w = Returns ((pair, None), w')"
  using assms
  by (simp add: Execute_def IsSet_def executeMiddlewareLocally_def bindp_def liftp_def retp_def
      middleware_payload(1))

text \<open>
  Local middleware without a script, which the conversion of a single word and a JSON document
  without a script can leave behind, makes the next request panic.
\<close>

lemma Execute_no_script:
  "\<lbrakk>mi_Binary this \<noteq> ''''; mi_Remote this = ''''; mi_Script this = None\<rbrakk> \<Longrightarrow>
     Execute W this pair w = Panics nil_deref"
  by (simp add: Execute_def IsSet_def executeMiddlewareLocally_def)

lemma ConvertToNewMiddleware_word:
  assumes "\<not> HasPrefix m ''http''" and "\<not> Contains m '' ''" and "m \<noteq> ''''"
    and "w_start_kill W m w = (None, w')"
  shows "ConvertToNewMiddleware W m w = Returns (Inr (no_middleware\<lparr>mi_Binary := m\<rparr>), w')"
  using assms by (simp add: ConvertToNewMiddleware_def Let_def SetBinary_def bindp_def liftp_def retp_def)

text \<open>
  A middleware given as one word, a command without a script, is accepted when the command
  starts, and then makes every request it is executed on panic.
\<close>

lemma command_without_script_panics:
  assumes "\<not> HasPrefix m ''http''" and "\<not> Contains m '' ''" and "m \<noteq> ''''"
    and "w_start_kill W m w = (None, w')"
  shows "\<exists>mw. ConvertToNewMiddleware W m w = Returns (Inr mw, w') \<and> IsSet mw \<and> panics (Execute W mw pair w')"
  using ConvertToNewMiddleware_word[OF assms] assms(3)
  by (intro exI[of _ "no_middleware\<lparr>mi_Binary := m\<rparr>"])
    (simp add: IsSet_def Execute_no_script no_middleware_def)

lemma command_without_script_panics_witness:
  "\<exists>mw. ConvertToNewMiddleware (quiet_world (Finished [])) ''python'' () = Returns (Inr mw, ()) \<and> IsSet mw \<and>
     panics (Execute (quiet_world (Finished [])) mw \<lparr>pr_Response = zero_response, pr_Request = zero_request\<rparr> ())"
proof -
  have "\<not> HasPrefix ''python'' ''http''" "\<not> Contains ''python'' '' ''" by code_simp+
  then show ?thesis
    by (rule command_without_script_panics) (simp_all add: quiet_world_def)
qed

text \<open>Setting the parts: a failure leaves the part as it was.\<close>

lemma SetBinary_spec:
  "always (SetBinary W this binary) (\<lambda>(err, this') w'.
     this' = (if err = None then this\<lparr>mi_Binary := binary\<rparr> else this)) w"
  by (simp add: SetBinary_def step_rules split: option.split prod.split)

lemma SetRemote_spec:
  "always (SetRemote W this remote) (\<lambda>(err, this') w'.
     this' = (if err = None then this\<lparr>mi_Remote := remote\<rparr> else this)) w"
  by (simp add: SetRemote_def step_rules split: sum.split prod.split)

lemma SetScript_spec:
  "always (SetScript W this script) (\<lambda>(err, this') w'.
     (err = None \<longrightarrow> (\<exists>name. this' = this\<lparr>mi_Script := Some name\<rparr>)) \<and>
     mi_Binary this' = mi_Binary this \<and> mi_Remote this' = mi_Remote this) w"
  by (simp add: SetScript_def DeleteScripts_def Let_def step_rules split: option.split sum.split prod.split)
    blast

lemma middleware_steps_return:
  "returns (SetBinary W this b) w" "returns (SetRemote W this r) w" "returns (SetScript W this c) w"
  by (simp_all add: SetBinary_def SetRemote_def SetScript_def DeleteScripts_def Let_def step_rules
      split: option.split sum.split prod.split)


end
