(* ===== verification/Settings.thy ===== *)
theory Settings
  imports Middleware
begin

text \<open>
  \<^verbatim>\<open>core/settings.go\<close>: the configuration and its initial value, read from the environment. The
  wait group of the configuration is the number of proxies being served.
\<close>

record Configuration =
  cf_AdminPort :: string
  cf_ProxyPort :: string
  cf_Mode :: string
  cf_Destination :: string
  cf_Middleware :: Middleware
  cf_DatabasePath :: string
  cf_Webserver :: bool
  cf_TLSVerification :: bool
  cf_UpstreamProxy :: string
  cf_Verbose :: bool
  cf_Development :: bool
  cf_DisableCache :: bool
  cf_SecretKey :: string
  cf_JWTExpirationDelta :: int
  cf_AuthEnabled :: bool
  cf_ProxyControlWG :: int

definition zero_configuration :: Configuration where
  "zero_configuration = \<lparr>cf_AdminPort = '''', cf_ProxyPort = '''', cf_Mode = '''', cf_Destination = '''',
     cf_Middleware = no_middleware, cf_DatabasePath = '''', cf_Webserver = False,
     cf_TLSVerification = False, cf_UpstreamProxy = '''', cf_Verbose = False, cf_Development = False,
     cf_DisableCache = False, cf_SecretKey = '''', cf_JWTExpirationDelta = 0, cf_AuthEnabled = False,
     cf_ProxyControlWG = 0\<rparr>"

definition Cfg_SetMode :: "string \<Rightarrow> Configuration \<Rightarrow> Configuration" where
  "Cfg_SetMode mode c = c\<lparr>cf_Mode := mode\<rparr>"

definition Cfg_GetMode :: "Configuration \<Rightarrow> string" where
  "Cfg_GetMode c = cf_Mode c"

definition SetUpstreamProxy :: "string \<Rightarrow> Configuration \<Rightarrow> Configuration" where
  "SetUpstreamProxy upstreamProxy c =
     (let upstreamProxy =
            (if \<not> HasPrefix upstreamProxy ''http://'' \<and> \<not> HasPrefix upstreamProxy ''https://''
             then ''http://'' @ upstreamProxy else upstreamProxy)
      in c\<lparr>cf_UpstreamProxy := upstreamProxy\<rparr>)"

definition DefaultPort :: string where "DefaultPort = ''8500''"
definition DefaultAdminPort :: string where "DefaultAdminPort = ''8888''"
definition DefaultDatabasePath :: string where "DefaultDatabasePath = ''requests.db''"
definition DefaultJWTExpirationDelta :: int where "DefaultJWTExpirationDelta = 1 * 24 * 60 * 60"

text \<open>
  \<open>getenv\<close> is the environment, \<open>random_name\<close> the key \<^verbatim>\<open>GetRandomName(10)\<close> draws. \<^verbatim>\<open>log.Fatal\<close> ends the
  program, which is written as a panic.
\<close>

definition Fatal :: "string \<Rightarrow> 'a outcome" where
  "Fatal msg = Panics (''exit status 1: '' @ msg)"

definition token_expiration :: "(string \<Rightarrow> string) \<Rightarrow> int outcome" where
  "token_expiration getenv =
     (if getenv ''HoverflyTokenExpiration'' \<noteq> '''' then
        (case Atoi (getenv ''HoverflyTokenExpiration'') of
           Inl err \<Rightarrow> Fatal ''failed to get token exipration delta, using default value''
         | Inr exp \<Rightarrow> Returns exp)
      else Returns DefaultJWTExpirationDelta)"

text \<open>The settings that do not depend on the world, the token expiration given.\<close>

definition settings_from_env :: "(string \<Rightarrow> string) \<Rightarrow> string \<Rightarrow> int \<Rightarrow> Configuration" where
  "settings_from_env getenv random_name exp =
     zero_configuration
       \<lparr>cf_AdminPort := (if getenv ''AdminPort'' \<noteq> '''' then getenv ''AdminPort'' else DefaultAdminPort),
        cf_ProxyPort := (if getenv ''ProxyPort'' \<noteq> '''' then getenv ''ProxyPort'' else DefaultPort),
        cf_UpstreamProxy := (if getenv ''UpstreamProxy'' \<noteq> '''' then getenv ''UpstreamProxy'' else ''''),
        cf_DatabasePath := (if getenv ''HoverflyDB'' = '''' then DefaultDatabasePath else ''''),
        cf_Webserver := False,
        cf_SecretKey := (if getenv ''HoverflySecret'' \<noteq> '''' then getenv ''HoverflySecret'' else random_name),
        cf_JWTExpirationDelta := exp,
        cf_AuthEnabled := (getenv ''HoverflyAuthEnabled'' = ''true''),
        cf_TLSVerification := (getenv ''HoverflyTlsVerification'' \<noteq> ''false'')\<rparr>"

definition InitSettings ::
  "'w world \<Rightarrow> (string \<Rightarrow> string) \<Rightarrow> string \<Rightarrow> ('w, Configuration) prog" where
  "InitSettings W getenv random_name w =
     bind_outcome (token_expiration getenv) (\<lambda>exp.
       bindp (ConvertToNewMiddleware W (getenv ''HoverflyMiddleware'')) (\<lambda>newMiddleware.
         case newMiddleware of
           Inl err \<Rightarrow> (\<lambda>w. Panics nil_deref)
         | Inr m \<Rightarrow> retp ((settings_from_env getenv random_name exp)\<lparr>cf_Middleware := m\<rparr>)) w)"

lemma SetUpstreamProxy_idem:
  "SetUpstreamProxy p (SetUpstreamProxy p c) = SetUpstreamProxy p c"
  by (simp add: SetUpstreamProxy_def Let_def)

lemma SetUpstreamProxy_scheme:
  "HasPrefix (cf_UpstreamProxy (SetUpstreamProxy p c)) ''http://'' \<or>
   HasPrefix (cf_UpstreamProxy (SetUpstreamProxy p c)) ''https://''"
  by (simp add: SetUpstreamProxy_def Let_def HasPrefix_iff)

lemma ConvertToNewMiddleware_empty: "ConvertToNewMiddleware W [] w = Returns (Inr no_middleware, w)"
  by (simp add: ConvertToNewMiddleware_def Let_def SetBinary_def bindp_def retp_def Contains_def Index_def)
    (simp add: no_middleware_def)

text \<open>With nothing set in the environment, every setting has its default.\<close>

lemma InitSettings_default:
  "InitSettings W (\<lambda>v. '''') key w =
     Returns (zero_configuration\<lparr>cf_AdminPort := DefaultAdminPort, cf_ProxyPort := DefaultPort,
       cf_DatabasePath := DefaultDatabasePath, cf_SecretKey := key,
       cf_JWTExpirationDelta := DefaultJWTExpirationDelta, cf_TLSVerification := True\<rparr>, w)"
  by (simp add: InitSettings_def token_expiration_def ConvertToNewMiddleware_empty bindp_def retp_def
      settings_from_env_def zero_configuration_def)

text \<open>A database path given in the environment is dropped: the path stays empty.\<close>

lemma settings_database_path:
  "getenv ''HoverflyDB'' \<noteq> '''' \<Longrightarrow> cf_DatabasePath (settings_from_env getenv key exp) = ''''"
  by (simp add: settings_from_env_def)

text \<open>
  A command in the middleware variable of the environment that does not start, or a remote
  one that cannot be reached, ends the program in a nil dereference instead of an error.
\<close>

lemma InitSettings_bad_middleware:
  assumes "token_expiration getenv = Returns exp"
    and "ConvertToNewMiddleware W (getenv ''HoverflyMiddleware'') w = Returns (Inl err, w')"
  shows "InitSettings W getenv random_name w = Panics nil_deref"
  using assms by (simp add: InitSettings_def bindp_def)

lemma InitSettings_bad_middleware_witness:
  "InitSettings ((quiet_world (Finished []))\<lparr>w_start_kill := (\<lambda>b w. (Some ''not found'', w))\<rparr>)
     (\<lambda>v. if v = ''HoverflyMiddleware'' then ''nosuchcommand'' else '''') ''key'' () = Panics nil_deref"
proof (rule InitSettings_bad_middleware)
  have n: "\<not> HasPrefix ''nosuchcommand'' ''http''" "\<not> Contains ''nosuchcommand'' '' ''" by code_simp+
  show "token_expiration (\<lambda>v. if v = ''HoverflyMiddleware'' then ''nosuchcommand'' else '''') =
      Returns DefaultJWTExpirationDelta"
    by (simp add: token_expiration_def)
  show "ConvertToNewMiddleware ((quiet_world (Finished []))\<lparr>w_start_kill := (\<lambda>b w. (Some ''not found'', w))\<rparr>)
      ((\<lambda>v. if v = ''HoverflyMiddleware'' then ''nosuchcommand'' else '''') ''HoverflyMiddleware'') () =
    Returns (Inl ''not found'', ())"
    using n by (simp add: ConvertToNewMiddleware_def SetBinary_def bindp_def liftp_def retp_def)
qed

end
