(* ===== verification/Observability.thy ===== *)
theory Observability
  imports Modes
begin

text \<open>
  What Hoverfly counts and keeps of its own work: the counters by mode
  (\<^verbatim>\<open>core/metrics/metrics.go\<close>), the log entries kept for the logs API
  (\<^verbatim>\<open>core/store_logs_hook.go\<close>) and the hooks on actions (\<^verbatim>\<open>core/models.go\<close>).
\<close>

section \<open>Counters by mode\<close>

text \<open>
  The counters are 64-bit integers. The registry holds the counter under the same name as the map
  of counters does, the modes being distinct, so one map stands for both.
\<close>

record CounterByMode =
  ct_Counters :: "i64 gomap"

record Stats =
  sa_Counters :: "int gomap"
  sa_Gauges :: "int gomap"
  sa_GaugesFloat :: "int gomap"

definition NewModeCounter :: "string list \<Rightarrow> CounterByMode" where
  "NewModeCounter modes = \<lparr>ct_Counters = foldl (\<lambda>counters v. map_put v 0 counters) [] modes\<rparr>"

definition Count :: "string \<Rightarrow> CounterByMode \<Rightarrow> CounterByMode outcome" where
  "Count mode c = (case map_get (ct_Counters c) mode of
     None \<Rightarrow> Panics nil_deref
   | Some n \<Rightarrow> Returns (c\<lparr>ct_Counters := map_put mode (n + 1) (ct_Counters c)\<rparr>))"

definition Flush :: "CounterByMode \<Rightarrow> Stats" where
  "Flush c = \<lparr>sa_Counters = foldl (\<lambda>counters (name, n). map_put name (sint n) counters) [] (ct_Counters c),
     sa_Gauges = [], sa_GaugesFloat = []\<rparr>"

lemma Count_get:
  "Count mode c = Returns c' \<Longrightarrow>
     map_get (ct_Counters c') m =
       (if m = mode then map_option (\<lambda>n. n + 1) (map_get (ct_Counters c) m) else map_get (ct_Counters c) m)"
  by (auto simp: Count_def split: option.splits)

lemma Count_panics_iff: "panics (Count mode c) \<longleftrightarrow> map_get (ct_Counters c) mode = None"
  by (simp add: Count_def split: option.splits)

lemma Count_keys:
  "Count mode c = Returns c' \<Longrightarrow> set (map_keys (ct_Counters c')) = set (map_keys (ct_Counters c))"
  by (auto simp: Count_def set_map_keys_put map_get_Some_iff[symmetric] split: option.splits)

lemma NewModeCounter_keys: "set (map_keys (ct_Counters (NewModeCounter modes))) = set modes"
proof -
  have "set (map_keys (foldl (\<lambda>counters v. map_put v (0 :: i64) counters) m modes)) =
      set (map_keys m) \<union> set modes" for m
    by (induction modes arbitrary: m) (auto simp: set_map_keys_put)
  then show ?thesis by (simp add: NewModeCounter_def map_keys_def)
qed

text \<open>A run of requests, one count for each.\<close>

fun count_all :: "string list \<Rightarrow> CounterByMode \<Rightarrow> CounterByMode outcome" where
  "count_all [] c = Returns c"
| "count_all (m # ms) c = bind_outcome (Count m c) (count_all ms)"

lemma count_all_get:
  "count_all ms c = Returns c' \<Longrightarrow> map_get (ct_Counters c) m = Some n \<Longrightarrow>
     map_get (ct_Counters c') m = Some (n + of_nat (count_list ms m))"
proof (induction ms arbitrary: c n)
  case (Cons k ms)
  then obtain d where d: "Count k c = Returns d" "count_all ms d = Returns c'"
    by (auto simp: bind_outcome_Returns_iff)
  have "map_get (ct_Counters d) m = Some (if m = k then n + 1 else n)"
    using Count_get[OF d(1), of m] Cons.prems(2) by auto
  from Cons.IH[OF d(2) this] show ?case by (auto simp: algebra_simps)
qed simp

lemma count_all_returns:
  "set ms \<subseteq> set (map_keys (ct_Counters c)) \<Longrightarrow> \<exists>c'. count_all ms c = Returns c'"
proof (induction ms arbitrary: c)
  case (Cons k ms)
  then obtain n where "map_get (ct_Counters c) k = Some n" using map_get_Some_iff by fastforce
  then obtain d where d: "Count k c = Returns d" by (auto simp: Count_def)
  with Cons.IH[of d] Cons.prems Count_keys[OF d] show ?case by simp
qed simp

section \<open>The log entries\<close>

text \<open>An entry, its time already formatted.\<close>

record log_entry =
  le_Data :: "log_value gomap"
  le_Time :: string
  le_Message :: string
  le_Level :: string

record StoreLogsHook =
  lh_Entries :: "log_entry list"

record LogsView =
  lv_Logs :: "log_value gomap list"

definition NewStoreLogsHook :: StoreLogsHook where
  "NewStoreLogsHook = \<lparr>lh_Entries = []\<rparr>"

definition StoreLogsHook_Fire :: "log_entry \<Rightarrow> StoreLogsHook \<Rightarrow> StoreLogsHook" where
  "StoreLogsHook_Fire entry hook = hook\<lparr>lh_Entries := [entry] @ lh_Entries hook\<rparr>"

definition Levels :: "string list" where
  "Levels = [''panic'', ''fatal'', ''error'', ''warning'', ''info'', ''debug'']"

definition GetLogsCount :: "StoreLogsHook \<Rightarrow> int" where
  "GetLogsCount hook = int (length (lh_Entries hook))"

definition entry_view :: "log_entry \<Rightarrow> log_value gomap" where
  "entry_view entry =
     (let data = foldl (\<lambda>data (k, v). map_put k v data) [] (le_Data entry);
          data = map_put ''time'' (LogText (le_Time entry)) data;
          data = map_put ''msg'' (LogText (le_Message entry)) data
      in map_put ''level'' (LogText (le_Level entry)) data)"

text \<open>\<^verbatim>\<open>hook.Entries[:limit]\<close> panics on a negative limit.\<close>

definition GetFilteredLogsView :: "StoreLogsHook \<Rightarrow> int \<Rightarrow> LogsView outcome" where
  "GetFilteredLogsView hook limit =
     (let limit = (if limit > int (length (lh_Entries hook)) then int (length (lh_Entries hook)) else limit) in
      if limit < 0 then Panics ''runtime error: slice bounds out of range''
      else Returns \<lparr>lv_Logs = map entry_view (take (nat limit) (lh_Entries hook))\<rparr>)"

definition GetLogsView :: "StoreLogsHook \<Rightarrow> LogsView outcome" where
  "GetLogsView hook = GetFilteredLogsView hook 500"

lemma GetFilteredLogsView_eq:
  "GetFilteredLogsView hook limit =
     (if limit < 0 then Panics ''runtime error: slice bounds out of range''
      else Returns \<lparr>lv_Logs = map entry_view (take (nat limit) (lh_Entries hook))\<rparr>)"
  by (simp add: GetFilteredLogsView_def Let_def)

lemma fire_all_entries:
  "lh_Entries (foldl (\<lambda>h e. StoreLogsHook_Fire e h) hook es) = rev es @ lh_Entries hook"
  by (induction es arbitrary: hook) (simp_all add: StoreLogsHook_Fire_def)

text \<open>
  After any run of log entries the logs API shows the newest ones first, at most as many as
  the limit; it panics exactly on a negative limit.
\<close>

lemma logs_newest_first:
  "GetFilteredLogsView (foldl (\<lambda>h e. StoreLogsHook_Fire e h) NewStoreLogsHook es) limit =
     (if limit < 0 then Panics ''runtime error: slice bounds out of range''
      else Returns \<lparr>lv_Logs = map entry_view (take (nat limit) (rev es))\<rparr>)"
  by (simp add: GetFilteredLogsView_eq fire_all_entries NewStoreLogsHook_def)

section \<open>Hooks on actions\<close>

record Entry =
  en_Data :: string
  en_ActionType :: string
  en_Message :: string

record 's Hook =
  hk_ActionTypes :: "string list"
  hk_Fire :: "Entry \<Rightarrow> 's \<Rightarrow> string option \<times> 's"

definition Hooks_Add :: "'s Hook \<Rightarrow> 's Hook list gomap \<Rightarrow> 's Hook list gomap" where
  "Hooks_Add hook hooks = foldl (\<lambda>hooks ac. map_append ac hook hooks) hooks (hk_ActionTypes hook)"

fun fire_hooks :: "'s Hook list \<Rightarrow> Entry \<Rightarrow> 's \<Rightarrow> string option \<times> 's" where
  "fire_hooks [] entry s = (None, s)"
| "fire_hooks (hook # hooks) entry s = (case hk_Fire hook entry s of
     (Some err, s') \<Rightarrow> (Some err, s')
   | (None, s') \<Rightarrow> fire_hooks hooks entry s')"

definition Hooks_Fire :: "'s Hook list gomap \<Rightarrow> string \<Rightarrow> Entry \<Rightarrow> 's \<Rightarrow> string option \<times> 's" where
  "Hooks_Fire hooks ac entry s = fire_hooks (map_index hooks ac) entry s"

lemma map_index_append_key:
  "map_index (map_append k x m) j = (if j = k then map_index m j @ [x] else map_index m j)"
  by (simp add: map_append_def map_index_def)

lemma Hooks_Add_index:
  "map_index (Hooks_Add hook hooks) ac =
     map_index hooks ac @ replicate (count_list (hk_ActionTypes hook) ac) hook"
proof -
  have "map_index (foldl (\<lambda>hooks ac. map_append ac hook hooks) hooks acs) ac =
      map_index hooks ac @ replicate (count_list acs ac) hook" for acs
    by (induction acs arbitrary: hooks) (simp_all add: map_index_append_key)
  then show ?thesis by (simp add: Hooks_Add_def)
qed

lemma fire_hooks_append:
  "fire_hooks (hs @ hs') entry s = (case fire_hooks hs entry s of
     (Some err, s') \<Rightarrow> (Some err, s') | (None, s') \<Rightarrow> fire_hooks hs' entry s')"
  by (induction hs arbitrary: s) (auto split: option.split prod.split)

text \<open>
  A hook added for an action fires after the hooks already there, and only when none of them
  failed; the hooks of other actions are as they were.
\<close>

lemma Hooks_Add_Fire:
  "Hooks_Fire (Hooks_Add hook hooks) ac entry s =
     (case Hooks_Fire hooks ac entry s of
        (Some err, s') \<Rightarrow> (Some err, s')
      | (None, s') \<Rightarrow> fire_hooks (replicate (count_list (hk_ActionTypes hook) ac) hook) entry s')"
  by (simp add: Hooks_Fire_def Hooks_Add_index fire_hooks_append)

end
