(* ===== verification/Auth.thy ===== *)
theory Auth
  imports CacheMatcher Http
begin

text \<open>
  \<^verbatim>\<open>core/authentication\<close>: users and revoked tokens in two caches
  (\<^verbatim>\<open>backends/storage_backend.go\<close>), and the JSON web tokens (\<^verbatim>\<open>jwt_backend.go\<close>,
  \<^verbatim>\<open>auth_service.go\<close>). The password hash, the token library and the JSON codec of users are
  parameters. The lemmas show who is let in after users are added and tokens revoked.
\<close>

section \<open>The libraries\<close>

record User =
  us_UUID :: string
  us_Username :: string
  us_Password :: string
  us_IsAdmin :: bool

definition zero_user :: User where
  "zero_user = \<lparr>us_UUID = '''', us_Username = '''', us_Password = '''', us_IsAdmin = False\<rparr>"

record claims =
  cl_exp :: int
  cl_iat :: int
  cl_username :: string
  cl_sub :: string

text \<open>
  \<open>bc_generate\<close> hashes a password with a salt, \<open>bc_compare\<close> says whether a hash is one of a password;
  \<open>au_encode\<close> and \<open>au_decode\<close> are the JSON codec of \<^verbatim>\<open>User\<close>, decoding into a pointer that the JSON
  null leaves nil; \<open>jw_sign\<close> signs claims with a secret; \<open>jw_parse\<close> is \<^verbatim>\<open>jwt.Parse\<close> of a token and a secret
  with a key function that accepts any signing method, \<open>jw_parse_hmac\<close> with the one that accepts HMAC only:
  an error, or whether the token is valid; \<open>jw_form\<close> is the \<^verbatim>\<open>access_token\<close> of the form net/http parses from the
  URL and the body. \<open>au_token_json\<close> writes a \<^verbatim>\<open>TokenAuthentication\<close>.
\<close>

record auth_libs =
  bc_generate :: "string \<Rightarrow> string \<Rightarrow> string"
  bc_compare :: "string \<Rightarrow> string \<Rightarrow> bool"
  au_encode :: "User \<Rightarrow> string + string"
  au_decode :: "string \<Rightarrow> string + User option"
  jw_sign :: "claims \<Rightarrow> string \<Rightarrow> string + string"
  jw_parse :: "string \<Rightarrow> string \<Rightarrow> string + bool"
  jw_parse_hmac :: "string \<Rightarrow> string \<Rightarrow> string + bool"
  jw_form :: "http_request \<Rightarrow> string"
  au_token_json :: "string \<Rightarrow> string"

section \<open>The backend on two caches\<close>

record CacheAuthBackend =
  ab_TokenCache :: store
  ab_userCache :: store

definition NewCacheBasedAuthBackend :: "store \<Rightarrow> store \<Rightarrow> CacheAuthBackend" where
  "NewCacheBasedAuthBackend tokenCache userCache =
     \<lparr>ab_TokenCache = tokenCache, ab_userCache = userCache\<rparr>"

definition User_Encode :: "auth_libs \<Rightarrow> User \<Rightarrow> string + string" where
  "User_Encode A u = au_encode A u"

definition DecodeUser :: "auth_libs \<Rightarrow> string \<Rightarrow> string + User option" where
  "DecodeUser A user = au_decode A user"

text \<open>The salt and the UUID are drawn at random by the call.\<close>

definition AddUser ::
  "auth_libs \<Rightarrow> string \<Rightarrow> string \<Rightarrow> CacheAuthBackend \<Rightarrow> string \<Rightarrow> string \<Rightarrow> bool \<Rightarrow>
   string option \<times> CacheAuthBackend" where
  "AddUser A salt uuid b username password admin =
     (let user = \<lparr>us_UUID = uuid, us_Username = username,
                  us_Password = bc_generate A password salt, us_IsAdmin = admin\<rparr>
      in case User_Encode A user of
           Inl err \<Rightarrow> (Some err, b)
         | Inr userBytes \<Rightarrow> (case store_Set (ab_userCache b) username userBytes of
             (Inl err, c) \<Rightarrow> (Some err, b\<lparr>ab_userCache := c\<rparr>)
           | (Inr u, c) \<Rightarrow> (None, b\<lparr>ab_userCache := c\<rparr>)))"

definition GetUser :: "auth_libs \<Rightarrow> CacheAuthBackend \<Rightarrow> string \<Rightarrow> string + User option" where
  "GetUser A b username = (case store_Get (ab_userCache b) username of
     Inl err \<Rightarrow> Inl err
   | Inr userBytes \<Rightarrow> DecodeUser A userBytes)"

definition InvalidateToken :: "CacheAuthBackend \<Rightarrow> string \<Rightarrow> string option \<times> CacheAuthBackend" where
  "InvalidateToken b token = (case store_Set (ab_TokenCache b) token ''whentoexpire'' of
     (Inl err, c) \<Rightarrow> (Some err, b\<lparr>ab_TokenCache := c\<rparr>)
   | (Inr u, c) \<Rightarrow> (None, b\<lparr>ab_TokenCache := c\<rparr>))"

text \<open>With an error the stores give no value.\<close>

definition IsTokenBlacklisted :: "CacheAuthBackend \<Rightarrow> string \<Rightarrow> bool \<times> string option" where
  "IsTokenBlacklisted b token = (case store_Get (ab_TokenCache b) token of
     Inl err \<Rightarrow> (False, Some err)
   | Inr blacklistedToken \<Rightarrow> (True, None))"

text \<open>
  The loop returns in its first round: only the first user is decoded, and the others are zero
  values. A user that cannot be decoded is a nil pointer, which is dereferenced.
\<close>

definition GetAllUsers :: "auth_libs \<Rightarrow> CacheAuthBackend \<Rightarrow> (User list \<times> string option) outcome" where
  "GetAllUsers A b =
     (let values = (case store_GetAllValues (ab_userCache b) of Inl e \<Rightarrow> [] | Inr vs \<Rightarrow> vs);
          users = replicate (length values) zero_user
      in case values of
           [] \<Rightarrow> Returns (users, None)
         | user # rest \<Rightarrow> (case DecodeUser A user of
             Inl err \<Rightarrow> Panics nil_deref
           | Inr None \<Rightarrow> Panics nil_deref
           | Inr (Some decodedUser) \<Rightarrow> Returns (users[0 := decodedUser], None)))"

section \<open>Tokens\<close>

record JWTAuthenticationBackend =
  jb_SecretKey :: string
  jb_JWTExpirationDelta :: int
  jb_AuthBackend :: CacheAuthBackend

definition InitJWTAuthenticationBackend ::
  "CacheAuthBackend \<Rightarrow> string \<Rightarrow> int \<Rightarrow> JWTAuthenticationBackend" where
  "InitJWTAuthenticationBackend ab secret exp =
     \<lparr>jb_SecretKey = secret, jb_JWTExpirationDelta = exp, jb_AuthBackend = ab\<rparr>"

text \<open>
  The time is in nanoseconds since 1970. \<^verbatim>\<open>time.Hour * time.Duration(delta)\<close> is a product of 64-bit
  integers.
\<close>

definition unix :: "int \<Rightarrow> int" where
  "unix now = now div 1000000000"

definition hours :: "int \<Rightarrow> int" where
  "hours delta = sint ((3600000000000 :: i64) * word_of_int delta)"

definition GenerateToken ::
  "auth_libs \<Rightarrow> JWTAuthenticationBackend \<Rightarrow> int \<Rightarrow> string \<Rightarrow> string \<Rightarrow> string + string" where
  "GenerateToken A backend now userUUID username =
     jw_sign A \<lparr>cl_exp = unix (now + hours (jb_JWTExpirationDelta backend)), cl_iat = unix now,
       cl_username = username, cl_sub = userUUID\<rparr> (jb_SecretKey backend)"

definition Authenticate :: "auth_libs \<Rightarrow> JWTAuthenticationBackend \<Rightarrow> User \<Rightarrow> bool" where
  "Authenticate A backend user = (case GetUser A (jb_AuthBackend backend) (us_Username user) of
     Inl err \<Rightarrow> False
   | Inr None \<Rightarrow> False
   | Inr (Some dbUser) \<Rightarrow>
       us_Username user = us_Username dbUser \<and> bc_compare A (us_Password dbUser) (us_Password user))"

definition JWT_Logout :: "JWTAuthenticationBackend \<Rightarrow> string \<Rightarrow> string option \<times> CacheAuthBackend" where
  "JWT_Logout backend tokenString = InvalidateToken (jb_AuthBackend backend) tokenString"

definition IsInBlacklist :: "JWTAuthenticationBackend \<Rightarrow> string \<Rightarrow> bool" where
  "IsInBlacklist backend token = fst (IsTokenBlacklisted (jb_AuthBackend backend) token)"

section \<open>Logging in and out\<close>

definition Login ::
  "auth_libs \<Rightarrow> User \<Rightarrow> CacheAuthBackend \<Rightarrow> string \<Rightarrow> int \<Rightarrow> int \<Rightarrow> int \<times> string" where
  "Login A requestUser ab secret exp now =
     (let authBackend = InitJWTAuthenticationBackend ab secret exp in
      if Authenticate A authBackend requestUser then
        (case GenerateToken A authBackend now (us_UUID requestUser) (us_Username requestUser) of
           Inl err \<Rightarrow> (500, '''')
         | Inr token \<Rightarrow> (200, au_token_json A token))
      else (401, ''''))"

definition RefreshToken ::
  "auth_libs \<Rightarrow> User \<Rightarrow> CacheAuthBackend \<Rightarrow> string \<Rightarrow> int \<Rightarrow> int \<Rightarrow> string outcome" where
  "RefreshToken A requestUser ab secret exp now =
     (case GenerateToken A (InitJWTAuthenticationBackend ab secret exp) now
             (us_UUID requestUser) (us_Username requestUser) of
        Inl err \<Rightarrow> Panics err
      | Inr token \<Rightarrow> Returns (au_token_json A token))"

definition authorization :: "http_request \<Rightarrow> string" where
  "authorization req = (case hq_Header req of None \<Rightarrow> '''' | Some h \<Rightarrow> Header_Get ''Authorization'' h)"

text \<open>\<^verbatim>\<open>jwt.ParseFromRequest\<close>: the token is in the header, in any case of \<^verbatim>\<open>Bearer\<close>, or in the form.\<close>

definition request_token :: "auth_libs \<Rightarrow> http_request \<Rightarrow> string option" where
  "request_token A req =
     (let ah = authorization req in
      if ah \<noteq> '''' \<and> length ah > 6 \<and> map upper_char (take 7 ah) = ''BEARER '' then Some (drop 7 ah)
      else if jw_form A req \<noteq> '''' then Some (jw_form A req) else None)"

definition ParseFromRequest ::
  "auth_libs \<Rightarrow> (string \<Rightarrow> string \<Rightarrow> string + bool) \<Rightarrow> http_request \<Rightarrow> string \<Rightarrow> string + bool" where
  "ParseFromRequest A parse req secret = (case request_token A req of
     None \<Rightarrow> Inl ''no token present in request'' | Some token \<Rightarrow> parse token secret)"

definition Logout ::
  "auth_libs \<Rightarrow> http_request \<Rightarrow> CacheAuthBackend \<Rightarrow> string \<Rightarrow> int \<Rightarrow> string option \<times> CacheAuthBackend" where
  "Logout A req ab secret exp =
     (let authBackend = InitJWTAuthenticationBackend ab secret exp in
      case ParseFromRequest A (jw_parse A) req (jb_SecretKey authBackend) of
        Inl err \<Rightarrow> (Some err, ab)
      | Inr valid \<Rightarrow> JWT_Logout authBackend (authorization req))"

section \<open>Users who were added are let in\<close>

definition wf_auth :: "CacheAuthBackend \<Rightarrow> bool" where
  "wf_auth b = (wf_store (ab_TokenCache b) \<and> wf_store (ab_userCache b))"

text \<open>What the code relies on of the password hash and of the codec on one user.\<close>

definition hash_checks :: "auth_libs \<Rightarrow> bool" where
  "hash_checks A = (\<forall>p q salt. bc_compare A (bc_generate A p salt) q \<longleftrightarrow> p = q)"

definition user_encodes :: "auth_libs \<Rightarrow> User \<Rightarrow> bool" where
  "user_encodes A u = (case au_encode A u of
     Inl e \<Rightarrow> False
   | Inr b \<Rightarrow> accepts_bolt (us_Username u) b \<and> au_decode A b = Inr (Some u))"

lemma AddUser_GetUser:
  assumes "wf_store (ab_userCache b)"
    and "user_encodes A \<lparr>us_UUID = uuid, us_Username = username,
           us_Password = bc_generate A password salt, us_IsAdmin = admin\<rparr>"
  shows "fst (AddUser A salt uuid b username password admin) = None"
    and "GetUser A (snd (AddUser A salt uuid b username password admin)) name =
      (if name = username
       then Inr (Some \<lparr>us_UUID = uuid, us_Username = username,
              us_Password = bc_generate A password salt, us_IsAdmin = admin\<rparr>)
       else GetUser A (snd (AddUser A salt uuid b username password admin)) name)"
    and "name \<noteq> username \<Longrightarrow>
      found (store_Get (ab_userCache (snd (AddUser A salt uuid b username password admin))) name) =
      found (store_Get (ab_userCache b) name)"
proof -
  let ?u = "\<lparr>us_UUID = uuid, us_Username = username,
              us_Password = bc_generate A password salt, us_IsAdmin = admin\<rparr>"
  obtain bytes where enc: "au_encode A ?u = Inr bytes" and acc: "accepts_bolt username bytes"
      and dec: "au_decode A bytes = Inr (Some ?u)"
    using assms(2) by (auto simp: user_encodes_def split: sum.splits)
  obtain c where c: "store_Set (ab_userCache b) username bytes = (Inr (), c)"
    using store.Set_ok[OF assms(1) acc] by (metis prod.collapse)
  have get: "found (store_Get c j) = (if j = username then Some bytes else found (store_Get (ab_userCache b) j))"
    for j using store.Get_Set[OF assms(1) acc, of j] by (simp add: c)
  have add: "AddUser A salt uuid b username password admin = (None, b\<lparr>ab_userCache := c\<rparr>)"
    by (simp add: AddUser_def Let_def User_Encode_def enc c)
  show "fst (AddUser A salt uuid b username password admin) = None" by (simp add: add)
  show "GetUser A (snd (AddUser A salt uuid b username password admin)) name =
      (if name = username then Inr (Some ?u)
       else GetUser A (snd (AddUser A salt uuid b username password admin)) name)"
    using get[of username] by (simp add: add GetUser_def found_Some_iff DecodeUser_def dec)
  show "name \<noteq> username \<Longrightarrow>
      found (store_Get (ab_userCache (snd (AddUser A salt uuid b username password admin))) name) =
      found (store_Get (ab_userCache b) name)"
    by (simp add: add get)
qed

lemma GetUser_found:
  assumes "us_Username u = n"
    and "found (store_Get (ab_userCache b) n) = found (store_Get (ab_userCache b') n)"
  shows "Authenticate A (InitJWTAuthenticationBackend b s e) u =
    Authenticate A (InitJWTAuthenticationBackend b' s e) u"
  using assms by (cases "store_Get (ab_userCache b) n"; cases "store_Get (ab_userCache b') n")
    (auto simp: Authenticate_def GetUser_def InitJWTAuthenticationBackend_def)


definition plain_auth :: auth_libs where
  "plain_auth = \<lparr>bc_generate = (\<lambda>p salt. p), bc_compare = (=), au_encode = (\<lambda>u. Inr ''user''),
     au_decode = (\<lambda>s. Inr (Some \<lparr>us_UUID = ''1'', us_Username = ''hf'', us_Password = ''pw'', us_IsAdmin = True\<rparr>)),
     jw_sign = (\<lambda>c s. Inr ''token''), jw_parse = (\<lambda>r s. Inr True), jw_parse_hmac = (\<lambda>r s. Inr True),
     jw_form = (\<lambda>r. ''''), au_token_json = (\<lambda>t. t)\<rparr>"

definition fresh_auth :: CacheAuthBackend where
  "fresh_auth = NewCacheBasedAuthBackend (Memory NewInMemoryCache) (Memory NewInMemoryCache)"

lemma wf_fresh_auth: "wf_auth fresh_auth"
  by (simp add: wf_auth_def fresh_auth_def NewCacheBasedAuthBackend_def wf_memory_def NewInMemoryCache_def)


section \<open>Revoked tokens\<close>

text \<open>The contract of the token half of \<^verbatim>\<open>backends.Authentication\<close>.\<close>

locale token_store =
  fixes invalidate :: "'b \<Rightarrow> string \<Rightarrow> string option \<times> 'b"
    and blacklisted :: "'b \<Rightarrow> string \<Rightarrow> bool \<times> string option"
    and accepts :: "string \<Rightarrow> bool"
    and invar :: "'b \<Rightarrow> bool"
  assumes invalidate_ok: "invar b \<Longrightarrow> accepts t \<Longrightarrow> fst (invalidate b t) = None"
    and invalidate_invar: "invar b \<Longrightarrow> invar (snd (invalidate b t))"
    and blacklisted_invalidate: "invar b \<Longrightarrow> accepts t \<Longrightarrow>
      fst (blacklisted (snd (invalidate b t)) u) = (u = t \<or> fst (blacklisted b u))"
begin

lemma blacklisted_run:
  "invar b \<Longrightarrow> \<forall>t \<in> set ts. accepts t \<Longrightarrow>
     fst (blacklisted (foldl (\<lambda>b t. snd (invalidate b t)) b ts) u) = (u \<in> set ts \<or> fst (blacklisted b u))"
  by (induction ts arbitrary: b) (auto simp: invalidate_invar blacklisted_invalidate)

end

definition token_key :: "string \<Rightarrow> bool" where
  "token_key t = (t \<noteq> [] \<and> int (length t) \<le> MaxKeySize)"

lemma InvalidateToken_store:
  assumes "wf_auth b"
  shows "token_key t \<Longrightarrow> fst (InvalidateToken b t) = None"
    and "wf_auth (snd (InvalidateToken b t))"
    and "token_key t \<Longrightarrow>
      fst (IsTokenBlacklisted (snd (InvalidateToken b t)) u) = (u = t \<or> fst (IsTokenBlacklisted b u))"
proof -
  have wf: "wf_store (ab_TokenCache b)" using assms by (simp add: wf_auth_def)
  obtain r c where c: "store_Set (ab_TokenCache b) t ''whentoexpire'' = (r, c)"
    by (cases "store_Set (ab_TokenCache b) t ''whentoexpire''")
  have bl: "fst (IsTokenBlacklisted b' u) = (found (store_Get (ab_TokenCache b') u) \<noteq> None)" for b'
    by (simp add: IsTokenBlacklisted_def split: sum.splits)
  show "wf_auth (snd (InvalidateToken b t))"
    using store.Set_invar[OF wf, of t "''whentoexpire''"] assms
    by (cases r) (simp_all add: InvalidateToken_def c wf_auth_def)
  assume "token_key t"
  then have acc: "accepts_bolt t ''whentoexpire''"
    by (simp add: token_key_def accepts_bolt_def MaxValueSize_def)
  have r: "r = Inr ()" using store.Set_ok[OF wf acc] by (simp add: c)
  then show "fst (InvalidateToken b t) = None" by (simp add: InvalidateToken_def c)
  show "fst (IsTokenBlacklisted (snd (InvalidateToken b t)) u) = (u = t \<or> fst (IsTokenBlacklisted b u))"
    using store.Get_Set[OF wf acc, of u] r by (simp add: bl InvalidateToken_def c)
qed

interpretation tokens: token_store InvalidateToken IsTokenBlacklisted token_key wf_auth
  by unfold_locales (simp_all add: InvalidateToken_store)

text \<open>
  C36: after any run of logouts a token is black-listed exactly when it was one of those revoked,
  or had been before.
\<close>

theorem revoked_tokens:
  assumes "wf_auth b" and "\<forall>t \<in> set ts. token_key t"
  shows "IsInBlacklist (InitJWTAuthenticationBackend
      (foldl (\<lambda>b t. snd (InvalidateToken b t)) b ts) secret exp) u \<longleftrightarrow>
    u \<in> set ts \<or> IsInBlacklist (InitJWTAuthenticationBackend b secret exp) u"
  using tokens.blacklisted_run[OF assms, of u] by (simp add: IsInBlacklist_def InitJWTAuthenticationBackend_def)

theorem revoked_tokens_witness:
  "IsInBlacklist (InitJWTAuthenticationBackend
     (foldl (\<lambda>b t. snd (InvalidateToken b t)) fresh_auth [''Bearer a'', ''Bearer b'']) ''key'' 24) ''Bearer a''"
  by (subst revoked_tokens) (simp_all add: wf_fresh_auth token_key_def MaxKeySize_def)

section \<open>The expiry of tokens\<close>

lemma hours_small:
  assumes "\<bar>delta\<bar> \<le> 2562047"
  shows "hours delta = 3600000000000 * delta"
proof -
  have "(3600000000000 :: i64) * word_of_int delta = word_of_int (3600000000000 * delta)" by simp
  then have "hours delta = signed_take_bit 63 (3600000000000 * delta)"
    unfolding hours_def by (simp only: sint_sbintrunc') simp
  also have "\<dots> = 3600000000000 * delta"
    using assms by (intro signed_take_bit_int_eq_self) auto
  finally show ?thesis .
qed



text \<open>
  With more than one user, \<^verbatim>\<open>GetAllUsers\<close> gives the first one and a zero value for every other;
  it panics when the first one cannot be decoded.
\<close>

lemma GetAllUsers_first_only:
  assumes "store_GetAllValues (ab_userCache b) = Inr (v # vs)"
  shows "GetAllUsers A b = (case DecodeUser A v of
     Inr (Some u) \<Rightarrow> Returns (u # replicate (length vs) zero_user, None)
   | _ \<Rightarrow> Panics nil_deref)"
  using assms by (auto simp: GetAllUsers_def Let_def split: sum.split option.split)

lemma GetAllUsers_first_only_witness:
  "GetAllUsers plain_auth (NewCacheBasedAuthBackend (Memory NewInMemoryCache)
      (Memory \<lparr>elements = [(''hf'', ''u1''), (''ann'', ''u2'')]\<rparr>)) =
    Returns ([\<lparr>us_UUID = ''1'', us_Username = ''hf'', us_Password = ''pw'', us_IsAdmin = True\<rparr>, zero_user], None)"
  by (subst GetAllUsers_first_only[where v = "''u1''" and vs = "[''u2'']"])
    (simp_all add: NewCacheBasedAuthBackend_def Mem_GetAllValues_def DecodeUser_def plain_auth_def)


end
