(* ===== verification/HoverflyCore.thy ===== *)
theory HoverflyCore
  imports CacheMatcher Modes Settings Observability Auth
begin

text \<open>
  \<^verbatim>\<open>core/hoverfly.go\<close>: the state of a Hoverfly, how it is built, and how it answers a request:
  through the cache and the request matcher, through middleware, and upstream. A step works on the
  Hoverfly and the world together. The interface the modes ask for is interpreted on these steps.
\<close>

section \<open>The state\<close>

text \<open>
  \<open>hf_SL\<close> is the listener of the proxy: none before the first start, then whether its \<^verbatim>\<open>stop\<close> channel
  has been closed. A proxy is described by the settings it was built with.
\<close>

record proxy =
  px_Webserver :: bool
  px_Destination :: string
  px_AuthEnabled :: bool
  px_Verbose :: bool

record Hoverfly =
  hf_CacheMatcher :: CacheMatcher
  hf_MetadataCache :: store
  hf_Authentication :: CacheAuthBackend
  hf_HTTP :: http_client
  hf_Cfg :: Configuration
  hf_Counter :: CounterByMode
  hf_Proxy :: "proxy option"
  hf_SL :: "bool option"
  hf_version :: string
  hf_modeMap :: "mode gomap"
  hf_Simulation :: Simulation
  hf_StoreLogsHook :: StoreLogsHook

definition Simulate :: string where "Simulate = ''simulate''"
definition Synthesize :: string where "Synthesize = ''synthesize''"
definition Modify :: string where "Modify = ''modify''"
definition Capture :: string where "Capture = ''capture''"

lemmas mode_names = Simulate_def Synthesize_def Modify_def Capture_def

text \<open>The steps of the world, and the steps on the Hoverfly alone, as steps on both.\<close>

definition in_world :: "('w, 'a) prog \<Rightarrow> (Hoverfly \<times> 'w, 'a) prog" where
  "in_world m = (\<lambda>(hf, w). bind_outcome (m w) (\<lambda>(x, w'). Returns (x, (hf, w'))))"

definition on_hoverfly :: "(Hoverfly \<Rightarrow> 'a \<times> Hoverfly) \<Rightarrow> (Hoverfly \<times> 'w, 'a) prog" where
  "on_hoverfly f = (\<lambda>(hf, w). case f hf of (x, hf') \<Rightarrow> Returns (x, (hf', w)))"

lemma always_in_world [step_rules]:
  "always (in_world m) P = (\<lambda>(hf, w). always m (\<lambda>x w'. P x (hf, w')) w)"
  by (auto simp: fun_eq_iff always_def in_world_def bind_outcome_Returns_iff)

lemma returns_in_world [step_rules]: "returns (in_world m) = (\<lambda>(hf, w). returns m w)"
proof (rule ext, clarify)
  fix hf w show "returns (in_world m) (hf, w) = returns m w"
    by (cases "m w") (auto simp: returns_def in_world_def)
qed

lemma always_on_hoverfly [step_rules]:
  "always (on_hoverfly f) P = (\<lambda>(hf, w). P (fst (f hf)) (snd (f hf), w))"
  by (auto simp: fun_eq_iff always_def on_hoverfly_def split: prod.splits)

lemma returns_on_hoverfly [step_rules]: "returns (on_hoverfly f) = (\<lambda>s. True)"
  by (auto simp: fun_eq_iff returns_def on_hoverfly_def split: prod.splits)

section \<open>Building a Hoverfly\<close>

text \<open>
  \<^verbatim>\<open>InsecureSkipVerify\<close> is given \<^verbatim>\<open>tlsVerification\<close> as it is. An upstream proxy that is not a URL ends
  the program.
\<close>

definition GetDefaultHoverflyHTTPClient ::
  "'w world \<Rightarrow> bool \<Rightarrow> string \<Rightarrow> http_client outcome" where
  "GetDefaultHoverflyHTTPClient W tlsVerification upstreamProxy =
     (if upstreamProxy = '''' then Returns \<lparr>hc_Proxy = '''', hc_InsecureSkipVerify = tlsVerification\<rparr>
      else (case w_url_parse W upstreamProxy of
          Inl err \<Rightarrow> Fatal ''Could not parse upstream proxy: ''
        | Inr u \<Rightarrow> Returns \<lparr>hc_Proxy = upstreamProxy, hc_InsecureSkipVerify = tlsVerification\<rparr>))"

definition initial_modes :: "mode gomap" where
  "initial_modes =
     map_put Synthesize SynthesizeMode (map_put Modify ModifyMode (map_put Simulate SimulateMode
       (map_put Capture (CaptureMode \<lparr>ar_Headers = []\<rparr>) [])))"

definition build_hoverfly ::
  "'w world \<Rightarrow> Configuration \<Rightarrow> store option \<Rightarrow> store \<Rightarrow> CacheAuthBackend \<Rightarrow> Hoverfly outcome" where
  "build_hoverfly W cfg requestCache metadataCache authentication =
     bind_outcome (GetDefaultHoverflyHTTPClient W (cf_TLSVerification cfg) (cf_UpstreamProxy cfg)) (\<lambda>client.
       Returns \<lparr>hf_CacheMatcher = \<lparr>cm_RequestCache = requestCache, cm_Webserver = cf_Webserver cfg\<rparr>,
         hf_MetadataCache = metadataCache, hf_Authentication = authentication, hf_HTTP = client,
         hf_Cfg = cfg, hf_Counter = NewModeCounter [Simulate, Synthesize, Modify, Capture],
         hf_Proxy = None, hf_SL = None, hf_version = ''v0.10.2'', hf_modeMap = initial_modes,
         hf_Simulation = NewSimulation, hf_StoreLogsHook = NewStoreLogsHook\<rparr>)"

definition NewHoverflyWithConfiguration :: "'w world \<Rightarrow> Configuration \<Rightarrow> Hoverfly outcome" where
  "NewHoverflyWithConfiguration W cfg =
     build_hoverfly W cfg (if \<not> cf_DisableCache cfg then Some (Memory NewInMemoryCache) else None)
       (Memory NewInMemoryCache)
       (NewCacheBasedAuthBackend (Memory NewInMemoryCache) (Memory NewInMemoryCache))"

definition GetNewHoverfly ::
  "'w world \<Rightarrow> Configuration \<Rightarrow> store option \<Rightarrow> store \<Rightarrow> CacheAuthBackend \<Rightarrow> Hoverfly outcome" where
  "GetNewHoverfly W cfg requestCache metadataCache authentication =
     build_hoverfly W cfg (if cf_DisableCache cfg then None else requestCache) metadataCache authentication"

section \<open>Answering from the cache and the simulation\<close>

definition not_recorded :: MatchingError where
  "not_recorded = \<lparr>me_StatusCode = 412,
     me_Description = ''Could not find recorded request, please record it first!''\<rparr>"

text \<open>The slow path: match, save what was found in the cache, answer.\<close>

definition match_and_save ::
  "libs \<Rightarrow> RequestDetails \<Rightarrow> Hoverfly \<Rightarrow> ((MatchingError + ResponseDetails) \<times> RequestDetails) \<times> Hoverfly"
where
  "match_and_save L requestDetails hf =
     (case RequestMatcher_fn L requestDetails (cf_Webserver (hf_Cfg hf)) (hf_Simulation hf) of
        (matched, requestDetails') \<Rightarrow>
          let pair = (case matched of Inl err \<Rightarrow> None | Inr p \<Rightarrow> Some p);
              (err, cm) = SaveRequestMatcherResponsePair L (hf_CacheMatcher hf) requestDetails' pair;
              hf' = hf\<lparr>hf_CacheMatcher := cm\<rparr>
          in (case matched of
               Inl err \<Rightarrow> ((Inl not_recorded, requestDetails'), hf')
             | Inr p \<Rightarrow> ((Inr (mp_Response p), requestDetails'), hf')))"

definition GetResponse ::
  "libs \<Rightarrow> RequestDetails \<Rightarrow> Hoverfly \<Rightarrow> ((MatchingError + ResponseDetails) \<times> RequestDetails) \<times> Hoverfly"
where
  "GetResponse L requestDetails hf =
     (case GetCachedResponse L (hf_CacheMatcher hf) requestDetails of
        Inl cacheErr \<Rightarrow> match_and_save L requestDetails hf
      | Inr cachedResponse \<Rightarrow>
          (case cr_MatchingPair cachedResponse of
             None \<Rightarrow> ((Inl not_recorded, requestDetails), hf)
           | Some p \<Rightarrow>
               if \<not> cr_HeaderMatch cachedResponse then ((Inr (mp_Response p), requestDetails), hf)
               else match_and_save L requestDetails hf))"

section \<open>Capturing\<close>

definition one_matcher :: "string \<Rightarrow> string \<Rightarrow> RequestFieldMatchers" where
  "one_matcher kind v =
     \<lparr>fm_ExactMatch = (if kind = ''exact'' then StringToPointer v else None),
      fm_XmlMatch = (if kind = ''xml'' then StringToPointer v else None), fm_XpathMatch = None,
      fm_JsonMatch = (if kind = ''json'' then StringToPointer v else None), fm_JsonPathMatch = None,
      fm_RegexMatch = None, fm_GlobMatch = None\<rparr>"

definition body_matchers :: "RequestDetails \<Rightarrow> RequestFieldMatchers" where
  "body_matchers request =
     (let contentType = GetContentTypeFromHeaders (rq_Headers request) in
      if contentType = ''json'' then one_matcher ''json'' (rq_Body request)
      else if contentType = ''xml'' then one_matcher ''xml'' (rq_Body request)
      else one_matcher ''exact'' (rq_Body request))"

definition whitelist_header :: "RequestDetails \<Rightarrow> header_map \<Rightarrow> string \<Rightarrow> header_map" where
  "whitelist_header request headers header =
     (let headerValues = header_values (rq_Headers request) header in
      if length headerValues > 0 then map_put header headerValues headers else headers)"

definition saved_headers :: "RequestDetails \<Rightarrow> string list \<Rightarrow> headers" where
  "saved_headers request headersWhitelist =
     (if length headersWhitelist \<ge> 1 \<and> hd headersWhitelist = ''*'' then rq_Headers request
      else Some (foldl (whitelist_header request) [] headersWhitelist))"

definition captured_pair ::
  "RequestDetails \<Rightarrow> ResponseDetails \<Rightarrow> string list \<Rightarrow> RequestMatcherResponsePair" where
  "captured_pair request response headersWhitelist =
     \<lparr>mp_RequestMatcher =
        \<lparr>rm_Path = Some (one_matcher ''exact'' (rq_Path request)),
         rm_Method = Some (one_matcher ''exact'' (rq_Method request)),
         rm_Destination = Some (one_matcher ''exact'' (rq_Destination request)),
         rm_Scheme = Some (one_matcher ''exact'' (rq_Scheme request)),
         rm_Query = Some (one_matcher ''exact'' (rq_Query request)),
         rm_Body = Some (body_matchers request),
         rm_Headers = saved_headers request headersWhitelist\<rparr>,
      mp_Response = response\<rparr>"

definition Save ::
  "RequestDetails \<Rightarrow> ResponseDetails \<Rightarrow> string list \<Rightarrow> Hoverfly \<Rightarrow> string option \<times> Hoverfly" where
  "Save request response headersWhitelist hf =
     (None, hf\<lparr>hf_Simulation := AddRequestMatcherResponsePair (hf_Simulation hf)
                 (captured_pair request response headersWhitelist)\<rparr>)"

section \<open>Middleware and the upstream\<close>

definition IsMiddlewareSet :: "Hoverfly \<Rightarrow> bool" where
  "IsMiddlewareSet this = IsSet (cf_Middleware (hf_Cfg this))"

definition ApplyMiddleware ::
  "'w world \<Rightarrow> RequestResponsePair \<Rightarrow> (Hoverfly \<times> 'w, executed) prog" where
  "ApplyMiddleware W pair s =
     (if IsSet (cf_Middleware (hf_Cfg (fst s)))
      then in_world (Execute W (cf_Middleware (hf_Cfg (fst s))) pair) s
      else Returns ((pair, None), s))"

definition GetSimulationPairsCount :: "Hoverfly \<Rightarrow> int" where
  "GetSimulationPairsCount this = int (length (si_MatchingPairs (hf_Simulation this)))"

text \<open>
  The request keeps its body for later; an error reading it is dropped. A nil header map, which
  net/http does not return, panics.
\<close>

definition DoRequest ::
  "'w world \<Rightarrow> http_request \<Rightarrow> (Hoverfly \<times> 'w, (string + http_response) \<times> http_request) prog" where
  "DoRequest W request0 s = (case hq_Body request0 of
     None \<Rightarrow> Panics nil_deref
   | Some body \<Rightarrow>
       (let request = request0\<lparr>hq_RequestURI := '''', hq_Body := Some (new_body (remaining body))\<rparr> in
        bindp (in_world (liftp (w_http_do W (hf_HTTP (fst s)) request))) (\<lambda>result. case result of
          Inl err \<Rightarrow> retp (Inl err, request)
        | Inr resp \<Rightarrow> (case hp_Header resp of
            None \<Rightarrow> (\<lambda>s. Panics ''assignment to entry in nil map'')
          | Some h \<Rightarrow> retp (Inr (resp\<lparr>hp_Header := Some (Header_Set ''hoverfly'' ''Was-Here'' h)\<rparr>), request))) s))"

section \<open>Processing a request\<close>

definition hoverfly_ops :: "'w world \<Rightarrow> (Hoverfly \<times> 'w) mode_ops" where
  "hoverfly_ops W =
     \<lparr>op_GetResponse = (\<lambda>r. on_hoverfly (GetResponse (w_libs W) r)),
      op_ApplyMiddleware = ApplyMiddleware W, op_DoRequest = DoRequest W,
      op_IsMiddlewareSet = (\<lambda>s. IsMiddlewareSet (fst s)),
      op_Save = (\<lambda>r d hs. on_hoverfly (Save r d hs)), op_url_parse = w_url_parse W\<rparr>"

text \<open>The response and the nanoseconds it was delayed by, if it was.\<close>

definition delay_response ::
  "'w world \<Rightarrow> RequestDetails \<Rightarrow> http_response \<Rightarrow> (Hoverfly \<times> 'w, http_response \<times> int option) prog" where
  "delay_response W requestDetails response s =
     bind_outcome (GetDelay (w_libs W) (si_ResponseDelays (hf_Simulation (fst s))) requestDetails) (\<lambda>respDelay.
       Returns ((response, map_option Execute_nanoseconds respDelay), s))"

definition processRequest ::
  "'w world \<Rightarrow> http_request \<Rightarrow> (Hoverfly \<times> 'w, http_response \<times> int option) prog" where
  "processRequest W req0 s = (case NewRequestDetailsFromHttpRequest req0 of
     (Inl err, req) \<Rightarrow> Returns ((ErrorResponse req err ''Could not interpret HTTP request'', None), s)
   | (Inr requestDetails, req) \<Rightarrow>
       (let mode = Cfg_GetMode (hf_Cfg (fst s)) in
        case map_get (hf_modeMap (fst s)) mode of
          None \<Rightarrow> Panics nil_deref
        | Some m \<Rightarrow>
            bindp (Process (hoverfly_ops W) m req requestDetails) (\<lambda>(response, err).
              if err \<noteq> None \<or> mode = Capture then retp (response, None)
              else delay_response W requestDetails response) s))"

end
