(* ===== verification/Answers.thy ===== *)
theory Answers
  imports HoverflyCore
begin

text \<open>
  What Hoverfly answers: the interface of the modes interpreted on the real operations, the cache
  as a transparent layer in front of the request matcher and where it is not one, and captured
  responses coming back.
\<close>

section \<open>The modes on Hoverfly\<close>

lemma GetResponse_keeps_rest:
  "hf_Cfg (snd (GetResponse L r hf)) = hf_Cfg hf" "hf_Simulation (snd (GetResponse L r hf)) = hf_Simulation hf"
  "hf_modeMap (snd (GetResponse L r hf)) = hf_modeMap hf" "hf_Counter (snd (GetResponse L r hf)) = hf_Counter hf"
  "hf_HTTP (snd (GetResponse L r hf)) = hf_HTTP hf"
  by (simp_all add: GetResponse_def match_and_save_def Let_def split: sum.splits prod.splits option.splits)

lemma DoRequest_state:
  "always (DoRequest W q) (\<lambda>x s'. fst s' = fst s) s"
proof (cases s)
  case (Pair hf w)
  show ?thesis
    by (cases "hq_Body q"; cases "w_http_do W (hf_HTTP hf)
          (q\<lparr>hq_RequestURI := [], hq_Body := Some (new_body (remaining (the (hq_Body q))))\<rparr>) w")
      (auto simp: DoRequest_def Pair always_def Let_def in_world_def liftp_def bindp_def retp_def
        bind_outcome_Returns_iff split: sum.splits option.splits)
qed

interpretation hoverfly: mode_host "hoverfly_ops W"
proof
  fix s :: "Hoverfly \<times> 'a" and p
  assume "\<not> op_IsMiddlewareSet (hoverfly_ops W) s"
  then show "op_ApplyMiddleware (hoverfly_ops W) p s = Returns ((p, None), s)"
    by (simp add: hoverfly_ops_def IsMiddlewareSet_def ApplyMiddleware_def)
next
  fix r and s :: "Hoverfly \<times> 'a"
  show "always (op_GetResponse (hoverfly_ops W) r)
      (\<lambda>x s'. op_IsMiddlewareSet (hoverfly_ops W) s' = op_IsMiddlewareSet (hoverfly_ops W) s) s"
    by (cases s) (simp add: hoverfly_ops_def step_rules IsMiddlewareSet_def GetResponse_keeps_rest)
next
  fix q and s :: "Hoverfly \<times> 'a"
  show "always (op_DoRequest (hoverfly_ops W) q)
      (\<lambda>x s'. op_IsMiddlewareSet (hoverfly_ops W) s' = op_IsMiddlewareSet (hoverfly_ops W) s) s"
    using DoRequest_state[of W q s] by (auto simp: hoverfly_ops_def always_def IsMiddlewareSet_def)
next
  fix r and s :: "Hoverfly \<times> 'a"
  show "returns (op_GetResponse (hoverfly_ops W) r) s"
    by (simp add: hoverfly_ops_def step_rules)
next
  fix r d ws and s :: "Hoverfly \<times> 'a"
  show "\<exists>s'. op_Save (hoverfly_ops W) r d ws s = Returns (None, s')"
    by (cases s) (simp add: hoverfly_ops_def on_hoverfly_def Save_def)
qed

section \<open>What the simulation says\<close>

text \<open>The specification of an answer: the response of the first pair that matches.\<close>

definition answer :: "libs \<Rightarrow> Hoverfly \<Rightarrow> RequestDetails \<Rightarrow> MatchingError + ResponseDetails" where
  "answer L hf r =
     (case find (pair_matches L (cf_Webserver (hf_Cfg hf)) r) (si_MatchingPairs (hf_Simulation hf)) of
        None \<Rightarrow> Inl not_recorded
      | Some p \<Rightarrow> Inr (mp_Response p))"

lemma RequestMatcher_fn_find:
  "fst (RequestMatcher_fn L r web sim) =
     (case find (pair_matches L web r) (si_MatchingPairs sim) of
        None \<Rightarrow> Inl ''No match found'' | Some p \<Rightarrow> Inr p)"
  using match_loop_find[of L web "si_MatchingPairs sim" r]
  by (auto simp: RequestMatcher_fn_def split: prod.splits option.splits)

lemma match_and_save_answer: "fst (fst (match_and_save L r hf)) = answer L hf r"
proof -
  obtain m r' where m: "RequestMatcher_fn L r (cf_Webserver (hf_Cfg hf)) (hf_Simulation hf) = (m, r')"
    by (cases "RequestMatcher_fn L r (cf_Webserver (hf_Cfg hf)) (hf_Simulation hf)")
  then have "m = (case find (pair_matches L (cf_Webserver (hf_Cfg hf)) r)
        (si_MatchingPairs (hf_Simulation hf)) of None \<Rightarrow> Inl ''No match found'' | Some p \<Rightarrow> Inr p)"
    using RequestMatcher_fn_find[of L r "cf_Webserver (hf_Cfg hf)" "hf_Simulation hf"] by simp
  then show ?thesis
    by (auto simp: match_and_save_def m answer_def Let_def split: option.splits prod.splits)
qed

lemma GetResponse_uncached:
  "GetCachedResponse L (hf_CacheMatcher hf) r = Inl e \<Longrightarrow> fst (fst (GetResponse L r hf)) = answer L hf r"
  by (simp add: GetResponse_def match_and_save_answer)

lemma GetResponse_no_cache:
  "cm_RequestCache (hf_CacheMatcher hf) = None \<Longrightarrow> fst (fst (GetResponse L r hf)) = answer L hf r"
  by (rule GetResponse_uncached) (simp add: GetCachedResponse_def)

lemma match_and_save_snd:
  "\<exists>hs. lower_get hs = lower_get (rq_Headers r) \<and>
     snd (fst (match_and_save L r hf)) = r\<lparr>rq_Headers := hs\<rparr> \<and>
     snd (match_and_save L r hf) = hf\<lparr>hf_CacheMatcher := snd (SaveRequestMatcherResponsePair L
       (hf_CacheMatcher hf) (r\<lparr>rq_Headers := hs\<rparr>)
       (find (pair_matches L (cf_Webserver (hf_Cfg hf)) r) (si_MatchingPairs (hf_Simulation hf))))\<rparr>"
proof -
  obtain m r' where m: "RequestMatcher_fn L r (cf_Webserver (hf_Cfg hf)) (hf_Simulation hf) = (m, r')"
    by (cases "RequestMatcher_fn L r (cf_Webserver (hf_Cfg hf)) (hf_Simulation hf)")
  obtain hs where hs: "r' = r\<lparr>rq_Headers := hs\<rparr>" "lower_get hs = lower_get (rq_Headers r)"
    using RequestMatcher_snd[of L r "cf_Webserver (hf_Cfg hf)" "hf_Simulation hf"] m by auto
  have "m = (case find (pair_matches L (cf_Webserver (hf_Cfg hf)) r)
        (si_MatchingPairs (hf_Simulation hf)) of None \<Rightarrow> Inl ''No match found'' | Some p \<Rightarrow> Inr p)"
    using RequestMatcher_fn_find[of L r "cf_Webserver (hf_Cfg hf)" "hf_Simulation hf"] m by simp
  then show ?thesis using hs
    by (intro exI[of _ hs]) (auto simp: match_and_save_def m Let_def split: option.splits prod.splits)
qed

section \<open>The cache as a transparent layer\<close>

definition no_header_matchers :: "RequestMatcherResponsePair \<Rightarrow> bool" where
  "no_header_matchers p = (\<not> has_header_matchers (mp_RequestMatcher p))"

lemma no_header_matchers_iff:
  "no_header_matchers p \<longleftrightarrow>
     rm_Headers (mp_RequestMatcher p) = None \<or> rm_Headers (mp_RequestMatcher p) = Some []"
  by (auto simp: no_header_matchers_def has_header_matchers_def split: option.splits)

definition same_fields :: "bool \<Rightarrow> RequestDetails \<Rightarrow> RequestDetails \<Rightarrow> bool" where
  "same_fields webserver r r' =
     ((webserver \<or> rq_Destination r = rq_Destination r') \<and> rq_Path r = rq_Path r' \<and>
      rq_Method r = rq_Method r' \<and> rq_Query r = rq_Query r' \<and> rq_Body r = rq_Body r')"

lemma pair_matches_same_fields:
  "\<lbrakk>same_fields web r r'; no_header_matchers p\<rbrakk> \<Longrightarrow> pair_matches L web r p = pair_matches L web r' p"
  by (auto simp: same_fields_def no_header_matchers_iff pair_matches_def fields_match_def Let_def
      headers_match_def)

lemma find_same_fields:
  "\<lbrakk>same_fields web r r'; \<forall>p \<in> set ps. no_header_matchers p\<rbrakk> \<Longrightarrow>
     find (pair_matches L web r) ps = find (pair_matches L web r') ps"
  by (induction ps) (auto simp: pair_matches_same_fields)

lemma match_loop_keeps_request:
  "\<forall>p \<in> set ps. no_header_matchers p \<Longrightarrow> snd (match_loop L web ps r) = r"
proof (induction ps)
  case (Cons p ps)
  then have "HeaderMatcher (rm_Headers (mp_RequestMatcher p)) (rq_Headers r) = (True, rq_Headers r)"
    by (auto simp: no_header_matchers_iff HeaderMatcher_def)
  with Cons show ?case by (simp add: match_loop_Cons)
qed simp

lemma match_and_save_plain:
  assumes "\<forall>p \<in> set (si_MatchingPairs (hf_Simulation hf)). no_header_matchers p"
  shows "snd (match_and_save L r hf) = hf\<lparr>hf_CacheMatcher := snd (SaveRequestMatcherResponsePair L
       (hf_CacheMatcher hf) r
       (find (pair_matches L (cf_Webserver (hf_Cfg hf)) r) (si_MatchingPairs (hf_Simulation hf))))\<rparr>"
proof -
  let ?f = "match_loop L (cf_Webserver (hf_Cfg hf)) (si_MatchingPairs (hf_Simulation hf)) r"
  have "?f = (find (pair_matches L (cf_Webserver (hf_Cfg hf)) r) (si_MatchingPairs (hf_Simulation hf)), r)"
    using match_loop_keeps_request[OF assms] match_loop_find by (metis surjective_pairing)
  then show ?thesis
    by (auto simp: match_and_save_def RequestMatcher_fn_def Let_def split: option.splits prod.splits)
qed

text \<open>
  Every cached entry a request of a set \<open>R\<close> would find says what the simulation says, and was not
  found through header matchers.
\<close>

definition cache_agrees :: "libs \<Rightarrow> RequestDetails set \<Rightarrow> Hoverfly \<Rightarrow> bool" where
  "cache_agrees L R hf = (\<forall>r \<in> R. \<forall>c. GetCachedResponse L (hf_CacheMatcher hf) r = Inr c \<longrightarrow>
     \<not> cr_HeaderMatch c \<and>
     map_option mp_Response (cr_MatchingPair c) = map_option mp_Response
       (find (pair_matches L (cf_Webserver (hf_Cfg hf)) r) (si_MatchingPairs (hf_Simulation hf))))"

lemma cache_agrees_answer:
  assumes "cache_agrees L R hf" and "r \<in> R"
  shows "fst (fst (GetResponse L r hf)) = answer L hf r"
proof (cases "GetCachedResponse L (hf_CacheMatcher hf) r")
  case (Inr c)
  with assms have c: "\<not> cr_HeaderMatch c" "map_option mp_Response (cr_MatchingPair c) = map_option mp_Response
       (find (pair_matches L (cf_Webserver (hf_Cfg hf)) r) (si_MatchingPairs (hf_Simulation hf)))"
    by (auto simp: cache_agrees_def)
  then show ?thesis
    by (cases "find (pair_matches L (cf_Webserver (hf_Cfg hf)) r) (si_MatchingPairs (hf_Simulation hf))";
        cases "cr_MatchingPair c") (simp_all add: GetResponse_def Inr answer_def)
qed (rule GetResponse_uncached)

text \<open>
  Of a set of requests: no two different ones share a cache key, and the codec can store what is
  found for each of them.
\<close>

definition keys_distinguish :: "CacheMatcher \<Rightarrow> bool \<Rightarrow> RequestDetails set \<Rightarrow> bool" where
  "keys_distinguish cm web R = (\<forall>r \<in> R. \<forall>r' \<in> R. cache_key cm r = cache_key cm r' \<longrightarrow> same_fields web r r')"

definition all_storable :: "libs \<Rightarrow> Hoverfly \<Rightarrow> RequestDetails set \<Rightarrow> bool" where
  "all_storable L hf R = (\<forall>r \<in> R. storable L (cached_response r
     (find (pair_matches L (cf_Webserver (hf_Cfg hf)) r) (si_MatchingPairs (hf_Simulation hf)))))"

lemma find_in_set: "find P xs = Some x \<Longrightarrow> x \<in> set xs \<and> P x"
  by (induction xs) (auto split: if_splits)

lemma cache_agrees_match_and_save:
  assumes agrees: "cache_agrees L R hf" and r: "r \<in> R" and wf: "wf_matcher (hf_CacheMatcher hf)"
    and plain: "\<forall>p \<in> set (si_MatchingPairs (hf_Simulation hf)). no_header_matchers p"
    and keys: "keys_distinguish (hf_CacheMatcher hf) (cf_Webserver (hf_Cfg hf)) R"
    and stor: "all_storable L hf R"
  shows "cache_agrees L R (snd (match_and_save L r hf))"
proof (cases "cm_RequestCache (hf_CacheMatcher hf)")
  case None
  then show ?thesis using agrees
    by (simp add: match_and_save_plain[OF plain] cache_agrees_def SaveRequestMatcherResponsePair_def)
next
  case (Some st)
  let ?find = "\<lambda>r. find (pair_matches L (cf_Webserver (hf_Cfg hf)) r) (si_MatchingPairs (hf_Simulation hf))"
  let ?cm = "snd (SaveRequestMatcherResponsePair L (hf_CacheMatcher hf) r (?find r))"
  have get: "GetCachedResponse L ?cm r' =
      (if cache_key (hf_CacheMatcher hf) r' = cache_key (hf_CacheMatcher hf) r
       then Inr (gob_normal (cached_response r (?find r)))
       else GetCachedResponse L (hf_CacheMatcher hf) r')" for r'
    using r stor by (intro GetCachedResponse_Save wf) (auto simp: all_storable_def Some)
  have "\<not> cr_HeaderMatch (gob_normal (cached_response r (?find r)))"
    using plain find_in_set[of "pair_matches L (cf_Webserver (hf_Cfg hf)) r"]
    by (auto simp: gob_normal_def cached_response_def no_header_matchers_def split: option.splits)
  moreover have "map_option mp_Response (cr_MatchingPair (gob_normal (cached_response r (?find r)))) =
      map_option mp_Response (?find r)"
    by (cases "?find r") (simp_all add: gob_normal_def cached_response_def)
  moreover have "?find r' = ?find r" if "r' \<in> R" "cache_key (hf_CacheMatcher hf) r' = cache_key (hf_CacheMatcher hf) r" for r'
    using keys that r by (intro find_same_fields plain) (auto simp: keys_distinguish_def)
  ultimately show ?thesis
    using agrees by (auto simp: match_and_save_plain[OF plain] cache_agrees_def get)
qed

text \<open>A run of requests: the answers in order, and the Hoverfly after them.\<close>

fun answers :: "libs \<Rightarrow> RequestDetails list \<Rightarrow> Hoverfly \<Rightarrow> (MatchingError + ResponseDetails) list" where
  "answers L [] hf = []"
| "answers L (r # rs) hf = (case GetResponse L r hf of ((a, r'), hf') \<Rightarrow> a # answers L rs hf')"

lemma answer_cong:
  "\<lbrakk>hf_Cfg hf = hf_Cfg hf'; hf_Simulation hf = hf_Simulation hf'\<rbrakk> \<Longrightarrow> answer L hf = answer L hf'"
  by (simp add: answer_def fun_eq_iff)

lemma GetResponse_invariant:
  assumes "cache_agrees L R hf" and "r \<in> R" and "wf_matcher (hf_CacheMatcher hf)"
    and "\<forall>p \<in> set (si_MatchingPairs (hf_Simulation hf)). no_header_matchers p"
    and "keys_distinguish (hf_CacheMatcher hf) (cf_Webserver (hf_Cfg hf)) R"
    and "all_storable L hf R"
  defines "hf' \<equiv> snd (GetResponse L r hf)"
  shows "cache_agrees L R hf' \<and> wf_matcher (hf_CacheMatcher hf') \<and>
    keys_distinguish (hf_CacheMatcher hf') (cf_Webserver (hf_Cfg hf')) R \<and> all_storable L hf' R"
proof -
  have "hf' = hf \<or> hf' = snd (match_and_save L r hf)"
    by (auto simp: hf'_def GetResponse_def split: sum.splits option.splits)
  then show ?thesis
  proof
    assume "hf' = snd (match_and_save L r hf)"
    moreover have "keys_distinguish (hf_CacheMatcher (snd (match_and_save L r hf))) web R =
        keys_distinguish (hf_CacheMatcher hf) web R" for web
      by (simp add: match_and_save_plain[OF assms(4)] keys_distinguish_def cache_key_def)
    ultimately show ?thesis
      using cache_agrees_match_and_save[OF assms(1-6)] assms(3,5,6)
      by (simp add: match_and_save_plain[OF assms(4)] wf_matcher_Save all_storable_def)
  qed (use assms in simp)
qed

lemma answers_agree:
  assumes "cache_agrees L R hf" and "set rs \<subseteq> R" and "wf_matcher (hf_CacheMatcher hf)"
    and "\<forall>p \<in> set (si_MatchingPairs (hf_Simulation hf)). no_header_matchers p"
    and "keys_distinguish (hf_CacheMatcher hf) (cf_Webserver (hf_Cfg hf)) R"
    and "all_storable L hf R"
  shows "answers L rs hf = map (answer L hf) rs"
  using assms
proof (induction rs arbitrary: hf)
  case (Cons r rs)
  obtain a r' hf' where g: "GetResponse L r hf = ((a, r'), hf')"
    by (cases "GetResponse L r hf") (metis surj_pair)
  have r: "r \<in> R" and sub: "set rs \<subseteq> R" using Cons.prems(2) by auto
  have a: "a = answer L hf r" using cache_agrees_answer[OF Cons.prems(1) r] g by simp
  have keep: "hf_Cfg hf' = hf_Cfg hf" "hf_Simulation hf' = hf_Simulation hf"
    using GetResponse_keeps_rest[of L r hf] g by simp_all
  have inv: "cache_agrees L R hf' \<and> wf_matcher (hf_CacheMatcher hf') \<and>
      keys_distinguish (hf_CacheMatcher hf') (cf_Webserver (hf_Cfg hf')) R \<and> all_storable L hf' R"
    using GetResponse_invariant[OF Cons.prems(1) r Cons.prems(3-6)] g by simp
  with Cons.IH[of hf'] sub Cons.prems(4) keep have "answers L rs hf' = map (answer L hf') rs" by simp
  then show ?case using a answer_cong[OF keep, of L] by (simp add: g)
qed simp



text \<open>Concrete libraries and Hoverflies for the examples: the codec knows one entry.\<close>

definition one_entry_libs :: "CachedResponse \<Rightarrow> libs" where
  "one_entry_libs c = no_libs\<lparr>gob_enc := (\<lambda>_. Inr ''gob''), gob_dec := (\<lambda>_. Inr (gob_normal c))\<rparr>"

definition sample_hoverfly :: "RequestMatcherResponsePair list \<Rightarrow> Hoverfly" where
  "sample_hoverfly ps =
     \<lparr>hf_CacheMatcher = \<lparr>cm_RequestCache = Some (Memory NewInMemoryCache), cm_Webserver = False\<rparr>,
      hf_MetadataCache = Memory NewInMemoryCache, hf_Authentication = fresh_auth, hf_HTTP = DefaultClient,
      hf_Cfg = zero_configuration\<lparr>cf_Mode := Simulate\<rparr>,
      hf_Counter = NewModeCounter [Simulate, Synthesize, Modify, Capture], hf_Proxy = None, hf_SL = None,
      hf_version = ''v0.10.2'', hf_modeMap = initial_modes,
      hf_Simulation = \<lparr>si_MatchingPairs = ps, si_ResponseDelays = []\<rparr>,
      hf_StoreLogsHook = NewStoreLogsHook\<rparr>"

definition headers_pair :: "headers \<Rightarrow> RequestMatcherResponsePair" where
  "headers_pair hs =
     \<lparr>mp_RequestMatcher = \<lparr>rm_Path = None, rm_Method = None, rm_Destination = None, rm_Scheme = None,
        rm_Query = None, rm_Body = None, rm_Headers = hs\<rparr>,
      mp_Response = \<lparr>rs_Status = 200, rs_Body = ''ok'', rs_Headers = None\<rparr>\<rparr>"

lemma sample_hoverfly_simps [simp]:
  "hf_Simulation (sample_hoverfly ps) = \<lparr>si_MatchingPairs = ps, si_ResponseDelays = []\<rparr>"
  "hf_CacheMatcher (sample_hoverfly ps) = \<lparr>cm_RequestCache = Some (Memory NewInMemoryCache), cm_Webserver = False\<rparr>"
  "hf_Cfg (sample_hoverfly ps) = zero_configuration\<lparr>cf_Mode := Simulate\<rparr>"
  "hf_modeMap (sample_hoverfly ps) = initial_modes"
  by (simp_all add: sample_hoverfly_def)

lemma wf_sample: "wf_matcher (hf_CacheMatcher (sample_hoverfly ps))"
  by (simp add: wf_matcher_def wf_memory_def NewInMemoryCache_def)

lemma storable_one_entry: "gob_normal c' = gob_normal c \<Longrightarrow> storable (one_entry_libs c) c'"
  by (simp add: storable_def one_entry_libs_def MaxValueSize_def)

lemma headers_pair_match:
  "pair_matches L web r (headers_pair hs) \<longleftrightarrow> headers_match hs (rq_Headers r)"
  by (simp add: pair_matches_def fields_match_def headers_pair_def)


lemma miss_is_cached:
  assumes "wf_matcher (hf_CacheMatcher hf)" and "cm_RequestCache (hf_CacheMatcher hf) \<noteq> None"
    and "GetCachedResponse L (hf_CacheMatcher hf) r = Inl e" and "answer L hf r = Inl not_recorded"
    and "storable L (cached_response (snd (fst (GetResponse L r hf))) None)"
    and "cache_key (hf_CacheMatcher hf) r' = cache_key (hf_CacheMatcher hf) r"
  shows "\<exists>c. GetCachedResponse L (hf_CacheMatcher (snd (GetResponse L r hf))) r' = Inr c \<and> cr_MatchingPair c = None"
proof -
  have none: "find (pair_matches L (cf_Webserver (hf_Cfg hf)) r) (si_MatchingPairs (hf_Simulation hf)) = None"
    using assms(4) by (simp add: answer_def split: option.splits)
  have slow: "GetResponse L r hf = match_and_save L r hf" by (simp add: GetResponse_def assms(3))
  obtain hs where s: "snd (match_and_save L r hf) = hf\<lparr>hf_CacheMatcher := snd (SaveRequestMatcherResponsePair L
       (hf_CacheMatcher hf) (r\<lparr>rq_Headers := hs\<rparr>) None)\<rparr>"
      and r: "snd (fst (match_and_save L r hf)) = r\<lparr>rq_Headers := hs\<rparr>"
    using match_and_save_snd[of r L hf] none by auto
  have key: "cache_key cm (r\<lparr>rq_Headers := hs\<rparr>) = cache_key cm r" for cm
    by (simp add: cache_key_def Hash_def HashWithoutHost_def concatenate_eq)
  have "GetCachedResponse L (hf_CacheMatcher (snd (match_and_save L r hf))) r' =
      Inr (gob_normal (cached_response (r\<lparr>rq_Headers := hs\<rparr>) None))"
    using GetCachedResponse_Save[OF assms(1,2), of L "r\<lparr>rq_Headers := hs\<rparr>" None r'] assms(5,6)
    by (simp add: slow r s key)
  then show ?thesis by (simp add: slow gob_normal_def cached_response_def)
qed

lemma GetResponse_cached_miss:
  "\<lbrakk>GetCachedResponse L (hf_CacheMatcher hf) r = Inr c; cr_MatchingPair c = None\<rbrakk> \<Longrightarrow>
     GetResponse L r hf = ((Inl not_recorded, r), hf)"
  by (simp add: GetResponse_def)

text \<open>
  C40: a request that matched nothing is remembered under its hash, which leaves the headers out:
  from then on every request with that hash is refused, also one whose headers a pair of the
  simulation matches.
\<close>

theorem remembered_miss:
  assumes "wf_matcher (hf_CacheMatcher hf)" and "cm_RequestCache (hf_CacheMatcher hf) \<noteq> None"
    and "GetCachedResponse L (hf_CacheMatcher hf) r = Inl e" and "answer L hf r = Inl not_recorded"
    and "storable L (cached_response (snd (fst (GetResponse L r hf))) None)"
    and "cache_key (hf_CacheMatcher hf) r' = cache_key (hf_CacheMatcher hf) r"
  shows "fst (fst (GetResponse L r' (snd (GetResponse L r hf)))) = Inl not_recorded"
  using miss_is_cached[OF assms] by (auto simp: GetResponse_cached_miss)

lemma empty_cache_misses: "\<exists>e. GetCachedResponse L (hf_CacheMatcher (sample_hoverfly ps)) r = Inl e"
  by (simp add: GetCachedResponse_def Mem_Get_def NewInMemoryCache_def map_index_def)

theorem remembered_miss_witness:
  "let p = headers_pair (Some [(''X-A'', [''1''])]); r = zero_request\<lparr>rq_Headers := Some []\<rparr>;
     r' = zero_request\<lparr>rq_Headers := Some [(''X-A'', [''1''])]\<rparr>;
     L = no_libs\<lparr>gob_enc := (\<lambda>c. Inr ''gob''), gob_dec := (\<lambda>b. Inr (cached_response r None))\<rparr>
   in answer L (sample_hoverfly [p]) r' = Inr (mp_Response p) \<and>
      fst (fst (GetResponse L r' (snd (GetResponse L r (sample_hoverfly [p]))))) = Inl not_recorded"
  (is "let p = ?p; r = ?r; r' = ?r'; L = ?L r in _")
proof -
  have m: "headers_match (Some [(''X-A'', [''1''])]) (Some [(''X-A'', [''1''])])"
      "\<not> headers_match (Some [(''X-A'', [''1''])]) (Some [])" by code_simp+
  have "fst (fst (GetResponse (?L ?r) ?r' (snd (GetResponse (?L ?r) ?r (sample_hoverfly [?p]))))) = Inl not_recorded"
  proof (rule remembered_miss)
    show "GetCachedResponse (?L ?r) (hf_CacheMatcher (sample_hoverfly [?p])) ?r =
        Inl \<lparr>me_StatusCode = 412, me_Description = ''Could not find recorded request in cache''\<rparr>"
      by (simp add: GetCachedResponse_def Mem_Get_def NewInMemoryCache_def map_index_def)
    then have "GetResponse (?L ?r) ?r (sample_hoverfly [?p]) = match_and_save (?L ?r) ?r (sample_hoverfly [?p])"
      by (simp add: GetResponse_def)
    moreover have "snd (fst (match_and_save (?L ?r) ?r (sample_hoverfly [?p]))) = ?r"
    proof -
      have "HeaderMatcher (Some [(''X-A'', [''1''])]) (Some []) = (False, Some [])" by code_simp
      then have "RequestMatcher_fn (?L ?r) ?r False \<lparr>si_MatchingPairs = [?p], si_ResponseDelays = []\<rparr> =
          (Inl ''No match found'', ?r)"
        by (simp add: RequestMatcher_fn_def match_loop_Cons headers_pair_def fields_match_def)
      then show ?thesis by (simp add: match_and_save_def zero_configuration_def Let_def split: prod.split)
    qed
    ultimately show "storable (?L ?r) (cached_response (snd (fst (GetResponse (?L ?r) ?r (sample_hoverfly [?p])))) None)"
      by (simp add: storable_def MaxValueSize_def gob_normal_def cached_response_def)
  qed (use m in \<open>simp_all add: wf_sample[simplified] answer_def headers_pair_match cache_key_def Hash_def concatenate_eq\<close>)
  then show ?thesis using m by (simp add: answer_def headers_pair_match Let_def)
qed


section \<open>Captured responses come back\<close>

lemma glob_language_refl: "glob_language p p"
proof (induction p)
  case (Cons c p)
  have "1 \<in> set [0..<Suc (length (c # p))]" by (simp only: set_upt) simp
  moreover have "glob_language p (drop 1 (c # p))" using Cons by simp
  ultimately have "\<exists>n \<in> set [0..<Suc (length (c # p))]. glob_language p (drop n (c # p))" by blast
  with Cons show ?case by (cases "c = GLOB") (simp_all del: upt_Suc)
qed simp

lemma values_match_refl: "values_match vs vs"
  unfolding values_match_def list_all_iff list_ex_iff Glob_language using glob_language_refl by blast

lemma set_map_put_subset: "set (map_put k v m) \<subseteq> insert (k, v) (set m)"
  unfolding map_put_def by (induction m) auto

lemma header_matches_own:
  assumes "canonical_headers (Some m)" and "(k, vs) \<in> set m"
  shows "header_matches (Some m) (k, vs)"
proof -
  have "lower_get (Some m) k = Some vs"
    using assms by (subst lower_get_canonical) auto
  then show ?thesis by (simp add: header_matches_def values_match_refl)
qed

lemma whitelisted_own:
  assumes "rq_Headers r = Some m"
  shows "set acc \<subseteq> set m \<Longrightarrow> set (foldl (whitelist_header r) acc ws) \<subseteq> set m"
proof (induction ws arbitrary: acc)
  case (Cons w ws)
  have "set (whitelist_header r acc w) \<subseteq> set m"
  proof (cases "map_get m w")
    case (Some vs)
    then show ?thesis
      using map_get_Some_mem[OF Some] set_map_put_subset[of w vs acc] Cons.prems
      by (auto simp: whitelist_header_def header_values_def map_index_def assms)
  qed (use Cons.prems in \<open>simp add: whitelist_header_def header_values_def map_index_def assms\<close>)
  from Cons.IH[OF this] show ?case by simp
qed simp

lemma saved_headers_match:
  assumes "canonical_headers (rq_Headers r)"
  shows "headers_match (saved_headers r ws) (rq_Headers r)"
proof (cases "rq_Headers r")
  case None
  have "foldl (whitelist_header r) [] ws = []"
    by (induction ws) (simp_all add: whitelist_header_def header_values_def None)
  then show ?thesis by (simp add: saved_headers_def None headers_match_def)
next
  case (Some m)
  have "headers_match (Some n) (Some m)" if "set n \<subseteq> set m" for n
    using that header_matches_own[of m] assms
    by (auto simp: headers_match_def list_all_iff Some)
  then show ?thesis
    using whitelisted_own[OF Some, of "[]" ws] by (auto simp: saved_headers_def Some)
qed

text \<open>A JSON or XML body is one the minifier accepts.\<close>

definition body_minifies :: "libs \<Rightarrow> RequestDetails \<Rightarrow> bool" where
  "body_minifies L r =
     (let t = GetContentTypeFromHeaders (rq_Headers r) in
      (t = ''json'' \<longrightarrow> min_json L (rq_Body r) \<noteq> None) \<and> (t = ''xml'' \<longrightarrow> min_xml L (rq_Body r) \<noteq> None))"

lemma one_matcher_exact: "one_matcher ''exact'' v = exact_matchers v"
  by (simp add: one_matcher_def exact_matchers_def StringToPointer_def)

lemma body_matchers_own: "body_minifies L r \<Longrightarrow> FieldMatcher L (Some (body_matchers r)) (rq_Body r)"
  by (auto simp: body_minifies_def body_matchers_def Let_def FieldMatcher_conjunction one_matcher_def
      StringToPointer_def rejects_def ExactMatch_def JsonMatch_def MinifyJson_def XmlMatch_def MinifyXml_def)

lemma captured_pair_matches:
  assumes "canonical_headers (rq_Headers r)" and "body_minifies L r"
  shows "pair_matches L web r (captured_pair r resp ws)"
  using saved_headers_match[OF assms(1)] body_matchers_own[OF assms(2)]
  by (simp add: pair_matches_def fields_match_def captured_pair_def Let_def one_matcher_exact)

text \<open>Matchers that are equal match the same requests.\<close>

definition wf_headers :: "headers \<Rightarrow> bool" where
  "wf_headers hs = (case hs of None \<Rightarrow> True | Some m \<Rightarrow> wf_map m)"

lemma map_equal_set: "\<lbrakk>wf_map m; wf_map n; map_equal m n\<rbrakk> \<Longrightarrow> set m = set n"
  by (metis map_equal_iff map_of_inject_set wf_map_def)

lemma matcher_equal_matches:
  assumes "matcher_equal (mp_RequestMatcher p) (mp_RequestMatcher q)"
    and "wf_headers (rm_Headers (mp_RequestMatcher p))" and "wf_headers (rm_Headers (mp_RequestMatcher q))"
  shows "pair_matches L web r p = pair_matches L web r q"
proof -
  let ?a = "mp_RequestMatcher p" and ?b = "mp_RequestMatcher q"
  have eq: "?a\<lparr>rm_Headers := None\<rparr> = ?b\<lparr>rm_Headers := None\<rparr>"
    using assms(1) by (simp add: matcher_equal_def)
  have "fields_match L web r p = fields_match L web r q"
    using arg_cong[OF eq, of rm_Body] arg_cong[OF eq, of rm_Destination] arg_cong[OF eq, of rm_Path]
      arg_cong[OF eq, of rm_Query] arg_cong[OF eq, of rm_Method]
    by (simp add: fields_match_def Let_def)
  moreover have "headers_match (rm_Headers ?a) (rq_Headers r) = headers_match (rm_Headers ?b) (rq_Headers r)"
    using assms by (cases "rm_Headers ?a"; cases "rm_Headers ?b")
      (auto simp: matcher_equal_def headers_equal_def headers_match_def list_all_iff wf_headers_def
        dest: map_equal_set)
  ultimately show ?thesis by (simp add: pair_matches_def)
qed

lemma find_append: "find P (xs @ ys) = (case find P xs of None \<Rightarrow> find P ys | Some x \<Rightarrow> Some x)"
  by (induction xs) auto

lemma wf_saved_headers: "wf_headers (rq_Headers r) \<Longrightarrow> wf_headers (saved_headers r ws)"
proof -
  have "wf_map acc \<Longrightarrow> wf_map (foldl (whitelist_header r) acc ws)" for acc
    by (induction ws arbitrary: acc) (simp_all add: whitelist_header_def Let_def)
  then show "wf_headers (rq_Headers r) \<Longrightarrow> wf_headers (saved_headers r ws)"
    by (simp add: saved_headers_def wf_headers_def)
qed

lemma canonical_wf_headers: "canonical_headers hs \<Longrightarrow> wf_headers hs"
  by (cases hs) (simp_all add: wf_headers_def canonical_wf)

lemma saved_answer:
  assumes "canonical_headers (rq_Headers r)" and "body_minifies L r"
    and "\<forall>p \<in> set (si_MatchingPairs (hf_Simulation hf)). wf_headers (rm_Headers (mp_RequestMatcher p))"
  shows "answer L (snd (Save r resp ws hf)) r =
    (case answer L hf r of Inl e \<Rightarrow> Inr resp | Inr earlier \<Rightarrow> Inr earlier)"
proof -
  let ?ps = "si_MatchingPairs (hf_Simulation hf)" and ?web = "cf_Webserver (hf_Cfg hf)"
  let ?c = "captured_pair r resp ws"
  have own: "pair_matches L ?web r ?c" by (rule captured_pair_matches[OF assms(1,2)])
  have wf: "wf_headers (rm_Headers (mp_RequestMatcher ?c))"
    using wf_saved_headers[OF canonical_wf_headers[OF assms(1)]] by (simp add: captured_pair_def)
  show ?thesis
  proof (cases "has_duplicate (mp_RequestMatcher ?c) ?ps")
    case True
    then obtain p where p: "p \<in> set ?ps" "matcher_equal (mp_RequestMatcher ?c) (mp_RequestMatcher p)"
      by (auto simp: has_duplicate_iff)
    then have "pair_matches L ?web r p"
      using own matcher_equal_matches[OF p(2) wf] assms(3) by blast
    then have "find (pair_matches L ?web r) ?ps \<noteq> None" using p(1) by (auto simp: find_None_iff)
    then show ?thesis
      using True by (auto simp: Save_def AddRequestMatcherResponsePair_def answer_def split: option.splits)
  next
    case False
    then have s: "hf_Simulation (snd (Save r resp ws hf)) = (hf_Simulation hf)\<lparr>si_MatchingPairs := ?ps @ [?c]\<rparr>"
        "hf_Cfg (snd (Save r resp ws hf)) = hf_Cfg hf"
      by (simp_all add: Save_def AddRequestMatcherResponsePair_def)
    show ?thesis
      using own by (auto simp: answer_def s find_append split: option.splits)
        (simp add: captured_pair_def)
  qed
qed

text \<open>
  C7: after a request and its response have been captured, with whatever list of headers, the
  simulation answers that request with that response, unless an earlier pair already matched it:
  then the earlier pair's response stays the answer.
\<close>

theorem captured_response_returned:
  assumes "canonical_headers (rq_Headers r)" and "body_minifies L r"
    and "\<forall>p \<in> set (si_MatchingPairs (hf_Simulation hf)). wf_headers (rm_Headers (mp_RequestMatcher p))"
  shows "answer L (snd (Save r resp ws hf)) r =
    (case answer L hf r of Inl e \<Rightarrow> Inr resp | Inr earlier \<Rightarrow> Inr earlier)"
  by (rule saved_answer[OF assms])

theorem captured_response_returned_witness:
  "answer no_libs (snd (Save (zero_request\<lparr>rq_Headers := Some [(''Accept'', [''text/*''])]\<rparr>)
       \<lparr>rs_Status = 201, rs_Body = ''made'', rs_Headers = None\<rparr> [''Accept''] (sample_hoverfly [])))
     (zero_request\<lparr>rq_Headers := Some [(''Accept'', [''text/*''])]\<rparr>) =
   Inr \<lparr>rs_Status = 201, rs_Body = ''made'', rs_Headers = None\<rparr>"
proof -
  let ?r = "zero_request\<lparr>rq_Headers := Some [(''Accept'', [''text/*''])]\<rparr>"
  have "canonical_headers (rq_Headers ?r)" "body_minifies no_libs ?r" by code_simp+
  from captured_response_returned[OF this, of "sample_hoverfly []"] show ?thesis
    by (simp add: answer_def)
qed


section \<open>Capture, then simulate\<close>

lemma DoRequest_ok:
  assumes "hq_Body q = Some (new_body b)" and "hp_Header resp = Some h"
    and "w_http_do W (hf_HTTP hf) (q\<lparr>hq_RequestURI := [], hq_Body := Some (new_body b)\<rparr>) w = (Inr resp, w')"
  shows "DoRequest W q (hf, w) =
    Returns ((Inr (resp\<lparr>hp_Header := Some (Header_Set ''hoverfly'' ''Was-Here'' h)\<rparr>),
      q\<lparr>hq_RequestURI := [], hq_Body := Some (new_body b)\<rparr>), (hf, w'))"
proof -
  have "remaining (new_body b) = b" by (simp add: new_body_def)
  with assms show ?thesis
    by (simp add: DoRequest_def Let_def in_world_def liftp_def bindp_def retp_def)
qed

lemma Save_keeps [simp]:
  "hf_CacheMatcher (snd (Save r d ws hf)) = hf_CacheMatcher hf" "hf_Cfg (snd (Save r d ws hf)) = hf_Cfg hf"
  "hf_modeMap (snd (Save r d ws hf)) = hf_modeMap hf" "hf_Counter (snd (Save r d ws hf)) = hf_Counter hf"
  "si_ResponseDelays (hf_Simulation (snd (Save r d ws hf))) = si_ResponseDelays (hf_Simulation hf)"
  by (simp_all add: Save_def AddRequestMatcherResponsePair_def)

lemma ReconstructRequest_body:
  "ReconstructRequest up pair = Inr q \<Longrightarrow> hq_Body q = Some (new_body (rq_Body (pr_Request pair)))"
  by (auto simp: ReconstructRequest_def NewRequest_def Let_def split: if_splits sum.splits)

text \<open>
  C1: a request forwarded in capture mode and then made again in simulate mode gets the response
  of the upstream both times: the same status, body and headers, the header of Hoverfly included.
  The request must be one net/http can parse and nothing cached or stored may match it yet.
\<close>

theorem capture_then_simulate:
  assumes "\<not> IsMiddlewareSet hf"
    and "ReconstructRequest (w_url_parse W) \<lparr>pr_Response = zero_response, pr_Request = r\<rparr> = Inr q"
    and "w_http_do W (hf_HTTP hf) (q\<lparr>hq_RequestURI := []\<rparr>) w = (Inr resp, w')"
    and "hp_Header resp = Some h" and "hp_Body resp = new_body b"
    and "stable_headers (Header_Set ''hoverfly'' ''Was-Here'' h)"
    and "canonical_headers (rq_Headers r)" and "body_minifies (w_libs W) r"
    and "\<forall>p \<in> set (si_MatchingPairs (hf_Simulation hf)). wf_headers (rm_Headers (mp_RequestMatcher p))"
    and "GetCachedResponse (w_libs W) (hf_CacheMatcher hf) r = Inl e"
    and "answer (w_libs W) hf r = Inl not_recorded"
  shows "\<exists>c s1 c' s2.
    Process (hoverfly_ops W) (CaptureMode args) request r (hf, w) = Returns ((c, None), s1) \<and>
    Process (hoverfly_ops W) SimulateMode request' r s1 = Returns ((c', None), s2) \<and>
    hp_Status c = hp_Status resp \<and> remaining (hp_Body c) = b \<and>
    hp_Header c = Some (Header_Set ''hoverfly'' ''Was-Here'' h) \<and>
    hp_Status c' = hp_Status c \<and> hp_Body c' = hp_Body c \<and> hp_Header c' = hp_Header c"
proof -
  let ?c = "resp\<lparr>hp_Header := Some (Header_Set ''hoverfly'' ''Was-Here'' h)\<rparr>"
  let ?d = "\<lparr>rs_Status = hp_Status ?c, rs_Body = b, rs_Headers = hp_Header ?c\<rparr>"
  let ?hf = "snd (Save r ?d (ar_Headers args) hf)"
  have qb: "hq_Body q = Some (new_body (rq_Body r))" using ReconstructRequest_body[OF assms(2)] by simp
  then have "q\<lparr>hq_RequestURI := [], hq_Body := Some (new_body (rq_Body r))\<rparr> = q\<lparr>hq_RequestURI := []\<rparr>"
    by (cases q) simp
  with DoRequest_ok[OF qb assms(4)] assms(3)
  have fwd: "op_DoRequest (hoverfly_ops W) q (hf, w) = Returns ((Inr ?c, q\<lparr>hq_RequestURI := []\<rparr>), (hf, w'))"
    by (simp add: hoverfly_ops_def)
  have capture: "Process (hoverfly_ops W) (CaptureMode args) request r (hf, w) = Returns ((?c, None), (?hf, w'))"
  proof (rule hoverfly.capture_saves)
    show "\<not> op_IsMiddlewareSet (hoverfly_ops W) (hf, w)" using assms(1) by (simp add: hoverfly_ops_def)
    show "ReconstructRequest (op_url_parse (hoverfly_ops W)) \<lparr>pr_Response = zero_response, pr_Request = r\<rparr> = Inr q"
      using assms(2) by (simp add: hoverfly_ops_def)
    show "op_DoRequest (hoverfly_ops W) q (hf, w) = Returns ((Inr ?c, q\<lparr>hq_RequestURI := []\<rparr>), (hf, w'))"
      by (rule fwd)
    show "hp_Body ?c = new_body b" using assms(5) by simp
    show "op_Save (hoverfly_ops W) r ?d (ar_Headers args) (hf, w') = Returns (None, (?hf, w'))"
      by (simp add: hoverfly_ops_def on_hoverfly_def Save_def)
  qed
  have "answer (w_libs W) ?hf r = Inr ?d"
    using saved_answer[OF assms(7,8,9), of ?d "ar_Headers args"] assms(11) by simp
  moreover have "fst (fst (GetResponse (w_libs W) r ?hf)) = answer (w_libs W) ?hf r"
    using assms(10) by (intro GetResponse_uncached[where e = e]) simp
  ultimately obtain r' hf' where g: "GetResponse (w_libs W) r ?hf = ((Inr ?d, r'), hf')"
    by (metis prod.collapse)
  have simulate: "Process (hoverfly_ops W) SimulateMode request' r (?hf, w') =
      Returns ((ReconstructResponse request' \<lparr>pr_Response = ?d, pr_Request = r'\<rparr>, None), (hf', w'))"
  proof (rule hoverfly.simulate_found)
    show "\<not> op_IsMiddlewareSet (hoverfly_ops W) (?hf, w')"
      using assms(1) by (simp add: hoverfly_ops_def IsMiddlewareSet_def)
    show "op_GetResponse (hoverfly_ops W) r (?hf, w') = Returns ((Inr ?d, r'), (hf', w'))"
      using g by (simp add: hoverfly_ops_def on_hoverfly_def)
  qed
  have "hp_Header (ReconstructResponse request' \<lparr>pr_Response = ?d, pr_Request = r'\<rparr>) = hp_Header ?c"
    by (subst ReconstructResponse_stable[OF _ assms(6)]) simp_all
  with capture simulate assms(5) show ?thesis
    by (intro exI[of _ ?c] exI[of _ "(?hf, w')"] exI[of _ "(hf', w')"]
        exI[of _ "ReconstructResponse request' \<lparr>pr_Response = ?d, pr_Request = r'\<rparr>"])
      (simp add: new_body_def)
qed


definition hello_world :: "unit world" where
  "hello_world = (quiet_world (Finished []))\<lparr>w_http_do := (\<lambda>c q w. (Inr \<lparr>hp_Status = 200, hp_Header = Some [],
     hp_Body = new_body ''hello'', hp_ContentLength = 5, hp_Request = None\<rparr>, w))\<rparr>"

definition get_root :: RequestDetails where
  "get_root = \<lparr>rq_Path = ''/'', rq_Method = ''GET'', rq_Destination = ''test.com'', rq_Scheme = ''http'',
     rq_Query = [], rq_Body = [], rq_Headers = Some []\<rparr>"

theorem capture_then_simulate_witness:
  "\<exists>c s1 c' s2.
    Process (hoverfly_ops hello_world) (CaptureMode \<lparr>ar_Headers = []\<rparr>) (plain_get ''test.com'') get_root
      (sample_hoverfly [], ()) = Returns ((c, None), s1) \<and>
    Process (hoverfly_ops hello_world) SimulateMode (plain_get ''test.com'') get_root s1 =
      Returns ((c', None), s2) \<and>
    hp_Status c' = 200 \<and> remaining (hp_Body c') = ''hello''"
proof -
  let ?r = "get_root"
  have url: "ReconstructRequest (w_url_parse hello_world) \<lparr>pr_Response = zero_response, pr_Request = ?r\<rparr> =
    Inr \<lparr>hq_Method = ''GET'', hq_Host = ''h'', hq_URL_Scheme = ''http'', hq_URL_Host = ''h'',
      hq_URL_Path = ''/'', hq_URL_RawQuery = [], hq_Header = Some [], hq_Body = Some (new_body []),
      hq_RequestURI = []\<rparr>" by code_simp
  have h: "stable_headers (Header_Set ''hoverfly'' ''Was-Here'' [])" "canonical_headers (rq_Headers ?r)"
      "body_minifies (w_libs hello_world) ?r" by code_simp+
  have "GetCachedResponse (w_libs hello_world) (hf_CacheMatcher (sample_hoverfly [])) ?r =
      Inl \<lparr>me_StatusCode = 412, me_Description = ''Could not find recorded request in cache''\<rparr>"
    by (simp add: GetCachedResponse_def Mem_Get_def NewInMemoryCache_def map_index_def)
  from capture_then_simulate[OF _ url _ _ _ h(1,2,3) _ this, where w = "()" and w' = "()" and b = "''hello''"
      and args = "\<lparr>ar_Headers = []\<rparr>" and request = "plain_get ''test.com''"
      and request' = "plain_get ''test.com''"
      and resp = "\<lparr>hp_Status = 200, hp_Header = Some [], hp_Body = new_body ''hello'',
        hp_ContentLength = 5, hp_Request = None\<rparr>"]
  show ?thesis
    by (simp add: IsMiddlewareSet_def zero_configuration_def IsSet_def no_middleware_def hello_world_def
        answer_def) metis
qed

section \<open>Requests are always answered\<close>

definition all_modes :: "string list" where
  "all_modes = [Simulate, Synthesize, Modify, Capture]"

definition modes_ok :: "Hoverfly \<Rightarrow> bool" where
  "modes_ok hf =
     (map_get (hf_modeMap hf) Simulate = Some SimulateMode \<and>
      map_get (hf_modeMap hf) Synthesize = Some SynthesizeMode \<and>
      map_get (hf_modeMap hf) Modify = Some ModifyMode \<and>
      (case map_get (hf_modeMap hf) Capture of Some (CaptureMode args) \<Rightarrow> True | _ \<Rightarrow> False) \<and>
      cf_Mode (hf_Cfg hf) \<in> set all_modes)"

text \<open>What every operation of the API keeps, once a mode has been set.\<close>

definition wf_hoverfly :: "libs \<Rightarrow> Hoverfly \<Rightarrow> bool" where
  "wf_hoverfly L hf =
     (modes_ok hf \<and>
      (\<forall>d \<in> set (si_ResponseDelays (hf_Simulation hf)). valid_delay L d) \<and>
      set all_modes \<subseteq> set (map_keys (ct_Counters (hf_Counter hf))) \<and>
      wf_matcher (hf_CacheMatcher hf) \<and> wf_auth (hf_Authentication hf) \<and>
      wf_store (hf_MetadataCache hf) \<and>
      (cf_Webserver (hf_Cfg hf) \<longrightarrow> cf_Mode (hf_Cfg hf) \<noteq> Capture))"

lemma delay_response_returns:
  "\<forall>d \<in> set (si_ResponseDelays (hf_Simulation (fst s))). valid_delay (w_libs W) d \<Longrightarrow>
     returns (delay_response W r resp) s"
  using GetDelay_no_panic[of "si_ResponseDelays (hf_Simulation (fst s))" "w_libs W" r]
  by (auto simp: delay_response_def returns_def valid_delay_def not_panics_iff)

text \<open>The upstream, as net/http has it, gives a header map with every response.\<close>

definition upstream_ok :: "'w world \<Rightarrow> bool" where
  "upstream_ok W = (\<forall>c q w resp w'. w_http_do W c q w = (Inr resp, w') \<longrightarrow> hp_Header resp \<noteq> None)"

lemma DoRequest_returns:
  assumes "upstream_ok W" and "hq_Body q \<noteq> None"
  shows "returns (DoRequest W q) s"
proof (cases s)
  case (Pair hf w)
  obtain body where b: "hq_Body q = Some body" using assms(2) by blast
  let ?q = "q\<lparr>hq_RequestURI := [], hq_Body := Some (new_body (remaining body))\<rparr>"
  obtain x w' where x: "w_http_do W (hf_HTTP hf) ?q w = (x, w')" by fastforce
  have "\<exists>h. hp_Header resp = Some h" if "x = Inr resp" for resp
    using assms(1) x that unfolding upstream_ok_def by blast
  then show ?thesis
    by (cases x) (fastforce simp: Pair returns_def DoRequest_def b x Let_def in_world_def liftp_def
        bindp_def retp_def)+
qed

lemma ApplyMiddleware_unset:
  "\<not> IsMiddlewareSet (fst s) \<Longrightarrow> ApplyMiddleware W p s = Returns ((p, None), s)"
  by (simp add: ApplyMiddleware_def IsMiddlewareSet_def)


lemma returns_bindp_apply:
  "\<not> IsMiddlewareSet (fst s) \<Longrightarrow> returns (bindp (ApplyMiddleware W p) f) s = returns (f (p, None)) s"
  by (simp add: returns_def bindp_def ApplyMiddleware_unset)

lemma returns_bindp_forward:
  assumes "\<not> IsMiddlewareSet (fst s)" and "upstream_ok W"
    and "ReconstructRequest (w_url_parse W) p = Inr q"
    and "\<And>x s'. \<not> IsMiddlewareSet (fst s') \<Longrightarrow> returns (f x) s'"
  shows "returns (bindp (DoRequest W q) f) s"
proof -
  have "always (DoRequest W q) (\<lambda>x s'. returns (f x) s') s"
    by (rule always_mono[OF DoRequest_state]) (use assms(1,4) in auto)
  moreover have "returns (DoRequest W q) s"
    using ReconstructRequest_body[OF assms(3)] by (intro DoRequest_returns assms(2)) simp
  ultimately show ?thesis by (simp add: returns_bindp_at)
qed

lemma returns_bindp_on_hoverfly:
  "returns (bindp (on_hoverfly f) g) s = returns (g (fst (f (fst s)))) (snd (f (fst s)), snd s)"
  by (cases s) (simp add: returns_def bindp_def on_hoverfly_def split: prod.split)

text \<open>Without middleware, every mode returns.\<close>

lemma Process_returns:
  assumes "\<not> IsMiddlewareSet (fst s)" and "upstream_ok W"
  shows "returns (Process (hoverfly_ops W) m req d) s"
proof (cases m)
  case SimulateMode
  then show ?thesis
    using hoverfly.simulate_returns[of W s req d] assms(1) by (simp add: hoverfly_ops_def)
next
  case SynthesizeMode
  then show ?thesis
    using hoverfly.synthesize_unset[of W s req d] assms(1) by (simp add: hoverfly_ops_def returns_iff)
next
  case ModifyMode
  let ?p = "\<lparr>pr_Response = zero_response, pr_Request = d\<rparr>"
  have "returns (ModifyMode_Process (hoverfly_ops W) req d) s"
  proof (cases "ReconstructRequest (w_url_parse W) ?p")
    case (Inr q)
    show ?thesis
      by (simp add: ModifyMode_Process_def hoverfly_ops_def returns_bindp_apply[OF assms(1)] Inr)
        (rule returns_bindp_forward[OF assms Inr],
          auto simp: returns_bindp_apply returns_retp split: sum.split)
  qed (simp add: ModifyMode_Process_def hoverfly_ops_def returns_bindp_apply[OF assms(1)] returns_retp)
  with ModifyMode show ?thesis by simp
next
  case (CaptureMode args)
  let ?p = "\<lparr>pr_Response = zero_response, pr_Request = d\<rparr>"
  have "returns (CaptureMode_Process (hoverfly_ops W) args req d) s"
  proof (cases "ReconstructRequest (w_url_parse W) ?p")
    case (Inr q)
    show ?thesis
      by (simp add: CaptureMode_Process_def Let_def hoverfly_ops_def returns_bindp_apply[OF assms(1)] Inr)
        (auto intro!: returns_bindp_forward[OF assms Inr]
          simp: returns_bindp_on_hoverfly returns_retp Let_def
          split: sum.split prod.split option.split)
  qed (simp add: CaptureMode_Process_def Let_def hoverfly_ops_def returns_bindp_apply[OF assms(1)] returns_retp)
  with CaptureMode show ?thesis by simp
qed


text \<open>A property of the Hoverfly that matching and saving keep is kept by every mode.\<close>

lemma keeps_bindp:
  "\<lbrakk>always m (\<lambda>x s'. Q (fst s')) s; \<And>x s'. Q (fst s') \<Longrightarrow> always (f x) (\<lambda>x s'. Q (fst s')) s'\<rbrakk> \<Longrightarrow>
     always (bindp m f) (\<lambda>x s'. Q (fst s')) s"
  by (auto simp: always_bindp elim!: always_mono)

lemma keeps_ApplyMiddleware: "Q (fst s) \<Longrightarrow> always (ApplyMiddleware W p) (\<lambda>x s'. Q (fst s')) s"
  by (cases s) (auto simp: ApplyMiddleware_def always_def in_world_def bind_outcome_Returns_iff)

lemma keeps_DoRequest: "Q (fst s) \<Longrightarrow> always (DoRequest W q) (\<lambda>x s'. Q (fst s')) s"
  using DoRequest_state[of W q s] by (auto simp: always_def)

lemma keeps_on_hoverfly: "Q (snd (f (fst s))) \<Longrightarrow> always (on_hoverfly f) (\<lambda>x s'. Q (fst s')) s"
  by (cases s) (simp add: always_on_hoverfly)

lemma keeps_read: "Q (fst s) \<Longrightarrow> always (\<lambda>s. Returns (g s, s)) (\<lambda>x s'. Q (fst s')) s"
  by (cases s) (simp add: always_def)

lemmas keeps_steps = keeps_bindp keeps_ApplyMiddleware keeps_DoRequest keeps_on_hoverfly keeps_read

lemma Process_keeps:
  assumes "Q (fst s)" and "\<And>r hf. Q hf \<Longrightarrow> Q (snd (GetResponse (w_libs W) r hf))"
    and "\<And>r d ws hf. Q hf \<Longrightarrow> Q (snd (Save r d ws hf))"
  shows "always (Process (hoverfly_ops W) m req d) (\<lambda>x s'. Q (fst s')) s"
  using assms
  by (cases m)
    (auto simp: SimulateMode_Process_def SynthesizeMode_Process_def ModifyMode_Process_def
      CaptureMode_Process_def hoverfly_ops_def Let_def always_retp
      intro!: keeps_steps split: sum.split option.split prod.split)

lemma wf_matcher_GetResponse:
  "wf_matcher (hf_CacheMatcher hf) \<Longrightarrow> wf_matcher (hf_CacheMatcher (snd (GetResponse L r hf)))"
  using wf_matcher_Save by (auto simp: GetResponse_def match_and_save_def Let_def
      split: sum.splits prod.splits option.splits) (metis snd_conv)+

lemma GetResponse_keeps_other:
  "hf_Authentication (snd (GetResponse L r hf)) = hf_Authentication hf"
  "hf_MetadataCache (snd (GetResponse L r hf)) = hf_MetadataCache hf"
  by (simp_all add: GetResponse_def match_and_save_def Let_def split: sum.splits prod.splits option.splits)


lemma wf_hoverfly_GetResponse: "wf_hoverfly L hf \<Longrightarrow> wf_hoverfly L (snd (GetResponse L' r hf))"
  using wf_matcher_GetResponse[of hf L' r]
  by (simp add: wf_hoverfly_def modes_ok_def GetResponse_keeps_rest GetResponse_keeps_other)

lemma wf_hoverfly_Save: "wf_hoverfly L hf \<Longrightarrow> wf_hoverfly L (snd (Save r d ws hf))"
  by (simp add: wf_hoverfly_def modes_ok_def Save_def AddRequestMatcherResponsePair_def)

lemma wf_hoverfly_Process:
  "wf_hoverfly L (fst s) \<Longrightarrow>
     always (Process (hoverfly_ops W) m req d) (\<lambda>x s'. wf_hoverfly L (fst s')) s"
  by (rule Process_keeps) (simp_all add: wf_hoverfly_GetResponse wf_hoverfly_Save)

lemma wf_hoverfly_mode:
  "wf_hoverfly L hf \<Longrightarrow> \<exists>m. map_get (hf_modeMap hf) (Cfg_GetMode (hf_Cfg hf)) = Some m"
  by (auto simp: wf_hoverfly_def modes_ok_def all_modes_def Cfg_GetMode_def split: option.splits)

lemma delay_returns_wf:
  "wf_hoverfly (w_libs W) (fst s) \<Longrightarrow> returns (delay_response W r resp) s"
  by (rule delay_response_returns) (simp add: wf_hoverfly_def)

lemma processRequest_total:
  assumes "wf_hoverfly (w_libs W) (fst s)" and "\<not> IsMiddlewareSet (fst s)" and "upstream_ok W"
  shows "returns (processRequest W req) s"
proof (cases "NewRequestDetailsFromHttpRequest req")
  case (Pair details req')
  show ?thesis
  proof (cases details)
    case (Inr d)
    obtain m where m: "map_get (hf_modeMap (fst s)) (Cfg_GetMode (hf_Cfg (fst s))) = Some m"
      using wf_hoverfly_mode[OF assms(1)] by blast
    have "always (Process (hoverfly_ops W) m req' d)
        (\<lambda>x s'. returns (case x of (response, err) \<Rightarrow>
           if err \<noteq> None \<or> Cfg_GetMode (hf_Cfg (fst s)) = Capture then retp (response, None)
           else delay_response W d response) s') s"
      by (rule always_mono[OF wf_hoverfly_Process[OF assms(1)]])
        (auto simp: returns_retp intro!: delay_returns_wf)
    then have "returns (bindp (Process (hoverfly_ops W) m req' d) (\<lambda>(response, err).
           if err \<noteq> None \<or> Cfg_GetMode (hf_Cfg (fst s)) = Capture then retp (response, None)
           else delay_response W d response)) s"
      using Process_returns[OF assms(2,3)] by (simp add: returns_bindp_at)
    then show ?thesis by (simp add: returns_def processRequest_def Pair Inr m Let_def)
  qed (simp add: returns_def processRequest_def Pair)
qed

lemma wf_sample_hoverfly: "wf_hoverfly L (sample_hoverfly ps)"
proof -
  have "map_get initial_modes Simulate = Some SimulateMode" "map_get initial_modes Modify = Some ModifyMode"
      "map_get initial_modes Synthesize = Some SynthesizeMode"
      "map_get initial_modes Capture = Some (CaptureMode \<lparr>ar_Headers = []\<rparr>)"
    by (simp_all add: initial_modes_def mode_names)
  moreover have "hf_Counter (sample_hoverfly ps) = NewModeCounter all_modes" "hf_Authentication (sample_hoverfly ps) = fresh_auth"
      "hf_MetadataCache (sample_hoverfly ps) = Memory NewInMemoryCache"
    by (simp_all add: sample_hoverfly_def all_modes_def)
  moreover have "Simulate \<noteq> Capture" by (simp add: mode_names)
  ultimately show ?thesis
    using wf_sample[of ps] by (simp add: wf_hoverfly_def modes_ok_def all_modes_def NewModeCounter_keys
      wf_fresh_auth) (simp add: wf_memory_def NewInMemoryCache_def)
qed

lemma wf_hoverfly_processRequest:
  assumes "wf_hoverfly L (fst s)" and "processRequest W req s = Returns (x, s')"
  shows "wf_hoverfly L (fst s')"
proof (cases "NewRequestDetailsFromHttpRequest req")
  case (Pair details req')
  show ?thesis
  proof (cases details)
    case (Inr d)
    obtain m where m: "map_get (hf_modeMap (fst s)) (Cfg_GetMode (hf_Cfg (fst s))) = Some m"
      using wf_hoverfly_mode[OF assms(1)] by blast
    from assms(2) obtain y s1 where p: "Process (hoverfly_ops W) m req' d s = Returns (y, s1)"
      and rest: "(case y of (response, err) \<Rightarrow>
           if err \<noteq> None \<or> Cfg_GetMode (hf_Cfg (fst s)) = Capture then retp (response, None)
           else delay_response W d response) s1 = Returns (x, s')"
      by (auto simp: processRequest_def Pair Inr m Let_def bindp_Returns)
    have "wf_hoverfly L (fst s1)" by (rule always_Returns[OF wf_hoverfly_Process[OF assms(1)] p])
    moreover have "s' = s1"
      using rest by (auto simp: delay_response_def bind_outcome_Returns_iff split: prod.splits if_splits)
    ultimately show ?thesis by simp
  qed (use assms in \<open>simp add: processRequest_def Pair\<close>)
qed

end
