(* ===== verification/Service.thy ===== *)
theory Service
  imports Answers
begin

text \<open>
  The operations the APIs call: \<^verbatim>\<open>core/hoverfly_service.go\<close> (destination, mode, middleware, delays,
  simulation), the start and the stop of the proxy (\<^verbatim>\<open>StartProxy\<close>, \<^verbatim>\<open>StopProxy\<close> of
  \<^verbatim>\<open>core/hoverfly.go\<close>, \<^verbatim>\<open>core/listener.go\<close>) and the import of simulations (\<^verbatim>\<open>core/import.go\<close>).
\<close>

section \<open>The proxy\<close>

text \<open>Building a proxy compiles the destination, which panics when it is not a regular expression.\<close>

definition NewProxy :: "libs \<Rightarrow> Hoverfly \<Rightarrow> proxy outcome" where
  "NewProxy L hf =
     (if \<not> re_compiles L (cf_Destination (hf_Cfg hf)) then Panics ''regexp: Compile''
      else Returns \<lparr>px_Webserver = False, px_Destination = cf_Destination (hf_Cfg hf),
        px_AuthEnabled = cf_AuthEnabled (hf_Cfg hf), px_Verbose = cf_Verbose (hf_Cfg hf)\<rparr>)"

definition NewWebserverProxy :: "Hoverfly \<Rightarrow> proxy" where
  "NewWebserverProxy hf = \<lparr>px_Webserver = True, px_Destination = '''', px_AuthEnabled = False,
     px_Verbose = cf_Verbose (hf_Cfg hf)\<rparr>"

definition StartProxy :: "'w world \<Rightarrow> (Hoverfly \<times> 'w, string option) prog" where
  "StartProxy W = (\<lambda>(hf, w).
     if cf_ProxyPort (hf_Cfg hf) = '''' then Returns (Some ''Proxy port is not set!'', (hf, w))
     else bind_outcome (if cf_Webserver (hf_Cfg hf) then Returns (NewWebserverProxy hf)
                        else NewProxy (w_libs W) hf) (\<lambda>p.
       let hf = hf\<lparr>hf_Proxy := Some p\<rparr> in
       case w_listen W ('':'' @ cf_ProxyPort (hf_Cfg hf)) w of
         (Some err, w') \<Rightarrow> Returns (Some err, (hf, w'))
       | (None, w') \<Rightarrow> Returns (None, (hf\<lparr>hf_SL := Some False,
           hf_Cfg := (hf_Cfg hf)\<lparr>cf_ProxyControlWG := cf_ProxyControlWG (hf_Cfg hf) + 1\<rparr>\<rparr>, w'))))"

text \<open>
  \<^verbatim>\<open>Stop\<close> closes the channel of the listener. \<^verbatim>\<open>Wait\<close> returns when the goroutine that served this
  listener is done.
\<close>

definition StopProxy :: "Hoverfly \<Rightarrow> Hoverfly outcome" where
  "StopProxy hf = (case hf_SL hf of
     None \<Rightarrow> Panics nil_deref
   | Some True \<Rightarrow> Panics ''close of closed channel''
   | Some False \<Rightarrow> Returns (hf\<lparr>hf_SL := Some True,
       hf_Cfg := (hf_Cfg hf)\<lparr>cf_ProxyControlWG := cf_ProxyControlWG (hf_Cfg hf) - 1\<rparr>\<rparr>))"

section \<open>Destination and mode\<close>

definition Svc_GetDestination :: "Hoverfly \<Rightarrow> string" where
  "Svc_GetDestination this = cf_Destination (hf_Cfg this)"

definition SetDestination :: "'w world \<Rightarrow> string \<Rightarrow> (Hoverfly \<times> 'w, string option) prog" where
  "SetDestination W destination = (\<lambda>(hf, w).
     if \<not> re_compiles (w_libs W) destination
     then Returns (Some ''destination is not a valid regular expression string'', (hf, w))
     else bind_outcome (StopProxy hf) (\<lambda>hf.
       StartProxy W (hf\<lparr>hf_Cfg := (hf_Cfg hf)\<lparr>cf_Destination := destination\<rparr>\<rparr>, w)))"

definition GetMode :: "Hoverfly \<Rightarrow> string" where
  "GetMode this = cf_Mode (hf_Cfg this)"

definition bad_asterisk :: "string list \<Rightarrow> bool" where
  "bad_asterisk headers = (list_ex (\<lambda>header. header = ''*'') headers \<and> length headers > 1)"

definition SetModeWithArguments :: "libs \<Rightarrow> ModeView \<Rightarrow> Hoverfly \<Rightarrow> (string option \<times> Hoverfly) outcome" where
  "SetModeWithArguments L modeView this =
     (let availableModes = [Simulate, Capture, Modify, Synthesize] in
      if mo_Mode modeView = '''' \<or> mo_Mode modeView \<notin> set availableModes
      then Returns (Some ''Not a valid mode'', this)
      else if cf_Webserver (hf_Cfg this) \<and> mo_Mode modeView = Capture
      then Returns (Some ''Cannot change the mode of Hoverfly to capture when running as a webserver'', this)
      else if bad_asterisk (ma_Headers (mo_Arguments modeView))
      then Returns (Some ''Must provide a list containing only an asterix, or a list containing only headers names'', this)
      else
        let this = this\<lparr>hf_Cfg := Cfg_SetMode (mo_Mode modeView) (hf_Cfg this)\<rparr>;
            mode = Cfg_GetMode (hf_Cfg this);
            this = (if mode = ''capture'' then this\<lparr>hf_CacheMatcher := snd (FlushCache (hf_CacheMatcher this))\<rparr>
                    else if mode = ''simulate''
                    then this\<lparr>hf_CacheMatcher := snd (PreloadCache L (hf_CacheMatcher this) (hf_Simulation this))\<rparr>
                    else this)
        in (case map_get (hf_modeMap this) mode of
              None \<Rightarrow> Panics nil_deref
            | Some m \<Rightarrow> Returns (None, this\<lparr>hf_modeMap :=
                map_put mode (SetArguments \<lparr>ar_Headers = ma_Headers (mo_Arguments modeView)\<rparr> m) (hf_modeMap this)\<rparr>)))"

definition SetMode :: "libs \<Rightarrow> string \<Rightarrow> Hoverfly \<Rightarrow> (string option \<times> Hoverfly) outcome" where
  "SetMode L mode this =
     SetModeWithArguments L \<lparr>mo_Mode = mode, mo_Arguments = \<lparr>ma_Headers = []\<rparr>\<rparr> this"

section \<open>Middleware\<close>

definition GetMiddleware :: "'w world \<Rightarrow> (Hoverfly \<times> 'w, string \<times> string \<times> string) prog" where
  "GetMiddleware W = (\<lambda>(hf, w).
     let m = cf_Middleware (hf_Cfg hf) in
     bindp (in_world (GetScript W m)) (\<lambda>script.
       retp (mi_Binary m, (case script of Inl e \<Rightarrow> '''' | Inr s \<Rightarrow> s), mi_Remote m)) (hf, w))"

definition test_data :: RequestResponsePair where
  "test_data =
     \<lparr>pr_Response = \<lparr>rs_Status = 200, rs_Body = ''ok'', rs_Headers = Some [(''test_header'', [''true''])]\<rparr>,
      pr_Request = \<lparr>rq_Path = ''/'', rq_Method = ''GET'', rq_Destination = ''www.test.com'', rq_Scheme = '''',
        rq_Query = '''', rq_Body = '''', rq_Headers = Some [(''test_header'', [''true''])]\<rparr>\<rparr>"

definition set_middleware :: "Middleware \<Rightarrow> (Hoverfly \<times> 'w, unit) prog" where
  "set_middleware m = on_hoverfly (\<lambda>hf. ((), hf\<lparr>hf_Cfg := (hf_Cfg hf)\<lparr>cf_Middleware := m\<rparr>\<rparr>))"

text \<open>A script that cannot be written is not an error, and leaves the middleware as it was.\<close>

definition SetMiddleware ::
  "'w world \<Rightarrow> string \<Rightarrow> string \<Rightarrow> string \<Rightarrow> (Hoverfly \<times> 'w, string option) prog" where
  "SetMiddleware W binary script remote =
     (if binary = '''' \<and> script = '''' \<and> remote = ''''
      then bindp (set_middleware no_middleware) (\<lambda>u. retp None)
      else if binary = '''' \<and> script \<noteq> '''' then retp (Some ''Cannot run script with no binary'')
      else
        bindp (in_world (SetBinary W no_middleware binary)) (\<lambda>(err, newMiddleware). case err of
          Some err \<Rightarrow> retp (Some err)
        | None \<Rightarrow>
        bindp (in_world (SetScript W newMiddleware script)) (\<lambda>(err, newMiddleware). case err of
          Some err \<Rightarrow> retp None
        | None \<Rightarrow>
        bindp (in_world (SetRemote W newMiddleware remote)) (\<lambda>(err, newMiddleware). case err of
          Some err \<Rightarrow> retp (Some err)
        | None \<Rightarrow>
        bindp (in_world (Execute W newMiddleware test_data)) (\<lambda>(pair, err). case err of
          Some err \<Rightarrow> retp (Some err)
        | None \<Rightarrow> bindp (set_middleware newMiddleware) (\<lambda>u. retp None))))))"

section \<open>Caches, delays and counters\<close>

definition GetRequestCacheCount :: "Hoverfly \<Rightarrow> int" where
  "GetRequestCacheCount hf = int (length (si_MatchingPairs (hf_Simulation hf)))"

definition GetMetadataCache :: "Hoverfly \<Rightarrow> store" where
  "GetMetadataCache this = hf_MetadataCache this"

definition GetCache :: "libs \<Rightarrow> Hoverfly \<Rightarrow> CacheView \<times> string option" where
  "GetCache L this = GetAllResponses L (hf_CacheMatcher this)"

definition Svc_FlushCache :: "Hoverfly \<Rightarrow> string option \<times> Hoverfly" where
  "Svc_FlushCache hf = (case FlushCache (hf_CacheMatcher hf) of
     (err, cm) \<Rightarrow> (err, hf\<lparr>hf_CacheMatcher := cm\<rparr>))"

definition GetResponseDelays :: "Hoverfly \<Rightarrow> ResponseDelayPayloadView" where
  "GetResponseDelays hf = ConvertToResponseDelayPayloadView (si_ResponseDelays (hf_Simulation hf))"

definition delay_from_view :: "ResponseDelayView \<Rightarrow> ResponseDelay" where
  "delay_from_view v = \<lparr>dl_UrlPattern = dv_UrlPattern v, dl_HttpMethod = dv_HttpMethod v, dl_Delay = dv_Delay v\<rparr>"

definition SetResponseDelays ::
  "libs \<Rightarrow> ResponseDelayPayloadView \<Rightarrow> Hoverfly \<Rightarrow> string option \<times> Hoverfly" where
  "SetResponseDelays L payloadView hf = (case ValidateResponseDelayPayload L payloadView of
     Some err \<Rightarrow> (Some err, hf)
   | None \<Rightarrow>
       (let responseDelays =
              foldl (\<lambda>ds v. ds @ [delay_from_view v]) [] (case dp_Data payloadView of None \<Rightarrow> [] | Some vs \<Rightarrow> vs)
        in (None, hf\<lparr>hf_Simulation := (hf_Simulation hf)\<lparr>si_ResponseDelays := responseDelays\<rparr>\<rparr>)))"

definition DeleteResponseDelays :: "Hoverfly \<Rightarrow> Hoverfly" where
  "DeleteResponseDelays hf = hf\<lparr>hf_Simulation := (hf_Simulation hf)\<lparr>si_ResponseDelays := []\<rparr>\<rparr>"

definition GetStats :: "Hoverfly \<Rightarrow> Stats" where
  "GetStats hf = Flush (hf_Counter hf)"

definition GetVersion :: "Hoverfly \<Rightarrow> string" where
  "GetVersion this = hf_version this"

definition GetUpstreamProxy :: "Hoverfly \<Rightarrow> string" where
  "GetUpstreamProxy this = cf_UpstreamProxy (hf_Cfg this)"

section \<open>Simulations\<close>

definition GetSimulation :: "libs \<Rightarrow> string \<Rightarrow> Hoverfly \<Rightarrow> SimulationViewV2" where
  "GetSimulation L now hf =
     \<lparr>s2_DataViewV2 =
        \<lparr>d2_RequestResponsePairs =
           foldl (\<lambda>views v. views @ [BuildView (sniff L) v]) [] (si_MatchingPairs (hf_Simulation hf)),
         d2_GlobalActions = \<lparr>ga_Delays =
           dp_Data (ConvertToResponseDelayPayloadView (si_ResponseDelays (hf_Simulation hf)))\<rparr>\<rparr>,
      s2_MetaView = NewMetaView now (hf_version hf)\<rparr>"

definition ImportRequestResponsePairViews :: "RequestResponsePairViewV2 list \<Rightarrow> Hoverfly \<Rightarrow> Hoverfly" where
  "ImportRequestResponsePairViews pairViews hf =
     (if length pairViews > 0 then
        foldl (\<lambda>hf pairView. hf\<lparr>hf_Simulation := (hf_Simulation hf)\<lparr>si_MatchingPairs :=
          si_MatchingPairs (hf_Simulation hf) @ [NewRequestMatcherResponsePairFromView pairView]\<rparr>\<rparr>) hf pairViews
      else hf)"

definition PutSimulation :: "libs \<Rightarrow> SimulationViewV2 \<Rightarrow> Hoverfly \<Rightarrow> string option \<times> Hoverfly" where
  "PutSimulation L simulationView this =
     (let this = ImportRequestResponsePairViews
            (d2_RequestResponsePairs (s2_DataViewV2 simulationView)) this
      in (case SetResponseDelays L
               \<lparr>dp_Data = ga_Delays (d2_GlobalActions (s2_DataViewV2 simulationView))\<rparr> this of
            (Some err, this) \<Rightarrow> (Some err, this)
          | (None, this) \<Rightarrow> (None, this)))"

definition DeleteSimulation :: "Hoverfly \<Rightarrow> Hoverfly" where
  "DeleteSimulation this =
     (let this = this\<lparr>hf_Simulation := (hf_Simulation this)\<lparr>si_MatchingPairs := []\<rparr>\<rparr>;
          this = DeleteResponseDelays this
      in snd (Svc_FlushCache this))"

section \<open>Importing\<close>

text \<open>
  What the import reads: \<open>im_url_regex\<close> is the match against the URL pattern of the file, \<open>im_stat\<close>
  is the error of \<^verbatim>\<open>os.Stat\<close>, if any, and whether \<^verbatim>\<open>os.IsNotExist\<close> accepts it, \<open>im_open\<close> and \<open>im_get\<close>
  open a file and fetch a URL, \<open>im_unmarshal\<close> parses a simulation.
\<close>

record 'w import_world =
  im_url_regex :: "string \<Rightarrow> bool"
  im_stat :: "string \<Rightarrow> 'w \<Rightarrow> (string \<times> bool) option"
  im_open :: "string \<Rightarrow> 'w \<Rightarrow> string + body_reader"
  im_get :: "string \<Rightarrow> 'w \<Rightarrow> (string + body_reader) \<times> 'w"
  im_unmarshal :: "string \<Rightarrow> string + SimulationViewV2"

definition isURL :: "'w world \<Rightarrow> 'w import_world \<Rightarrow> string \<Rightarrow> bool" where
  "isURL W I str =
     (if str = '''' \<or> length str \<ge> 2083 \<or> length str \<le> 3 \<or> HasPrefix str ''.'' then False
      else (case w_url_parse W str of
          Inl err \<Rightarrow> False
        | Inr u \<Rightarrow>
            if HasPrefix (url_Host u) ''.'' then False
            else if url_Host u = '''' \<and> (url_Path u \<noteq> '''' \<and> \<not> Contains (url_Path u) ''.'') then False
            else im_url_regex I str))"

definition path_exists :: "'w import_world \<Rightarrow> string \<Rightarrow> 'w \<Rightarrow> string + bool" where
  "path_exists I path w = (case im_stat I path w of
     None \<Rightarrow> Inr True
   | Some (err, not_exist) \<Rightarrow> if not_exist then Inr False else Inl err)"

text \<open>\<^verbatim>\<open>path.Ext\<close>: from the last dot of the last element on.\<close>

fun ext_rev :: "string \<Rightarrow> string \<Rightarrow> string" where
  "ext_rev [] seen = ''''"
| "ext_rev (c # cs) seen =
     (if c = CHR ''/'' then '''' else if c = CHR ''.'' then c # seen else ext_rev cs (c # seen))"

definition path_Ext :: "string \<Rightarrow> string" where
  "path_Ext path = ext_rev (rev path) ''''"

definition import_body :: "libs \<Rightarrow> 'w import_world \<Rightarrow> body_reader \<Rightarrow> Hoverfly \<Rightarrow> string option \<times> Hoverfly" where
  "import_body L I reader hf = (case fst (ReadAll reader) of
     Inl err \<Rightarrow> (Some (''Got error while parsing payloads, error '' @ err), hf)
   | Inr body \<Rightarrow> (case im_unmarshal I body of
       Inl err \<Rightarrow> (Some (''Got error while parsing payloads, error '' @ err), hf)
     | Inr simulation \<Rightarrow> PutSimulation L simulation hf))"

definition ImportFromDisk :: "libs \<Rightarrow> 'w import_world \<Rightarrow> string \<Rightarrow> (Hoverfly \<times> 'w, string option) prog" where
  "ImportFromDisk L I path = (\<lambda>(hf, w). case im_open I path w of
     Inl err \<Rightarrow> Returns (Some (''Got error while opening payloads file, error '' @ err), (hf, w))
   | Inr reader \<Rightarrow> on_hoverfly (import_body L I reader) (hf, w))"

definition ImportFromURL :: "libs \<Rightarrow> 'w import_world \<Rightarrow> string \<Rightarrow> (Hoverfly \<times> 'w, string option) prog" where
  "ImportFromURL L I url = bindp (in_world (liftp (im_get I url))) (\<lambda>resp. case resp of
     Inl err \<Rightarrow> retp (Some (''Failed to fetch given URL, error '' @ err))
   | Inr reader \<Rightarrow> on_hoverfly (import_body L I reader))"

definition Import :: "'w world \<Rightarrow> 'w import_world \<Rightarrow> string \<Rightarrow> (Hoverfly \<times> 'w, string option) prog" where
  "Import W I uri = (\<lambda>(hf, w).
     if isURL W I uri then ImportFromURL (w_libs W) I uri (hf, w)
     else if path_Ext uri \<noteq> ''.json''
     then Returns (Some (''Failed to import payloads, only JSON files are acceppted. Given file: '' @ uri), (hf, w))
     else (case path_exists I uri w of
         Inl err \<Rightarrow> Returns (Some (''Failed to import payloads from '' @ uri @ ''. Got error: '' @ err), (hf, w))
       | Inr exists \<Rightarrow>
           if exists then ImportFromDisk (w_libs W) I uri (hf, w)
           else Returns (Some (''Failed to import payloads, given file '' @ [CHR 0x27] @ uri @ [CHR 0x27] @
             '' does not exist''), (hf, w))))"

section \<open>What the operations change\<close>

text \<open>The loops as appends.\<close>

lemma foldl_snoc_map: "foldl (\<lambda>ys x. ys @ [f x]) ys xs = ys @ map f xs"
  by (induction xs arbitrary: ys) simp_all

lemma ImportRequestResponsePairViews_eq:
  "ImportRequestResponsePairViews vs hf =
     hf\<lparr>hf_Simulation := (hf_Simulation hf)\<lparr>si_MatchingPairs :=
       si_MatchingPairs (hf_Simulation hf) @ map NewRequestMatcherResponsePairFromView vs\<rparr>\<rparr>"
proof -
  have "foldl (\<lambda>hf pairView. hf\<lparr>hf_Simulation := (hf_Simulation hf)\<lparr>si_MatchingPairs :=
          si_MatchingPairs (hf_Simulation hf) @ [NewRequestMatcherResponsePairFromView pairView]\<rparr>\<rparr>) hf vs =
     hf\<lparr>hf_Simulation := (hf_Simulation hf)\<lparr>si_MatchingPairs :=
       si_MatchingPairs (hf_Simulation hf) @ map NewRequestMatcherResponsePairFromView vs\<rparr>\<rparr>"
    by (induction vs arbitrary: hf) simp_all
  then show ?thesis by (simp add: ImportRequestResponsePairViews_def)
qed

lemma GetSimulation_eq:
  "GetSimulation L now hf =
     \<lparr>s2_DataViewV2 =
        \<lparr>d2_RequestResponsePairs = map (BuildView (sniff L)) (si_MatchingPairs (hf_Simulation hf)),
         d2_GlobalActions = \<lparr>ga_Delays = Some (map delay_view (si_ResponseDelays (hf_Simulation hf)))\<rparr>\<rparr>,
      s2_MetaView = NewMetaView now (hf_version hf)\<rparr>"
  by (simp add: GetSimulation_def foldl_snoc_map ConvertToResponseDelayPayloadView_def)

lemma delay_from_view_inverse [simp]: "delay_from_view (delay_view d) = d"
  by (simp add: delay_from_view_def delay_view_def)

lemma delay_from_view_comp [simp]: "delay_from_view \<circ> delay_view = id"
  by (simp add: fun_eq_iff)

definition given_delays :: "ResponseDelayPayloadView \<Rightarrow> ResponseDelayList" where
  "given_delays v = (case dp_Data v of None \<Rightarrow> [] | Some vs \<Rightarrow> map delay_from_view vs)"

lemma ValidateResponseDelayPayload_None:
  "ValidateResponseDelayPayload L v = None \<longleftrightarrow> (\<forall>d \<in> set (given_delays v). valid_delay L d)"
  by (auto simp: ValidateResponseDelayPayload_def given_delays_def validate_delays_None valid_delay_def
      delay_from_view_def split: option.splits)

lemma SetResponseDelays_eq:
  "SetResponseDelays L v hf = (case ValidateResponseDelayPayload L v of
     Some err \<Rightarrow> (Some err, hf)
   | None \<Rightarrow> (None, hf\<lparr>hf_Simulation := (hf_Simulation hf)\<lparr>si_ResponseDelays := given_delays v\<rparr>\<rparr>))"
  by (simp add: SetResponseDelays_def given_delays_def foldl_snoc_map split: option.split)

lemma GetSimulation_delays:
  "given_delays \<lparr>dp_Data = ga_Delays (d2_GlobalActions (s2_DataViewV2 (GetSimulation L now hf)))\<rparr> =
     si_ResponseDelays (hf_Simulation hf)"
  by (simp add: GetSimulation_eq given_delays_def)

lemma PutSimulation_eq:
  "PutSimulation L v hf =
     (let hf = ImportRequestResponsePairViews (d2_RequestResponsePairs (s2_DataViewV2 v)) hf
      in SetResponseDelays L \<lparr>dp_Data = ga_Delays (d2_GlobalActions (s2_DataViewV2 v))\<rparr> hf)"
  by (simp add: PutSimulation_def Let_def split: prod.split option.split)

lemma DeleteSimulation_eq:
  "DeleteSimulation hf = hf\<lparr>hf_Simulation := (hf_Simulation hf)\<lparr>si_MatchingPairs := [], si_ResponseDelays := []\<rparr>,
     hf_CacheMatcher := snd (FlushCache (hf_CacheMatcher hf))\<rparr>"
  by (simp add: DeleteSimulation_def DeleteResponseDelays_def Svc_FlushCache_def Let_def split: prod.split)

text \<open>
  What one Hoverfly exports, another imports in place of what it had: the same pairs and delays in the same
  order, behind an empty cache. The pairs have their exact query matchers in normal form and the delays are
  valid, as everything the API stores.
\<close>

lemma import_of_export:
  assumes "\<forall>p \<in> set (si_MatchingPairs (hf_Simulation hf)). query_normal p"
    and "\<forall>d \<in> set (si_ResponseDelays (hf_Simulation hf)). valid_delay L d"
  shows "PutSimulation L (GetSimulation L' now hf) (DeleteSimulation hf') =
     (None, hf'\<lparr>hf_Simulation := hf_Simulation hf, hf_CacheMatcher := snd (FlushCache (hf_CacheMatcher hf'))\<rparr>)"
proof -
  have "map (NewRequestMatcherResponsePairFromView \<circ> BuildView (sniff L')) (si_MatchingPairs (hf_Simulation hf)) =
      si_MatchingPairs (hf_Simulation hf)"
    using assms(1) by (simp add: map_idI NewPair_BuildView)
  moreover have "ValidateResponseDelayPayload L
      \<lparr>dp_Data = ga_Delays (d2_GlobalActions (s2_DataViewV2 (GetSimulation L' now hf)))\<rparr> = None"
    using assms(2) by (simp add: ValidateResponseDelayPayload_None GetSimulation_delays)
  ultimately show ?thesis
    by (simp add: PutSimulation_eq ImportRequestResponsePairViews_eq SetResponseDelays_eq GetSimulation_delays
        DeleteSimulation_eq) (simp add: GetSimulation_eq)
qed

text \<open>
  A simulation that is exported, deleted and imported again is the same simulation, and the
  cache is empty.
\<close>

lemma export_delete_import:
  assumes "\<forall>p \<in> set (si_MatchingPairs (hf_Simulation hf)). query_normal p"
    and "\<forall>d \<in> set (si_ResponseDelays (hf_Simulation hf)). valid_delay L d"
  shows "PutSimulation L (GetSimulation L now hf) (DeleteSimulation hf) =
     (None, hf\<lparr>hf_CacheMatcher := snd (FlushCache (hf_CacheMatcher hf))\<rparr>)"
  using import_of_export[OF assms, of L now hf] by simp

lemma export_delete_import_witness:
  "PutSimulation no_libs (GetSimulation no_libs ''now'' (sample_hoverfly [headers_pair None]))
      (DeleteSimulation (sample_hoverfly [headers_pair None])) =
    (None, sample_hoverfly [headers_pair None])"
proof -
  have "query_normal (headers_pair None)" by (simp add: headers_pair_def query_normal_def exact_of_def)
  then have "PutSimulation no_libs (GetSimulation no_libs ''now'' (sample_hoverfly [headers_pair None]))
      (DeleteSimulation (sample_hoverfly [headers_pair None])) =
    (None, (sample_hoverfly [headers_pair None])\<lparr>hf_CacheMatcher :=
      snd (FlushCache (hf_CacheMatcher (sample_hoverfly [headers_pair None])))\<rparr>)"
    by (intro export_delete_import) simp_all
  moreover have "snd (FlushCache (hf_CacheMatcher (sample_hoverfly [headers_pair None]))) =
      hf_CacheMatcher (sample_hoverfly [headers_pair None])"
    by (simp add: FlushCache_def Mem_DeleteData_def NewInMemoryCache_def)
  ultimately show ?thesis by simp
qed

text \<open>What every stored simulation satisfies, and who keeps it.\<close>

lemma query_normal_PutSimulation:
  "\<forall>p \<in> set (si_MatchingPairs (hf_Simulation hf)). query_normal p \<Longrightarrow>
     \<forall>p \<in> set (si_MatchingPairs (hf_Simulation (snd (PutSimulation L v hf)))). query_normal p"
  by (auto simp: PutSimulation_eq Let_def SetResponseDelays_eq ImportRequestResponsePairViews_eq split: option.splits)

lemma wf_hoverfly_simulation:
  "\<lbrakk>wf_hoverfly L hf; \<forall>d \<in> set (si_ResponseDelays s). valid_delay L d\<rbrakk> \<Longrightarrow>
     wf_hoverfly L (hf\<lparr>hf_Simulation := s\<rparr>)"
  by (simp add: wf_hoverfly_def modes_ok_def)

lemma wf_hoverfly_cache:
  "\<lbrakk>wf_hoverfly L hf; wf_matcher cm\<rbrakk> \<Longrightarrow> wf_hoverfly L (hf\<lparr>hf_CacheMatcher := cm\<rparr>)"
  by (simp add: wf_hoverfly_def modes_ok_def)

lemma wf_hoverfly_delays: "wf_hoverfly L hf \<Longrightarrow> \<forall>d \<in> set (si_ResponseDelays (hf_Simulation hf)). valid_delay L d"
  and wf_hoverfly_matcher: "wf_hoverfly L hf \<Longrightarrow> wf_matcher (hf_CacheMatcher hf)"
  by (simp_all add: wf_hoverfly_def)

lemma wf_hoverfly_SetResponseDelays:
  "wf_hoverfly L hf \<Longrightarrow> wf_hoverfly L (snd (SetResponseDelays L v hf))"
  by (auto simp: SetResponseDelays_eq ValidateResponseDelayPayload_None intro!: wf_hoverfly_simulation
      split: option.split)

lemma wf_hoverfly_PutSimulation: "wf_hoverfly L hf \<Longrightarrow> wf_hoverfly L (snd (PutSimulation L v hf))"
  unfolding PutSimulation_eq Let_def
  by (rule wf_hoverfly_SetResponseDelays)
    (auto simp: ImportRequestResponsePairViews_eq dest: wf_hoverfly_delays intro!: wf_hoverfly_simulation)

lemma wf_hoverfly_FlushCache: "wf_hoverfly L hf \<Longrightarrow> wf_hoverfly L (snd (Svc_FlushCache hf))"
  by (simp add: Svc_FlushCache_def wf_hoverfly_cache wf_matcher_Flush[OF wf_hoverfly_matcher, simplified]
      split: prod.split) (metis snd_conv wf_hoverfly_cache wf_matcher_Flush wf_hoverfly_matcher)

lemma wf_hoverfly_DeleteResponseDelays: "wf_hoverfly L hf \<Longrightarrow> wf_hoverfly L (DeleteResponseDelays hf)"
  by (auto simp: DeleteResponseDelays_def intro: wf_hoverfly_simulation)

lemma wf_hoverfly_DeleteSimulation: "wf_hoverfly L hf \<Longrightarrow> wf_hoverfly L (DeleteSimulation hf)"
  by (auto simp: DeleteSimulation_def Let_def intro!: wf_hoverfly_FlushCache wf_hoverfly_DeleteResponseDelays
      wf_hoverfly_simulation dest: wf_hoverfly_delays)

section \<open>Changing the mode\<close>

definition mode_accepted :: "ModeView \<Rightarrow> Hoverfly \<Rightarrow> bool" where
  "mode_accepted v hf =
     (mo_Mode v \<in> set all_modes \<and> \<not> (cf_Webserver (hf_Cfg hf) \<and> mo_Mode v = Capture) \<and>
      \<not> bad_asterisk (ma_Headers (mo_Arguments v)))"

lemma modes_not_empty: "m \<in> set all_modes \<Longrightarrow> m \<noteq> ''''"
  by (auto simp: all_modes_def mode_names)

lemma available_modes: "set [Simulate, Capture, Modify, Synthesize] = set all_modes"
  by (auto simp: all_modes_def)

lemma modes_ok_SetArguments:
  assumes "modes_ok hf" and "mode \<in> set all_modes" and "map_get (hf_modeMap hf) mode = Some m"
  shows "modes_ok (hf\<lparr>hf_modeMap := map_put mode (SetArguments a m) (hf_modeMap hf)\<rparr>)"
proof -
  have "Simulate \<noteq> Capture" "Synthesize \<noteq> Capture" "Modify \<noteq> Capture" "Simulate \<noteq> Modify"
      "Simulate \<noteq> Synthesize" "Synthesize \<noteq> Modify" by (simp_all add: mode_names)
  then show ?thesis
    using assms by (auto simp: modes_ok_def all_modes_def split: option.splits mode.splits)
qed

lemma wf_hoverfly_some:
  "wf_hoverfly L hf \<Longrightarrow> mode \<in> set all_modes \<Longrightarrow> \<exists>m. map_get (hf_modeMap hf) mode = Some m"
  by (auto simp: wf_hoverfly_def modes_ok_def all_modes_def split: option.splits)

text \<open>The cache after a change of mode: flushed for capture, filled for simulate.\<close>

definition mode_cache :: "libs \<Rightarrow> string \<Rightarrow> Hoverfly \<Rightarrow> CacheMatcher" where
  "mode_cache L mode hf =
     (if mode = Capture then snd (FlushCache (hf_CacheMatcher hf))
      else if mode = Simulate then snd (PreloadCache L (hf_CacheMatcher hf) (hf_Simulation hf))
      else hf_CacheMatcher hf)"

lemma wf_mode_cache: "wf_matcher (hf_CacheMatcher hf) \<Longrightarrow> wf_matcher (mode_cache L mode hf)"
  by (simp add: mode_cache_def wf_matcher_Flush wf_matcher_PreloadCache)

lemma SetModeWithArguments_refused:
  "\<not> mode_accepted v hf \<Longrightarrow> \<exists>err. SetModeWithArguments L v hf = Returns (Some err, hf)"
  using modes_not_empty[of "mo_Mode v"] available_modes
  by (auto simp: SetModeWithArguments_def mode_accepted_def Let_def)

lemma SetModeWithArguments_accepted:
  assumes "mode_accepted v hf" and "map_get (hf_modeMap hf) (mo_Mode v) = Some m"
  shows "SetModeWithArguments L v hf = Returns (None,
     hf\<lparr>hf_Cfg := (hf_Cfg hf)\<lparr>cf_Mode := mo_Mode v\<rparr>, hf_CacheMatcher := mode_cache L (mo_Mode v) hf,
        hf_modeMap := map_put (mo_Mode v) (SetArguments \<lparr>ar_Headers = ma_Headers (mo_Arguments v)\<rparr> m) (hf_modeMap hf)\<rparr>)"
proof -
  have "mo_Mode v \<noteq> ''''" using assms(1) by (simp add: mode_accepted_def modes_not_empty)
  then show ?thesis
    using assms by (auto simp: SetModeWithArguments_def mode_accepted_def available_modes[symmetric] Let_def
        Cfg_SetMode_def Cfg_GetMode_def mode_cache_def Capture_def Simulate_def)
qed

lemma wf_hoverfly_SetMode:
  assumes "wf_hoverfly L hf" and "SetModeWithArguments L' v hf = Returns (err, hf')"
  shows "wf_hoverfly L hf'"
proof (cases "mode_accepted v hf")
  case True
  then have mode: "mo_Mode v \<in> set all_modes" by (simp add: mode_accepted_def)
  obtain m where m: "map_get (hf_modeMap hf) (mo_Mode v) = Some m"
    using wf_hoverfly_some[OF assms(1) mode] by blast
  let ?h = "hf\<lparr>hf_Cfg := (hf_Cfg hf)\<lparr>cf_Mode := mo_Mode v\<rparr>, hf_CacheMatcher := mode_cache L' (mo_Mode v) hf\<rparr>"
  let ?a = "SetArguments \<lparr>ar_Headers = ma_Headers (mo_Arguments v)\<rparr> m"
  have "wf_hoverfly L ?h"
    using assms(1) True by (auto simp: wf_hoverfly_def modes_ok_def mode_accepted_def wf_mode_cache)
  moreover have "modes_ok (?h\<lparr>hf_modeMap := map_put (mo_Mode v) ?a (hf_modeMap ?h)\<rparr>)"
    using calculation m by (intro modes_ok_SetArguments mode) (simp_all add: wf_hoverfly_def)
  ultimately show ?thesis
    using assms(2) SetModeWithArguments_accepted[OF True m, of L'] by (auto simp: wf_hoverfly_def)
qed (use assms SetModeWithArguments_refused[of v hf L'] in auto)

text \<open>
  C24: changing the mode never panics. It is refused exactly for a mode that does not exist, for
  capture on a webserver, and for an asterisk among other header names, and a refused change changes
  nothing. An accepted one sets the mode, keeps the simulation, flushes the cache for capture
  and preloads it for simulate. Hoverfly stays well-formed.
\<close>

theorem SetModeWithArguments_correct:
  assumes "wf_hoverfly L hf"
  shows "\<exists>err hf'. SetModeWithArguments L v hf = Returns (err, hf') \<and> wf_hoverfly L hf' \<and>
    (if mo_Mode v \<in> {''simulate'', ''synthesize'', ''modify'', ''capture''} \<and>
        \<not> (cf_Webserver (hf_Cfg hf) \<and> mo_Mode v = ''capture'') \<and> \<not> bad_asterisk (ma_Headers (mo_Arguments v))
     then err = None \<and> GetMode hf' = mo_Mode v \<and> hf_Simulation hf' = hf_Simulation hf \<and>
       hf_CacheMatcher hf' =
         (if mo_Mode v = ''capture'' then snd (FlushCache (hf_CacheMatcher hf))
          else if mo_Mode v = ''simulate'' then snd (PreloadCache L (hf_CacheMatcher hf) (hf_Simulation hf))
          else hf_CacheMatcher hf)
     else err \<noteq> None \<and> hf' = hf)"
proof -
  have acc: "mode_accepted v hf \<longleftrightarrow> mo_Mode v \<in> {''simulate'', ''synthesize'', ''modify'', ''capture''} \<and>
      \<not> (cf_Webserver (hf_Cfg hf) \<and> mo_Mode v = ''capture'') \<and> \<not> bad_asterisk (ma_Headers (mo_Arguments v))"
    by (simp add: mode_accepted_def all_modes_def mode_names)
  show ?thesis
  proof (cases "mode_accepted v hf")
    case True
    obtain m where m: "map_get (hf_modeMap hf) (mo_Mode v) = Some m"
      using wf_hoverfly_some[OF assms] True unfolding mode_accepted_def by blast
    show ?thesis
      using SetModeWithArguments_accepted[OF True m, of L]
        wf_hoverfly_SetMode[OF assms SetModeWithArguments_accepted[OF True m, of L]] True
      unfolding acc[symmetric] by (simp add: GetMode_def mode_cache_def mode_names)
  next
    case False
    then show ?thesis
      using SetModeWithArguments_refused[OF False, of L] assms unfolding acc[symmetric] by auto
  qed
qed

theorem SetModeWithArguments_correct_witness:
  "\<exists>err hf'. SetModeWithArguments no_libs \<lparr>mo_Mode = ''capture'', mo_Arguments = \<lparr>ma_Headers = [''*'']\<rparr>\<rparr>
      (sample_hoverfly []) = Returns (err, hf') \<and> err = None \<and> GetMode hf' = ''capture''"
  using SetModeWithArguments_correct[OF wf_sample_hoverfly[of no_libs "[]"],
      of "\<lparr>mo_Mode = ''capture'', mo_Arguments = \<lparr>ma_Headers = [''*'']\<rparr>\<rparr>"]
  by (auto simp: zero_configuration_def bad_asterisk_def)

section \<open>Changing the destination\<close>

lemma StartProxy_listens:
  assumes "cf_ProxyPort (hf_Cfg hf) \<noteq> ''''" and "re_compiles (w_libs W) (cf_Destination (hf_Cfg hf))"
    and "w_listen W ('':'' @ cf_ProxyPort (hf_Cfg hf)) w = (r, w')"
  shows "\<exists>p. StartProxy W (hf, w) = Returns (r, (case r of
       None \<Rightarrow> hf\<lparr>hf_Proxy := Some p, hf_SL := Some False,
         hf_Cfg := (hf_Cfg hf)\<lparr>cf_ProxyControlWG := cf_ProxyControlWG (hf_Cfg hf) + 1\<rparr>\<rparr>
     | Some err \<Rightarrow> hf\<lparr>hf_Proxy := Some p\<rparr>, w')) \<and>
    px_Webserver p = cf_Webserver (hf_Cfg hf) \<and>
    px_Destination p = (if cf_Webserver (hf_Cfg hf) then '''' else cf_Destination (hf_Cfg hf))"
  using assms
  by (auto simp: StartProxy_def NewProxy_def NewWebserverProxy_def Let_def split: option.split)

lemma SetDestination_stopped:
  "\<lbrakk>hf_SL hf = Some True; re_compiles (w_libs W) d\<rbrakk> \<Longrightarrow> panics (SetDestination W d (hf, w))"
  by (simp add: SetDestination_def StopProxy_def)

text \<open>
  C29: while the proxy runs, a destination that is not a regular expression is refused and changes
  nothing. Any other one is installed: when the port opens again, the proxy that now runs filters
  by it. When the port does not open, the error is returned, the destination stays changed, and every
  later change of destination panics, for the closed listener is closed again.
\<close>

theorem SetDestination_correct:
  assumes "hf_SL hf = Some False" and "cf_ProxyPort (hf_Cfg hf) \<noteq> ''''"
    and "w_listen W ('':'' @ cf_ProxyPort (hf_Cfg hf)) w = (r, w')"
  shows "if \<not> re_compiles (w_libs W) d
    then \<exists>err. SetDestination W d (hf, w) = Returns (Some err, (hf, w))
    else \<exists>hf'. SetDestination W d (hf, w) = Returns (r, (hf', w')) \<and> Svc_GetDestination hf' = d \<and>
      hf_Simulation hf' = hf_Simulation hf \<and>
      (if r = None
       then hf_SL hf' = Some False \<and> cf_ProxyControlWG (hf_Cfg hf') = cf_ProxyControlWG (hf_Cfg hf) \<and>
         (\<exists>p. hf_Proxy hf' = Some p \<and> px_Destination p = (if cf_Webserver (hf_Cfg hf) then '''' else d))
       else \<forall>d2 w2. re_compiles (w_libs W) d2 \<longrightarrow> panics (SetDestination W d2 (hf', w2)))"
proof (cases "re_compiles (w_libs W) d")
  case True
  let ?h = "hf\<lparr>hf_SL := Some True, hf_Cfg := (hf_Cfg hf)\<lparr>cf_ProxyControlWG := cf_ProxyControlWG (hf_Cfg hf) - 1,
    cf_Destination := d\<rparr>\<rparr>"
  have stop: "SetDestination W d (hf, w) = StartProxy W (?h, w)"
    by (simp add: SetDestination_def StopProxy_def assms(1) True)
  have "\<exists>p. StartProxy W (?h, w) = Returns (r, (case r of
       None \<Rightarrow> ?h\<lparr>hf_Proxy := Some p, hf_SL := Some False,
         hf_Cfg := (hf_Cfg ?h)\<lparr>cf_ProxyControlWG := cf_ProxyControlWG (hf_Cfg ?h) + 1\<rparr>\<rparr>
     | Some err \<Rightarrow> ?h\<lparr>hf_Proxy := Some p\<rparr>, w')) \<and>
    px_Webserver p = cf_Webserver (hf_Cfg ?h) \<and>
    px_Destination p = (if cf_Webserver (hf_Cfg ?h) then '''' else cf_Destination (hf_Cfg ?h))"
    by (rule StartProxy_listens) (use assms True in simp_all)
  then show ?thesis
    by (cases r) (auto simp: True stop Svc_GetDestination_def SetDestination_stopped)
qed (simp add: SetDestination_def)

definition listening :: "Hoverfly \<Rightarrow> Hoverfly" where
  "listening hf = hf\<lparr>hf_SL := Some False, hf_Cfg := (hf_Cfg hf)\<lparr>cf_ProxyPort := ''8500''\<rparr>\<rparr>"

theorem SetDestination_correct_witness:
  "\<exists>hf'. SetDestination ((quiet_world (Finished []))\<lparr>w_listen := (\<lambda>p w. (Some ''address in use'', w))\<rparr>) ''a''
      (listening (sample_hoverfly []), ()) = Returns (Some ''address in use'', (hf', ())) \<and>
    panics (SetDestination ((quiet_world (Finished []))\<lparr>w_listen := (\<lambda>p w. (Some ''address in use'', w))\<rparr>) ''b''
      (hf', ()))"
  using SetDestination_correct[of "listening (sample_hoverfly [])"
      "(quiet_world (Finished []))\<lparr>w_listen := (\<lambda>p w. (Some ''address in use'', w))\<rparr>" "()"
      "Some ''address in use''" "()" "''a''"]
  by (auto simp: listening_def quiet_world_def no_libs_def)

section \<open>Changing the middleware\<close>

lemma SetBinary_ok: "SetBinary W m b w = Returns ((None, m'), w') \<Longrightarrow> m' = m\<lparr>mi_Binary := b\<rparr>"
  by (auto simp: SetBinary_def bindp_Returns split: if_splits option.splits)

lemma SetRemote_ok: "SetRemote W m r w = Returns ((None, m'), w') \<Longrightarrow> m' = m\<lparr>mi_Remote := r\<rparr>"
  by (cases "fst (w_http_post W r w)")
    (auto simp: SetRemote_def bindp_def liftp_def retp_def split: if_splits prod.splits)

lemma SetScript_ok: "SetScript W m s w = Returns ((None, m'), w') \<Longrightarrow> \<exists>name. m' = m\<lparr>mi_Script := Some name\<rparr>"
proof -
  have "always (SetScript W m s) (\<lambda>(err, m') w'. err = None \<longrightarrow> (\<exists>name. m' = m\<lparr>mi_Script := Some name\<rparr>)) w"
    by (simp add: SetScript_def DeleteScripts_def Let_def step_rules split: prod.split sum.split option.split) blast
  moreover assume "SetScript W m s w = Returns ((None, m'), w')"
  ultimately show ?thesis by (auto dest: always_Returns)
qed

lemma in_world_Returns:
  "in_world m (hf, w) = Returns (x, s) \<longleftrightarrow> (\<exists>w'. m w = Returns (x, w') \<and> s = (hf, w'))"
  by (auto simp: in_world_def bind_outcome_Returns_iff)

lemma preserves_in_world [keeping]: "preserves (\<lambda>s. I (fst s)) (in_world m)"
  by (auto simp: in_world_Returns intro!: preservesI)

lemma preserves_on_hoverfly [keeping]:
  "(\<And>hf. I hf \<Longrightarrow> I (snd (f hf))) \<Longrightarrow> preserves (\<lambda>s. I (fst s)) (on_hoverfly f)"
  by (auto simp: on_hoverfly_def intro!: preservesI split: prod.splits) (metis snd_conv)

definition with_middleware :: "Hoverfly \<Rightarrow> Middleware \<Rightarrow> Hoverfly" where
  "with_middleware hf m = hf\<lparr>hf_Cfg := (hf_Cfg hf)\<lparr>cf_Middleware := m\<rparr>\<rparr>"

lemma with_middleware_simps [simp]:
  "cf_Middleware (hf_Cfg (with_middleware hf m)) = m"
  "hf\<lparr>hf_Cfg := (hf_Cfg hf)\<lparr>cf_Middleware := m\<rparr>\<rparr> = with_middleware hf m"
  by (simp_all add: with_middleware_def)

lemma set_middleware_Returns:
  "set_middleware m (hf, w) = Returns (x, s) \<longleftrightarrow> s = (with_middleware hf m, w)"
  by (auto simp: set_middleware_def on_hoverfly_def)

lemmas middleware_steps = bindp_Returns in_world_Returns set_middleware_Returns

text \<open>Middleware was tried: the end of the trial is the world the change leaves.\<close>

definition tried :: "'w world \<Rightarrow> Middleware \<Rightarrow> 'w \<Rightarrow> bool" where
  "tried W m w' = (\<exists>w pair. Execute W m test_data w = Returns ((pair, None), w'))"

lemma SetMiddleware_checked:
  assumes "SetMiddleware W b s r (hf, w) = Returns (err, (hf', w'))" and "\<not> (b = [] \<and> s = [] \<and> r = [])"
  shows "hf' = hf \<or> err = None \<and>
    (\<exists>name. hf' = with_middleware hf \<lparr>mi_Binary = b, mi_Script = Some name, mi_Remote = r\<rparr> \<and>
       tried W \<lparr>mi_Binary = b, mi_Script = Some name, mi_Remote = r\<rparr> w')"
  using assms
  by (auto simp: SetMiddleware_def middleware_steps tried_def no_middleware_def
      dest!: SetBinary_ok SetScript_ok SetRemote_ok split: if_splits option.splits) blast+



text \<open>
  When the script of new middleware cannot be written, the change reports success and the old
  middleware stays.
\<close>

lemma SetMiddleware_unwritable_script:
  assumes "w_start_kill W b w = (None, w1)" and "b \<noteq> ''''"
    and "\<And>dir prefix w. \<exists>err. fst (w_temp_file W dir prefix w) = Inl err"
  shows "\<exists>w'. SetMiddleware W b s r (hf, w) = Returns (None, (hf, w'))"
proof -
  have "always (SetScript W m s) (\<lambda>(err, m') w'. err \<noteq> None) w" for m w
  proof -
    have no: "fst (w_temp_file W d p w) \<noteq> Inr name" for d p w name using assms(3)[of d p w] by auto
    show ?thesis
      by (simp add: SetScript_def DeleteScripts_def Let_def step_rules no split: prod.split sum.split option.split)
  qed
  moreover have "returns (SetScript W m s) w" for m w
    by (simp add: SetScript_def DeleteScripts_def step_rules Let_def split: prod.split sum.split option.split)
  ultimately obtain err m' w' where
      "SetScript W (no_middleware\<lparr>mi_Binary := b\<rparr>) s w1 = Returns ((Some err, m'), w')"
    unfolding returns_iff always_def by fastforce
  then show ?thesis
    using assms(1,2) by (simp add: SetMiddleware_def SetBinary_def in_world_def bindp_def liftp_def retp_def)
qed

lemma SetMiddleware_unwritable_script_witness:
  "\<exists>w'. SetMiddleware ((quiet_world (Finished []))\<lparr>w_temp_file := (\<lambda>d p w. (Inl ''disk full'', w))\<rparr>)
     ''python'' ''print 1'' '''' (sample_hoverfly [], ()) = Returns (None, (sample_hoverfly [], w'))"
  by (rule SetMiddleware_unwritable_script) (simp_all add: quiet_world_def)

section \<open>What an import does\<close>

text \<open>
  An import appends its pairs, in order, whether or not its delays are accepted. The delays
  are replaced when every one has a pattern that is a regular expression and a delay other than 0;
  otherwise there is an error and the old ones stay. The cache is left as it is.
\<close>

lemma PutSimulation_correct:
  "case PutSimulation L v hf of (err, hf') \<Rightarrow>
     si_MatchingPairs (hf_Simulation hf') = si_MatchingPairs (hf_Simulation hf) @
       map NewRequestMatcherResponsePairFromView (d2_RequestResponsePairs (s2_DataViewV2 v)) \<and>
     hf_CacheMatcher hf' = hf_CacheMatcher hf \<and>
     (let delays = (case ga_Delays (d2_GlobalActions (s2_DataViewV2 v)) of
          None \<Rightarrow> [] | Some vs \<Rightarrow> map delay_from_view vs)
      in if list_all (valid_delay L) delays then err = None \<and> si_ResponseDelays (hf_Simulation hf') = delays
         else err \<noteq> None \<and> si_ResponseDelays (hf_Simulation hf') = si_ResponseDelays (hf_Simulation hf))"
proof -
  let ?d = "\<lparr>dp_Data = ga_Delays (d2_GlobalActions (s2_DataViewV2 v))\<rparr>"
  have d: "(case ga_Delays (d2_GlobalActions (s2_DataViewV2 v)) of
      None \<Rightarrow> [] | Some vs \<Rightarrow> map delay_from_view vs) = given_delays ?d"
    by (simp add: given_delays_def)
  have v: "list_all (valid_delay L) (given_delays ?d) \<longleftrightarrow> ValidateResponseDelayPayload L ?d = None"
    by (simp add: ValidateResponseDelayPayload_None list_all_iff)
  show ?thesis
    unfolding d Let_def v
    by (cases "ValidateResponseDelayPayload L ?d")
      (simp_all add: PutSimulation_eq Let_def SetResponseDelays_eq ImportRequestResponsePairViews_eq)
qed

text \<open>
  A request that was missed once is still refused after any import, one that brings a pair for
  it included: the import leaves the remembered miss in the cache.
\<close>

lemma import_keeps_miss:
  assumes "wf_matcher (hf_CacheMatcher hf)" and "cm_RequestCache (hf_CacheMatcher hf) \<noteq> None"
    and "GetCachedResponse L (hf_CacheMatcher hf) r = Inl e" and "answer L hf r = Inl not_recorded"
    and "storable L (cached_response (snd (fst (GetResponse L r hf))) None)"
  shows "fst (fst (GetResponse L r (snd (PutSimulation L v (snd (GetResponse L r hf)))))) = Inl not_recorded"
proof -
  have "hf_CacheMatcher (snd (PutSimulation L v h)) = hf_CacheMatcher h" for h
    by (simp add: PutSimulation_eq Let_def SetResponseDelays_eq ImportRequestResponsePairViews_eq split: option.split)
  then show ?thesis
    using miss_is_cached[OF assms refl] by (auto simp: GetResponse_cached_miss)
qed

text \<open>A simulation of one pair that matches everything.\<close>

definition catch_all :: SimulationViewV2 where
  "catch_all = GetSimulation no_libs ''now'' (sample_hoverfly [headers_pair None])"

lemma import_keeps_miss_witness:
  "let L = no_libs\<lparr>gob_enc := (\<lambda>c. Inr ''gob''), gob_dec := (\<lambda>b. Inr (cached_response zero_request None))\<rparr>;
     hf = snd (PutSimulation L catch_all (snd (GetResponse L zero_request (sample_hoverfly []))))
   in answer L hf zero_request = Inr (mp_Response (headers_pair None)) \<and>
      fst (fst (GetResponse L zero_request hf)) = Inl not_recorded"
  (is "let L = ?L in _ L")
proof -
  obtain e where e: "GetCachedResponse ?L (hf_CacheMatcher (sample_hoverfly [])) zero_request = Inl e"
    using empty_cache_misses by blast
  have r: "snd (fst (GetResponse ?L zero_request (sample_hoverfly []))) = zero_request"
    using e by (simp add: GetResponse_def match_and_save_def RequestMatcher_fn_def Let_def split: prod.split)
  have "storable ?L (cached_response (snd (fst (GetResponse ?L zero_request (sample_hoverfly [])))) None)"
    unfolding r by (simp add: storable_def MaxValueSize_def gob_normal_def cached_response_def)
  from import_keeps_miss[OF wf_sample _ e _ this, where v = catch_all]
  have "fst (fst (GetResponse ?L zero_request
      (snd (PutSimulation ?L catch_all (snd (GetResponse ?L zero_request (sample_hoverfly []))))))) = Inl not_recorded"
    by (simp add: answer_def)
  moreover have "NewRequestMatcherResponsePairFromView (BuildView s (headers_pair None)) = headers_pair None" for s
    by (rule NewPair_BuildView) (simp add: headers_pair_def query_normal_def exact_of_def)
  then have "answer ?L (snd (PutSimulation ?L catch_all (snd (GetResponse ?L zero_request (sample_hoverfly [])))))
      zero_request = Inr (mp_Response (headers_pair None))"
    using e by (simp add: answer_def PutSimulation_eq Let_def SetResponseDelays_eq ImportRequestResponsePairViews_eq
        catch_all_def GetSimulation_eq ValidateResponseDelayPayload_def GetResponse_keeps_rest headers_pair_match)
  ultimately show ?thesis by (simp add: Let_def)
qed

section \<open>What the changes of the proxy leave alone\<close>

text \<open>What well-formedness depends on.\<close>

definition same_frame :: "Hoverfly \<Rightarrow> Hoverfly \<Rightarrow> bool" where
  "same_frame hf hf' =
     (hf_modeMap hf' = hf_modeMap hf \<and> hf_Simulation hf' = hf_Simulation hf \<and>
      set (map_keys (ct_Counters (hf_Counter hf'))) = set (map_keys (ct_Counters (hf_Counter hf))) \<and>
      hf_CacheMatcher hf' = hf_CacheMatcher hf \<and> hf_Authentication hf' = hf_Authentication hf \<and>
      hf_MetadataCache hf' = hf_MetadataCache hf \<and> cf_Mode (hf_Cfg hf') = cf_Mode (hf_Cfg hf) \<and>
      cf_Webserver (hf_Cfg hf') = cf_Webserver (hf_Cfg hf))"

lemma wf_hoverfly_frame: "wf_hoverfly L hf \<Longrightarrow> same_frame hf hf' \<Longrightarrow> wf_hoverfly L hf'"
  by (simp add: wf_hoverfly_def modes_ok_def same_frame_def)

lemma StopProxy_frame: "StopProxy hf = Returns hf' \<Longrightarrow> same_frame hf hf'"
  by (auto simp: StopProxy_def same_frame_def split: option.splits bool.splits)

lemma StartProxy_frame:
  assumes "StartProxy W (hf, w) = Returns (x, s')"
  shows "same_frame hf (fst s')"
proof -
  obtain r w1 where "w_listen W (CHR '':'' # cf_ProxyPort (hf_Cfg hf)) w = (r, w1)" by fastforce
  then show ?thesis
    using assms
    by (cases r) (auto simp: StartProxy_def bind_outcome_Returns_iff Let_def same_frame_def split: if_splits)
qed

lemma SetDestination_frame:
  assumes "SetDestination W d (hf, w) = Returns (x, s')"
  shows "same_frame hf (fst s')"
proof (cases "re_compiles (w_libs W) d")
  case True
  then obtain h where h: "StopProxy hf = Returns h"
      "StartProxy W (h\<lparr>hf_Cfg := (hf_Cfg h)\<lparr>cf_Destination := d\<rparr>\<rparr>, w) = Returns (x, s')"
    using assms by (auto simp: SetDestination_def bind_outcome_Returns_iff)
  show ?thesis using StopProxy_frame[OF h(1)] StartProxy_frame[OF h(2)] by (simp add: same_frame_def)
qed (use assms in \<open>auto simp: SetDestination_def same_frame_def\<close>)

lemma preserves_frame:
  assumes "\<And>hf w x s'. m (hf, w) = Returns (x, s') \<Longrightarrow> same_frame hf (fst s')"
  shows "preserves (\<lambda>s. wf_hoverfly L (fst s)) m"
proof (rule preservesI)
  fix s x s'
  assume "wf_hoverfly L (fst s)" and "m s = Returns (x, s')"
  then show "wf_hoverfly L (fst s')"
    using assms[of "fst s" "snd s" x s'] by (auto intro: wf_hoverfly_frame)
qed

lemma SetMiddleware_frame:
  assumes "SetMiddleware W b s r (hf, w) = Returns (x, s')"
  shows "same_frame hf (fst s')"
proof (cases "b = [] \<and> s = [] \<and> r = []")
  case True
  then have "SetMiddleware W b s r = bindp (set_middleware no_middleware) (\<lambda>u. retp None)"
    by (simp add: SetMiddleware_def)
  then show ?thesis
    using assms by (auto simp: middleware_steps same_frame_def with_middleware_def simp del: with_middleware_simps)
next
  case False
  then show ?thesis
    using SetMiddleware_checked[of W b s r hf w x "fst s'" "snd s'"] assms
    by (fastforce simp: same_frame_def with_middleware_def simp del: with_middleware_simps)
qed

end
