(* ===== verification/Writer.thy ===== *)
theory Writer
  imports Http
begin

text \<open>
  The \<^verbatim>\<open>http.ResponseWriter\<close> of net/http: headers can be set until the status goes out, by
  \<^verbatim>\<open>WriteHeader\<close> or with the first bytes of the body; what is set later is lost. A handler is a
  program on a service and a writer. The sniffing of a missing content type, the date and the
  length are left out.
\<close>

section \<open>The writer\<close>

text \<open>\<open>wr_Sent\<close> is what the client sees of the headers.\<close>

record response_writer =
  wr_Header :: header_map
  wr_Status :: "int option"
  wr_Sent :: header_map
  wr_Body :: string

definition new_writer :: response_writer where
  "new_writer = \<lparr>wr_Header = [], wr_Status = None, wr_Sent = [], wr_Body = ''''\<rparr>"

definition SetHeader :: "string \<Rightarrow> string \<Rightarrow> response_writer \<Rightarrow> response_writer" where
  "SetHeader k v w = w\<lparr>wr_Header := Header_Set k v (wr_Header w)\<rparr>"

definition WriteHeader :: "int \<Rightarrow> response_writer \<Rightarrow> response_writer" where
  "WriteHeader code w = (case wr_Status w of
     None \<Rightarrow> w\<lparr>wr_Status := Some code, wr_Sent := wr_Header w\<rparr>
   | Some c \<Rightarrow> w)"

definition Write :: "string \<Rightarrow> response_writer \<Rightarrow> response_writer" where
  "Write bytes w = (let w = WriteHeader 200 w in w\<lparr>wr_Body := wr_Body w @ bytes\<rparr>)"

text \<open>\<^verbatim>\<open>http.Error\<close> ends the text in a newline.\<close>

definition http_Error :: "string \<Rightarrow> int \<Rightarrow> response_writer \<Rightarrow> response_writer" where
  "http_Error err code w =
     Write (err @ [CHR 0x0A]) (WriteHeader code
       (SetHeader ''X-Content-Type-Options'' ''nosniff'' (SetHeader ''Content-Type'' ''text/plain; charset=utf-8'' w)))"

lemmas writer_defs = SetHeader_def WriteHeader_def Write_def http_Error_def new_writer_def

text \<open>The status the client sees: a handler that writes nothing sends 200.\<close>

definition status_of :: "response_writer \<Rightarrow> int" where
  "status_of w = (case wr_Status w of None \<Rightarrow> 200 | Some c \<Rightarrow> c)"

lemma wr_Status_WriteHeader: "wr_Status (WriteHeader code w) = Some (case wr_Status w of None \<Rightarrow> code | Some c \<Rightarrow> c)"
  by (simp add: WriteHeader_def split: option.split)

lemma WriteHeader_twice [simp]: "WriteHeader d (WriteHeader c w) = WriteHeader c w"
  by (simp add: WriteHeader_def split: option.split)

section \<open>Handlers\<close>

type_synonym 's handler = "('s \<times> response_writer, unit) prog"

definition serving :: "('s, 'a) prog \<Rightarrow> ('s \<times> response_writer, 'a) prog" where
  "serving m = (\<lambda>(s, w). bind_outcome (m s) (\<lambda>(x, s'). Returns (x, (s', w))))"

definition writing :: "(response_writer \<Rightarrow> response_writer) \<Rightarrow> 's handler" where
  "writing f = (\<lambda>(s, w). Returns ((), (s, f w)))"

lemma always_serving [step_rules]:
  "always (serving m) P = (\<lambda>(s, w). always m (\<lambda>x s'. P x (s', w)) s)"
  by (auto simp: fun_eq_iff always_def serving_def bind_outcome_Returns_iff)

lemma always_writing [step_rules]: "always (writing f) P = (\<lambda>(s, w). P () (s, f w))"
  by (auto simp: fun_eq_iff always_def writing_def)

lemma returns_serving [step_rules]: "returns (serving m) = (\<lambda>(s, w). returns m s)"
proof (rule ext, clarify)
  fix s w show "returns (serving m) (s, w) = returns m s"
    by (cases "m s") (auto simp: returns_def serving_def)
qed

lemma returns_writing [step_rules]: "returns (writing f) = (\<lambda>s. True)"
  by (auto simp: fun_eq_iff returns_def writing_def)

lemma bindp_serving: "m s = Returns (x, s') \<Longrightarrow> bindp (serving m) f (s, w) = f x (s', w)"
  by (simp add: bindp_def serving_def)

lemma bindp_writing [simp]: "bindp (writing g) f (s, w) = f () (s, g w)"
  by (simp add: bindp_def writing_def)

lemma writing_apply [simp]: "writing g (s, w) = Returns ((), (s, g w))"
  by (simp add: writing_def)

end
