(* ===== verification/Proxy.thy ===== *)
theory Proxy
  imports Service Writer
begin

text \<open>
  \<^verbatim>\<open>core/proxy.go\<close> on the proxy library it configures (\<^verbatim>\<open>goproxy\<close>: \<^verbatim>\<open>proxy.go\<close>, \<^verbatim>\<open>dispatcher.go\<close>,
  the start of \<^verbatim>\<open>https.go\<close>, \<^verbatim>\<open>ext/auth/basic.go\<close>): which requests Hoverfly handles, what their clients
  get, what is counted, and what happens to CONNECT. The transport the library forwards other
  requests with is a parameter; sleeping for a delay takes no step here.
\<close>

section \<open>Basic authentication\<close>

definition Header_Del :: "string \<Rightarrow> header_map \<Rightarrow> header_map" where
  "Header_Del k h = map_del (CanonicalHeaderKey k) h"

definition del_header :: "string \<Rightarrow> http_request \<Rightarrow> http_request" where
  "del_header k r = r\<lparr>hq_Header := map_option (Header_Del k) (hq_Header r)\<rparr>"

definition get_header :: "string \<Rightarrow> http_request \<Rightarrow> string" where
  "get_header k r = (case hq_Header r of None \<Rightarrow> '''' | Some h \<Rightarrow> Header_Get k h)"

text \<open>\<^verbatim>\<open>strings.SplitN(s, sep, 2)\<close> for a separator of one byte.\<close>

definition SplitN2 :: "string \<Rightarrow> char \<Rightarrow> string list" where
  "SplitN2 s c = (if c \<in> set s
     then [takeWhile (\<lambda>x. x \<noteq> c) s, tl (dropWhile (\<lambda>x. x \<noteq> c) s)] else [s])"

text \<open>Whether the request carries accepted credentials, and the request without them.\<close>

definition basic_auth ::
  "http_request \<Rightarrow> (string \<Rightarrow> string \<Rightarrow> bool) \<Rightarrow> bool \<times> http_request" where
  "basic_auth req f =
     (let authheader = SplitN2 (get_header ''Proxy-Authorization'' req) (CHR '' '');
          req = del_header ''Proxy-Authorization'' req
      in if length authheader \<noteq> 2 \<or> authheader ! 0 \<noteq> ''Basic'' then (False, req)
         else (case DecodeString (authheader ! 1) of (userpassraw, err) \<Rightarrow>
           if err then (False, req)
           else let userpass = SplitN2 userpassraw (CHR '':'') in
             if length userpass \<noteq> 2 then (False, req)
             else (f (userpass ! 0) (userpass ! 1), req)))"

definition unauthorizedMsg :: string where
  "unauthorizedMsg = ''407 Proxy Authentication Required''"

definition BasicUnauthorized :: "http_request \<Rightarrow> string \<Rightarrow> http_response" where
  "BasicUnauthorized req realm =
     \<lparr>hp_Status = 407, hp_Header = Some [(''Proxy-Authenticate'', [''Basic realm='' @ realm])],
      hp_Body = new_body unauthorizedMsg, hp_ContentLength = int (length unauthorizedMsg), hp_Request = Some req\<rparr>"

text \<open>The check \<^verbatim>\<open>NewProxy\<close> hands to the library: a login with no key and no expiry.\<close>

definition proxy_login :: "auth_libs \<Rightarrow> int \<Rightarrow> Hoverfly \<Rightarrow> string \<Rightarrow> string \<Rightarrow> bool" where
  "proxy_login A now hf user password =
     (let proxyUser = zero_user\<lparr>us_Username := user, us_Password := password\<rparr> in
      fst (Login A proxyUser (hf_Authentication hf) '''' 0 now) = 200)"

section \<open>The handlers of the proxy\<close>

text \<open>
  A request handler returns the request it leaves, whether it returned it (or nil), and a response,
  if it made one.
\<close>

type_synonym 'w req_handler =
  "http_request \<Rightarrow> (Hoverfly \<times> 'w, http_request \<times> bool \<times> http_response option) prog"

record 'w proxy_env =
  pe_world :: "'w world"
  pe_auth :: auth_libs
  pe_now :: int
  pe_round_trip :: "http_request \<Rightarrow> 'w \<Rightarrow> (string + http_response) \<times> 'w"

definition UrlMatches :: "libs \<Rightarrow> string \<Rightarrow> http_request \<Rightarrow> bool" where
  "UrlMatches L re req = (re_matches L re (hq_URL_Path req) \<or> re_matches L re (hq_URL_Host req @ hq_URL_Path req))"

definition basic_handler :: "'w proxy_env \<Rightarrow> 'w req_handler" where
  "basic_handler E r = (\<lambda>(hf, w). case basic_auth r (proxy_login (pe_auth E) (pe_now E) hf) of
     (True, r) \<Rightarrow> Returns ((r, True, None), (hf, w))
   | (False, r) \<Rightarrow> Returns ((r, False, Some (BasicUnauthorized r ''hoverfly'')), (hf, w)))"

definition process_handler :: "'w proxy_env \<Rightarrow> string \<Rightarrow> 'w req_handler" where
  "process_handler E dest r =
     (if UrlMatches (w_libs (pe_world E)) dest r
      then bindp (processRequest (pe_world E) r) (\<lambda>(resp, delay). retp (r, True, Some resp))
      else retp (r, True, None))"

definition verbose_handler :: "'w req_handler" where
  "verbose_handler r = retp (r, True, None)"

definition req_handlers :: "'w proxy_env \<Rightarrow> proxy \<Rightarrow> 'w req_handler list" where
  "req_handlers E p =
     (if px_Webserver p then [] else
        (if px_AuthEnabled p then [basic_handler E] else []) @ [process_handler E (px_Destination p)]) @
     (if px_Verbose p then [verbose_handler] else [])"

text \<open>Counts a response, nil ones included, of every request the destination matches.\<close>

definition count_handler :: "'w proxy_env \<Rightarrow> string \<Rightarrow> http_request \<Rightarrow> (Hoverfly \<times> 'w, unit) prog" where
  "count_handler E dest req = (\<lambda>(hf, w).
     if UrlMatches (w_libs (pe_world E)) dest req
     then bind_outcome (Count (Cfg_GetMode (hf_Cfg hf)) (hf_Counter hf))
            (\<lambda>c. Returns ((), (hf\<lparr>hf_Counter := c\<rparr>, w)))
     else Returns ((), (hf, w)))"

section \<open>Serving a request\<close>

text \<open>\<open>req\<close> is nil when the handler that stopped the loop returned nil.\<close>

fun filterRequest ::
  "'w req_handler list \<Rightarrow> http_request \<Rightarrow> bool \<Rightarrow> (Hoverfly \<times> 'w, http_request \<times> bool \<times> http_response option) prog"
where
  "filterRequest [] r req = retp (r, req, None)"
| "filterRequest (h # hs) r req = bindp (h r) (\<lambda>(r, req, resp). case resp of
     Some resp \<Rightarrow> retp (r, req, Some resp)
   | None \<Rightarrow> filterRequest hs r req)"

definition filterResponse ::
  "'w proxy_env \<Rightarrow> proxy \<Rightarrow> http_request \<Rightarrow> http_response option \<Rightarrow> (Hoverfly \<times> 'w, http_response option) prog" where
  "filterResponse E p req respOrig =
     (if px_Webserver p then retp respOrig
      else bindp (count_handler E (px_Destination p) req) (\<lambda>u. retp respOrig))"

definition removeProxyHeaders :: "http_request \<Rightarrow> http_request" where
  "removeProxyHeaders r =
     fold del_header [''Accept-Encoding'', ''Proxy-Connection'', ''Proxy-Authenticate'', ''Proxy-Authorization'', ''Connection'']
       (r\<lparr>hq_RequestURI := ''''\<rparr>)"

text \<open>The headers, the status and the body of a response, to the client.\<close>

definition copyHeaders :: "header_map \<Rightarrow> header_map \<Rightarrow> header_map" where
  "copyHeaders dst src = Header_AddAll src (fold (\<lambda>(k, v). Header_Del k) dst dst)"

definition copy_response :: "http_response \<Rightarrow> response_writer \<Rightarrow> response_writer" where
  "copy_response resp w =
     (let src = (case hp_Header resp of None \<Rightarrow> [] | Some h \<Rightarrow> h) in
      Write (remaining (hp_Body resp)) (WriteHeader (hp_Status resp) (w\<lparr>wr_Header := copyHeaders (wr_Header w) src\<rparr>)))"

text \<open>\<^verbatim>\<open>NonproxyHandler\<close> of the webserver, and the one of the library.\<close>

definition lower_headers :: "http_response \<Rightarrow> header_map \<Rightarrow> header_map" where
  "lower_headers resp h = foldl (\<lambda>h (name, values). foldl (\<lambda>h value. Header_Add (ToLower name) value h) h values) h
     (case hp_Header resp of None \<Rightarrow> [] | Some hs \<Rightarrow> hs)"

definition resp_header :: "string \<Rightarrow> http_response \<Rightarrow> string" where
  "resp_header k resp = (case hp_Header resp of None \<Rightarrow> '''' | Some h \<Rightarrow> Header_Get k h)"

definition webserver_handler :: "'w proxy_env \<Rightarrow> http_request \<Rightarrow> (Hoverfly \<times> 'w) handler" where
  "webserver_handler E r = bindp (serving (processRequest (pe_world E) r)) (\<lambda>(resp, delay).
     case fst (GetResponseBody (hp_Body resp)) of
       Inl err \<Rightarrow> writing (WriteHeader 500)
     | Inr body \<Rightarrow> writing (\<lambda>w.
         let w = w\<lparr>wr_Header := lower_headers resp (wr_Header w)\<rparr>;
             w = SetHeader ''Req'' (hq_RequestURI r) w;
             w = SetHeader ''Resp'' (resp_header ''Content-Length'' resp) w;
             w = WriteHeader (hp_Status resp) w
         in Write body w))"

definition nonproxy_handler :: "'w proxy_env \<Rightarrow> proxy \<Rightarrow> http_request \<Rightarrow> (Hoverfly \<times> 'w) handler" where
  "nonproxy_handler E p r = (if px_Webserver p then webserver_handler E r
     else writing (http_Error ''This is a proxy server. Does not respond to non-proxy requests.'' 500))"

definition ServeHTTP :: "'w proxy_env \<Rightarrow> proxy \<Rightarrow> http_request \<Rightarrow> (Hoverfly \<times> 'w) handler" where
  "ServeHTTP E p r =
     (if hq_URL_Scheme r = '''' then nonproxy_handler E p r
      else bindp (serving (filterRequest (req_handlers E p) r True)) (\<lambda>(r, req, resp). case resp of
        Some resp \<Rightarrow> bindp (serving (filterResponse E p r (Some resp))) (\<lambda>u. writing (copy_response resp))
      | None \<Rightarrow>
          (let r = removeProxyHeaders r in
           bindp (serving (in_world (liftp (pe_round_trip E r)))) (\<lambda>result. case result of
             Inl err \<Rightarrow> bindp (serving (filterResponse E p r None)) (\<lambda>u. writing (http_Error err 500))
           | Inr resp \<Rightarrow> bindp (serving (filterResponse E p r (Some resp))) (\<lambda>u. writing (copy_response resp))))))"

section \<open>CONNECT\<close>

datatype connect_action = ConnectAccept | ConnectReject | ConnectMitm | ConnectHijack

text \<open>The handlers in the order \<^verbatim>\<open>NewProxy\<close> adds them; the first with an action decides.\<close>

type_synonym connect_handler = "http_request \<Rightarrow> connect_action option \<times> http_request"

definition BasicConnect :: "'w proxy_env \<Rightarrow> Hoverfly \<Rightarrow> connect_handler" where
  "BasicConnect E hf r = (case basic_auth r (proxy_login (pe_auth E) (pe_now E) hf) of
     (True, r) \<Rightarrow> (Some ConnectAccept, r) | (False, r) \<Rightarrow> (Some ConnectReject, r))"

definition if_matches :: "'w proxy_env \<Rightarrow> string \<Rightarrow> connect_action \<Rightarrow> connect_handler" where
  "if_matches E dest action r = (if UrlMatches (w_libs (pe_world E)) dest r then (Some action, r) else (None, r))"

definition connect_handlers :: "'w proxy_env \<Rightarrow> proxy \<Rightarrow> Hoverfly \<Rightarrow> connect_handler list" where
  "connect_handlers E p hf =
     (if px_Webserver p then [] else
        (if px_AuthEnabled p then [BasicConnect E hf] else []) @
        [if_matches E (px_Destination p) ConnectMitm, if_matches E (px_Destination p) ConnectHijack])"

fun connect_loop :: "connect_handler list \<Rightarrow> http_request \<Rightarrow> connect_action" where
  "connect_loop [] r = ConnectAccept"
| "connect_loop (h # hs) r = (case h r of (Some action, r) \<Rightarrow> action | (None, r) \<Rightarrow> connect_loop hs r)"

definition handleHttps :: "'w proxy_env \<Rightarrow> proxy \<Rightarrow> Hoverfly \<Rightarrow> http_request \<Rightarrow> connect_action" where
  "handleHttps E p hf r = connect_loop (connect_handlers E p hf) r"

section \<open>Who is let in\<close>

lemma SplitN2_cut: "c \<notin> set a \<Longrightarrow> SplitN2 (a @ c # b) c = [a, b]"
  by (simp add: SplitN2_def dropWhile_append takeWhile_append)

lemma basic_auth_request: "snd (basic_auth r f) = del_header ''Proxy-Authorization'' r"
  by (simp add: basic_auth_def Let_def split: prod.split)

lemma del_header_URL [simp]:
  "hq_URL_Path (del_header k r) = hq_URL_Path r" "hq_URL_Host (del_header k r) = hq_URL_Host r"
  by (simp_all add: del_header_def)

lemma UrlMatches_del_header [simp]: "UrlMatches L d (del_header k r) = UrlMatches L d r"
  by (simp add: UrlMatches_def)

lemma UrlMatches_removeProxyHeaders [simp]: "UrlMatches L d (removeProxyHeaders r) = UrlMatches L d r"
  by (simp add: removeProxyHeaders_def UrlMatches_def)

text \<open>
  The credentials a client sends the way of basic authentication are the ones that are checked,
  whatever bytes the password has, and no request goes on with them.
\<close>

lemma basic_auth_roundtrip:
  assumes "get_header ''Proxy-Authorization'' r = ''Basic '' @ EncodeToString (user @ '':'' @ password)"
    and "CHR '':'' \<notin> set user"
  shows "basic_auth r f = (f user password, del_header ''Proxy-Authorization'' r)"
proof -
  have "SplitN2 (''Basic'' @ CHR '' '' # EncodeToString (user @ '':'' @ password)) (CHR '' '') =
      [''Basic'', EncodeToString (user @ '':'' @ password)]" by (rule SplitN2_cut) simp
  moreover have "SplitN2 (user @ CHR '':'' # password) (CHR '':'') = [user, password]"
    by (rule SplitN2_cut[OF assms(2)])
  ultimately show ?thesis by (simp add: basic_auth_def assms(1) Let_def)
qed

lemma basic_auth_roundtrip_witness:
  "basic_auth ((plain_get ''h'')\<lparr>hq_Header := Some [(''Proxy-Authorization'', [''Basic aGY6cHc=''])]\<rparr>)
     (\<lambda>u p. u = ''hf'' \<and> p = ''pw'') = (True, (plain_get ''h'')\<lparr>hq_Header := Some []\<rparr>)"
proof -
  let ?r = "(plain_get ''h'')\<lparr>hq_Header := Some [(''Proxy-Authorization'', [''Basic aGY6cHc=''])]\<rparr>"
  have "get_header ''Proxy-Authorization'' ?r = ''Basic '' @ EncodeToString (''hf'' @ '':'' @ ''pw'')"
      "del_header ''Proxy-Authorization'' ?r = (plain_get ''h'')\<lparr>hq_Header := Some []\<rparr>" by code_simp+
  with basic_auth_roundtrip[of ?r "''hf''" "''pw''" "\<lambda>u p. u = ''hf'' \<and> p = ''pw''"] show ?thesis by simp
qed

text \<open>
  C27: what is done with a CONNECT. With authentication on, an accepted client is tunnelled past
  Hoverfly and the others are rejected: nothing is intercepted, whatever the destination. Without
  it, the matching ones are intercepted, and the handler that would hijack the connection is never
  reached.
\<close>

theorem handleHttps_decision:
  "handleHttps E p hf r =
     (if px_Webserver p then ConnectAccept
      else if px_AuthEnabled p
        then (if fst (basic_auth r (proxy_login (pe_auth E) (pe_now E) hf)) then ConnectAccept else ConnectReject)
      else if UrlMatches (w_libs (pe_world E)) (px_Destination p) r then ConnectMitm else ConnectAccept)"
  by (auto simp: handleHttps_def connect_handlers_def BasicConnect_def if_matches_def split: prod.split bool.split)

section \<open>What is counted\<close>

text \<open>A property of the Hoverfly that matching and saving keep is kept by answering a request.\<close>

lemma processRequest_keeps:
  assumes "Q (fst s)" and "\<And>r hf. Q hf \<Longrightarrow> Q (snd (GetResponse (w_libs W) r hf))"
    and "\<And>r d ws hf. Q hf \<Longrightarrow> Q (snd (Save r d ws hf))"
  shows "always (processRequest W req) (\<lambda>x s'. Q (fst s')) s"
proof (cases "NewRequestDetailsFromHttpRequest req")
  case (Pair details req')
  show ?thesis
  proof (cases details)
    case (Inr d)
    show ?thesis
    proof (cases "map_get (hf_modeMap (fst s)) (Cfg_GetMode (hf_Cfg (fst s)))")
      case (Some m)
      let ?f = "\<lambda>(response, err). if err \<noteq> None \<or> Cfg_GetMode (hf_Cfg (fst s)) = Capture then retp (response, None)
         else delay_response W d response"
      have "always (bindp (Process (hoverfly_ops W) m req' d) ?f) (\<lambda>x s'. Q (fst s')) s"
        by (rule keeps_bindp[OF Process_keeps[OF assms]])
          (auto simp: always_def delay_response_def bind_outcome_Returns_iff retp_def split: if_splits)
      then show ?thesis by (simp add: always_def processRequest_def Pair Inr Some Let_def)
    qed (simp add: always_def processRequest_def Pair Inr Let_def)
  qed (use assms(1) in \<open>auto simp: always_def processRequest_def Pair\<close>)
qed

lemma GetResponse_keeps_Counter [simp]: "hf_Counter (snd (GetResponse L r hf)) = hf_Counter hf"
  by (rule GetResponse_keeps_rest)

lemma processRequest_keeps_Counter:
  "always (processRequest W req) (\<lambda>x s'. hf_Counter (fst s') = hf_Counter (fst s) \<and> hf_Cfg (fst s') = hf_Cfg (fst s)) s"
  by (rule processRequest_keeps) (simp_all add: GetResponse_keeps_rest)

text \<open>What the handlers leave alone: the counters, the settings, and what the URL matches.\<close>

definition same_count :: "'w proxy_env \<Rightarrow> string \<Rightarrow> http_request \<Rightarrow> Hoverfly \<Rightarrow> http_request \<Rightarrow> Hoverfly \<Rightarrow> bool" where
  "same_count E dest r hf r' hf' =
     (hf_Counter hf' = hf_Counter hf \<and> hf_Cfg hf' = hf_Cfg hf \<and>
      UrlMatches (w_libs (pe_world E)) dest r' = UrlMatches (w_libs (pe_world E)) dest r)"

lemma handlers_same_count:
  assumes "h \<in> set (req_handlers E p)"
  shows "always (h r) (\<lambda>(r', q, resp) s'. same_count E dest r (fst s) r' (fst s')) s"
proof -
  have "always (basic_handler E r) (\<lambda>(r', q, resp) s'. same_count E dest r (fst s) r' (fst s')) s"
    using basic_auth_request[of r "proxy_login (pe_auth E) (pe_now E) (fst s)"]
    by (cases s) (auto simp: basic_handler_def always_def same_count_def split: prod.splits bool.splits)
  moreover have "always (process_handler E d r) (\<lambda>(r', q, resp) s'. same_count E dest r (fst s) r' (fst s')) s" for d
    by (auto simp: process_handler_def step_rules same_count_def
        intro!: always_mono[OF processRequest_keeps_Counter] split: prod.split)
  ultimately show ?thesis
    using assms by (auto simp: req_handlers_def verbose_handler_def always_retp same_count_def split: if_splits)
qed

lemma filterRequest_same_count:
  assumes "set hs \<subseteq> set (req_handlers E p)" and "same_count E dest r0 hf0 r (fst s)"
  shows "always (filterRequest hs r q) (\<lambda>(r', q, resp) s'. same_count E dest r0 hf0 r' (fst s')) s"
  using assms
proof (induction hs arbitrary: r q s)
  case (Cons h hs)
  have "always (h r) (\<lambda>(r', q, resp) s'. same_count E dest r0 hf0 r' (fst s')) s"
    by (rule always_mono[OF handlers_same_count[of h E p]])
      (use Cons.prems in \<open>auto simp: same_count_def\<close>)
  then show ?case
    using Cons.IH Cons.prems(1)
    by (auto simp: always_bindp always_retp elim!: always_mono split: option.split)
qed (simp add: always_retp)

lemma writing_state: "always (writing f) (\<lambda>u s'. fst s' = fst s) s"
  by (cases s) (simp add: always_writing)

text \<open>The counters after a served request.\<close>

definition counted :: "'w proxy_env \<Rightarrow> proxy \<Rightarrow> http_request \<Rightarrow> Hoverfly \<Rightarrow> Hoverfly \<Rightarrow> bool" where
  "counted E p r hf hf' =
     (if UrlMatches (w_libs (pe_world E)) (px_Destination p) r \<and> \<not> px_Webserver p
      then Count (GetMode hf) (hf_Counter hf) = Returns (hf_Counter hf')
      else hf_Counter hf' = hf_Counter hf)"

lemma filterResponse_counted:
  assumes "same_count E (px_Destination p) r0 hf0 r hf"
  shows "always (filterResponse E p r resp) (\<lambda>x s'. counted E p r0 hf0 (fst s')) (hf, w)"
  using assms
  by (auto simp: filterResponse_def always_def count_handler_def bindp_Returns bind_outcome_Returns_iff counted_def
      same_count_def GetMode_def Cfg_GetMode_def split: if_splits)

lemma answered_counted:
  assumes "same_count E (px_Destination p) r0 hf0 r hf"
  shows "always (bindp (serving (filterResponse E p r resp)) (\<lambda>u. writing f))
    (\<lambda>u s'. counted E p r0 hf0 (fst (fst s'))) ((hf, w), wr)"
  using filterResponse_counted[OF assms, of resp w] by (simp add: step_rules)

lemma ServeHTTP_counted:
  assumes "hq_URL_Scheme r \<noteq> ''''"
  shows "always (ServeHTTP E p r) (\<lambda>u s'. counted E p r hf (fst (fst s'))) ((hf, w), wr)"
proof -
  have f: "always (filterRequest (req_handlers E p) r True)
      (\<lambda>(r', q, resp) s'. same_count E (px_Destination p) r hf r' (fst s')) (hf, w)"
    by (rule filterRequest_same_count[OF subset_refl]) (simp add: same_count_def)
  have out: "same_count E (px_Destination p) r hf r' hf1 \<Longrightarrow>
      same_count E (px_Destination p) r hf (removeProxyHeaders r') hf1" for r' hf1
    by (simp add: same_count_def)
  show ?thesis
    unfolding ServeHTTP_def using assms
    by (auto simp: always_bindp[of "serving (filterRequest _ _ _)"] always_serving Let_def
        always_bindp[of "serving (in_world _)"] always_in_world always_liftp
        intro!: always_mono[OF f] answered_counted out split: option.split sum.split)
qed

lemma nonproxy_keeps_Counter:
  "always (nonproxy_handler E p r) (\<lambda>u s'. hf_Counter (fst (fst s')) = hf_Counter hf) ((hf, w), wr)"
proof -
  have "always (processRequest (pe_world E) r) (\<lambda>x s'. hf_Counter (fst s') = hf_Counter hf) (hf, w)"
    by (rule always_mono[OF processRequest_keeps_Counter]) simp
  then show ?thesis
    by (auto simp: nonproxy_handler_def webserver_handler_def step_rules elim!: always_mono split: sum.split prod.split)
qed

text \<open>
  C26: a proxied request raises the counter of the current mode by one, in 64 bits, when the
  destination matches its URL: refused logins and failures included, other requests not. As a
  webserver, Hoverfly counts nothing at all.
\<close>

theorem served_requests_counted:
  assumes "ServeHTTP E p r ((hf, w), wr) = Returns (u, ((hf', w'), wr'))"
  shows "map_get (ct_Counters (hf_Counter hf')) m =
    (if hq_URL_Scheme r \<noteq> '''' \<and> UrlMatches (w_libs (pe_world E)) (px_Destination p) r \<and>
        \<not> px_Webserver p \<and> m = GetMode hf
     then map_option (\<lambda>n. n + 1) (map_get (ct_Counters (hf_Counter hf)) m)
     else map_get (ct_Counters (hf_Counter hf)) m)"
proof (cases "hq_URL_Scheme r = ''''")
  case True
  then show ?thesis
    using always_Returns[OF nonproxy_keeps_Counter[of E p r hf w wr]] assms by (simp add: ServeHTTP_def)
next
  case False
  have "counted E p r hf hf'" using always_Returns[OF ServeHTTP_counted[OF False] assms] by simp
  then show ?thesis using False by (auto simp: counted_def Count_get split: if_splits)
qed

text \<open>An environment where nothing is reached and everybody is let in.\<close>

definition offline :: "unit proxy_env" where
  "offline = \<lparr>pe_world = quiet_world (Finished []), pe_auth = plain_auth, pe_now = 0,
     pe_round_trip = (\<lambda>r w. (Inl ''no route'', w))\<rparr>"

definition proxy_to :: "string \<Rightarrow> proxy" where
  "proxy_to d = \<lparr>px_Webserver = False, px_Destination = d, px_AuthEnabled = True, px_Verbose = False\<rparr>"

lemma offline_refuses:
  assumes "fst (basic_auth r (proxy_login plain_auth 0 hf)) = False" and "hq_URL_Scheme r \<noteq> ''''"
    and "UrlMatches no_libs d r" and "Count (GetMode hf) (hf_Counter hf) = Returns c"
  shows "ServeHTTP offline (proxy_to d) r ((hf, ()), new_writer) =
    Returns ((), ((hf\<lparr>hf_Counter := c\<rparr>, ()),
      copy_response (BasicUnauthorized (del_header ''Proxy-Authorization'' r) ''hoverfly'') new_writer))"
proof -
  have auth: "basic_auth r (proxy_login plain_auth 0 hf) = (False, del_header ''Proxy-Authorization'' r)"
    using assms(1) basic_auth_request by (metis prod.collapse)
  then show ?thesis
    using assms(2-4)
    by (simp add: ServeHTTP_def req_handlers_def proxy_to_def offline_def basic_handler_def bindp_def serving_def
        retp_def filterResponse_def count_handler_def quiet_world_def GetMode_def Cfg_GetMode_def)
qed

theorem served_requests_counted_witness:
  "\<exists>hf' wr'. ServeHTTP offline (proxy_to ''h'') (plain_get ''h'') ((sample_hoverfly [], ()), new_writer) =
      Returns ((), ((hf', ()), wr')) \<and> wr_Status wr' = Some 407 \<and>
    map_get (ct_Counters (hf_Counter hf')) ''simulate'' = Some 1"
proof -
  let ?hf = "sample_hoverfly []"
  have no: "fst (basic_auth (plain_get ''h'') f) = False" for f
    by (simp add: basic_auth_def get_header_def plain_get_def Header_Get_def map_index_def SplitN2_def)
  have n: "map_get (ct_Counters (hf_Counter ?hf)) ''simulate'' = Some 0"
    by (simp add: sample_hoverfly_def NewModeCounter_def mode_names)
  have m: "GetMode ?hf = ''simulate''" by (simp add: GetMode_def Simulate_def)
  obtain c where c: "Count (GetMode ?hf) (hf_Counter ?hf) = Returns c" using n m by (simp add: Count_def)
  have u: "UrlMatches no_libs ''h'' (plain_get ''h'')" "hq_URL_Scheme (plain_get ''h'') \<noteq> ''''"
    by (simp_all add: UrlMatches_def no_libs_def plain_get_def) code_simp
  note served = offline_refuses[OF no u(2,1) c]
  have "map_get (ct_Counters (hf_Counter (?hf\<lparr>hf_Counter := c\<rparr>))) ''simulate'' = Some 1"
    using served_requests_counted[OF served, of "''simulate''"] u n m
    by (simp add: offline_def proxy_to_def quiet_world_def)
  then show ?thesis
    using served by (auto simp: copy_response_def BasicUnauthorized_def Write_def WriteHeader_def new_writer_def Let_def)
qed

section \<open>What clients get\<close>

lemma copy_response_new:
  assumes "hp_Header resp = Some h" and "stable_headers h"
  shows "copy_response resp new_writer =
    \<lparr>wr_Header = h, wr_Status = Some (hp_Status resp), wr_Sent = h, wr_Body = remaining (hp_Body resp)\<rparr>"
  by (simp add: copy_response_def copyHeaders_def assms Header_AddAll_empty Write_def WriteHeader_def new_writer_def Let_def)

lemma served_by_process:
  assumes "hq_URL_Scheme r \<noteq> ''''" and "\<not> px_Webserver p"
    and "r' = (if px_AuthEnabled p then del_header ''Proxy-Authorization'' r else r)"
    and "px_AuthEnabled p \<longrightarrow> fst (basic_auth r (proxy_login (pe_auth E) (pe_now E) hf))"
    and "UrlMatches (w_libs (pe_world E)) (px_Destination p) r"
    and "processRequest (pe_world E) r' (hf, w) = Returns ((resp, delay), (hf1, w1))"
    and "Count (GetMode hf) (hf_Counter hf) = Returns c"
  shows "ServeHTTP E p r ((hf, w), new_writer) =
    Returns ((), ((hf1\<lparr>hf_Counter := c\<rparr>, w1), copy_response resp new_writer))"
proof -
  have same: "hf_Counter hf1 = hf_Counter hf" "hf_Cfg hf1 = hf_Cfg hf"
    using always_Returns[OF processRequest_keeps_Counter assms(6)] by simp_all
  have m: "UrlMatches (w_libs (pe_world E)) (px_Destination p) r'" using assms(3,5) by simp
  have b: "px_AuthEnabled p \<Longrightarrow> basic_auth r (proxy_login (pe_auth E) (pe_now E) hf) = (True, r')"
    using assms(3,4) basic_auth_request[of r] by (metis prod.collapse)
  have "filterRequest (req_handlers E p) r True (hf, w) = Returns ((r', True, Some resp), (hf1, w1))"
    using assms(2,3,5,6) m b by (auto simp: req_handlers_def basic_handler_def process_handler_def bindp_def retp_def)
  then show ?thesis
    using assms(1,2,7) m same
    by (simp add: ServeHTTP_def bindp_def serving_def filterResponse_def count_handler_def retp_def GetMode_def
        Cfg_GetMode_def)
qed

text \<open>
  C12: the client of the proxy, once let in, gets exactly the response Hoverfly made for its request:
  status, headers and body, whenever the destination matches.
\<close>

theorem proxied_answer:
  assumes "hq_URL_Scheme r \<noteq> ''''" and "\<not> px_Webserver p"
    and "r' = (if px_AuthEnabled p then del_header ''Proxy-Authorization'' r else r)"
    and "px_AuthEnabled p \<longrightarrow> fst (basic_auth r (proxy_login (pe_auth E) (pe_now E) hf))"
    and "UrlMatches (w_libs (pe_world E)) (px_Destination p) r"
    and "processRequest (pe_world E) r' (hf, w) = Returns ((resp, delay), (hf1, w1))"
    and "hp_Header resp = Some h" and "stable_headers h"
    and "Count (GetMode hf) (hf_Counter hf) = Returns c"
  shows "\<exists>wr. ServeHTTP E p r ((hf, w), new_writer) = Returns ((), ((hf1\<lparr>hf_Counter := c\<rparr>, w1), wr)) \<and>
    status_of wr = hp_Status resp \<and> wr_Sent wr = h \<and> wr_Body wr = remaining (hp_Body resp)"
  using served_by_process[OF assms(1-6,9)] copy_response_new[OF assms(7,8)] by (auto simp: status_of_def)

theorem proxied_answer_witness:
  "\<exists>hf1 wr. ServeHTTP offline ((proxy_to ''h'')\<lparr>px_AuthEnabled := False\<rparr>)
      ((plain_get ''h'')\<lparr>hq_Body := Some \<lparr>remaining = '''', read_error = Some ''reset''\<rparr>\<rparr>)
      ((sample_hoverfly [], ()), new_writer) = Returns ((), ((hf1, ()), wr)) \<and> status_of wr = 502"
  (is "\<exists>hf1 wr. ServeHTTP _ ?p ?r _ = _ \<and> _")
proof -
  let ?hf = "sample_hoverfly []"
  have "map_get (ct_Counters (hf_Counter ?hf)) ''simulate'' = Some 0"
    by (simp add: sample_hoverfly_def NewModeCounter_def mode_names)
  then obtain c where c: "Count (GetMode ?hf) (hf_Counter ?hf) = Returns c"
    by (simp add: Count_def GetMode_def Simulate_def)
  have u: "UrlMatches (w_libs (pe_world offline)) ''h'' ?r"
    by (simp add: UrlMatches_def offline_def quiet_world_def no_libs_def plain_get_def) code_simp
  have k: "CanonicalHeaderKey ''Content-Type'' = ''Content-Type''" by code_simp
  have "processRequest (pe_world offline) ?r (?hf, ()) =
      Returns ((ErrorResponse ?r ''reset'' ''Could not interpret HTTP request'', None), (?hf, ()))"
    by (simp add: processRequest_def NewRequestDetailsFromHttpRequest_def GetRequestBody_def ReadAll_def)
  from proxied_answer[where p = ?p and E = offline and h = "[(''Content-Type'', [''text/plain''])]",
      OF _ _ _ _ _ this _ _ c] u k
  show ?thesis
    by (fastforce simp: proxy_to_def plain_get_def ErrorResponse_def goproxy_NewResponse_def Header_Add_Content_Type
        stable_headers_def wf_map_def)
qed

end
