(* ===== verification/ApiLaws.thy ===== *)
theory ApiLaws
  imports Api
begin

text \<open>
  What the admin API guarantees: who may change anything, what a change answers and leaves, and
  where errors surface. The contract of a setting (a refused value changes nothing, an accepted one
  is the value from then on) is a locale, interpreted for the mode and for the delays of Hoverfly.
\<close>

section \<open>Who may change anything\<close>

definition open_paths :: "string list" where
  "open_paths = [''/api/token-auth'', ''/api/health'', ''/api/statsws'', ''/api/v2/ws/logs'']"

lemma guarded_routes: "list_all (\<lambda>rt. rt_guarded rt \<or> rt_path rt \<in> set open_paths) (getBoneRouter S C E a)"
  by (simp add: getBoneRouter_def auth_routes_def v1_routes_defs v2_routes_defs open_paths_def)

lemma open_handlers_keep:
  "list_all (\<lambda>rt. rt_guarded rt \<or> (\<forall>req s w. always (rt_handler rt req) (\<lambda>u s'. fst s' = s) (s, w)))
     (getBoneRouter S C E a)"
  by (simp add: getBoneRouter_def auth_routes_def v1_routes_defs v2_routes_defs upgraded_def HealthHandler_Get_def
      always_writing AuthHandler_Login_def always_def Let_def split: option.splits prod.splits)

lemma find_route_set: "find_route m p rts = Some rt \<Longrightarrow> rt \<in> set rts"
  by (induction rts) (auto simp: find_route_def split: if_splits)

lemma mux_parse_set: "mux_parse req rts = Some rt \<Longrightarrow> rt \<in> set rts"
  by (auto simp: mux_parse_def dest: find_route_set split: option.splits if_splits)

text \<open>
  With authentication on, a request without an accepted token changes nothing, on whatever route,
  and gets 401 everywhere but on the login, the health check and the websockets.
\<close>

lemma unauthorized_changes_nothing:
  assumes "ah_Enabled a" and "\<not> token_accepted E a (sv_Authentication S s) req"
    and "mux_parse req (getBoneRouter S C E a) = Some rt"
    and "serve_api S C E a ui req (s, w) = Returns (u, (s', w'))"
  shows "s' = s \<and>
    (rt_path rt \<notin> {''/api/token-auth'', ''/api/health'', ''/api/statsws'', ''/api/v2/ws/logs''} \<longrightarrow>
      w' = WriteHeader 401 w)"
proof -
  have rt: "rt \<in> set (getBoneRouter S C E a)" by (rule mux_parse_set[OF assms(3)])
  show ?thesis
  proof (cases "rt_guarded rt")
    case True
    then show ?thesis using assms by (simp add: serve_api_def RequireTokenAuthentication_def)
  next
    case False
    have "rt_handler rt req (s, w) = Returns (u, (s', w'))" using assms(3,4) False by (simp add: serve_api_def)
    moreover have "always (rt_handler rt req) (\<lambda>u s'. fst s' = s) (s, w)"
      using open_handlers_keep[of S C E a] rt False unfolding list_all_iff by blast
    moreover have "rt_path rt \<in> set open_paths"
      using guarded_routes[of S C E a] rt False unfolding list_all_iff by blast
    ultimately show ?thesis by (auto simp: open_paths_def dest: always_Returns)
  qed
qed

text \<open>A codec that marshals nothing but errors and messages, and reads nothing, for the examples.\<close>

definition plain_codec :: api_codec where
  "plain_codec = \<lparr>js_marshal = (\<lambda>v. case v of VError e \<Rightarrow> Inr (ev_Error e) | VMessage m \<Rightarrow> Inr (msg_Message m)
       | VMode m \<Rightarrow> Inr (mo_Mode m) | _ \<Rightarrow> Inr ''{}''),
     js_mode = (\<lambda>s. Inr \<lparr>mo_Mode = s, mo_Arguments = \<lparr>ma_Headers = []\<rparr>\<rparr>),
     js_destination = (\<lambda>s. Inr \<lparr>ds_Destination = s\<rparr>),
     js_middleware = (\<lambda>s. Inl ''json''), js_state = (\<lambda>s. Inl ''json''), js_delays = (\<lambda>s. Inl ''json''),
     js_metadata = (\<lambda>s. Inl ''json''), js_user = (\<lambda>s. Some zero_user),
     js_simulation = \<lparr>unmarshal_map = (\<lambda>s. Some [(''data'', JObject []), (''meta'', JObject [(''schemaVersion'', JString ''v2'')])]),
       rd_is_int64 = (\<lambda>s. True), unmarshal_v2 = (\<lambda>s. Inr catch_all),
       unmarshal_v1 = (\<lambda>s. Inl ''json'')\<rparr>\<rparr>"

lemma smallest_simulation_valid:
  "ValidateSimulation is_int64 [(''data'', JObject []), (''meta'', JObject [(''schemaVersion'', JString ''v2'')])]
     SimulationViewV2Schema = None"
  unfolding ValidateSimulation_V2
  by (simp add: schema_defs has_type_def given_type_def map_get_def)

definition hello_service :: "(Hoverfly \<times> unit) service" where
  "hello_service = hoverfly_service hello_world ''now''"

definition locked :: AuthHandler where
  "locked = \<lparr>ah_SecretKey = ''key'', ah_JWTExpirationDelta = 24, ah_Enabled = True\<rparr>"

definition nobody :: auth_env where
  "nobody = \<lparr>ae_libs = plain_auth\<lparr>jw_parse_hmac := (\<lambda>t s. Inl ''no token'')\<rparr>, ae_now = 0\<rparr>"

lemma unauthorized_changes_nothing_witness:
  "\<exists>s' w'. serve_api hello_service plain_codec nobody locked (\<lambda>r. upgraded)
      ((plain_get ''h'')\<lparr>hq_Method := ''DELETE'', hq_URL_Path := ''/api/v2/simulation''\<rparr>)
      ((sample_hoverfly [headers_pair None], ()), new_writer) = Returns ((), (s', w')) \<and>
    s' = (sample_hoverfly [headers_pair None], ()) \<and> status_of w' = 401"
proof -
  let ?r = "(plain_get ''h'')\<lparr>hq_Method := ''DELETE'', hq_URL_Path := ''/api/v2/simulation''\<rparr>"
  have m: "mux_parse ?r (getBoneRouter hello_service plain_codec nobody locked) =
      Some \<lparr>rt_method = ''DELETE'', rt_path = ''/api/v2/simulation'', rt_guarded = True,
        rt_handler = (\<lambda>r. SimulationHandler_Delete hello_service plain_codec)\<rparr>"
    by (simp add: mux_parse_def find_route_def getBoneRouter_def auth_routes_def v1_routes_defs v2_routes_defs)
  have t: "\<not> token_accepted nobody locked ab ?r" for ab
    by (simp add: token_accepted_def nobody_def ParseFromRequest_def Let_def split: option.split)
  have en: "ah_Enabled locked" by (simp add: locked_def)
  from t have s: "serve_api hello_service plain_codec nobody locked (\<lambda>r. upgraded) ?r (s, new_writer) =
      Returns ((), (s, WriteHeader 401 new_writer))" for s
    using en by (simp add: serve_api_def m RequireTokenAuthentication_def)
  show ?thesis
    using unauthorized_changes_nothing[OF en t m s] s by (auto simp: status_of_def WriteHeader_def new_writer_def)
qed
section \<open>Settings\<close>

text \<open>
  The contract of a setting of a service: \<open>view\<close> is what the setting may change, \<open>set_to v r\<close> says
  that \<open>r\<close> shows the value \<open>v\<close>. Refused values change nothing, accepted ones are read afterwards.
\<close>

locale setting =
  fixes set_value :: "'v \<Rightarrow> ('s, string option) prog"
    and get_value :: "'s \<Rightarrow> 'r"
    and view :: "'s \<Rightarrow> 'h"
    and invar :: "'s \<Rightarrow> bool"
    and acceptable :: "'s \<Rightarrow> 'v \<Rightarrow> bool"
    and set_to :: "'v \<Rightarrow> 'r \<Rightarrow> bool"
  assumes total: "invar s \<Longrightarrow> \<exists>err s'. set_value v s = Returns (err, s') \<and> (err = None \<longleftrightarrow> acceptable s v)"
    and refused: "invar s \<Longrightarrow> set_value v s = Returns (Some text, s') \<Longrightarrow> view s' = view s"
    and accepted: "invar s \<Longrightarrow> set_value v s = Returns (None, s') \<Longrightarrow> set_to v (get_value s')"
    and keeps: "invar s \<Longrightarrow> set_value v s = Returns (err, s') \<Longrightarrow> invar s'"
begin

text \<open>Any handler that sets the value and then answers, in one way or the other.\<close>

lemma put_value:
  assumes "invar s"
    and "\<And>s'. \<lbrakk>invar s'; set_to v (get_value s')\<rbrakk> \<Longrightarrow> \<exists>s''. ok (s', w) = Returns ((), s'') \<and> P s''"
    and "\<And>err s'. \<lbrakk>invar s'; view s' = view s\<rbrakk> \<Longrightarrow> Q (s', fail err w)"
  shows "\<exists>s''. bindp (serving (set_value v)) (\<lambda>err. case err of
        Some err \<Rightarrow> writing (fail err) | None \<Rightarrow> ok) (s, w) = Returns ((), s'') \<and>
      (if acceptable s v then P s'' else Q s'')"
proof -
  obtain err s' where set: "set_value v s = Returns (err, s')" "err = None \<longleftrightarrow> acceptable s v"
    using total[OF assms(1)] by blast
  note inv = keeps[OF assms(1) set(1)]
  show ?thesis
  proof (cases err)
    case None
    then show ?thesis
      using set assms(2)[OF inv] accepted[OF assms(1)] by (simp add: bindp_def serving_def)
  next
    case (Some e)
    then show ?thesis
      using set assms(3)[OF inv] refused[OF assms(1)] by (simp add: bindp_def serving_def)
  qed
qed

end

lemma try_hoverfly_Returns:
  "try_hoverfly f (hf, w) = Returns (x, s) \<longleftrightarrow> (\<exists>hf'. f hf = Returns (x, hf') \<and> s = (hf', w))"
  by (auto simp: try_hoverfly_def bind_outcome_Returns_iff)

lemma on_hoverfly_Returns:
  "on_hoverfly f (hf, w) = Returns (x, s) \<longleftrightarrow> (x, fst s) = f hf \<and> snd s = w"
  by (cases s) (auto simp: on_hoverfly_def split: prod.splits)

interpretation mode: setting "\<lambda>v. try_hoverfly (SetModeWithArguments (w_libs W) v)" "\<lambda>s. GetMode (fst s)" fst
  "\<lambda>s. wf_hoverfly (w_libs W) (fst s)" "\<lambda>s v. mode_accepted v (fst s)" "\<lambda>v r. r = mo_Mode v" for W
proof
  fix s :: "Hoverfly \<times> 'a" and v
  assume wf: "wf_hoverfly (w_libs W) (fst s)"
  obtain hf w where s: "s = (hf, w)" by (cases s)
  show "\<exists>err s'. try_hoverfly (SetModeWithArguments (w_libs W) v) s = Returns (err, s') \<and>
      (err = None \<longleftrightarrow> mode_accepted v (fst s))"
  proof (cases "mode_accepted v hf")
    case True
    then have "mo_Mode v \<in> set all_modes" by (simp add: mode_accepted_def)
    then obtain m where "map_get (hf_modeMap hf) (mo_Mode v) = Some m"
      using wf_hoverfly_some[OF wf] by (auto simp: s)
    then show ?thesis
      using SetModeWithArguments_accepted[OF True] True by (simp add: s try_hoverfly_def)
  next
    case False
    then show ?thesis
      using SetModeWithArguments_refused[OF False, of "w_libs W"] by (auto simp: s try_hoverfly_def)
  qed
next
  fix s s' :: "Hoverfly \<times> 'a" and v err
  assume wf: "wf_hoverfly (w_libs W) (fst s)"
    and set: "try_hoverfly (SetModeWithArguments (w_libs W) v) s = Returns (err, s')"
  then obtain hf w hf' where s: "s = (hf, w)" "s' = (hf', w)" "SetModeWithArguments (w_libs W) v hf = Returns (err, hf')"
    by (cases s) (auto simp: try_hoverfly_Returns)
  then show "wf_hoverfly (w_libs W) (fst s')"
    using wf_hoverfly_SetMode[of "w_libs W" hf "w_libs W" v err hf'] wf by simp
next
  fix s s' :: "Hoverfly \<times> 'a" and v err
  assume wf: "wf_hoverfly (w_libs W) (fst s)"
    and "try_hoverfly (SetModeWithArguments (w_libs W) v) s = Returns (Some err, s')"
  then obtain hf w hf' where s: "s = (hf, w)" "s' = (hf', w)"
      "SetModeWithArguments (w_libs W) v hf = Returns (Some err, hf')"
    by (cases s) (auto simp: try_hoverfly_Returns)
  moreover have "\<not> mode_accepted v hf"
  proof
    assume acc: "mode_accepted v hf"
    then obtain m where "map_get (hf_modeMap hf) (mo_Mode v) = Some m"
      using wf_hoverfly_some[OF wf, of "mo_Mode v"] by (auto simp: s mode_accepted_def)
    then show False using s(3) SetModeWithArguments_accepted[OF acc, of m "w_libs W"] by simp
  qed
  ultimately show "fst s' = fst s" using SetModeWithArguments_refused[of v hf "w_libs W"] by auto
next
  fix s s' :: "Hoverfly \<times> 'a" and v
  assume wf: "wf_hoverfly (w_libs W) (fst s)"
    and "try_hoverfly (SetModeWithArguments (w_libs W) v) s = Returns (None, s')"
  then obtain hf w hf' where s: "s = (hf, w)" "s' = (hf', w)"
      "SetModeWithArguments (w_libs W) v hf = Returns (None, hf')"
    by (cases s) (auto simp: try_hoverfly_Returns)
  then have acc: "mode_accepted v hf" using SetModeWithArguments_refused[of v hf "w_libs W"] by auto
  then obtain m where "map_get (hf_modeMap hf) (mo_Mode v) = Some m"
    using wf_hoverfly_some[OF wf, of "mo_Mode v"] by (auto simp: s mode_accepted_def)
  then show "GetMode (fst s') = mo_Mode v"
    using SetModeWithArguments_accepted[OF acc, of m "w_libs W"] s by (auto simp: GetMode_def)
qed

lemma delay_view_from [simp]: "delay_view \<circ> delay_from_view = id"
  by (simp add: fun_eq_iff delay_view_def delay_from_view_def)

interpretation delays: setting "\<lambda>v. on_hoverfly (SetResponseDelays (w_libs W) v)"
  "\<lambda>s. GetResponseDelays (fst s)" fst "\<lambda>s. wf_hoverfly (w_libs W) (fst s)"
  "\<lambda>s v. list_all (valid_delay (w_libs W)) (given_delays v)"
  "\<lambda>v r. r = \<lparr>dp_Data = Some (case dp_Data v of None \<Rightarrow> [] | Some ds \<Rightarrow> ds)\<rparr>" for W
proof
  fix s s' :: "Hoverfly \<times> 'a" and v err
  assume wf: "wf_hoverfly (w_libs W) (fst s)"
  obtain hf w where s: "s = (hf, w)" by (cases s)
  have acc: "ValidateResponseDelayPayload (w_libs W) v = None \<longleftrightarrow>
      list_all (valid_delay (w_libs W)) (given_delays v)"
    by (simp add: ValidateResponseDelayPayload_None list_all_iff)
  show "\<exists>err s'. on_hoverfly (SetResponseDelays (w_libs W) v) s = Returns (err, s') \<and>
      (err = None \<longleftrightarrow> list_all (valid_delay (w_libs W)) (given_delays v))"
    by (cases "ValidateResponseDelayPayload (w_libs W) v")
      (auto simp: acc[symmetric] s on_hoverfly_def SetResponseDelays_eq)
  show "fst s' = fst s" if "on_hoverfly (SetResponseDelays (w_libs W) v) s = Returns (Some e, s')" for e
    using that by (auto simp: s on_hoverfly_def SetResponseDelays_eq split: option.splits)
  show "GetResponseDelays (fst s') = \<lparr>dp_Data = Some (case dp_Data v of None \<Rightarrow> [] | Some ds \<Rightarrow> ds)\<rparr>"
    if "on_hoverfly (SetResponseDelays (w_libs W) v) s = Returns (None, s')"
    using that by (auto simp: s on_hoverfly_def SetResponseDelays_eq GetResponseDelays_def given_delays_def
        ConvertToResponseDelayPayloadView_def split: option.splits)
  show "wf_hoverfly (w_libs W) (fst s')" if "on_hoverfly (SetResponseDelays (w_libs W) v) s = Returns (err, s')"
    using that wf_hoverfly_SetResponseDelays[OF wf, of v]
    by (auto simp: s on_hoverfly_def split: prod.splits)
qed

section \<open>What a change answers\<close>

lemma WriteResponse_new:
  "status_of (WriteResponse b new_writer) = 200" "wr_Body (WriteResponse b new_writer) = b"
  by (simp_all add: WriteResponse_def writer_defs status_of_def Let_def)

lemma status_WriteErrorResponse: "status_of (WriteErrorResponse C m code new_writer) \<in> {code, 500}"
  by (auto simp: WriteErrorResponse_def WriteResponse_def writer_defs status_of_def Let_def split: sum.split)

lemma hoverfly_service_simps [simp]:
  "sv_SetModeWithArguments (hoverfly_service W now) = (\<lambda>v. try_hoverfly (SetModeWithArguments (w_libs W) v))"
  "sv_GetMode (hoverfly_service W now) = read_hoverfly GetMode"
  "sv_SetResponseDelays (hoverfly_service W now) = (\<lambda>v. on_hoverfly (SetResponseDelays (w_libs W) v))"
  "sv_DeleteSimulation (hoverfly_service W now) = on_hoverfly (\<lambda>hf. ((), DeleteSimulation hf))"
  "sv_PutSimulation (hoverfly_service W now) = (\<lambda>v. on_hoverfly (PutSimulation (w_libs W) v))"
  "sv_GetSimulation (hoverfly_service W now) = read_hoverfly (\<lambda>hf. Inr (GetSimulation (w_libs W) now hf))"
  by (simp_all add: hoverfly_service_def)

lemma bindp_read [simp]: "bindp (serving (read_hoverfly f)) g ((hf, w), wr) = g (f hf) ((hf, w), wr)"
  by (simp add: bindp_def serving_def read_hoverfly_def)

lemma bindp_on [simp]:
  "bindp (serving (on_hoverfly f)) g ((hf, w), wr) = g (fst (f hf)) ((snd (f hf), w), wr)"
  by (simp add: bindp_def serving_def on_hoverfly_def split: prod.split)

lemma bindp_reading [simp]:
  "bindp (reading (Returns x)) g s = g x s" "bindp (reading (Panics e)) g s = Panics e"
  by (simp_all add: bindp_def reading_def)

text \<open>
  A mode put to the API answers 200 with the mode that is then set when the change is accepted,
  and an error, with Hoverfly as it was, when it is refused.
\<close>

lemma mode_put_correct:
  assumes "wf_hoverfly (w_libs W) hf" and "hq_Body r = Some b" and "js_mode C (remaining b) = Inr v"
  shows "\<exists>hf' w' wr. HoverflyModeHandler_Put (hoverfly_service W now) C r ((hf, w), new_writer) =
      Returns ((), ((hf', w'), wr)) \<and>
    (if mode_accepted v hf
     then GetMode hf' = mo_Mode v \<and> wf_hoverfly (w_libs W) hf' \<and> status_of wr = 200 \<and>
       wr_Body wr = marshalled C (VMode \<lparr>mo_Mode = mo_Mode v, mo_Arguments = \<lparr>ma_Headers = []\<rparr>\<rparr>)
     else hf' = hf \<and> status_of wr \<in> {400, 500})"
proof -
  let ?ok = "HoverflyModeHandler_Get (hoverfly_service W now) C"
  have "\<exists>s''. bindp (serving (try_hoverfly (SetModeWithArguments (w_libs W) v))) (\<lambda>err. case err of
        Some err \<Rightarrow> writing (WriteErrorResponse C err 400) | None \<Rightarrow> ?ok) ((hf, w), new_writer) = Returns ((), s'') \<and>
      (if mode_accepted v (fst (hf, w))
       then GetMode (fst (fst s'')) = mo_Mode v \<and> wf_hoverfly (w_libs W) (fst (fst s'')) \<and> status_of (snd s'') = 200 \<and>
         wr_Body (snd s'') = marshalled C (VMode \<lparr>mo_Mode = mo_Mode v, mo_Arguments = \<lparr>ma_Headers = []\<rparr>\<rparr>)
       else fst (fst s'') = hf \<and> status_of (snd s'') \<in> {400, 500})"
    by (rule mode.put_value)
      (use assms(1) status_WriteErrorResponse in
        \<open>auto simp: HoverflyModeHandler_Get_def WriteResponse_new split_paired_All\<close>)
  then show ?thesis
    using assms(2,3) by (cases "mode_accepted v hf") (auto simp: HoverflyModeHandler_Put_def ReadFromRequest_def)
qed

lemma mode_put_correct_witness:
  "\<exists>hf' w' wr. HoverflyModeHandler_Put hello_service plain_codec
      ((plain_get ''h'')\<lparr>hq_Body := Some (new_body ''modify'')\<rparr>) ((sample_hoverfly [], ()), new_writer) =
      Returns ((), ((hf', w'), wr)) \<and> GetMode hf' = ''modify'' \<and> status_of wr = 200 \<and> wr_Body wr = ''modify''"
proof -
  have "mode_accepted \<lparr>mo_Mode = ''modify'', mo_Arguments = \<lparr>ma_Headers = []\<rparr>\<rparr> (sample_hoverfly [])"
    by (simp add: mode_accepted_def all_modes_def mode_names bad_asterisk_def)
  with mode_put_correct[of hello_world "sample_hoverfly []" "(plain_get ''h'')\<lparr>hq_Body := Some (new_body ''modify'')\<rparr>"
      "new_body ''modify''" plain_codec "\<lparr>mo_Mode = ''modify'', mo_Arguments = \<lparr>ma_Headers = []\<rparr>\<rparr>" "''now''" "()"]
  show ?thesis
    by (auto simp: wf_sample_hoverfly plain_codec_def new_body_def hello_service_def marshalled_def)
qed

text \<open>
  Delays put to the API are exactly the delays it shows afterwards when each is valid;
  otherwise, or when the body has none, it answers an error and the old delays stay.
\<close>

lemma delays_put_correct:
  assumes "wf_hoverfly (w_libs W) hf" and "hq_Body r = Some (new_body b)" and "js_delays C b = Inr v"
  shows "\<exists>hf' w' wr. DelaysHandler_Put (hoverfly_service W now) C r ((hf, w), new_writer) =
      Returns ((), ((hf', w'), wr)) \<and>
    (case dp_Data v of
       None \<Rightarrow> hf' = hf \<and> status_of wr = 422
     | Some ds \<Rightarrow>
         if list_all (valid_delay (w_libs W)) (map delay_from_view ds)
         then GetResponseDelays hf' = v \<and> status_of wr = 201
         else hf' = hf \<and> status_of wr = 422)"
proof -
  have st: "status_of (write_message C m (WriteHeader code (SetHeader k x new_writer))) = code" for code m k x
    by (auto simp: write_message_def writer_defs status_of_def Let_def split: sum.split)
  show ?thesis
  proof (cases "dp_Data v")
    case None
    then show ?thesis
      using assms(2,3) by (simp add: DelaysHandler_Put_def request_body_def json_message_def st)
  next
    case (Some ds)
    have v: "v = \<lparr>dp_Data = Some ds\<rparr>" using Some by (cases v) simp
    have run: "DelaysHandler_Put (hoverfly_service W now) C r =
      bindp (serving (on_hoverfly (SetResponseDelays (w_libs W) v))) (\<lambda>err. case err of
        Some err \<Rightarrow> json_message C 422 (''Failed to validate response delays config. Error: '' @ err)
      | None \<Rightarrow> json_message C 201 ''Response delays updated.'')"
      using assms(2,3) Some by (simp add: DelaysHandler_Put_def request_body_def del: append.simps)
    have "\<exists>s''. DelaysHandler_Put (hoverfly_service W now) C r ((hf, w), new_writer) = Returns ((), s'') \<and>
        (if list_all (valid_delay (w_libs W)) (given_delays v)
         then GetResponseDelays (fst (fst s'')) = v \<and> status_of (snd s'') = 201
         else fst (fst s'') = hf \<and> status_of (snd s'') = 422)"
      unfolding run json_message_def by (rule delays.put_value) (use assms(1) in \<open>auto simp: st v\<close>)
    moreover have "given_delays v = map delay_from_view ds" by (simp add: v given_delays_def)
    ultimately show ?thesis using Some by (auto split: if_splits)
  qed
qed

definition slow_all :: ResponseDelayPayloadView where
  "slow_all = \<lparr>dp_Data = Some [\<lparr>dv_UrlPattern = ''.'', dv_HttpMethod = '''', dv_Delay = 100\<rparr>]\<rparr>"

lemma delays_put_correct_witness:
  "\<exists>hf' w' wr. DelaysHandler_Put hello_service (plain_codec\<lparr>js_delays := (\<lambda>s. Inr slow_all)\<rparr>) (plain_get ''h'')
      ((sample_hoverfly [], ()), new_writer) = Returns ((), ((hf', w'), wr)) \<and>
    GetResponseDelays hf' = slow_all \<and> status_of wr = 201"
  using delays_put_correct[of hello_world "sample_hoverfly []" "plain_get ''h''" "[]"
      "plain_codec\<lparr>js_delays := (\<lambda>s. Inr slow_all)\<rparr>" slow_all "''now''" "()"]
  by (auto simp: wf_sample_hoverfly plain_get_def hello_service_def slow_all_def valid_delay_def delay_from_view_def
      hello_world_def quiet_world_def no_libs_def)

text \<open>
  C25: a simulation put to the API replaces the old one before its delays are looked at. With valid
  delays the answer is the new simulation; with others it is an error, and what is left is the new
  pairs and no delays at all: the old simulation is gone.
\<close>

theorem simulation_put_correct:
  assumes "hq_Body req = Some b"
    and "NewSimulationViewFromResponseBody (js_simulation C) (remaining b) = Returns (Inr v)"
  shows "\<exists>hf' wr. SimulationHandler_Put (hoverfly_service W now) C req ((hf, w), new_writer) =
      Returns ((), ((hf', w), wr)) \<and>
    si_MatchingPairs (hf_Simulation hf') =
      map NewRequestMatcherResponsePairFromView (d2_RequestResponsePairs (s2_DataViewV2 v)) \<and>
    hf_CacheMatcher hf' = snd (FlushCache (hf_CacheMatcher hf)) \<and>
    (let delays = given_delays \<lparr>dp_Data = ga_Delays (d2_GlobalActions (s2_DataViewV2 v))\<rparr>
     in if list_all (valid_delay (w_libs W)) delays
        then si_ResponseDelays (hf_Simulation hf') = delays \<and> status_of wr = 200 \<and>
          wr_Body wr = marshalled C (VSimulation (GetSimulation (w_libs W) now hf'))
        else si_ResponseDelays (hf_Simulation hf') = [] \<and> status_of wr = 500)"
proof -
  let ?d = "\<lparr>dp_Data = ga_Delays (d2_GlobalActions (s2_DataViewV2 v))\<rparr>"
  let ?hf = "snd (PutSimulation (w_libs W) v (DeleteSimulation hf))"
  have put: "si_MatchingPairs (hf_Simulation ?hf) =
      map NewRequestMatcherResponsePairFromView (d2_RequestResponsePairs (s2_DataViewV2 v))"
      "hf_CacheMatcher ?hf = snd (FlushCache (hf_CacheMatcher hf))"
    by (simp_all add: PutSimulation_eq Let_def SetResponseDelays_eq ImportRequestResponsePairViews_eq DeleteSimulation_eq
        split: option.split)
  have acc: "ValidateResponseDelayPayload (w_libs W) ?d = None \<longleftrightarrow>
      list_all (valid_delay (w_libs W)) (given_delays ?d)"
    by (simp add: ValidateResponseDelayPayload_None list_all_iff)
  show ?thesis
  proof (cases "ValidateResponseDelayPayload (w_libs W) ?d")
    case None
    then have "fst (PutSimulation (w_libs W) v (DeleteSimulation hf)) = None"
        "si_ResponseDelays (hf_Simulation ?hf) = given_delays ?d"
      by (simp_all add: PutSimulation_eq Let_def SetResponseDelays_eq)
    then show ?thesis
      using assms None acc put by (simp add: SimulationHandler_Put_def SimulationHandler_Get_def WriteResponse_new)
  next
    case (Some e)
    then have "fst (PutSimulation (w_libs W) v (DeleteSimulation hf)) = Some e"
        "si_ResponseDelays (hf_Simulation ?hf) = []"
      by (simp_all add: PutSimulation_eq Let_def SetResponseDelays_eq ImportRequestResponsePairViews_eq DeleteSimulation_eq)
    then show ?thesis
      using assms Some acc put status_WriteErrorResponse[of C "''An error occured: '' @ e" 500]
      by (simp add: SimulationHandler_Put_def)
  qed
qed

theorem simulation_put_correct_witness:
  "\<exists>hf' wr. SimulationHandler_Put hello_service plain_codec (plain_get ''h'') ((sample_hoverfly [], ()), new_writer) =
      Returns ((), ((hf', ()), wr)) \<and> si_MatchingPairs (hf_Simulation hf') = [headers_pair None] \<and> status_of wr = 200"
proof -
  have n: "NewSimulationViewFromResponseBody (js_simulation plain_codec) b = Returns (Inr catch_all)" for b
    by (simp add: NewSimulationViewFromResponseBody_def plain_codec_def map_get_def is_nil_def as_map_def as_string_def
        read_version_def smallest_simulation_valid)
  have "NewRequestMatcherResponsePairFromView (BuildView s (headers_pair None)) = headers_pair None" for s
    by (rule NewPair_BuildView) (simp add: headers_pair_def query_normal_def exact_of_def)
  then have "map NewRequestMatcherResponsePairFromView (d2_RequestResponsePairs (s2_DataViewV2 catch_all)) = [headers_pair None]"
      "given_delays \<lparr>dp_Data = ga_Delays (d2_GlobalActions (s2_DataViewV2 catch_all))\<rparr> = []"
    by (simp_all add: catch_all_def GetSimulation_eq given_delays_def)
  then show ?thesis
    using simulation_put_correct[OF _ n, of "plain_get ''h''" _ hello_world "''now''" "sample_hoverfly []" "()"]
    by (auto simp: plain_get_def hello_service_def)
qed

section \<open>Errors and messages\<close>

text \<open>
  An error answer of the API has its status and its JSON, but not the content type: the header is
  set after the status went out.
\<close>

lemma error_content_type_lost:
  "case js_marshal C (VError \<lparr>ev_Error = m\<rparr>) of
     Inl e \<Rightarrow> status_of (WriteErrorResponse C m code new_writer) = 500 \<and> wr_Body (WriteErrorResponse C m code new_writer) = ''''
   | Inr b \<Rightarrow> status_of (WriteErrorResponse C m code new_writer) = code \<and> wr_Body (WriteErrorResponse C m code new_writer) = b \<and>
       wr_Sent (WriteErrorResponse C m code new_writer) = [] \<and>
       wr_Header (WriteErrorResponse C m code new_writer) = Header_Set ''Content-Type'' ''application/json; charset=UTF-8'' []"
  by (simp add: WriteErrorResponse_def WriteResponse_def writer_defs status_of_def Let_def split: sum.split)

text \<open>
  C35: the log websocket sends one message a second: the logs when they changed since the last time,
  and an empty message when they did not, the error of the handler being dropped.
\<close>

fun changed_logs :: "api_codec \<Rightarrow> LogsView \<Rightarrow> LogsView list \<Rightarrow> string list" where
  "changed_logs C sent [] = []"
| "changed_logs C sent (now # shown) =
     (if now = sent then '''' else marshalled C (VLogs now)) # changed_logs C now shown"

lemma logs_websocket:
  "websocket_messages (LogsHandler_update C) sent shown = changed_logs C sent shown"
  by (induction shown arbitrary: sent) (auto simp: LogsHandler_update_def marshalled_def)

text \<open>
  A negative limit in the query of the logs makes the handler panic, whatever the logs are.
\<close>

lemma negative_limit: "Atoi (Values_Get (ParseQuery ''limit=-1'') ''limit'') = Inr (-1)"
  by code_simp

lemma logs_negative_limit_panics:
  "panics (LogsHandler_Get (hoverfly_service W now) C ((plain_get h)\<lparr>hq_URL_RawQuery := ''limit=-1''\<rparr>) s)"
  by (cases s) (auto simp: LogsHandler_Get_def negative_limit Let_def hoverfly_service_def bindp_def serving_def
      try_hoverfly_def GetFilteredLogsView_eq)

section \<open>Tokens\<close>

lemma upper_bearer: "map upper_char ''Bearer '' = ''BEARER ''" "map upper_char ''bearer '' = ''BEARER ''"
  by code_simp+

lemma request_token_Bearer:
  assumes "authorization r = b @ t" and "b \<in> {''Bearer '', ''bearer ''}" shows "request_token A r = Some t"
proof -
  have "length b = 7" "map upper_char b = ''BEARER ''" using assms(2) upper_bearer by auto
  then show ?thesis using assms(1) by (auto simp: request_token_def Let_def)
qed

lemma Header_Get_Authorization: "Header_Get ''Authorization'' [(''Authorization'', [v])] = v"
proof -
  have "CanonicalHeaderKey ''Authorization'' = ''Authorization''" by code_simp
  then show ?thesis by (simp add: Header_Get_def map_index_def map_get_def)
qed

definition bearer_get :: "string \<Rightarrow> http_request" where
  "bearer_get v = (plain_get ''h'')\<lparr>hq_Header := Some [(''Authorization'', [v])]\<rparr>"

lemma bearer_get_simps [simp]:
  "authorization (bearer_get v) = v" "hq_Body (bearer_get v) = Some (new_body [])"
  by (simp_all add: authorization_def bearer_get_def plain_get_def Header_Get_Authorization)

text \<open>
  C23: A logout refuses, from then on, exactly the requests with the same \<^verbatim>\<open>Authorization\<close> header, byte for
  byte. The token itself stays good: sent with \<^verbatim>\<open>bearer\<close> in another case, or in the form, it is still
  accepted.
\<close>

theorem logout_revokes_header:
  assumes "ah_Enabled a" and "wf_auth (hf_Authentication hf)" and "token_key (authorization r)"
    and "ParseFromRequest (ae_libs E) (jw_parse (ae_libs E)) r (ah_SecretKey a) = Inr valid"
  shows "\<exists>ab wr. AuthHandler_Logout (hoverfly_service W now) E a r ((hf, w), new_writer) =
      Returns ((), ((hf\<lparr>hf_Authentication := ab\<rparr>, w), wr)) \<and> status_of wr = 200 \<and>
    (\<forall>q. token_accepted E a ab q \<longleftrightarrow>
      token_accepted E a (hf_Authentication hf) q \<and> authorization q \<noteq> authorization r)"
proof -
  note revoke = InvalidateToken_store[OF assms(2)]
  obtain ab where ab: "InvalidateToken (hf_Authentication hf) (authorization r) = (None, ab)"
    using revoke(1)[OF assms(3)] by (cases "InvalidateToken (hf_Authentication hf) (authorization r)") auto
  have "AuthHandler_Logout (hoverfly_service W now) E a r ((hf, w), new_writer) =
      Returns ((), ((hf\<lparr>hf_Authentication := ab\<rparr>, w), WriteHeader 200 (SetHeader ''Content-Type'' ''application/json'' new_writer)))"
    using assms(1,4) by (simp add: AuthHandler_Logout_def Logout_def JWT_Logout_def InitJWTAuthenticationBackend_def
        hoverfly_service_def ab Let_def)
  moreover have "status_of (WriteHeader 200 (SetHeader k v new_writer)) = 200" for k v
    by (simp add: writer_defs status_of_def)
  moreover have "token_accepted E a ab q \<longleftrightarrow>
      token_accepted E a (hf_Authentication hf) q \<and> authorization q \<noteq> authorization r" for q
    using revoke(3)[OF assms(3), of "authorization q"]
    by (auto simp: token_accepted_def IsInBlacklist_def InitJWTAuthenticationBackend_def Let_def ab)
  ultimately show ?thesis by blast
qed

lemma bearer_accepted:
  "token_accepted \<lparr>ae_libs = plain_auth, ae_now = 0\<rparr> locked fresh_auth (bearer_get v) \<longleftrightarrow>
     request_token plain_auth (bearer_get v) \<noteq> None"
  by (auto simp: token_accepted_def plain_auth_def IsInBlacklist_def IsTokenBlacklisted_def InitJWTAuthenticationBackend_def
      fresh_auth_def NewCacheBasedAuthBackend_def Mem_Get_def NewInMemoryCache_def map_index_def ParseFromRequest_def Let_def
      split: option.split)

text \<open>A token that is logged out and used again, its prefix in lower case.\<close>

theorem logout_revokes_header_witness:
  "\<exists>ab wr. AuthHandler_Logout hello_service \<lparr>ae_libs = plain_auth, ae_now = 0\<rparr> locked (bearer_get ''Bearer token'')
      ((sample_hoverfly [], ()), new_writer) =
      Returns ((), (((sample_hoverfly [])\<lparr>hf_Authentication := ab\<rparr>, ()), wr)) \<and> status_of wr = 200 \<and>
    \<not> token_accepted \<lparr>ae_libs = plain_auth, ae_now = 0\<rparr> locked ab (bearer_get ''Bearer token'') \<and>
    token_accepted \<lparr>ae_libs = plain_auth, ae_now = 0\<rparr> locked ab (bearer_get ''bearer token'')"
proof -
  have fresh: "hf_Authentication (sample_hoverfly []) = fresh_auth" by (simp add: sample_hoverfly_def)
  have tok: "request_token plain_auth (bearer_get ''Bearer token'') = Some ''token''"
      "request_token plain_auth (bearer_get ''bearer token'') = Some ''token''"
    using request_token_Bearer[of "bearer_get ''Bearer token''" "''Bearer ''" "''token''"]
      request_token_Bearer[of "bearer_get ''bearer token''" "''bearer ''" "''token''"] by simp_all
  have "ParseFromRequest plain_auth (jw_parse plain_auth) (bearer_get ''Bearer token'') (ah_SecretKey locked) = Inr True"
    by (simp add: ParseFromRequest_def tok) (simp add: plain_auth_def)
  moreover have "ah_Enabled locked" by (simp add: locked_def)
  moreover have "token_key ''Bearer token''" by (simp add: token_key_def MaxKeySize_def)
  ultimately obtain ab wr where run: "AuthHandler_Logout hello_service \<lparr>ae_libs = plain_auth, ae_now = 0\<rparr> locked
        (bearer_get ''Bearer token'') ((sample_hoverfly [], ()), new_writer) =
        Returns ((), (((sample_hoverfly [])\<lparr>hf_Authentication := ab\<rparr>, ()), wr))" "status_of wr = 200"
      "\<And>q. token_accepted \<lparr>ae_libs = plain_auth, ae_now = 0\<rparr> locked ab q \<longleftrightarrow>
        token_accepted \<lparr>ae_libs = plain_auth, ae_now = 0\<rparr> locked fresh_auth q \<and> authorization q \<noteq> ''Bearer token''"
    using logout_revokes_header[of locked "sample_hoverfly []" "bearer_get ''Bearer token''"
      "\<lparr>ae_libs = plain_auth, ae_now = 0\<rparr>" True hello_world "''now''" "()"]
    by (auto simp: hello_service_def fresh wf_fresh_auth)
  show ?thesis by (intro exI conjI, rule run(1)) (simp_all add: run(2,3) bearer_accepted tok)
qed

text \<open>
  Whoever has an accepted token gets a fresh one for any user named in the body, existing or
  not, no password asked.
\<close>

lemma refresh_token_for_anyone:
  assumes "token_accepted E a (sv_Authentication S s) r" and "decoded_user C r = Some u"
    and "jw_sign (ae_libs E) \<lparr>cl_exp = unix (ae_now E + hours (ah_JWTExpirationDelta a)), cl_iat = unix (ae_now E),
        cl_username = us_Username u, cl_sub = us_UUID u\<rparr> (ah_SecretKey a) = Inr token"
  shows "\<exists>wr. RequireTokenAuthentication S E a r (AuthHandler_RefreshToken S C E a r) (s, new_writer) =
      Returns ((), (s, wr)) \<and> status_of wr = 200 \<and> wr_Body wr = au_token_json (ae_libs E) token"
  using assms
  by (simp add: RequireTokenAuthentication_def AuthHandler_RefreshToken_def RefreshToken_def GenerateToken_def
      InitJWTAuthenticationBackend_def writer_defs status_of_def Let_def)

lemma refresh_token_for_anyone_witness:
  "\<exists>wr. RequireTokenAuthentication hello_service \<lparr>ae_libs = plain_auth, ae_now = 0\<rparr> locked (bearer_get ''Bearer token'')
      (AuthHandler_RefreshToken hello_service (plain_codec\<lparr>js_user := (\<lambda>s. Some (zero_user\<lparr>us_Username := ''root''\<rparr>))\<rparr>)
        \<lparr>ae_libs = plain_auth, ae_now = 0\<rparr> locked (bearer_get ''Bearer token'')) ((sample_hoverfly [], ()), new_writer) =
      Returns ((), ((sample_hoverfly [], ()), wr)) \<and> status_of wr = 200 \<and> wr_Body wr = ''token''"
proof -
  have "token_accepted \<lparr>ae_libs = plain_auth, ae_now = 0\<rparr> locked
      (sv_Authentication hello_service (sample_hoverfly [], ())) (bearer_get ''Bearer token'')"
    using request_token_Bearer[of "bearer_get ''Bearer token''" "''Bearer ''" "''token''" plain_auth]
    by (simp add: hello_service_def hoverfly_service_def sample_hoverfly_def bearer_accepted)
  from refresh_token_for_anyone[OF this, of "plain_codec\<lparr>js_user := (\<lambda>s. Some (zero_user\<lparr>us_Username := ''root''\<rparr>))\<rparr>"
      "zero_user\<lparr>us_Username := ''root''\<rparr>" "''token''"]
  show ?thesis by (simp add: decoded_user_def plain_get_def plain_auth_def)
qed

text \<open>
  A state posted to the API with a new mode and a destination the proxy does not take answers an
  error and has changed the mode.
\<close>

lemma state_post_half_done:
  assumes "wf_hoverfly (w_libs W) hf" and "hq_Body r = Some (new_body b)" and "js_state C b = Inr sr"
    and "st_Mode sr = ''modify''" and "st_Destination sr \<noteq> ''''"
    and "\<not> re_compiles (w_libs W) (st_Destination sr)"
  shows "\<exists>hf' wr. StateHandler_Post (hoverfly_service W now) C r ((hf, w), new_writer) =
      Returns ((), ((hf', w), wr)) \<and> status_of wr = 500 \<and> GetMode hf' = ''modify''"
proof -
  let ?v = "\<lparr>mo_Mode = ''modify'', mo_Arguments = \<lparr>ma_Headers = []\<rparr>\<rparr>"
  have acc: "mode_accepted ?v hf" by (simp add: mode_accepted_def all_modes_def mode_names bad_asterisk_def)
  then have "''modify'' \<in> set all_modes" by (simp add: mode_accepted_def)
  then obtain m where m: "map_get (hf_modeMap hf) (mo_Mode ?v) = Some m"
    using wf_hoverfly_some[OF assms(1)] by auto
  obtain hf' where "SetModeWithArguments (w_libs W) ?v hf = Returns (None, hf')" "GetMode hf' = ''modify''"
    using SetModeWithArguments_accepted[OF acc m] by (auto simp: GetMode_def)
  then show ?thesis
    using assms(2-6)
    by (simp add: StateHandler_Post_def request_body_def state_destination_def hoverfly_service_def SetMode_def
        bindp_def serving_def try_hoverfly_def SetDestination_def)
      (simp add: writer_defs status_of_def Let_def)
qed

lemma state_post_half_done_witness:
  "\<exists>hf' wr. StateHandler_Post (hoverfly_service (hello_world\<lparr>w_libs := no_libs\<lparr>re_compiles := (\<lambda>p. False)\<rparr>\<rparr>) ''now'')
      (plain_codec\<lparr>js_state := (\<lambda>s. Inr \<lparr>st_Mode = ''modify'', st_Destination = ''(''\<rparr>)\<rparr>) (plain_get ''h'')
      ((sample_hoverfly [], ()), new_writer) =
      Returns ((), ((hf', ()), wr)) \<and> status_of wr = 500 \<and> GetMode hf' = ''modify''"
  by (rule state_post_half_done[where b = "[]" and sr = "\<lparr>st_Mode = ''modify'', st_Destination = ''(''\<rparr>"]) (simp_all add: wf_sample_hoverfly plain_get_def)

end
