(* ===== verification/Startup.thy ===== *)
theory Startup
  imports Service
begin

text \<open>
  The program \<^verbatim>\<open>hoverfly\<close>, \<^verbatim>\<open>core/cmd/hoverfly/main.go\<close>: from parsed flags and the environment to a
  Hoverfly whose proxy is running, where the admin interface takes over. Parsing the flags, the
  database and the certificate files are outside.
\<close>

section \<open>Flags and their defaults\<close>

record flags =
  fl_version :: bool
  fl_verbose :: bool
  fl_capture :: bool
  fl_synthesize :: bool
  fl_modify :: bool
  fl_middleware :: string
  fl_proxyPort :: string
  fl_adminPort :: string
  fl_metrics :: bool
  fl_dev :: bool
  fl_destination :: string
  fl_webserver :: bool
  fl_addNew :: bool
  fl_addUser :: string
  fl_addPassword :: string
  fl_isAdmin :: bool
  fl_authEnabled :: bool
  fl_generateCA :: bool
  fl_certName :: string
  fl_certOrg :: string
  fl_cert :: string
  fl_key :: string
  fl_tlsVerification :: bool
  fl_upstreamProxy :: string
  fl_databasePath :: string
  fl_database :: string
  fl_disableCache :: bool
  fl_importFlags :: "string list"
  fl_destinationFlags :: "string list"

definition boltBackend :: string where "boltBackend = ''boltdb''"
definition inmemoryBackend :: string where "inmemoryBackend = ''memory''"

definition default_flags :: flags where
  "default_flags =
     \<lparr>fl_version = False, fl_verbose = False, fl_capture = False, fl_synthesize = False, fl_modify = False,
      fl_middleware = '''', fl_proxyPort = '''', fl_adminPort = '''', fl_metrics = False,
      fl_dev = False, fl_destination = ''.'', fl_webserver = False, fl_addNew = False, fl_addUser = '''', fl_addPassword = '''', fl_isAdmin = True,
      fl_authEnabled = False, fl_generateCA = False, fl_certName = ''hoverfly.proxy'',
      fl_certOrg = ''Hoverfly Authority'', fl_cert = '''', fl_key = '''', fl_tlsVerification = True,
      fl_upstreamProxy = '''', fl_databasePath = '''', fl_database = inmemoryBackend, fl_disableCache = False,
      fl_importFlags = [], fl_destinationFlags = []\<rparr>"

definition arrayFlags_Set :: "string \<Rightarrow> string list \<Rightarrow> string option \<times> string list" where
  "arrayFlags_Set val i = (None, i @ [val])"

text \<open>
  What \<^verbatim>\<open>main\<close> uses of the outside. \<open>mn_random_name\<close> is drawn when there is no secret; salts and
  UUIDs are numbered by the place that adds a user. \<open>mn_stdin\<close> is the standard input.
\<close>

record 'w main_world =
  mn_getenv :: "string \<Rightarrow> string"
  mn_random_name :: string
  mn_auth :: auth_libs
  mn_salt :: "nat \<Rightarrow> string"
  mn_uuid :: "nat \<Rightarrow> string"
  mn_stdin :: string
  mn_import :: "'w import_world"
  mn_bolt_open :: "string \<Rightarrow> 'w \<Rightarrow> (string + bolt_db) \<times> 'w"
  mn_generate_ca :: "string \<Rightarrow> string \<Rightarrow> 'w \<Rightarrow> string option \<times> 'w"
  mn_load_ca :: "string \<Rightarrow> string \<Rightarrow> 'w \<Rightarrow> string option \<times> 'w"

section \<open>The configuration\<close>

definition getInitialMode :: "flags \<Rightarrow> Configuration \<Rightarrow> string outcome" where
  "getInitialMode fl cfg =
     (if fl_webserver fl then Returns Simulate
      else if fl_capture fl then
        (if fl_synthesize fl \<or> fl_modify fl then Fatal ''Two or more modes supplied, check your flags''
         else Returns Capture)
      else if fl_synthesize fl then
        (if \<not> IsSet (cf_Middleware cfg) then Fatal ''Synthesize mode chosen although middleware not supplied''
         else if fl_capture fl \<or> fl_modify fl then Fatal ''Two or more modes supplied, check your flags''
         else Returns Synthesize)
      else if fl_modify fl then
        (if \<not> IsSet (cf_Middleware cfg) then Fatal ''Modify mode chosen although middleware not supplied''
         else if fl_capture fl \<or> fl_synthesize fl then Fatal ''Two or more modes supplied, check your flags''
         else Returns Modify)
      else Returns Simulate)"

definition install_ca :: "'w main_world \<Rightarrow> flags \<Rightarrow> ('w, unit) prog" where
  "install_ca M fl =
     (if fl_generateCA fl then bindp (liftp (mn_generate_ca M (fl_certName fl) (fl_certOrg fl))) (\<lambda>err. case err of
        Some err \<Rightarrow> (\<lambda>w. Fatal ''failed to generate certificate.'') | None \<Rightarrow> retp ())
      else if fl_cert fl \<noteq> '''' \<and> fl_key fl \<noteq> '''' then
        bindp (liftp (mn_load_ca M (fl_cert fl) (fl_key fl))) (\<lambda>err. case err of
          Some err \<Rightarrow> (\<lambda>w. Fatal (''Failed to load certifiate and key pair, got error: '' @ err))
        | None \<Rightarrow> retp ())
      else retp ())"

text \<open>The settings before the mode is known, and those after.\<close>

definition early_settings :: "flags \<Rightarrow> Configuration \<Rightarrow> Configuration" where
  "early_settings fl cfg =
     (let cfg = cfg\<lparr>cf_Verbose := fl_verbose fl\<rparr>;
          cfg = (if fl_proxyPort fl \<noteq> '''' then cfg\<lparr>cf_ProxyPort := fl_proxyPort fl\<rparr> else cfg);
          cfg = (if fl_adminPort fl \<noteq> '''' then cfg\<lparr>cf_AdminPort := fl_adminPort fl\<rparr> else cfg);
          cfg = (if fl_upstreamProxy fl \<noteq> '''' then SetUpstreamProxy (fl_upstreamProxy fl) cfg else cfg)
      in cfg\<lparr>cf_Development := fl_dev fl\<rparr>)"

definition late_settings :: "flags \<Rightarrow> Configuration \<Rightarrow> Configuration" where
  "late_settings fl cfg =
     (let cfg = (if fl_authEnabled fl then cfg\<lparr>cf_AuthEnabled := True\<rparr> else cfg);
          cfg = (if \<not> cf_TLSVerification cfg \<or> \<not> fl_tlsVerification fl
                 then cfg\<lparr>cf_TLSVerification := False\<rparr> else cfg);
          cfg = (if length (fl_destinationFlags fl) > 0
                 then cfg\<lparr>cf_Destination := Join (fl_destinationFlags fl) ''|''\<rparr>
                 else cfg\<lparr>cf_Destination := fl_destination fl\<rparr>)
      in if fl_databasePath fl \<noteq> '''' then cfg\<lparr>cf_DatabasePath := fl_databasePath fl\<rparr> else cfg)"

text \<open>Middleware that is refused is nil, and dereferenced.\<close>

definition configure :: "'w world \<Rightarrow> 'w main_world \<Rightarrow> flags \<Rightarrow> Configuration \<Rightarrow> ('w, Configuration) prog" where
  "configure W M fl cfg =
     bindp (install_ca M fl) (\<lambda>u.
     let cfg = early_settings fl cfg in
     bindp (ConvertToNewMiddleware W (fl_middleware fl)) (\<lambda>newMiddleware. case newMiddleware of
       Inl err \<Rightarrow> (\<lambda>w. Panics nil_deref)
     | Inr m \<Rightarrow>
         (\<lambda>w. let cfg = cfg\<lparr>cf_Middleware := m\<rparr> in bind_outcome (getInitialMode fl cfg) (\<lambda>mode.
            Returns (late_settings fl (Cfg_SetMode mode cfg), w)))))"

section \<open>The caches\<close>

text \<open>The caches for requests, metadata, tokens and users. The buckets share one database.\<close>

definition open_caches :: "'w main_world \<Rightarrow> flags \<Rightarrow> Configuration \<Rightarrow> ('w, store \<times> store \<times> store \<times> store) prog" where
  "open_caches M fl cfg =
     (if fl_database fl = boltBackend then
        bindp (liftp (mn_bolt_open M (cf_DatabasePath cfg))) (\<lambda>opened. case opened of
          Inl err \<Rightarrow> (\<lambda>w. Fatal err)
        | Inr db \<Rightarrow> retp (Bolt (NewBoltDBCache db ''requestsBucket''), Bolt (NewBoltDBCache db ''metadataBucket''),
            Bolt (NewBoltDBCache db ''tokenbucket''), Bolt (NewBoltDBCache db ''authbucket'')))
      else if fl_database fl = inmemoryBackend then
        retp (Memory NewInMemoryCache, Memory NewInMemoryCache, Memory NewInMemoryCache, Memory NewInMemoryCache)
      else (\<lambda>w. Fatal (''unknown database type chosen: '' @ fl_database fl)))"

definition create_hoverfly :: "'w world \<Rightarrow> 'w main_world \<Rightarrow> flags \<Rightarrow> Configuration \<Rightarrow> ('w, Hoverfly) prog" where
  "create_hoverfly W M fl cfg =
     bindp (open_caches M fl cfg) (\<lambda>(requestCache, metadataCache, tokenCache, userCache).
     let cfg = cfg\<lparr>cf_DisableCache := fl_disableCache fl\<rparr>;
         requestCache = (if cf_DisableCache cfg then None else Some requestCache)
     in (\<lambda>w. bind_outcome (GetNewHoverfly W cfg requestCache metadataCache
          (NewCacheBasedAuthBackend tokenCache userCache)) (\<lambda>hf. Returns (hf, w))))"

section \<open>The first users\<close>

definition add_user ::
  "'w main_world \<Rightarrow> nat \<Rightarrow> string \<Rightarrow> string \<Rightarrow> bool \<Rightarrow> Hoverfly \<Rightarrow> string option \<times> Hoverfly" where
  "add_user M n username password admin hf =
     (case AddUser (mn_auth M) (mn_salt M n) (mn_uuid M n) (hf_Authentication hf) username password admin of
        (err, ab) \<Rightarrow> (err, hf\<lparr>hf_Authentication := ab\<rparr>))"

definition add_flag_user :: "'w main_world \<Rightarrow> flags \<Rightarrow> Hoverfly \<Rightarrow> Hoverfly outcome" where
  "add_flag_user M fl hf =
     (if fl_addNew fl \<or> fl_authEnabled fl then
        (case add_user M 0 (fl_addUser fl) (fl_addPassword fl) (fl_isAdmin fl) hf of
           (Some err, hf) \<Rightarrow> Fatal ''failed to add new user''
         | (None, hf) \<Rightarrow> Returns (hf\<lparr>hf_Cfg := (hf_Cfg hf)\<lparr>cf_AuthEnabled := True\<rparr>\<rparr>))
      else Returns hf)"

definition add_env_user :: "'w main_world \<Rightarrow> Hoverfly \<Rightarrow> Hoverfly" where
  "add_env_user M hf =
     (let username = mn_getenv M ''HoverflyAdmin''; password = mn_getenv M ''HoverflyAdminPass'' in
      if username \<noteq> '''' \<and> password \<noteq> '''' then snd (add_user M 1 username password True hf) else hf)"

text \<open>\<^verbatim>\<open>ReadString\<close> up to a newline: what was read, or an error at the end of the input, and the rest.\<close>

definition newline :: char where "newline = char_of (10 :: nat)"

definition ReadString :: "string \<Rightarrow> (string + string) \<times> string" where
  "ReadString input = (case dropWhile (\<lambda>c. c \<noteq> newline) input of
     [] \<Rightarrow> (Inl ''EOF'', '''')
   | n # rest \<Rightarrow> (Inr (takeWhile (\<lambda>c. c \<noteq> newline) input @ [n]), rest))"

definition createSuperUser :: "'w main_world \<Rightarrow> Hoverfly \<Rightarrow> Hoverfly outcome" where
  "createSuperUser M hf = (case ReadString (mn_stdin M) of
     (Inl err, input) \<Rightarrow> Fatal ''error while getting username input''
   | (Inr username, input) \<Rightarrow> (case ReadString input of
       (Inl err, input) \<Rightarrow> Fatal ''error while getting password input''
     | (Inr password, input) \<Rightarrow>
         let username = TrimSpace username;
             username = (if username = '''' then ''hf'' else username);
             password = TrimSpace password;
             password = (if password = '''' then ''hf'' else password)
         in (case add_user M 2 username password True hf of
               (Some err, hf) \<Rightarrow> Fatal ''failed to create user.''
             | (None, hf) \<Rightarrow> Returns hf)))"

definition prepare_users :: "'w main_world \<Rightarrow> flags \<Rightarrow> Hoverfly \<Rightarrow> Hoverfly outcome" where
  "prepare_users M fl hf =
     bind_outcome (add_flag_user M fl hf) (\<lambda>hf.
       if \<not> cf_AuthEnabled (hf_Cfg hf) then Returns hf
       else (let hf = add_env_user M hf in
         bind_outcome (GetAllUsers (mn_auth M) (hf_Authentication hf)) (\<lambda>(users, err). case err of
           Some err \<Rightarrow> Fatal ''got error while trying to get all users''
         | None \<Rightarrow> if length users < 1 then createSuperUser M hf else Returns hf)))"

section \<open>The first simulations\<close>

definition set_metadata :: "string \<Rightarrow> string \<Rightarrow> Hoverfly \<Rightarrow> unit \<times> Hoverfly" where
  "set_metadata k v hf = ((), hf\<lparr>hf_MetadataCache := snd (store_Set (hf_MetadataCache hf) k v)\<rparr>)"

definition import_resource ::
  "'w world \<Rightarrow> 'w main_world \<Rightarrow> string \<Rightarrow> string \<Rightarrow> string \<Rightarrow> (Hoverfly \<times> 'w, unit) prog" where
  "import_resource W M failure k v = bindp (Import W (mn_import M) v) (\<lambda>err. case err of
     Some err \<Rightarrow> (\<lambda>s. Fatal failure)
   | None \<Rightarrow> on_hoverfly (set_metadata k v))"

fun import_flags :: "'w world \<Rightarrow> 'w main_world \<Rightarrow> int \<Rightarrow> string list \<Rightarrow> (Hoverfly \<times> 'w, unit) prog" where
  "import_flags W M i [] = retp ()"
| "import_flags W M i (v # vs) =
     bindp (if v \<noteq> '''' then import_resource W M ''Failed to import given resource'' (''import_'' @ Itoa (i + 1)) v
            else retp ()) (\<lambda>u. import_flags W M (i + 1) vs)"

definition import_all :: "'w world \<Rightarrow> 'w main_world \<Rightarrow> flags \<Rightarrow> (Hoverfly \<times> 'w, unit) prog" where
  "import_all W M fl =
     (let ev = mn_getenv M ''HoverflyImport'' in
      bindp (if ev \<noteq> '''' then import_resource W M
               ''Environment variable for importing was set but failed to import this resource''
               ''import_from_env_variable'' ev
             else retp ()) (\<lambda>u. import_flags W M 0 (fl_importFlags fl)))"

section \<open>The program\<close>

definition set_webserver :: "bool \<Rightarrow> Hoverfly \<Rightarrow> unit \<times> Hoverfly" where
  "set_webserver b hf = ((), hf\<lparr>hf_Cfg := (hf_Cfg hf)\<lparr>cf_Webserver := b\<rparr>\<rparr>)"

text \<open>From a Hoverfly with its users to one that serves.\<close>

definition launch :: "'w world \<Rightarrow> 'w main_world \<Rightarrow> flags \<Rightarrow> (Hoverfly \<times> 'w, unit) prog" where
  "launch W M fl =
     bindp (import_all W M fl) (\<lambda>u.
     bindp (on_hoverfly (set_webserver (fl_webserver fl))) (\<lambda>u.
     bindp (StartProxy W) (\<lambda>err. case err of
       Some err \<Rightarrow> (\<lambda>s. Fatal ''failed to start proxy...'')
     | None \<Rightarrow> retp ())))"

text \<open>Nothing when only the version is printed.\<close>

definition hoverfly_main :: "'w world \<Rightarrow> 'w main_world \<Rightarrow> flags \<Rightarrow> 'w \<Rightarrow> (Hoverfly \<times> 'w) option outcome" where
  "hoverfly_main W M fl w =
     (if fl_version fl then Returns None
      else bind_outcome (InitSettings W (mn_getenv M) (mn_random_name M) w) (\<lambda>(cfg, w).
        bind_outcome (configure W M fl cfg w) (\<lambda>(cfg, w).
        bind_outcome (create_hoverfly W M fl cfg w) (\<lambda>(hf, w).
        bind_outcome (prepare_users M fl hf) (\<lambda>hf.
        bind_outcome (launch W M fl (hf, w)) (\<lambda>(u, s). Returns (Some s)))))))"


section \<open>The mode Hoverfly starts in\<close>

text \<open>The modes the flags ask for, webserver mode apart, and the one they end in.\<close>

definition asked_modes :: "flags \<Rightarrow> string list" where
  "asked_modes fl = (if fl_capture fl then [Capture] else []) @ (if fl_synthesize fl then [Synthesize] else []) @
     (if fl_modify fl then [Modify] else [])"

definition flag_mode :: "flags \<Rightarrow> string" where
  "flag_mode fl = (if fl_webserver fl \<or> asked_modes fl = [] then Simulate else hd (asked_modes fl))"

definition startable :: "flags \<Rightarrow> Configuration \<Rightarrow> bool" where
  "startable fl cfg = (fl_webserver fl \<or> length (asked_modes fl) \<le> 1 \<and>
     (if flag_mode fl \<in> {Synthesize, Modify} then IsSet (cf_Middleware cfg) else True))"

text \<open>
  Hoverfly starts exactly when the flags ask for at most one mode, with middleware if that is
  synthesize or modify, and in this mode, simulate if none is asked for; as a webserver it always
  starts in simulate mode.
\<close>

lemma getInitialMode_correct:
  "(getInitialMode fl cfg = Returns mode \<longleftrightarrow> startable fl cfg \<and> mode = flag_mode fl) \<and>
   (panics (getInitialMode fl cfg) \<longleftrightarrow> \<not> startable fl cfg)"
  by (auto simp: getInitialMode_def flag_mode_def asked_modes_def startable_def Fatal_def mode_names)

lemma getInitialMode_Returns:
  "getInitialMode fl cfg = Returns mode \<Longrightarrow> mode = flag_mode fl \<and> mode \<in> set all_modes \<and>
     (fl_webserver fl \<longrightarrow> mode = Simulate)"
  by (auto simp: getInitialMode_def flag_mode_def asked_modes_def all_modes_def Fatal_def split: if_splits)

section \<open>What has started is well-formed\<close>

lemma refused_or:
  "case_sum (\<lambda>a w. Panics (e a)) g x w = Returns y \<longleftrightarrow> (\<exists>b. x = Inr b \<and> g b w = Returns y)"
  by (cases x) simp_all

lemma settings_keep [simp]:
  "cf_Mode (late_settings fl cfg) = cf_Mode cfg"
  "cf_Webserver (late_settings fl cfg) = cf_Webserver cfg"
  "cf_Webserver (early_settings fl cfg) = cf_Webserver cfg"
  by (simp_all add: late_settings_def early_settings_def SetUpstreamProxy_def Let_def)

lemma configure_mode:
  assumes "configure W M fl cfg w = Returns (cfg', w')"
  shows "cf_Mode cfg' = flag_mode fl \<and> flag_mode fl \<in> set all_modes \<and> (fl_webserver fl \<longrightarrow> flag_mode fl = Simulate) \<and>
    cf_Webserver cfg' = cf_Webserver cfg"
proof -
  from assms obtain m c where "getInitialMode fl c = Returns m" and "cf_Webserver c = cf_Webserver cfg"
      and "cfg' = late_settings fl (Cfg_SetMode m c)"
    by (auto simp: configure_def bindp_Returns bind_outcome_Returns_iff Let_def refused_or)
  then show ?thesis using getInitialMode_Returns[of fl c m] by (auto simp: Cfg_SetMode_def)
qed

lemma InitSettings_webserver: "InitSettings W env name w = Returns (cfg, w') \<Longrightarrow> \<not> cf_Webserver cfg"
  by (auto simp: InitSettings_def bindp_Returns bind_outcome_Returns_iff settings_from_env_def refused_or)

definition bolt_opens_ok :: "'w main_world \<Rightarrow> bool" where
  "bolt_opens_ok M = (\<forall>path w db w' name b.
     mn_bolt_open M path w = (Inr db, w') \<longrightarrow> tx_Bucket db name = Some b \<longrightarrow> sorted_bucket b)"

lemma open_caches_wf:
  assumes "open_caches M fl cfg w = Returns ((c1, c2, c3, c4), w')" and "bolt_opens_ok M"
  shows "wf_store c1 \<and> wf_store c2 \<and> wf_store c3 \<and> wf_store c4"
proof (cases "fl_database fl = boltBackend")
  case True
  then obtain db where db: "mn_bolt_open M (cf_DatabasePath cfg) w = (Inr db, w')"
      and c: "c1 = Bolt (NewBoltDBCache db ''requestsBucket'')" "c2 = Bolt (NewBoltDBCache db ''metadataBucket'')"
      "c3 = Bolt (NewBoltDBCache db ''tokenbucket'')" "c4 = Bolt (NewBoltDBCache db ''authbucket'')"
    using assms(1) by (cases "mn_bolt_open M (cf_DatabasePath cfg) w")
      (auto simp: open_caches_def bindp_def liftp_def Fatal_def split: sum.splits)
  have "wf_store (Bolt (NewBoltDBCache db name))" if "name \<noteq> []" for name
    using that assms(2)[unfolded bolt_opens_ok_def, rule_format, OF db]
    by (simp add: wf_bolt_def NewBoltDBCache_def)
  then show ?thesis by (simp add: c)
qed (use assms(1) in \<open>auto simp: open_caches_def Fatal_def wf_memory_def NewInMemoryCache_def split: if_splits\<close>)

lemma wf_hoverfly_new:
  assumes "GetNewHoverfly W cfg c1 c2 ab = Returns hf" and "cf_Mode cfg \<in> set all_modes"
    and "case c1 of None \<Rightarrow> True | Some c \<Rightarrow> wf_store c" and "wf_store c2" and "wf_auth ab" and "\<not> cf_Webserver cfg"
  shows "wf_hoverfly L hf \<and> hf_Cfg hf = cfg"
proof -
  have "map_get initial_modes Simulate = Some SimulateMode" "map_get initial_modes Modify = Some ModifyMode"
      "map_get initial_modes Synthesize = Some SynthesizeMode"
      "map_get initial_modes Capture = Some (CaptureMode \<lparr>ar_Headers = []\<rparr>)"
    by (simp_all add: initial_modes_def mode_names)
  then show ?thesis
    using assms by (auto simp: GetNewHoverfly_def build_hoverfly_def bind_outcome_Returns_iff wf_hoverfly_def
        modes_ok_def wf_matcher_def NewSimulation_def NewModeCounter_keys all_modes_def split: if_splits)
qed


lemma wf_auth_AddUser: "wf_auth b \<Longrightarrow> wf_auth (snd (AddUser A salt uuid b username password admin))"
  using store.Set_invar[of "ab_userCache b" username]
  by (auto simp: AddUser_def wf_auth_def Let_def split: sum.splits prod.splits) (metis snd_conv)+

definition users_of :: "Hoverfly \<Rightarrow> Hoverfly \<Rightarrow> bool" where
  "users_of hf hf' = (\<exists>ab e. (wf_auth (hf_Authentication hf) \<longrightarrow> wf_auth ab) \<and>
     hf' = hf\<lparr>hf_Authentication := ab, hf_Cfg := (hf_Cfg hf)\<lparr>cf_AuthEnabled := e\<rparr>\<rparr>)"

lemma users_of_refl: "users_of hf hf"
  unfolding users_of_def
  by (rule exI[of _ "hf_Authentication hf"], rule exI[of _ "cf_AuthEnabled (hf_Cfg hf)"]) simp

lemma users_of_trans: "users_of hf1 hf2 \<Longrightarrow> users_of hf2 hf3 \<Longrightarrow> users_of hf1 hf3"
  unfolding users_of_def by force

lemma users_of_add_user: "users_of hf (snd (add_user M n username password admin hf))"
proof -
  obtain err ab where a: "AddUser (mn_auth M) (mn_salt M n) (mn_uuid M n) (hf_Authentication hf) username password admin = (err, ab)"
    by fastforce
  then have "wf_auth (hf_Authentication hf) \<longrightarrow> wf_auth ab" by (metis wf_auth_AddUser snd_conv)
  then show ?thesis
    unfolding users_of_def add_user_def a by (intro exI[of _ ab] exI[of _ "cf_AuthEnabled (hf_Cfg hf)"]) simp
qed

lemma users_of_enable: "users_of hf (hf\<lparr>hf_Cfg := (hf_Cfg hf)\<lparr>cf_AuthEnabled := True\<rparr>\<rparr>)"
  unfolding users_of_def by (intro exI[of _ "hf_Authentication hf"] exI[of _ True]) simp

lemma users_of_steps:
  "add_flag_user M fl hf = Returns hf' \<Longrightarrow> users_of hf hf'"
  "users_of hf (add_env_user M hf)"
  "createSuperUser M hf = Returns hf' \<Longrightarrow> users_of hf hf'"
proof -
  have add: "add_user M n username password admin hf = (err, hf1) \<Longrightarrow> users_of hf hf1" for n username password admin err hf1
    using users_of_add_user[of hf M n username password admin] by simp
  show "add_flag_user M fl hf = Returns hf' \<Longrightarrow> users_of hf hf'"
    using users_of_trans[OF add users_of_enable]
    by (auto simp: add_flag_user_def Fatal_def users_of_refl split: if_splits prod.splits option.splits)
  show "users_of hf (add_env_user M hf)"
    by (simp add: add_env_user_def Let_def users_of_refl users_of_add_user)
  show "createSuperUser M hf = Returns hf' \<Longrightarrow> users_of hf hf'"
    using add by (auto simp: createSuperUser_def Fatal_def Let_def split: prod.splits sum.splits option.splits)
qed

lemma prepare_users_users_of:
  assumes "prepare_users M fl hf = Returns hf'"
  shows "users_of hf hf'"
proof -
  from assms obtain h where h: "add_flag_user M fl hf = Returns h"
      and "hf' = h \<or> hf' = add_env_user M h \<or> createSuperUser M (add_env_user M h) = Returns hf'"
    by (auto simp: prepare_users_def bind_outcome_Returns_iff Let_def Fatal_def split: if_splits option.splits)
  then have "users_of h hf'"
    using users_of_steps(2)[of h M] by (auto simp: users_of_refl intro: users_of_trans users_of_steps(3))
  then show ?thesis using users_of_trans users_of_steps(1)[OF h] by blast
qed

lemma wf_hoverfly_users: "users_of hf hf' \<Longrightarrow> wf_hoverfly L hf \<Longrightarrow> wf_hoverfly L hf'"
  by (auto simp: users_of_def wf_hoverfly_def modes_ok_def)


text \<open>Importing changes the simulation only; a launch adds the metadata and the proxy.\<close>

lemma PutSimulation_rest: "\<exists>s. snd (PutSimulation L v hf) = hf\<lparr>hf_Simulation := s\<rparr>"
  by (simp add: PutSimulation_eq Let_def SetResponseDelays_eq ImportRequestResponsePairViews_eq split: option.split)
    (metis Hoverfly.surjective Hoverfly.update_convs(11))

lemma preserves_Import [keeping]:
  assumes "\<And>hf v. I hf \<Longrightarrow> I (snd (PutSimulation (w_libs W) v hf))"
  shows "preserves (\<lambda>s. I (fst s)) (Import W J uri)"
proof -
  have b: "I (snd (import_body (w_libs W) J r hf))" if "I hf" for r hf
    using that assms by (auto simp: import_body_def split: sum.split)
  have u: "preserves (\<lambda>s. I (fst s)) (ImportFromURL (w_libs W) J uri)"
    unfolding ImportFromURL_def by (intro keeping b)
  have d: "preserves (\<lambda>s. I (fst s)) (ImportFromDisk (w_libs W) J uri)"
    using b by (auto simp: ImportFromDisk_def on_hoverfly_def intro!: preservesI split: sum.splits prod.splits)
      (metis snd_conv)
  show ?thesis
  proof (rule preservesI)
    fix s x s'
    assume I: "I (fst s)" and r: "Import W J uri s = Returns (x, s')"
    have "Import W J uri s = ImportFromURL (w_libs W) J uri s \<or> Import W J uri s = ImportFromDisk (w_libs W) J uri s \<or>
        (\<exists>e. Import W J uri s = Returns (Some e, s))"
      by (cases s) (simp add: Import_def split: sum.split)
    then show "I (fst s')"
    proof (elim disjE exE)
      assume "Import W J uri s = ImportFromURL (w_libs W) J uri s"
      then show ?thesis using preservesD[OF u I, of x s'] r by simp
    next
      assume "Import W J uri s = ImportFromDisk (w_libs W) J uri s"
      then show ?thesis using preservesD[OF d I, of x s'] r by simp
    next
      fix e
      assume "Import W J uri s = Returns (Some e, s)"
      then show ?thesis using r I by simp
    qed
  qed
qed

lemma preserves_import_all:
  assumes "\<And>hf v. I hf \<Longrightarrow> I (snd (PutSimulation (w_libs W) v hf))" and "\<And>k v hf. I hf \<Longrightarrow> I (snd (set_metadata k v hf))"
  shows "preserves (\<lambda>s. I (fst s)) (import_all W M fl)"
proof -
  have r: "preserves (\<lambda>s. I (fst s)) (import_resource W M f k v)" for f k v
    unfolding import_resource_def Fatal_def by (intro keeping assms)
  have "preserves (\<lambda>s. I (fst s)) (import_flags W M i vs)" for i vs
  proof (induction vs arbitrary: i)
    case (Cons v vs)
    then show ?case unfolding import_flags.simps by (intro keeping r)
  qed (simp add: preserves_retp)
  then show ?thesis unfolding import_all_def Let_def by (intro keeping r)
qed


definition imported :: "libs \<Rightarrow> Hoverfly \<Rightarrow> Hoverfly \<Rightarrow> bool" where
  "imported L hf hf' =
     (wf_hoverfly L hf' \<and> hf_Cfg hf' = hf_Cfg hf \<and> hf_Authentication hf' = hf_Authentication hf)"

lemma imported_steps:
  "imported L hf h \<Longrightarrow> imported L hf (snd (PutSimulation L v h))"
  "imported L hf h \<Longrightarrow> imported L hf (snd (set_metadata k d h))"
proof -
  obtain s where "snd (PutSimulation L v h) = h\<lparr>hf_Simulation := s\<rparr>" using PutSimulation_rest by blast
  then show "imported L hf h \<Longrightarrow> imported L hf (snd (PutSimulation L v h))"
    using wf_hoverfly_PutSimulation[of L h v] by (simp add: imported_def)
  show "imported L hf h \<Longrightarrow> imported L hf (snd (set_metadata k d h))"
    by (auto simp: imported_def set_metadata_def wf_hoverfly_def modes_ok_def store.Set_invar)
qed

lemma StartProxy_started:
  "StartProxy W (hf, w) = Returns (None, s') \<Longrightarrow>
     hf_SL (fst s') = Some False \<and> hf_Proxy (fst s') \<noteq> None \<and>
     (\<forall>p. hf_Proxy (fst s') = Some p \<longrightarrow> px_Webserver p = cf_Webserver (hf_Cfg hf) \<and>
        (\<not> px_Webserver p \<longrightarrow> px_Destination p = cf_Destination (hf_Cfg hf)))"
  by (cases "fst (w_listen W (CHR '':'' # cf_ProxyPort (hf_Cfg hf)) w)")
    (auto simp: StartProxy_def bind_outcome_Returns_iff Let_def NewProxy_def NewWebserverProxy_def
      split: if_splits prod.splits)

lemma launch_serves:
  assumes "launch W M fl (hf, w) = Returns (u, s')" and "wf_hoverfly (w_libs W) hf"
    and "fl_webserver fl \<longrightarrow> cf_Mode (hf_Cfg hf) \<noteq> Capture"
  shows "wf_hoverfly (w_libs W) (fst s') \<and> hf_SL (fst s') = Some False \<and>
    cf_Mode (hf_Cfg (fst s')) = cf_Mode (hf_Cfg hf) \<and> hf_Authentication (fst s') = hf_Authentication hf \<and>
    (\<exists>p. hf_Proxy (fst s') = Some p \<and> px_Webserver p = fl_webserver fl \<and>
      (\<not> fl_webserver fl \<longrightarrow> px_Destination p = cf_Destination (hf_Cfg hf)))"
proof -
  obtain h w1 where h: "import_all W M fl (hf, w) = Returns ((), (h, w1))"
      and start: "StartProxy W (h\<lparr>hf_Cfg := (hf_Cfg h)\<lparr>cf_Webserver := fl_webserver fl\<rparr>\<rparr>, w1) = Returns (None, s')"
    using assms(1)
    by (auto simp: launch_def bindp_Returns on_hoverfly_def set_webserver_def Fatal_def split: option.splits)
  have "imported (w_libs W) hf h"
    using preservesD[OF preserves_import_all[where I = "imported (w_libs W) hf", OF imported_steps] _ h] assms(2)
    by (simp add: imported_def)
  then have i: "wf_hoverfly (w_libs W) h" "hf_Cfg h = hf_Cfg hf" "hf_Authentication h = hf_Authentication hf"
    by (simp_all add: imported_def)
  let ?h = "h\<lparr>hf_Cfg := (hf_Cfg h)\<lparr>cf_Webserver := fl_webserver fl\<rparr>\<rparr>"
  have wf: "wf_hoverfly (w_libs W) ?h" using i assms(3) by (simp add: wf_hoverfly_def modes_ok_def)
  have "wf_hoverfly (w_libs W) (fst s')" by (rule wf_hoverfly_frame[OF wf StartProxy_frame[OF start]])
  then show ?thesis using StartProxy_frame[OF start] StartProxy_started[OF start] i by (auto simp: same_frame_def)
qed

lemma hoverfly_main_steps:
  assumes "hoverfly_main W M fl w = Returns (Some (hf, w'))"
  obtains c0 w0 cfg w1 h0 w2 h where "InitSettings W (mn_getenv M) (mn_random_name M) w = Returns (c0, w0)"
    and "configure W M fl c0 w0 = Returns (cfg, w1)" and "create_hoverfly W M fl cfg w1 = Returns (h0, w2)"
    and "prepare_users M fl h0 = Returns h" and "launch W M fl (h, w2) = Returns ((), (hf, w'))"
  using assms by (auto simp: hoverfly_main_def bind_outcome_Returns_iff split: if_splits)

lemma launch_keeps_auth:
  assumes "launch W M fl (hf, w) = Returns (u, s')"
  shows "hf_Authentication (fst s') = hf_Authentication hf"
proof -
  obtain h w1 where h: "import_all W M fl (hf, w) = Returns ((), (h, w1))"
      and start: "StartProxy W (h\<lparr>hf_Cfg := (hf_Cfg h)\<lparr>cf_Webserver := fl_webserver fl\<rparr>\<rparr>, w1) = Returns (None, s')"
    using assms
    by (auto simp: launch_def bindp_Returns on_hoverfly_def set_webserver_def Fatal_def split: option.splits)
  have put: "hf_Authentication (snd (PutSimulation L v h')) = hf_Authentication h'" for L v h'
    using PutSimulation_rest[of L v h'] by auto
  have "preserves (\<lambda>s. hf_Authentication (fst s) = hf_Authentication hf) (import_all W M fl)"
    by (rule preserves_import_all) (simp_all add: put set_metadata_def)
  from preservesD[OF this _ h] StartProxy_frame[OF start] show ?thesis by (simp add: same_frame_def)
qed

lemma main_serves_wf:
  assumes "hoverfly_main W M fl w = Returns (Some (hf, w'))" and "bolt_opens_ok M"
  shows "wf_hoverfly (w_libs W) hf \<and> hf_SL hf = Some False \<and> GetMode hf = flag_mode fl \<and>
    (\<exists>p. hf_Proxy hf = Some p \<and> px_Webserver p = fl_webserver fl \<and>
      (\<not> fl_webserver fl \<longrightarrow> px_Destination p =
        (if fl_destinationFlags fl = [] then fl_destination fl else Join (fl_destinationFlags fl) ''|'')))"
proof -
  from hoverfly_main_steps[OF assms(1)] obtain c0 w0 cfg w1 h0 w2 h where
      init: "InitSettings W (mn_getenv M) (mn_random_name M) w = Returns (c0, w0)" and
      conf: "configure W M fl c0 w0 = Returns (cfg, w1)" and
      new: "create_hoverfly W M fl cfg w1 = Returns (h0, w2)" and
      users: "prepare_users M fl h0 = Returns h" and launch: "launch W M fl (h, w2) = Returns ((), (hf, w'))" .
  note c = configure_mode[OF conf] InitSettings_webserver[OF init]
  let ?cfg = "cfg\<lparr>cf_DisableCache := fl_disableCache fl\<rparr>"
  from new obtain c1 c2 c3 c4 where caches: "open_caches M fl cfg w1 = Returns ((c1, c2, c3, c4), w2)" and
      hv: "GetNewHoverfly W ?cfg (if fl_disableCache fl then None else Some c1) c2
        (NewCacheBasedAuthBackend c3 c4) = Returns h0"
    by (auto simp: create_hoverfly_def bindp_Returns bind_outcome_Returns_iff Let_def split: prod.splits)
  note wf = open_caches_wf[OF caches assms(2)]
  have "wf_hoverfly (w_libs W) h0 \<and> hf_Cfg h0 = ?cfg"
    by (rule wf_hoverfly_new[OF hv]) (use wf c in \<open>auto simp: wf_auth_def NewCacheBasedAuthBackend_def\<close>)
  then have h: "wf_hoverfly (w_libs W) h" "cf_Mode (hf_Cfg h) = flag_mode fl" "cf_Destination (hf_Cfg h) = cf_Destination cfg"
    using wf_hoverfly_users[OF prepare_users_users_of[OF users], of "w_libs W"] prepare_users_users_of[OF users] c
    by (auto simp: users_of_def)
  have d: "cf_Destination cfg = (if fl_destinationFlags fl = [] then fl_destination fl else Join (fl_destinationFlags fl) ''|'')"
    using conf by (auto simp: configure_def bindp_Returns bind_outcome_Returns_iff Let_def refused_or late_settings_def)
  have "fl_webserver fl \<longrightarrow> cf_Mode (hf_Cfg h) \<noteq> Capture" using c h by (auto simp: mode_names)
  from launch_serves[OF launch h(1) this] show ?thesis using h(2,3) d by (auto simp: GetMode_def Cfg_GetMode_def)
qed

text \<open>
  C17: when \<^verbatim>\<open>main\<close> reaches the admin interface, the proxy is listening and Hoverfly is well-formed, in
  the mode the flags ask for, with a proxy of the kind and for the destinations they ask for,
  whatever was imported and whoever was added before.
\<close>

theorem main_serves:
  assumes "hoverfly_main W M fl w = Returns (Some (hf, w'))" and "bolt_opens_ok M"
  shows "wf_hoverfly (w_libs W) hf \<and> hf_SL hf = Some False \<and> GetMode hf = flag_mode fl \<and>
    (\<exists>p. hf_Proxy hf = Some p \<and> px_Webserver p = fl_webserver fl \<and>
      (\<not> fl_webserver fl \<longrightarrow> px_Destination p =
        (if fl_destinationFlags fl = [] then fl_destination fl else Join (fl_destinationFlags fl) ''|'')))"
  by (rule main_serves_wf[OF assms])


text \<open>Nothing set in the environment, nothing on the standard input, an empty database.\<close>

definition quiet_main :: "unit main_world" where
  "quiet_main = \<lparr>mn_getenv = (\<lambda>v. ''''), mn_random_name = ''key'', mn_auth = plain_auth,
     mn_salt = (\<lambda>n. ''salt''), mn_uuid = (\<lambda>n. ''1''), mn_stdin = '''',
     mn_import = \<lparr>im_url_regex = (\<lambda>s. False), im_stat = (\<lambda>p w. Some (''no such file'', True)),
       im_open = (\<lambda>p w. Inl ''no such file''), im_get = (\<lambda>u w. (Inl ''no route'', w)),
       im_unmarshal = (\<lambda>b. Inl ''not JSON'')\<rparr>,
     mn_bolt_open = (\<lambda>path w. (Inr \<lparr>db_buckets = []\<rparr>, w)),
     mn_generate_ca = (\<lambda>n org w. (None, w)), mn_load_ca = (\<lambda>c k w. (None, w))\<rparr>"

lemma quiet_settings:
  "InitSettings W (mn_getenv quiet_main) (mn_random_name quiet_main) w = Returns (zero_configuration
     \<lparr>cf_AdminPort := DefaultAdminPort, cf_ProxyPort := DefaultPort, cf_DatabasePath := DefaultDatabasePath,
      cf_SecretKey := ''key'', cf_JWTExpirationDelta := DefaultJWTExpirationDelta, cf_TLSVerification := True\<rparr>, w)"
  by (simp add: quiet_main_def InitSettings_default)

lemma quiet_configure:
  "\<exists>cfg. configure W M (default_flags\<lparr>fl_authEnabled := b\<rparr>) c w = Returns (cfg, w) \<and> cf_ProxyPort cfg = cf_ProxyPort c \<and>
     cf_AuthEnabled cfg = (cf_AuthEnabled c \<or> b) \<and> cf_UpstreamProxy cfg = cf_UpstreamProxy c \<and>
     cf_Middleware cfg = no_middleware"
  by (simp add: configure_def install_ca_def default_flags_def bindp_def retp_def ConvertToNewMiddleware_empty
      Let_def getInitialMode_def late_settings_def early_settings_def Cfg_SetMode_def)

lemma quiet_launch:
  assumes "cf_ProxyPort (hf_Cfg hf) \<noteq> ''''"
  shows "\<exists>hf'. launch (quiet_world r) (quiet_main\<lparr>mn_auth := A\<rparr>) (default_flags\<lparr>fl_authEnabled := b\<rparr>) (hf, ()) =
    Returns ((), (hf', ())) \<and> cf_Middleware (hf_Cfg hf') = cf_Middleware (hf_Cfg hf)"
  using assms
  by (simp add: launch_def import_all_def quiet_main_def default_flags_def bindp_def retp_def on_hoverfly_def
      set_webserver_def StartProxy_def NewProxy_def quiet_world_def no_libs_def Let_def)

text \<open>With these flags \<^verbatim>\<open>main\<close> gets as far as the users, and past them if they can be prepared.\<close>

lemma quiet_main_runs:
  fixes b A
  defines "fl \<equiv> default_flags\<lparr>fl_authEnabled := b\<rparr>" and "M \<equiv> quiet_main\<lparr>mn_auth := A\<rparr>"
  assumes "\<And>h. \<lbrakk>cf_AuthEnabled (hf_Cfg h) = b; ab_userCache (hf_Authentication h) = Memory NewInMemoryCache\<rbrakk> \<Longrightarrow>
    \<exists>h'. prepare_users M fl h = Returns h'"
  shows "\<exists>hf. hoverfly_main (quiet_world (Finished [])) M fl () = Returns (Some (hf, ())) \<and>
    cf_Middleware (hf_Cfg hf) = no_middleware"
proof -
  let ?W = "quiet_world (Finished [])"
  let ?c = "zero_configuration\<lparr>cf_AdminPort := DefaultAdminPort, cf_ProxyPort := DefaultPort,
     cf_DatabasePath := DefaultDatabasePath, cf_SecretKey := ''key'',
     cf_JWTExpirationDelta := DefaultJWTExpirationDelta, cf_TLSVerification := True\<rparr>"
  obtain cfg where conf: "configure ?W M fl ?c () = Returns (cfg, ())"
      and cfg: "cf_ProxyPort cfg = DefaultPort" "cf_AuthEnabled cfg = b" "cf_UpstreamProxy cfg = ''''"
        "cf_Middleware cfg = no_middleware"
    using quiet_configure[of ?W M b ?c "()"] by (auto simp: zero_configuration_def fl_def)
  obtain h where new: "create_hoverfly ?W M fl cfg () = Returns (h, ())"
      and h: "hf_Cfg h = cfg\<lparr>cf_DisableCache := False\<rparr>" "ab_userCache (hf_Authentication h) = Memory NewInMemoryCache"
    using cfg by (simp add: create_hoverfly_def open_caches_def fl_def default_flags_def boltBackend_def
        inmemoryBackend_def bindp_def retp_def GetNewHoverfly_def build_hoverfly_def NewCacheBasedAuthBackend_def
        GetDefaultHoverflyHTTPClient_def)
  obtain h' where users: "prepare_users M fl h = Returns h'" using assms(3)[of h] h cfg by auto
  have h': "cf_ProxyPort (hf_Cfg h') \<noteq> ''''" "cf_Middleware (hf_Cfg h') = no_middleware"
    using prepare_users_users_of[OF users] h cfg by (auto simp: users_of_def DefaultPort_def)
  then obtain hf where launch: "launch ?W M fl (h', ()) = Returns ((), (hf, ()))"
      and m: "cf_Middleware (hf_Cfg hf) = no_middleware"
    using quiet_launch[of h' "Finished []" A b] by (auto simp: M_def fl_def)
  have env: "mn_getenv M = mn_getenv quiet_main" "mn_random_name M = mn_random_name quiet_main" "\<not> fl_version fl"
    by (simp_all add: M_def fl_def default_flags_def)
  show ?thesis by (simp add: hoverfly_main_def env quiet_settings conf new users launch m)
qed

lemma quiet_main_starts:
  "\<exists>hf. hoverfly_main (quiet_world (Finished [])) quiet_main default_flags () = Returns (Some (hf, ())) \<and>
     cf_Middleware (hf_Cfg hf) = no_middleware"
proof -
  have same: "default_flags\<lparr>fl_authEnabled := False\<rparr> = default_flags" "quiet_main\<lparr>mn_auth := plain_auth\<rparr> = quiet_main"
    by (simp_all add: default_flags_def quiet_main_def)
  show ?thesis
    by (rule quiet_main_runs[of False plain_auth, unfolded same])
      (simp add: prepare_users_def add_flag_user_def default_flags_def)
qed

theorem main_serves_witness:
  "\<exists>hf. hoverfly_main (quiet_world (Finished [])) quiet_main default_flags () = Returns (Some (hf, ())) \<and>
     wf_hoverfly no_libs hf \<and> hf_SL hf = Some False \<and> GetMode hf = Simulate"
proof -
  obtain hf where run: "hoverfly_main (quiet_world (Finished [])) quiet_main default_flags () = Returns (Some (hf, ()))"
    using quiet_main_starts by blast
  have "bolt_opens_ok quiet_main" by (simp add: bolt_opens_ok_def quiet_main_def tx_Bucket_def map_get_def)
  from main_serves[OF run this] run show ?thesis
    by (auto simp: flag_mode_def asked_modes_def default_flags_def quiet_world_def)
qed

section \<open>The user of the flags\<close>

definition stored_user :: "string \<Rightarrow> string \<Rightarrow> Hoverfly \<Rightarrow> bool" where
  "stored_user name bytes hf =
     (\<exists>c. ab_userCache (hf_Authentication hf) = Memory c \<and> map_get (elements c) name = Some bytes)"

lemma stored_user_add_other:
  "name \<noteq> username \<Longrightarrow> stored_user name bytes hf \<Longrightarrow> stored_user name bytes (snd (add_user M n username password admin hf))"
  by (auto simp: stored_user_def add_user_def AddUser_def Let_def Mem_Set_def split: sum.split prod.split)

lemma stored_user_add:
  assumes "ab_userCache (hf_Authentication hf) = Memory c"
    and "au_encode (mn_auth M) \<lparr>us_UUID = mn_uuid M n, us_Username = username,
      us_Password = bc_generate (mn_auth M) password (mn_salt M n), us_IsAdmin = admin\<rparr> = Inr bytes"
  shows "stored_user username bytes (snd (add_user M n username password admin hf))"
  using assms by (simp add: stored_user_def add_user_def AddUser_def User_Encode_def Mem_Set_def)

lemma stored_user_Authenticate:
  assumes "stored_user name bytes hf" and "bytes \<noteq> []" and "au_decode A bytes = Inr (Some v)"
    and "us_Password v = bc_generate A password salt" and "us_Username v = name" and "hash_checks A"
    and "us_Username u = name" and "us_Password u = password"
  shows "Authenticate A (InitJWTAuthenticationBackend (hf_Authentication hf) secret exp) u"
  using assms by (auto simp: stored_user_def Authenticate_def GetUser_def DecodeUser_def InitJWTAuthenticationBackend_def
      Mem_Get_def map_index_def map_get_def hash_checks_def Let_def)


lemma Memory_users:
  "fl_database fl = inmemoryBackend \<Longrightarrow> create_hoverfly W M fl cfg w = Returns (hf, w') \<Longrightarrow>
     \<exists>c. ab_userCache (hf_Authentication hf) = Memory c"
  by (auto simp: create_hoverfly_def open_caches_def inmemoryBackend_def boltBackend_def bindp_def retp_def
      bind_outcome_Returns_iff GetNewHoverfly_def build_hoverfly_def NewCacheBasedAuthBackend_def Let_def split: if_splits)

lemma createSuperUser_adds:
  "createSuperUser M hf = Returns hf' \<Longrightarrow>
     \<exists>username password. username \<noteq> '''' \<and> hf' = snd (add_user M 2 username password True hf)"
  by (auto simp: createSuperUser_def Fatal_def Let_def split: prod.splits sum.splits option.splits if_splits)
    (metis list.distinct(1) snd_conv)+

lemma prepare_users_stored:
  assumes "prepare_users M fl hf = Returns hf'" and "fl_authEnabled fl" and "fl_addUser fl = ''''"
    and "ab_userCache (hf_Authentication hf) = Memory c"
    and "au_encode (mn_auth M) \<lparr>us_UUID = mn_uuid M 0, us_Username = '''',
      us_Password = bc_generate (mn_auth M) (fl_addPassword fl) (mn_salt M 0), us_IsAdmin = fl_isAdmin fl\<rparr> = Inr bytes"
  shows "stored_user '''' bytes hf'"
proof -
  from assms(1) obtain h where h: "add_flag_user M fl hf = Returns h"
      and steps: "hf' = h \<or> hf' = add_env_user M h \<or> createSuperUser M (add_env_user M h) = Returns hf'"
    by (auto simp: prepare_users_def bind_outcome_Returns_iff Let_def Fatal_def split: if_splits option.splits)
  have "stored_user '''' bytes (snd (add_user M 0 (fl_addUser fl) (fl_addPassword fl) (fl_isAdmin fl) hf))"
    unfolding assms(3) by (rule stored_user_add[OF assms(4,5)])
  then have s: "stored_user '''' bytes h"
    using h assms(2) by (auto simp: add_flag_user_def Fatal_def stored_user_def split: if_splits prod.splits option.splits)
  have e: "stored_user '''' bytes (add_env_user M h)"
    using s by (auto simp: add_env_user_def Let_def intro!: stored_user_add_other)
  show ?thesis
    using steps s e createSuperUser_adds[of M "add_env_user M h" hf'] by (auto intro: stored_user_add_other)
qed

text \<open>
  Started with authentication and without a user name, with the database in memory, Hoverfly
  lets in a user without a name, with the password of the flags: by default nobody is asked for a
  user, and the empty name with the empty password logs in.
\<close>

lemma user_without_name:
  assumes "hoverfly_main W M fl w = Returns (Some (hf, w'))" and "fl_authEnabled fl"
    and "fl_database fl = inmemoryBackend" and "fl_addUser fl = ''''" and "hash_checks (mn_auth M)"
    and "au_encode (mn_auth M) \<lparr>us_UUID = mn_uuid M 0, us_Username = '''',
      us_Password = bc_generate (mn_auth M) (fl_addPassword fl) (mn_salt M 0), us_IsAdmin = fl_isAdmin fl\<rparr> = Inr bytes"
    and "bytes \<noteq> ''''"
    and "au_decode (mn_auth M) bytes = Inr (Some \<lparr>us_UUID = mn_uuid M 0, us_Username = '''',
      us_Password = bc_generate (mn_auth M) (fl_addPassword fl) (mn_salt M 0), us_IsAdmin = fl_isAdmin fl\<rparr>)"
  shows "Authenticate (mn_auth M) (InitJWTAuthenticationBackend (hf_Authentication hf) secret exp)
    \<lparr>us_UUID = x, us_Username = '''', us_Password = fl_addPassword fl, us_IsAdmin = y\<rparr>"
proof -
  from hoverfly_main_steps[OF assms(1)] obtain cfg w1 h0 w2 h where new: "create_hoverfly W M fl cfg w1 = Returns (h0, w2)"
      and users: "prepare_users M fl h0 = Returns h" and launch: "launch W M fl (h, w2) = Returns ((), (hf, w'))" by metis
  obtain c where "ab_userCache (hf_Authentication h0) = Memory c" using Memory_users[OF assms(3) new] by blast
  from prepare_users_stored[OF users assms(2,4) this assms(6)] have "stored_user '''' bytes hf"
    using launch_keeps_auth[OF launch] by (simp add: stored_user_def)
  from stored_user_Authenticate[OF this assms(7,8) _ _ assms(5)] show ?thesis by simp
qed

definition nameless_auth :: auth_libs where
  "nameless_auth = plain_auth\<lparr>au_decode := (\<lambda>s. Inr (Some
     \<lparr>us_UUID = ''1'', us_Username = '''', us_Password = '''', us_IsAdmin = True\<rparr>))\<rparr>"

lemma user_without_name_witness:
  "\<exists>hf. hoverfly_main (quiet_world (Finished [])) (quiet_main\<lparr>mn_auth := nameless_auth\<rparr>)
      (default_flags\<lparr>fl_authEnabled := True\<rparr>) () = Returns (Some (hf, ())) \<and>
    Authenticate nameless_auth (InitJWTAuthenticationBackend (hf_Authentication hf) ''key'' 1)
      \<lparr>us_UUID = '''', us_Username = '''', us_Password = '''', us_IsAdmin = False\<rparr>"
proof -
  have "\<exists>hf. hoverfly_main (quiet_world (Finished [])) (quiet_main\<lparr>mn_auth := nameless_auth\<rparr>)
      (default_flags\<lparr>fl_authEnabled := True\<rparr>) () = Returns (Some (hf, ())) \<and>
      cf_Middleware (hf_Cfg hf) = no_middleware"
    by (rule quiet_main_runs)
      (simp add: prepare_users_def add_flag_user_def default_flags_def add_user_def AddUser_def User_Encode_def
        Mem_Set_def quiet_main_def nameless_auth_def plain_auth_def add_env_user_def GetAllUsers_def DecodeUser_def
        Mem_GetAllValues_def NewInMemoryCache_def map_put_def)
  then obtain hf where run: "hoverfly_main (quiet_world (Finished [])) (quiet_main\<lparr>mn_auth := nameless_auth\<rparr>)
      (default_flags\<lparr>fl_authEnabled := True\<rparr>) () = Returns (Some (hf, ()))" by blast
  have "hash_checks nameless_auth" by (simp add: hash_checks_def nameless_auth_def plain_auth_def)
  with user_without_name[OF run, of "''user''" "''key''" 1 "''''" False] run show ?thesis
    by (auto simp: default_flags_def quiet_main_def nameless_auth_def plain_auth_def)
qed

end
