(* ===== verification/System.thy ===== *)
theory System
  imports ApiLaws Startup
begin

text \<open>
  Hoverfly as a whole: the states it reaches by answering proxied requests and calls of the admin
  API, in any order, from its start in some mode. The reachable states are well-formed, which is why
  requests are always answered.
\<close>

section \<open>Handlers and steps keep a property of the Hoverfly\<close>

lemma preserves_reading [keeping]: "preserves I (reading r)"
  by (auto simp: reading_def bind_outcome_Returns_iff intro: preservesI)

text \<open>Handlers keep what the service steps keep.\<close>

lemma preserves_serving [keeping]: "preserves I m \<Longrightarrow> preserves (\<lambda>s. I (fst s)) (serving m)"
  by (auto simp: serving_def bind_outcome_Returns_iff intro!: preservesI dest: preservesD)

lemma preserves_writing [keeping]: "preserves (\<lambda>s. I (fst s)) (writing f)"
  by (auto simp: writing_def intro!: preservesI)

section \<open>The services keep Hoverfly well-formed\<close>

abbreviation well_formed :: "'w world \<Rightarrow> Hoverfly \<times> 'w \<Rightarrow> bool" where
  "well_formed W s \<equiv> wf_hoverfly (w_libs W) (fst s)"

lemma preserves_read_hoverfly [keeping]: "preserves I (read_hoverfly f)"
  by (auto simp: read_hoverfly_def intro: preservesI)

lemma preserves_try_hoverfly [keeping]:
  "(\<And>hf x hf'. wf_hoverfly L hf \<Longrightarrow> f hf = Returns (x, hf') \<Longrightarrow> wf_hoverfly L hf') \<Longrightarrow>
     preserves (\<lambda>s. wf_hoverfly L (fst s)) (try_hoverfly f)"
  by (auto simp: try_hoverfly_Returns intro!: preservesI)

lemma wf_hoverfly_SetDestination [keeping]:
  "preserves (\<lambda>s. wf_hoverfly L (fst s)) (SetDestination W d)"
  by (rule preserves_frame) (rule SetDestination_frame)

lemma wf_hoverfly_SetMiddleware [keeping]:
  "preserves (\<lambda>s. wf_hoverfly L (fst s)) (SetMiddleware W binary script remote)"
  by (rule preserves_frame) (rule SetMiddleware_frame)

lemma wf_hoverfly_GetMiddleware [keeping]: "preserves (\<lambda>s. wf_hoverfly L (fst s)) (GetMiddleware W)"
  by (auto simp: GetMiddleware_def bindp_Returns in_world_Returns Let_def intro!: preservesI)

lemma wf_metadata_result [keeping]:
  "\<lbrakk>wf_hoverfly L hf; wf_store (snd r)\<rbrakk> \<Longrightarrow> wf_hoverfly L (snd (metadata_result r hf))"
  by (cases r; cases "fst r") (auto simp: metadata_result_def wf_hoverfly_def modes_ok_def)


lemma preserves_metadata [keeping]:
  assumes "\<And>c. wf_store c \<Longrightarrow> wf_store (snd (g c))"
  shows "preserves (\<lambda>s. wf_hoverfly L (fst s)) (on_hoverfly (\<lambda>hf. metadata_result (g (GetMetadataCache hf)) hf))"
proof (rule preserves_on_hoverfly)
  fix hf
  assume wf: "wf_hoverfly L hf"
  then have "wf_store (snd (g (GetMetadataCache hf)))"
    by (auto simp: GetMetadataCache_def wf_hoverfly_def intro: assms)
  then show "wf_hoverfly L (snd (metadata_result (g (GetMetadataCache hf)) hf))"
    by (rule wf_metadata_result[OF wf])
qed

lemma preserves_SetMode [keeping]:
  "preserves (\<lambda>s. wf_hoverfly L (fst s)) (try_hoverfly (SetModeWithArguments L' v))"
  "preserves (\<lambda>s. wf_hoverfly L (fst s)) (try_hoverfly (SetMode L' m))"
  by (auto simp: SetMode_def intro!: preserves_try_hoverfly elim: wf_hoverfly_SetMode)

lemma preserves_delays [keeping]:
  "preserves (\<lambda>s. wf_hoverfly L (fst s)) (on_hoverfly (SetResponseDelays L d))"
  "preserves (\<lambda>s. wf_hoverfly L (fst s)) (on_hoverfly (\<lambda>hf. ((), DeleteResponseDelays hf)))"
  "preserves (\<lambda>s. wf_hoverfly L (fst s)) (on_hoverfly (PutSimulation L v))"
  "preserves (\<lambda>s. wf_hoverfly L (fst s)) (on_hoverfly (\<lambda>hf. ((), DeleteSimulation hf)))"
  "preserves (\<lambda>s. wf_hoverfly L (fst s)) (on_hoverfly Svc_FlushCache)"
  by (simp_all add: preserves_on_hoverfly wf_hoverfly_SetResponseDelays wf_hoverfly_DeleteResponseDelays
      wf_hoverfly_PutSimulation wf_hoverfly_DeleteSimulation wf_hoverfly_FlushCache)

lemma preserves_logs [keeping]:
  "preserves (\<lambda>s. wf_hoverfly L (fst s)) (try_hoverfly (\<lambda>hf. bind_outcome (f hf) (\<lambda>v. Returns (v, hf))))"
  by (rule preserves_try_hoverfly) (auto simp: bind_outcome_Returns_iff)

section \<open>The handlers keep what every method of the service keeps\<close>

locale invariant_service =
  fixes S :: "'s service" and I :: "'s \<Rightarrow> bool" and auth_ok :: "CacheAuthBackend \<Rightarrow> bool"
  assumes GetDestination: "preserves I (sv_GetDestination S)"
    and SetDestination: "preserves I (sv_SetDestination S d)"
    and GetMode: "preserves I (sv_GetMode S)"
    and SetMode: "preserves I (sv_SetMode S m)"
    and SetModeWithArguments: "preserves I (sv_SetModeWithArguments S v)"
    and GetMiddleware: "preserves I (sv_GetMiddleware S)"
    and SetMiddleware: "preserves I (sv_SetMiddleware S binary script remote)"
    and GetStats: "preserves I (sv_GetStats S)"
    and GetVersion: "preserves I (sv_GetVersion S)"
    and GetUpstreamProxy: "preserves I (sv_GetUpstreamProxy S)"
    and GetSimulationPairsCount: "preserves I (sv_GetSimulationPairsCount S)"
    and GetResponseDelays: "preserves I (sv_GetResponseDelays S)"
    and SetResponseDelays: "preserves I (sv_SetResponseDelays S p)"
    and DeleteResponseDelays: "preserves I (sv_DeleteResponseDelays S)"
    and Metadata_GetAllEntries: "preserves I (sv_Metadata_GetAllEntries S)"
    and Metadata_Set: "preserves I (sv_Metadata_Set S key val)"
    and Metadata_DeleteData: "preserves I (sv_Metadata_DeleteData S)"
    and GetSimulation: "preserves I (sv_GetSimulation S)"
    and PutSimulation: "preserves I (sv_PutSimulation S sim)"
    and DeleteSimulation: "preserves I (sv_DeleteSimulation S)"
    and GetCache: "preserves I (sv_GetCache S)"
    and FlushCache: "preserves I (sv_FlushCache S)"
    and GetLogsView: "preserves I (sv_GetLogsView S)"
    and GetFilteredLogsView: "preserves I (sv_GetFilteredLogsView S limit)"
    and Authentication: "I s \<Longrightarrow> auth_ok (sv_Authentication S s)"
    and SetAuthentication: "\<lbrakk>I s; auth_ok ab\<rbrakk> \<Longrightarrow> I (sv_SetAuthentication S ab s)"
    and auth_Logout: "auth_ok ab \<Longrightarrow> auth_ok (snd (Logout A r ab secret exp))"
begin

lemmas methods = GetDestination SetDestination GetMode SetMode SetModeWithArguments GetMiddleware SetMiddleware
  GetStats GetVersion GetUpstreamProxy GetSimulationPairsCount GetResponseDelays SetResponseDelays
  DeleteResponseDelays Metadata_GetAllEntries Metadata_Set Metadata_DeleteData GetSimulation PutSimulation
  DeleteSimulation GetCache FlushCache GetLogsView GetFilteredLogsView

lemma v1_handlers:
  "preserves (\<lambda>s. I (fst s)) (CountHandler_Get S C)"
  "preserves (\<lambda>s. I (fst s)) (DelaysHandler_Get S C)"
  "preserves (\<lambda>s. I (fst s)) (DelaysHandler_Put S C req)"
  "preserves (\<lambda>s. I (fst s)) (DelaysHandler_Delete S C)"
  "preserves (\<lambda>s. I (fst s)) (HealthHandler_Get C)"
  "preserves (\<lambda>s. I (fst s)) (MetadataHandler_Get S C)"
  "preserves (\<lambda>s. I (fst s)) (MetadataHandler_Put S C req)"
  "preserves (\<lambda>s. I (fst s)) (MetadataHandler_Delete S C)"
  "preserves (\<lambda>s. I (fst s)) (StateHandler_Get S C)"
  "preserves (\<lambda>s. I (fst s)) (StateHandler_Post S C req)"
  "preserves (\<lambda>s. I (fst s)) (StatsHandler_Get S C)"
  "preserves (\<lambda>s. I (fst s)) upgraded"
  unfolding CountHandler_Get_def DelaysHandler_Get_def DelaysHandler_Put_def DelaysHandler_Delete_def
    HealthHandler_Get_def MetadataHandler_Get_def MetadataHandler_Put_def MetadataHandler_Delete_def
    StateHandler_Get_def StateHandler_Post_def state_destination_def StatsHandler_Get_def upgraded_def
    json_message_def Let_def
  by (intro keeping methods)+

lemma v2_handlers:
  "preserves (\<lambda>s. I (fst s)) (HoverflyHandler_Get S C)"
  "preserves (\<lambda>s. I (fst s)) (HoverflyDestinationHandler_Get S C)"
  "preserves (\<lambda>s. I (fst s)) (HoverflyDestinationHandler_Put S C req)"
  "preserves (\<lambda>s. I (fst s)) (HoverflyModeHandler_Get S C)"
  "preserves (\<lambda>s. I (fst s)) (HoverflyModeHandler_Put S C req)"
  "preserves (\<lambda>s. I (fst s)) (HoverflyMiddlewareHandler_Get S C)"
  "preserves (\<lambda>s. I (fst s)) (HoverflyMiddlewareHandler_Put S C req)"
  "preserves (\<lambda>s. I (fst s)) (HoverflyUsageHandler_Get S C)"
  "preserves (\<lambda>s. I (fst s)) (HoverflyVersionHandler_Get S C)"
  "preserves (\<lambda>s. I (fst s)) (HoverflyUpstreamProxyHandler_Get S C)"
  "preserves (\<lambda>s. I (fst s)) (SimulationHandler_Get S C)"
  "preserves (\<lambda>s. I (fst s)) (SimulationHandler_Put S C req)"
  "preserves (\<lambda>s. I (fst s)) (SimulationHandler_Delete S C)"
  "preserves (\<lambda>s. I (fst s)) (SimulationHandler_GetSchema C)"
  "preserves (\<lambda>s. I (fst s)) (CacheHandler_Get S C)"
  "preserves (\<lambda>s. I (fst s)) (CacheHandler_Delete S C)"
  "preserves (\<lambda>s. I (fst s)) (LogsHandler_Get S C req)"
  unfolding HoverflyHandler_Get_def HoverflyDestinationHandler_Get_def HoverflyDestinationHandler_Put_def
    HoverflyModeHandler_Get_def HoverflyModeHandler_Put_def HoverflyMiddlewareHandler_Get_def
    HoverflyMiddlewareHandler_Put_def HoverflyUsageHandler_Get_def HoverflyVersionHandler_Get_def
    HoverflyUpstreamProxyHandler_Get_def SimulationHandler_Get_def SimulationHandler_Put_def
    SimulationHandler_Delete_def SimulationHandler_GetSchema_def CacheHandler_Get_def CacheHandler_Delete_def
    LogsHandler_Get_def Let_def
  by (intro keeping methods)+

lemma auth_handlers:
  "preserves (\<lambda>s. I (fst s)) (AuthHandler_Login S C E a r)"
  "preserves (\<lambda>s. I (fst s)) (AuthHandler_RefreshToken S C E a r)"
  "preserves (\<lambda>s. I (fst s)) (AuthHandler_Logout S E a r)"
  "preserves (\<lambda>s. I (fst s)) (AuthHandler_GetAllUsers S C E)"
proof -
  have "I (sv_SetAuthentication S ab s)"
    if "I s" "Logout A r (sv_Authentication S s) secret exp = (err, ab)" for s A secret exp err ab
    using that SetAuthentication[OF that(1)] auth_Logout[OF Authentication[OF that(1)], of A r secret exp] by simp
  then show "preserves (\<lambda>s. I (fst s)) (AuthHandler_Logout S E a r)"
    by (auto simp: AuthHandler_Logout_def Let_def intro!: preservesI split: if_splits prod.splits)
qed (auto simp: AuthHandler_Login_def AuthHandler_RefreshToken_def AuthHandler_GetAllUsers_def Let_def
    bind_outcome_Returns_iff intro!: preservesI split: if_splits option.splits prod.splits)

lemma routes:
  assumes "rt \<in> set (getBoneRouter S C E a)"
  shows "preserves (\<lambda>s. I (fst s)) (rt_handler rt req)"
  using assms unfolding getBoneRouter_def auth_routes_def v1_routes_defs v2_routes_defs
  by (auto simp: v1_handlers v2_handlers auth_handlers)

lemma mux_parse_route: "mux_parse req routes = Some rt \<Longrightarrow> rt \<in> set routes"
  by (auto simp: mux_parse_def find_route_def find_Some_iff split: option.splits if_splits)

lemma api:
  assumes "preserves (\<lambda>s. I (fst s)) (ui req)"
  shows "preserves (\<lambda>s. I (fst s)) (serve_api S C E a ui req)"
proof (cases "mux_parse req (getBoneRouter S C E a)")
  case (Some rt)
  have h: "preserves (\<lambda>s. I (fst s)) (rt_handler rt req)" by (rule routes[OF mux_parse_route[OF Some]])
  then have "preserves (\<lambda>s. I (fst s)) (RequireTokenAuthentication S E a req (rt_handler rt req))"
    by (rule preserves_either[OF _ preserves_writing[of I "WriteHeader 401"]])
      (simp add: RequireTokenAuthentication_def)
  then show ?thesis using h by (simp add: serve_api_def Some)
qed (simp add: serve_api_def assms)

end

lemma wf_hoverfly_SetAuthentication:
  "\<lbrakk>wf_hoverfly L hf; wf_auth ab\<rbrakk> \<Longrightarrow> wf_hoverfly L (hf\<lparr>hf_Authentication := ab\<rparr>)"
  by (simp add: wf_hoverfly_def modes_ok_def)

lemma wf_auth_Logout: "wf_auth ab \<Longrightarrow> wf_auth (snd (Logout A r ab secret exp))"
  using InvalidateToken_store(2)[of ab]
  by (auto simp: Logout_def JWT_Logout_def InitJWTAuthenticationBackend_def Let_def split: sum.split)

interpretation keeping_hoverfly: invariant_service "hoverfly_service W now" "well_formed W" wf_auth
  for W :: "'w world" and now
proof
  show "wf_auth (sv_Authentication (hoverfly_service W now) s)" if "well_formed W s" for s
    using that by (auto simp: hoverfly_service_def wf_hoverfly_def split: prod.splits)
  show "well_formed W (sv_SetAuthentication (hoverfly_service W now) ab s)"
    if "well_formed W s" "wf_auth ab" for s ab
    using that by (auto simp: hoverfly_service_def wf_hoverfly_SetAuthentication split: prod.splits)
  show "preserves (well_formed W) (sv_Metadata_Set (hoverfly_service W now) k v)" for k v
    using preserves_metadata[of "\<lambda>c. store_Set c k v"] by (simp add: hoverfly_service_def store.Set_invar)
qed (simp_all add: hoverfly_service_def keeping wf_auth_Logout store.Set_invar store.DeleteData_invar)



section \<open>The proxy keeps what answering and counting keep\<close>

locale proxy_invariant =
  fixes E :: "'w proxy_env" and I :: "Hoverfly \<Rightarrow> bool"
  assumes answer: "preserves (\<lambda>s. I (fst s)) (processRequest (pe_world E) r)"
    and count: "\<lbrakk>I hf; Count m (hf_Counter hf) = Returns c\<rbrakk> \<Longrightarrow> I (hf\<lparr>hf_Counter := c\<rparr>)"
begin

lemma handlers:
  assumes "h \<in> set (req_handlers E p)"
  shows "preserves (\<lambda>s. I (fst s)) (h r)"
proof -
  have "preserves (\<lambda>s. I (fst s)) (basic_handler E r)"
    by (auto simp: basic_handler_def intro!: preservesI split: prod.splits bool.splits)
  moreover have "preserves (\<lambda>s. I (fst s)) (process_handler E d r)" for d
    unfolding process_handler_def by (intro keeping answer)
  moreover have "preserves (\<lambda>s. I (fst s)) (verbose_handler r)"
    unfolding verbose_handler_def by (intro keeping)
  ultimately show ?thesis using assms by (auto simp: req_handlers_def split: if_splits)
qed

lemma filter_request:
  "set hs \<subseteq> set (req_handlers E p) \<Longrightarrow> preserves (\<lambda>s. I (fst s)) (filterRequest hs r q)"
proof (induction hs arbitrary: r q)
  case (Cons h hs)
  have h: "preserves (\<lambda>s. I (fst s)) (h r')" for r' using Cons.prems by (intro handlers[of h p]) simp
  have hs: "preserves (\<lambda>s. I (fst s)) (filterRequest hs r' q')" for r' q' using Cons by simp
  show ?case unfolding filterRequest.simps by (intro keeping h hs)
qed (simp add: preserves_retp)

lemma filter_response: "preserves (\<lambda>s. I (fst s)) (filterResponse E p r resp)"
proof -
  have c: "preserves (\<lambda>s. I (fst s)) (count_handler E d r)" for d
    by (auto simp: count_handler_def bind_outcome_Returns_iff intro!: preservesI count split: if_splits)
  show ?thesis unfolding filterResponse_def by (intro keeping c)
qed

lemma served: "preserves (\<lambda>s. I (fst (fst s))) (ServeHTTP E p r)"
  unfolding ServeHTTP_def nonproxy_handler_def webserver_handler_def Let_def
  by (intro keeping filter_request[OF subset_refl] filter_response answer)

end

lemma wf_hoverfly_Count:
  "\<lbrakk>wf_hoverfly L hf; Count m (hf_Counter hf) = Returns c\<rbrakk> \<Longrightarrow> wf_hoverfly L (hf\<lparr>hf_Counter := c\<rparr>)"
  using Count_keys[of m "hf_Counter hf" c] by (auto simp: wf_hoverfly_def modes_ok_def)

lemma preserves_processRequest: "preserves (\<lambda>s. wf_hoverfly L (fst s)) (processRequest W r)"
  by (rule preservesI) (rule wf_hoverfly_processRequest)

interpretation wf_proxy: proxy_invariant E "wf_hoverfly L" for E :: "'w proxy_env" and L
  by unfold_locales (rule preserves_processRequest, rule wf_hoverfly_Count)

section \<open>Every request is answered\<close>

text \<open>What a state needs for its requests to be answered, and every handler leaves in place.\<close>

definition answering :: "libs \<Rightarrow> Hoverfly \<Rightarrow> bool" where
  "answering L hf = (wf_hoverfly L hf \<and> \<not> IsMiddlewareSet hf)"

interpretation answering_proxy: proxy_invariant E "answering L" for E :: "'w proxy_env" and L
proof
  show "preserves (\<lambda>s. answering L (fst s)) (processRequest (pe_world E) r)" for r
  proof (rule preservesI)
    fix s x s'
    assume a: "answering L (fst s)" and p: "processRequest (pe_world E) r s = Returns (x, s')"
    have "hf_Cfg (fst s') = hf_Cfg (fst s)" using always_Returns[OF processRequest_keeps_Counter p] by simp
    then show "answering L (fst s')"
      using a wf_hoverfly_processRequest[OF _ p, of L] by (simp add: answering_def IsMiddlewareSet_def)
  qed
qed (simp add: answering_def IsMiddlewareSet_def wf_hoverfly_Count)

lemma wf_hoverfly_counts:
  assumes "wf_hoverfly L hf"
  shows "\<not> panics (Count (Cfg_GetMode (hf_Cfg hf)) (hf_Counter hf))"
proof -
  have "cf_Mode (hf_Cfg hf) \<in> set (map_keys (ct_Counters (hf_Counter hf)))"
    using assms by (auto simp: wf_hoverfly_def modes_ok_def)
  then show ?thesis
    unfolding map_get_Some_iff[symmetric] by (auto simp: Count_panics_iff Cfg_GetMode_def)
qed

lemma returns_then:
  "\<lbrakk>returns m s; preserves I m; I s; \<And>x s'. I s' \<Longrightarrow> returns (f x) s'\<rbrakk> \<Longrightarrow> returns (bindp m f) s"
  by (auto simp: returns_bindp_at always_def dest: preservesD)

lemma returns_served_then:
  "\<lbrakk>returns m s; preserves (\<lambda>s. I (fst s)) m; I (fst s); \<And>x s'. I (fst s') \<Longrightarrow> returns (f x) (s', w)\<rbrakk> \<Longrightarrow>
     returns (bindp (serving m) f) (s, w)"
  by (auto simp: returns_bindp_at returns_serving always_serving always_def dest: preservesD)

lemma handler_returns:
  assumes "h \<in> set (req_handlers E p)" and "answering (w_libs (pe_world E)) (fst s)" and "upstream_ok (pe_world E)"
  shows "returns (h r) s"
proof -
  have p: "returns (processRequest (pe_world E) r) s" for r
    using processRequest_total[of "pe_world E" s] assms(2,3) by (simp add: answering_def)
  have "returns (process_handler E d r) s" for d
    using p[of r] by (auto simp: process_handler_def returns_bindp_at returns_retp always_def split: prod.split)
  moreover have "returns (basic_handler E r) s"
    by (cases s) (simp add: returns_def basic_handler_def split: prod.split bool.split)
  ultimately show ?thesis
    using assms(1) by (auto simp: req_handlers_def verbose_handler_def returns_retp split: if_splits)
qed

lemma filterRequest_returns:
  assumes "set hs \<subseteq> set (req_handlers E p)" and "answering (w_libs (pe_world E)) (fst s)" and "upstream_ok (pe_world E)"
  shows "returns (filterRequest hs r q) s"
  using assms(1,2)
proof (induction hs arbitrary: r q s)
  case (Cons h hs)
  have "h \<in> set (req_handlers E p)" using Cons.prems by simp
  note h = handler_returns[OF this Cons.prems(2) assms(3)] answering_proxy.handlers[OF this]
  show ?case
    unfolding filterRequest.simps
    by (rule returns_then[OF h(1) h(2) Cons.prems(2)])
      (use Cons in \<open>auto simp: returns_retp split: option.split\<close>)
qed (simp add: returns_retp)

lemma filterResponse_returns:
  assumes "answering L (fst s)"
  shows "returns (filterResponse E p r resp) s"
  using wf_hoverfly_counts[of L "fst s"] assms
  by (cases s; cases "Count (Cfg_GetMode (hf_Cfg (fst s))) (hf_Counter (fst s))")
    (auto simp: filterResponse_def returns_def count_handler_def bindp_def retp_def answering_def)

lemma ServeHTTP_returns:
  assumes "answering (w_libs (pe_world E)) (fst s)" and "upstream_ok (pe_world E)"
  shows "returns (ServeHTTP E p r) (s, wr)"
proof -
  let ?L = "w_libs (pe_world E)"
  note kept = answering_proxy.filter_response[of ?L E p]
  have out: "returns (bindp (serving (filterResponse E p r' resp)) (\<lambda>u. writing f)) (s', wr)"
    if "answering ?L (fst s')" for s' r' resp f
    using that by (intro returns_served_then[OF filterResponse_returns kept]) (simp_all add: returns_writing)
  have rt: "returns (bindp (serving (in_world (liftp (pe_round_trip E r')))) g) (s', wr)"
    if "answering ?L (fst s')" and "\<And>x s'. answering ?L (fst s') \<Longrightarrow> returns (g x) (s', wr)" for r' g s'
    using that by (intro returns_served_then[where I = "answering ?L"])
      (auto simp: returns_in_world returns_liftp intro: preserves_in_world split: prod.split)
  have p: "returns (processRequest (pe_world E) r) s"
    using processRequest_total[of "pe_world E" s] assms by (simp add: answering_def)
  show ?thesis
  proof (cases "hq_URL_Scheme r = ''''")
    case True
    have "returns (webserver_handler E r) (s, wr)"
      unfolding webserver_handler_def
      by (rule returns_served_then[OF p answering_proxy.answer assms(1)])
        (auto simp: returns_writing split: prod.split sum.split)
    then show ?thesis using True by (simp add: ServeHTTP_def nonproxy_handler_def returns_writing)
  next
    case False
    have f: "returns (filterRequest (req_handlers E p) r True) s"
      by (rule filterRequest_returns[OF subset_refl assms])
    show ?thesis
      unfolding ServeHTTP_def using False
      by (simp, intro returns_served_then[OF f answering_proxy.filter_request[OF subset_refl] assms(1)])
        (auto simp: Let_def out intro!: rt split: option.split sum.split)
  qed
qed

section \<open>The states Hoverfly reaches\<close>

text \<open>
  A run of the program: \<^verbatim>\<open>main\<close>, then requests to the proxy it serves, calls of the admin API, entries
  of the log, and changes of the world around, in any order. The pages of the user interface, \<open>ui\<close>,
  leave Hoverfly alone. Requests that overlap in time are taken one after the other, and a run ends
  at a panic, which net/http would recover from.
\<close>

record 'w run =
  rn_world :: "'w world"
  rn_main :: "'w main_world"
  rn_flags :: flags
  rn_start :: 'w
  rn_codec :: api_codec
  rn_ui :: "http_request \<Rightarrow> response_writer \<Rightarrow> response_writer"

inductive reachable :: "'w run \<Rightarrow> Hoverfly \<times> 'w \<Rightarrow> bool" for R :: "'w run" where
  started: "hoverfly_main (rn_world R) (rn_main R) (rn_flags R) (rn_start R) = Returns (Some s) \<Longrightarrow> reachable R s"
| proxied: "\<lbrakk>reachable R s; hf_Proxy (fst s) = Some p; pe_world E = rn_world R;
     ServeHTTP E p r (s, new_writer) = Returns (u, (s', wr))\<rbrakk> \<Longrightarrow> reachable R s'"
| called: "\<lbrakk>reachable R s;
     serve_api (hoverfly_service (rn_world R) now) (rn_codec R) A a (\<lambda>r. writing (rn_ui R r)) r (s, new_writer) =
       Returns (u, (s', wr))\<rbrakk> \<Longrightarrow> reachable R s'"
| logged: "reachable R (hf, w) \<Longrightarrow> reachable R (hf\<lparr>hf_StoreLogsHook := StoreLogsHook_Fire entry (hf_StoreLogsHook hf)\<rparr>, w)"
| elsewhere: "reachable R (hf, w) \<Longrightarrow> reachable R (hf, w')"

lemma reachable_well_formed:
  assumes "bolt_opens_ok (rn_main R)" and "reachable R s"
  shows "well_formed (rn_world R) s"
  using assms(2)
proof (induction rule: reachable.induct)
  case (started s)
  then obtain hf w where "s = (hf, w)" by fastforce
  then show ?case using main_serves_wf[OF started[unfolded \<open>s = (hf, w)\<close>] assms(1)] by simp
next
  case (proxied s p E r u s' wr)
  then show ?case using preservesD[OF wf_proxy.served _ proxied(4)] by simp
next
  case (called s now A a r u s' wr)
  from preservesD[OF keeping_hoverfly.api[OF preserves_writing] _ called(2)] called(3) show ?case by simp
next
  case (logged hf w entry)
  then show ?case by (simp add: wf_hoverfly_def modes_ok_def)
qed simp



definition quiet_run :: "unit run" where
  "quiet_run = \<lparr>rn_world = quiet_world (Finished []), rn_main = quiet_main, rn_flags = default_flags,
     rn_start = (), rn_codec = plain_codec, rn_ui = (\<lambda>r w. w)\<rparr>"

lemma quiet_run_ok: "bolt_opens_ok (rn_main quiet_run)" "upstream_ok (rn_world quiet_run)"
  by (simp_all add: quiet_run_def bolt_opens_ok_def quiet_main_def tx_Bucket_def map_get_def upstream_ok_def quiet_world_def)

lemma quiet_run_starts:
  "\<exists>hf p. reachable quiet_run (hf, ()) \<and> \<not> IsMiddlewareSet hf \<and> hf_Proxy hf = Some p"
proof -
  obtain hf where m: "hoverfly_main (quiet_world (Finished [])) quiet_main default_flags () = Returns (Some (hf, ()))"
      and "cf_Middleware (hf_Cfg hf) = no_middleware" using quiet_main_starts by blast
  then have "\<not> IsMiddlewareSet hf" by (simp add: IsMiddlewareSet_def IsSet_def no_middleware_def)
  moreover have "\<exists>p. hf_Proxy hf = Some p"
    using main_serves_wf[OF m] quiet_run_ok(1) by (auto simp: quiet_run_def)
  moreover have "reachable quiet_run (hf, ())" by (rule reachable.started) (simp add: quiet_run_def m)
  ultimately show ?thesis by blast
qed



end
