(* ===== verification/Certs.thy ===== *)
theory Certs
  imports Prelude
begin

text \<open>
  The certificate authority Hoverfly makes for itself with \<^verbatim>\<open>-generate-ca-cert\<close>, \<^verbatim>\<open>core/certs/certs.go\<close>:
  what goes into the two certificates and where they are written. Key generation, hashes, the clock,
  the signing and the encodings are the standard library, functions of the record \<open>crypto\<close>; a key is
  what identifies it, the bytes of a certificate and of a public key are strings.
\<close>

section \<open>Certificates and keys\<close>

datatype key_usage = KeyEncipherment | DigitalSignature | CertSign

record certificate =
  ct_SerialNumber :: int
  ct_CommonName :: string
  ct_Organization :: "string list"
  ct_SubjectKeyId :: string
  ct_KeyUsage :: "key_usage list"
  ct_ServerAuth :: bool
  ct_BasicConstraintsValid :: bool
  ct_NotBefore :: int
  ct_NotAfter :: int
  ct_DNSNames :: "string list"
  ct_IPAddresses :: "string list"
  ct_IsCA :: bool
  ct_Raw :: string

datatype private_key = RSA string | ECDSA string | OtherKey

record pem_block =
  pb_Type :: string
  pb_Bytes :: string

record tls_certificate =
  tc_Certificate :: "string list"
  tc_PrivateKey :: string
  tc_Leaf :: certificate

record 'w crypto =
  cy_generate :: "'w \<Rightarrow> (string + string) \<times> 'w"
  cy_public :: "string \<Rightarrow> string"
  cy_pkix :: "string \<Rightarrow> string + string"
  cy_sha1 :: "string \<Rightarrow> string"
  cy_serial :: "int \<Rightarrow> 'w \<Rightarrow> (string + int) \<times> 'w"
  cy_now :: "'w \<Rightarrow> int \<times> 'w"
  cy_create :: "certificate \<Rightarrow> certificate \<Rightarrow> string \<Rightarrow> string \<Rightarrow> 'w \<Rightarrow> (string + string) \<times> 'w"
  cy_parse :: "string \<Rightarrow> string + certificate"
  cy_pkcs1 :: "string \<Rightarrow> string"
  cy_ec :: "string \<Rightarrow> string + string"
  cy_pem :: "pem_block \<Rightarrow> string"
  cy_split_host_port :: "string \<Rightarrow> string + string \<times> string"
  cy_is_ip :: "string \<Rightarrow> bool"
  cy_write :: "string \<Rightarrow> string \<Rightarrow> 'w \<Rightarrow> string option \<times> 'w"

text \<open>Twenty bytes of 255.\<close>

definition MaxSerialNumber :: int where
  "MaxSerialNumber = 2 ^ 160 - 1"

definition exits :: "string \<Rightarrow> ('w, 'a) prog" where
  "exits message = (\<lambda>w. Panics (''exit status 1: '' @ message))"

text \<open>A call that fails ends the function with its error.\<close>

definition trying :: "('w, string + 'a) prog \<Rightarrow> ('a \<Rightarrow> ('w, string + 'b) prog) \<Rightarrow> ('w, string + 'b) prog" where
  "trying m f = bindp m (\<lambda>r. case r of Inl err \<Rightarrow> retp (Inl err) | Inr x \<Rightarrow> f x)"

section \<open>The functions\<close>

definition PemBlockForKey :: "'w crypto \<Rightarrow> private_key \<Rightarrow> ('w, pem_block option) prog" where
  "PemBlockForKey C priv = (case priv of
     RSA k \<Rightarrow> retp (Some \<lparr>pb_Type = ''RSA PRIVATE KEY'', pb_Bytes = cy_pkcs1 C k\<rparr>)
   | ECDSA k \<Rightarrow> (case cy_ec C k of
       Inl err \<Rightarrow> exits ''Unable to marshal ECDSA private key''
     | Inr b \<Rightarrow> retp (Some \<lparr>pb_Type = ''EC PRIVATE KEY'', pb_Bytes = b\<rparr>))
   | OtherKey \<Rightarrow> retp None)"

definition NewCertificatePair :: "'w crypto \<Rightarrow> string \<Rightarrow> string \<Rightarrow> int \<Rightarrow> ('w, string + certificate \<times> string) prog" where
  "NewCertificatePair C name organization validity =
     trying (liftp (cy_generate C)) (\<lambda>priv.
     trying (retp (cy_pkix C (cy_public C priv))) (\<lambda>pkixpub.
     let keyID = cy_sha1 C pkixpub in
     trying (liftp (cy_serial C MaxSerialNumber)) (\<lambda>serial.
     bindp (liftp (cy_now C)) (\<lambda>now1.
     bindp (liftp (cy_now C)) (\<lambda>now2.
     let tmpl = \<lparr>ct_SerialNumber = serial, ct_CommonName = name, ct_Organization = [organization],
                 ct_SubjectKeyId = keyID, ct_KeyUsage = [KeyEncipherment, DigitalSignature, CertSign],
                 ct_ServerAuth = True, ct_BasicConstraintsValid = True,
                 ct_NotBefore = now1 - validity, ct_NotAfter = now2 + validity,
                 ct_DNSNames = [name], ct_IPAddresses = [], ct_IsCA = True, ct_Raw = ''''\<rparr>
     in trying (liftp (cy_create C tmpl tmpl (cy_public C priv) priv)) (\<lambda>raw.
        trying (retp (cy_parse C raw)) (\<lambda>x509c. retp (Inr (x509c, priv)))))))))"

definition GetTLSCertificate ::
  "'w crypto \<Rightarrow> certificate \<Rightarrow> string \<Rightarrow> string \<Rightarrow> int \<Rightarrow> ('w, string + tls_certificate) prog" where
  "GetTLSCertificate C cert priv hostname validity =
     (let hostname = (case cy_split_host_port C hostname of Inl err \<Rightarrow> hostname | Inr (host, port) \<Rightarrow> host) in
      trying (retp (cy_pkix C (cy_public C priv))) (\<lambda>pkixpub.
      let keyID = cy_sha1 C pkixpub in
      trying (liftp (cy_serial C MaxSerialNumber)) (\<lambda>serial.
      bindp (liftp (cy_now C)) (\<lambda>now1.
      bindp (liftp (cy_now C)) (\<lambda>now2.
      let tmpl = \<lparr>ct_SerialNumber = serial, ct_CommonName = hostname, ct_Organization = ct_Organization cert,
                  ct_SubjectKeyId = keyID, ct_KeyUsage = [KeyEncipherment, DigitalSignature],
                  ct_ServerAuth = True, ct_BasicConstraintsValid = True,
                  ct_NotBefore = now1 + validity, ct_NotAfter = now2 + validity,
                  ct_DNSNames = (if cy_is_ip C hostname then [] else [hostname]),
                  ct_IPAddresses = (if cy_is_ip C hostname then [hostname] else []),
                  ct_IsCA = False, ct_Raw = ''''\<rparr>
      in trying (liftp (cy_create C tmpl cert (cy_public C priv) priv)) (\<lambda>raw.
         trying (retp (cy_parse C raw)) (\<lambda>x509c.
           retp (Inr \<lparr>tc_Certificate = [raw, ct_Raw cert], tc_PrivateKey = priv, tc_Leaf = x509c\<rparr>))))))))"

text \<open>What \<^verbatim>\<open>pem.Encode\<close> writes of a nil block is nothing the program meets: its key is an RSA key.\<close>

definition GenerateAndSave :: "'w crypto \<Rightarrow> string \<Rightarrow> string \<Rightarrow> int \<Rightarrow> ('w, string + tls_certificate) prog" where
  "GenerateAndSave C name organization validity =
     bindp (NewCertificatePair C name organization validity) (\<lambda>pair. case pair of
       Inl err \<Rightarrow> exits (''Failed to generate certificate and key pair, got error: '' @ err)
     | Inr (x509c, priv) \<Rightarrow>
         bindp (liftp (cy_write C ''cert.pem'' (cy_pem C \<lparr>pb_Type = ''CERTIFICATE'', pb_Bytes = ct_Raw x509c\<rparr>))) (\<lambda>err. case err of
           Some err \<Rightarrow> retp (Inl err)
         | None \<Rightarrow> bindp (PemBlockForKey C (RSA priv)) (\<lambda>block.
             bindp (liftp (cy_write C ''key.pem'' (case block of Some b \<Rightarrow> cy_pem C b | None \<Rightarrow> ''''))) (\<lambda>err. case err of
               Some err \<Rightarrow> retp (Inl err)
             | None \<Rightarrow> GetTLSCertificate C x509c priv ''hoverfly.proxy'' validity))))"

section \<open>When they are valid\<close>

definition valid_at :: "int \<Rightarrow> certificate \<Rightarrow> bool" where
  "valid_at t cert \<longleftrightarrow> ct_NotBefore cert \<le> t \<and> t \<le> ct_NotAfter cert"

text \<open>Signing keeps the times of the template, and the clock does not run backwards.\<close>

definition faithful :: "'w crypto \<Rightarrow> bool" where
  "faithful C \<longleftrightarrow> (\<forall>tmpl parent pub priv w raw w' cert. cy_create C tmpl parent pub priv w = (Inr raw, w') \<longrightarrow>
     cy_parse C raw = Inr cert \<longrightarrow> ct_NotBefore cert = ct_NotBefore tmpl \<and> ct_NotAfter cert = ct_NotAfter tmpl)"

definition clock_from :: "'w crypto \<Rightarrow> int \<Rightarrow> bool" where
  "clock_from C t \<longleftrightarrow> (\<forall>w. t \<le> fst (cy_now C w))"

lemma always_seq:
  assumes "\<And>x s'. m s = Returns (x, s') \<Longrightarrow> always (f x) P s'"
  shows "always (bindp m f) P s"
  using assms by (auto simp: always_def bindp_Returns)

lemma always_try:
  assumes "\<And>e s'. P (Inl e) s'" and "\<And>x s'. m s = Returns (Inr x, s') \<Longrightarrow> always (f x) P s'"
  shows "always (trying m f) P s"
  unfolding trying_def
proof (rule always_seq)
  fix r s' assume "m s = Returns (r, s')"
  then show "always (case r of Inl err \<Rightarrow> retp (Inl err) | Inr x \<Rightarrow> f x) P s'"
    using assms by (cases r) (simp_all add: always_retp)
qed

lemma faithful_NotBefore:
  "\<lbrakk>faithful C; (Inr raw, w') = cy_create C tmpl parent pub priv w; Inr cert = cy_parse C raw\<rbrakk>
     \<Longrightarrow> ct_NotBefore cert = ct_NotBefore tmpl"
  unfolding faithful_def by metis

lemma GetTLSCertificate_times:
  assumes "faithful C"
  shows "always (GetTLSCertificate C cert priv hostname validity)
    (\<lambda>r w'. \<forall>t. r = Inr t \<longrightarrow> (\<exists>w1. ct_NotBefore (tc_Leaf t) = fst (cy_now C w1) + validity)) w"
  unfolding GetTLSCertificate_def Let_def
proof (intro always_seq always_try, goal_cases)
  case (5 pkixpub w1 serial w2 now1 w3 now2 w4 raw w5 x509c w6)
  from 5 have "ct_NotBefore x509c = now1 + validity" by (auto dest: faithful_NotBefore[OF assms])
  moreover from 5 have "now1 = fst (cy_now C w2)" by (metis fst_conv liftp_Returns)
  ultimately show ?case by (auto simp: always_retp)
qed simp_all

text \<open>
  The certificate Hoverfly signs with is not valid before the validity it was asked for has passed:
  the beginning of its time is where the end should be.
\<close>

lemma tls_certificate_not_valid_yet:
  assumes "faithful C" and "clock_from C start" and "now < start + validity"
  shows "always (GenerateAndSave C name organization validity) (\<lambda>r w'. \<forall>t. r = Inr t \<longrightarrow> \<not> valid_at now (tc_Leaf t)) w"
proof -
  have tls: "always (GetTLSCertificate C x509c priv ''hoverfly.proxy'' validity)
      (\<lambda>r w'. \<forall>t. r = Inr t \<longrightarrow> \<not> valid_at now (tc_Leaf t)) w1" for x509c priv w1
  proof (rule always_mono[OF GetTLSCertificate_times[OF assms(1)]], intro allI impI)
    fix r t and s' :: 'a
    assume "\<forall>t. r = Inr t \<longrightarrow> (\<exists>w1. ct_NotBefore (tc_Leaf t) = fst (cy_now C w1) + validity)" and "r = Inr t"
    then obtain w1 where "ct_NotBefore (tc_Leaf t) = fst (cy_now C w1) + validity" by blast
    moreover have "start \<le> fst (cy_now C w1)" using assms(2) by (simp add: clock_from_def)
    ultimately show "\<not> valid_at now (tc_Leaf t)" using assms(3) by (simp add: valid_at_def)
  qed
  show ?thesis unfolding GenerateAndSave_def
    by (auto simp: always_retp always_panics exits_def tls split: sum.splits option.splits intro!: always_seq)
qed

end
