(* ===== verification/Hoverctl.thy ===== *)
theory Hoverctl
  imports Http Views
begin

text \<open>
  The library of \<^verbatim>\<open>hoverctl\<close>, \<^verbatim>\<open>hoverctl/wrapper\<close>: its configuration and the flags it starts Hoverfly
  with (\<^verbatim>\<open>config.go\<close>), the directory with process ids and logs (\<^verbatim>\<open>hoverfly_directory.go\<close>, \<^verbatim>\<open>logfile.go\<close>,
  \<^verbatim>\<open>file.go\<close>) and the client of the admin API (\<^verbatim>\<open>hoverfly.go\<close>). Files are a map of the state; processes,
  the network, YAML and JSON are parameters.
\<close>

section \<open>Configuration\<close>

record Config =
  cg_HoverflyHost :: string
  cg_HoverflyAdminPort :: string
  cg_HoverflyProxyPort :: string
  cg_HoverflyDbType :: string
  cg_HoverflyUsername :: string
  cg_HoverflyPassword :: string
  cg_HoverflyWebserver :: bool
  cg_HoverflyCertificate :: string
  cg_HoverflyKey :: string
  cg_HoverflyDisableTls :: bool
  cg_HoverflyUpstreamProxy :: string
  cg_HoverflyCacheDisable :: bool

text \<open>
  What \<^verbatim>\<open>viper\<close> holds: the values of the configuration file, if one was read, the defaults, and the
  path of the file.
\<close>

datatype setting_value = SString string | SBool bool

record viper =
  vi_file :: "setting_value gomap"
  vi_defaults :: "setting_value gomap"
  vi_path :: string

definition viper_value :: "viper \<Rightarrow> string \<Rightarrow> setting_value option" where
  "viper_value v key = (case map_get (vi_file v) key of Some x \<Rightarrow> Some x | None \<Rightarrow> map_get (vi_defaults v) key)"

definition GetString :: "viper \<Rightarrow> string \<Rightarrow> string" where
  "GetString v key = (case viper_value v key of
     Some (SString s) \<Rightarrow> s | Some (SBool b) \<Rightarrow> (if b then ''true'' else ''false'') | None \<Rightarrow> '''')"

definition GetBool :: "viper \<Rightarrow> string \<Rightarrow> bool" where
  "GetBool v key = (case viper_value v key of
     Some (SBool b) \<Rightarrow> b
   | Some (SString s) \<Rightarrow> s \<in> {''1'', ''t'', ''T'', ''TRUE'', ''true'', ''True''}
   | None \<Rightarrow> False)"

text \<open>What \<^verbatim>\<open>GetConfig\<close> reads: neither the upstream proxy nor whether the cache is disabled.\<close>

definition GetConfig :: "viper \<Rightarrow> Config" where
  "GetConfig v =
     \<lparr>cg_HoverflyHost = GetString v ''hoverfly.host'',
      cg_HoverflyAdminPort = GetString v ''hoverfly.admin.port'',
      cg_HoverflyProxyPort = GetString v ''hoverfly.proxy.port'',
      cg_HoverflyDbType = GetString v ''hoverfly.db.type'',
      cg_HoverflyUsername = GetString v ''hoverfly.username'',
      cg_HoverflyPassword = GetString v ''hoverfly.password'',
      cg_HoverflyWebserver = GetBool v ''hoverfly.webserver'',
      cg_HoverflyCertificate = GetString v ''hoverfly.tls.certificate'',
      cg_HoverflyKey = GetString v ''hoverfly.tls.key'',
      cg_HoverflyDisableTls = GetBool v ''hoverfly.tls.disable'',
      cg_HoverflyUpstreamProxy = '''', cg_HoverflyCacheDisable = False\<rparr>"

definition SetConfigurationDefaults :: "viper \<Rightarrow> viper" where
  "SetConfigurationDefaults v = v\<lparr>vi_defaults := foldl (\<lambda>m (k, x). map_put k x m) (vi_defaults v)
     [(''hoverfly.host'', SString ''localhost''), (''hoverfly.admin.port'', SString ''8888''),
      (''hoverfly.proxy.port'', SString ''8500''), (''hoverfly.db.type'', SString ''memory''),
      (''hoverfly.username'', SString ''''), (''hoverfly.password'', SString ''''),
      (''hoverfly.webserver'', SBool False), (''hoverfly.tls.certificate'', SString ''''),
      (''hoverfly.tls.key'', SString ''''), (''hoverfly.tls.disable'', SBool False),
      (''hoverfly.upsream.proxy'', SString '''')]\<rparr>"

definition SetHost :: "string \<Rightarrow> Config \<Rightarrow> Config" where
  "SetHost host this = (if length host > 0 then this\<lparr>cg_HoverflyHost := host\<rparr> else this)"

definition SetAdminPort :: "string \<Rightarrow> Config \<Rightarrow> Config" where
  "SetAdminPort adminPort this = (if length adminPort > 0 then this\<lparr>cg_HoverflyAdminPort := adminPort\<rparr> else this)"

definition SetProxyPort :: "string \<Rightarrow> Config \<Rightarrow> Config" where
  "SetProxyPort proxyPort this = (if length proxyPort > 0 then this\<lparr>cg_HoverflyProxyPort := proxyPort\<rparr> else this)"

definition SetDbType :: "string \<Rightarrow> Config \<Rightarrow> Config" where
  "SetDbType dbType this =
     (let this = (if dbType = ''memory'' then this\<lparr>cg_HoverflyDbType := dbType\<rparr> else this)
      in if dbType = ''boltdb'' then this\<lparr>cg_HoverflyDbType := dbType\<rparr> else this)"

definition SetUsername :: "string \<Rightarrow> Config \<Rightarrow> Config" where
  "SetUsername username this = (if length username > 0 then this\<lparr>cg_HoverflyUsername := username\<rparr> else this)"

definition SetPassword :: "string \<Rightarrow> Config \<Rightarrow> Config" where
  "SetPassword password this = (if length password > 0 then this\<lparr>cg_HoverflyPassword := password\<rparr> else this)"

definition SetWebserver :: "string \<Rightarrow> Config \<Rightarrow> Config" where
  "SetWebserver hoverflyType this =
     (let this = (if hoverflyType = ''webserver'' then this\<lparr>cg_HoverflyWebserver := True\<rparr> else this)
      in if hoverflyType = ''proxy'' then this\<lparr>cg_HoverflyWebserver := False\<rparr> else this)"

definition SetCertificate :: "string \<Rightarrow> Config \<Rightarrow> Config" where
  "SetCertificate certificate this =
     (if length certificate > 0 then this\<lparr>cg_HoverflyCertificate := certificate\<rparr> else this)"

definition SetKey :: "string \<Rightarrow> Config \<Rightarrow> Config" where
  "SetKey key this = (if length key > 0 then this\<lparr>cg_HoverflyKey := key\<rparr> else this)"

definition Config_SetUpstreamProxy :: "string \<Rightarrow> Config \<Rightarrow> Config" where
  "Config_SetUpstreamProxy upstreamProxy this =
     (if length upstreamProxy > 0 then this\<lparr>cg_HoverflyUpstreamProxy := upstreamProxy\<rparr> else this)"

definition DisableTls :: "bool \<Rightarrow> Config \<Rightarrow> Config" where
  "DisableTls disableTls this =
     (if cg_HoverflyDisableTls this \<or> disableTls then this\<lparr>cg_HoverflyDisableTls := True\<rparr> else this)"

definition DisableCache :: "bool \<Rightarrow> Config \<Rightarrow> Config" where
  "DisableCache cacheDisable this =
     (if cg_HoverflyCacheDisable this \<or> cacheDisable then this\<lparr>cg_HoverflyCacheDisable := True\<rparr> else this)"

definition GetFilepath :: "viper \<Rightarrow> string" where
  "GetFilepath v = vi_path v"

text \<open>The fields \<^verbatim>\<open>yaml.Marshal\<close> writes, by the tags of the struct.\<close>

definition config_fields :: "Config \<Rightarrow> setting_value gomap" where
  "config_fields c =
     [(''hoverfly.host'', SString (cg_HoverflyHost c)), (''hoverfly.admin.port'', SString (cg_HoverflyAdminPort c)),
      (''hoverfly.proxy.port'', SString (cg_HoverflyProxyPort c)), (''hoverfly.db.type'', SString (cg_HoverflyDbType c)),
      (''hoverfly.username'', SString (cg_HoverflyUsername c)), (''hoverfly.password'', SString (cg_HoverflyPassword c)),
      (''hoverfly.webserver'', SBool (cg_HoverflyWebserver c)),
      (''hoverfly.tls.certificate'', SString (cg_HoverflyCertificate c)),
      (''hoverfly.tls.key'', SString (cg_HoverflyKey c)), (''hoverfly.tls.disable'', SBool (cg_HoverflyDisableTls c)),
      (''hoverfly.upstream.proxy'', SString (cg_HoverflyUpstreamProxy c)),
      (''hoverfly.cache.disable'', SBool (cg_HoverflyCacheDisable c))]"

definition BuildFlags :: "Config \<Rightarrow> string list" where
  "BuildFlags this =
     (let flags = [];
          flags = (if cg_HoverflyAdminPort this \<noteq> '''' then flags @ [''-ap='' @ cg_HoverflyAdminPort this] else flags);
          flags = (if cg_HoverflyProxyPort this \<noteq> '''' then flags @ [''-pp='' @ cg_HoverflyProxyPort this] else flags);
          flags = (if cg_HoverflyDbType this \<noteq> '''' then flags @ [''-db='' @ cg_HoverflyDbType this] else flags);
          flags = (if cg_HoverflyWebserver this then flags @ [''-webserver''] else flags);
          flags = (if cg_HoverflyCertificate this \<noteq> '''' then flags @ [''-cert='' @ cg_HoverflyCertificate this] else flags);
          flags = (if cg_HoverflyKey this \<noteq> '''' then flags @ [''-key='' @ cg_HoverflyKey this] else flags);
          flags = (if cg_HoverflyDisableTls this then flags @ [''-tls-verification=false''] else flags);
          flags = (if cg_HoverflyUpstreamProxy this \<noteq> ''''
                   then flags @ [''-upstream-proxy='' @ cg_HoverflyUpstreamProxy this] else flags);
          flags = (if cg_HoverflyCacheDisable this then flags @ [''-disable-cache''] else flags)
      in flags)"


section \<open>The machine\<close>

text \<open>
  Files by path, the directories, what was printed, what is still to be read from the standard
  input, and the rest of the world.
\<close>

record 'w machine =
  mx_files :: "string gomap"
  mx_dirs :: "string list"
  mx_stdout :: "string list"
  mx_stdin :: string
  mx_rest :: 'w

record ctl_request =
  rq_verb :: string
  rq_url :: string
  rq_payload :: "string option"
  rq_authorization :: "string option"

record APIStateSchema =
  as_Mode :: string
  as_Destination :: string

record HoverflyAuthSchema =
  ha_Username :: string
  ha_Password :: string

text \<open>
  The libraries: the file system lets some paths be read and written, processes are started and
  killed, requests answered, YAML and JSON written and read, a file followed (the lines seen until
  the user stops it), tables drawn, expressions compiled. The readers of JSON without an error
  give what the call leaves in a zero value, its error dropped.
\<close>

record 'w os =
  os_readable :: "string \<Rightarrow> bool"
  os_writable :: "string \<Rightarrow> bool"
  os_home :: "string + string"
  os_executable_folder :: "string + string"
  os_start :: "string \<Rightarrow> string list \<Rightarrow> 'w \<Rightarrow> (string + int) \<times> 'w"
  os_kill :: "int \<Rightarrow> 'w \<Rightarrow> string option \<times> 'w"
  os_health :: "string \<Rightarrow> 'w \<Rightarrow> (string + int) \<times> 'w"
  os_download :: "string \<Rightarrow> 'w \<Rightarrow> (string + body_reader) \<times> 'w"
  os_request_ok :: "string \<Rightarrow> bool"
  os_do :: "ctl_request \<Rightarrow> 'w \<Rightarrow> (string + http_response) \<times> 'w"
  os_yaml :: "setting_value gomap \<Rightarrow> string + string"
  os_json_auth :: "HoverflyAuthSchema \<Rightarrow> string + string"
  os_json_token :: "string \<Rightarrow> string + string"
  os_json_mode :: "ModeView \<Rightarrow> string + string"
  os_json_middleware :: "MiddlewareView \<Rightarrow> string + string"
  os_json_state :: "string \<Rightarrow> APIStateSchema"
  os_json_middleware_view :: "string \<Rightarrow> MiddlewareView"
  os_json_error :: "string \<Rightarrow> string + string"
  os_json_indent :: "string \<Rightarrow> string + string"
  os_tail :: "string \<Rightarrow> 'w \<Rightarrow> (string + string list) \<times> 'w"
  os_output :: "string \<Rightarrow> string list \<Rightarrow> 'w \<Rightarrow> string \<times> 'w"
  os_table :: "string list list \<Rightarrow> string"
  os_regexp :: "string \<Rightarrow> string + (string \<Rightarrow> bool)"
  os_viper :: "string gomap \<Rightarrow> viper"

definition in_rest :: "('w \<Rightarrow> 'a \<times> 'w) \<Rightarrow> ('w machine, 'a) prog" where
  "in_rest f s = (case f (mx_rest s) of (x, w) \<Rightarrow> Returns (x, s\<lparr>mx_rest := w\<rparr>))"

definition file_at :: "string \<Rightarrow> 'w machine \<Rightarrow> string option" where
  "file_at path s = map_get (mx_files s) path"

definition os_ReadFile :: "'w os \<Rightarrow> string \<Rightarrow> ('w machine, string + string) prog" where
  "os_ReadFile X path s = Returns ((case file_at path s of
     None \<Rightarrow> Inl (''open '' @ path @ '': no such file or directory'')
   | Some data \<Rightarrow> if os_readable X path then Inr data else Inl (''open '' @ path @ '': permission denied'')), s)"

definition is_dir :: "string \<Rightarrow> 'w machine \<Rightarrow> bool" where
  "is_dir path s \<longleftrightarrow> path \<in> set (mx_dirs s) \<or> path \<in> {''.'', ''/''}"

definition os_WriteFile :: "'w os \<Rightarrow> string \<Rightarrow> string \<Rightarrow> ('w machine, string option) prog" where
  "os_WriteFile X path data s =
     (if is_dir path s then Returns (Some (''open '' @ path @ '': is a directory''), s)
      else if os_writable X path then Returns (None, s\<lparr>mx_files := map_put path data (mx_files s)\<rparr>)
      else Returns (Some (''open '' @ path @ '': permission denied''), s))"

definition os_Remove :: "'w os \<Rightarrow> string \<Rightarrow> ('w machine, string option) prog" where
  "os_Remove X path s = (case file_at path s of
     None \<Rightarrow> Returns (Some (''remove '' @ path @ '': no such file or directory''), s)
   | Some data \<Rightarrow>
       if os_writable X path then Returns (None, s\<lparr>mx_files := map_del path (mx_files s)\<rparr>)
       else Returns (Some (''remove '' @ path @ '': permission denied''), s))"

definition os_Mkdir :: "'w os \<Rightarrow> string \<Rightarrow> ('w machine, string option) prog" where
  "os_Mkdir X path s =
     (if file_at path s \<noteq> None \<or> is_dir path s then Returns (Some (''mkdir '' @ path @ '': file exists''), s)
      else if os_writable X path then Returns (None, s\<lparr>mx_dirs := mx_dirs s @ [path]\<rparr>)
      else Returns (Some (''mkdir '' @ path @ '': permission denied''), s))"

text \<open>A directory and those it is in.\<close>

definition dirs_to :: "string \<Rightarrow> string list" where
  "dirs_to path = filter (\<lambda>p. p = path \<or> HasPrefix path (p @ ''/'')) (map (\<lambda>n. take n path) [1..<Suc (length path)])"

definition os_MkdirAll :: "'w os \<Rightarrow> string \<Rightarrow> ('w machine, string option) prog" where
  "os_MkdirAll X path s =
     (let missing = filter (\<lambda>p. \<not> is_dir p s) (dirs_to path) in
      if is_dir path s then Returns (None, s)
      else if list_ex (\<lambda>p. file_at p s \<noteq> None) missing then Returns (Some (''mkdir '' @ path @ '': not a directory''), s)
      else if list_all (os_writable X) missing then Returns (None, s\<lparr>mx_dirs := mx_dirs s @ missing\<rparr>)
      else Returns (Some (''mkdir '' @ path @ '': permission denied''), s))"

text \<open>\<^verbatim>\<open>path.Clean\<close>, \<^verbatim>\<open>path.Dir\<close>, \<^verbatim>\<open>path.Base\<close> and \<^verbatim>\<open>filepath.Join\<close>.\<close>

definition clean_step :: "bool \<Rightarrow> string list \<Rightarrow> string \<Rightarrow> string list" where
  "clean_step rooted stack c =
     (if c = '''' \<or> c = ''.'' then stack
      else if c = ''..'' then
        (if stack \<noteq> [] \<and> last stack \<noteq> ''..'' then butlast stack else if rooted then stack else stack @ [''..''])
      else stack @ [c])"

definition path_Clean :: "string \<Rightarrow> string" where
  "path_Clean path =
     (let rooted = HasPrefix path ''/'';
          s = (if rooted then ''/'' else '''') @ Join (foldl (clean_step rooted) [] (Split path (CHR ''/''))) ''/''
      in if s = '''' then ''.'' else s)"

definition path_Dir :: "string \<Rightarrow> string" where
  "path_Dir path = path_Clean (rev (dropWhile (\<lambda>c. c \<noteq> CHR ''/'') (rev path)))"

definition path_Base :: "string \<Rightarrow> string" where
  "path_Base path =
     (if path = '''' then ''.''
      else let stripped = rev (dropWhile (\<lambda>c. c = CHR ''/'') (rev path));
               base = rev (takeWhile (\<lambda>c. c \<noteq> CHR ''/'') (rev stripped))
           in if base = '''' then ''/'' else base)"

definition filepath_Join :: "string \<Rightarrow> string \<Rightarrow> string" where
  "filepath_Join a b =
     (let parts = filter (\<lambda>p. p \<noteq> '''') [a, b] in if parts = [] then '''' else path_Clean (Join parts ''/''))"

section \<open>The directory of hoverctl\<close>

record HoverflyDirectory =
  hd_Path :: string

definition fileIsPresent :: "string \<Rightarrow> ('w machine, bool) prog" where
  "fileIsPresent fileURI s = Returns (file_at fileURI s \<noteq> None \<or> is_dir fileURI s, s)"

definition WriteToFile :: "'w os \<Rightarrow> Config \<Rightarrow> HoverflyDirectory \<Rightarrow> ('w machine, string option) prog" where
  "WriteToFile X c hoverflyDirectory = (case os_yaml X (config_fields c) of
     Inl err \<Rightarrow> retp (Some err)
   | Inr data \<Rightarrow> os_WriteFile X (filepath_Join (hd_Path hoverflyDirectory) ''config.yaml'') data)"

definition getHomeDirectory :: "'w os \<Rightarrow> string outcome" where
  "getHomeDirectory X = (case os_home X of
     Inl err \<Rightarrow> Panics ''exit status 1: Unable to get home directory'' | Inr homeDirectory \<Rightarrow> Returns homeDirectory)"

definition createHoverflyDirectory :: "'w os \<Rightarrow> string \<Rightarrow> ('w machine, string) prog" where
  "createHoverflyDirectory X homeDirectory =
     (let hoverflyDirectory = filepath_Join homeDirectory ''/.hoverfly'' in
      bindp (fileIsPresent hoverflyDirectory) (\<lambda>present.
        if \<not> present then bindp (os_Mkdir X hoverflyDirectory) (\<lambda>err. case err of
          Some err \<Rightarrow> (\<lambda>s. Panics ''exit status 1: Could not create a .hoverfly directory'')
        | None \<Rightarrow> retp hoverflyDirectory)
        else retp hoverflyDirectory))"

definition NewHoverflyDirectory :: "'w os \<Rightarrow> viper \<Rightarrow> Config \<Rightarrow> ('w machine, string + HoverflyDirectory) prog" where
  "NewHoverflyDirectory X v config =
     (if length (GetFilepath v) = 0 then
        (\<lambda>s. bind_outcome (getHomeDirectory X) (\<lambda>home.
          bindp (createHoverflyDirectory X home) (\<lambda>path.
          bindp (WriteToFile X config \<lparr>hd_Path = path\<rparr>) (\<lambda>err. case err of
            Some err \<Rightarrow> retp (Inl ''Could not write new config to disk'')
          | None \<Rightarrow> retp (Inr \<lparr>hd_Path = path\<rparr>))) s))
      else retp (Inr \<lparr>hd_Path = path_Dir (GetFilepath v)\<rparr>))"

definition buildPidFilePath :: "HoverflyDirectory \<Rightarrow> string \<Rightarrow> string \<Rightarrow> string" where
  "buildPidFilePath h adminPort proxyPort =
     filepath_Join (hd_Path h) (''hoverfly.'' @ adminPort @ ''.'' @ proxyPort @ ''.pid'')"

definition GetPid :: "'w os \<Rightarrow> HoverflyDirectory \<Rightarrow> string \<Rightarrow> string \<Rightarrow> ('w machine, string + int) prog" where
  "GetPid X h adminPort proxyPort =
     (let hoverflyPidFile = buildPidFilePath h adminPort proxyPort in
      bindp (fileIsPresent hoverflyPidFile) (\<lambda>present.
        if present then bindp (os_ReadFile X hoverflyPidFile) (\<lambda>pidFileData. case pidFileData of
          Inl err \<Rightarrow> retp (Inl err)
        | Inr pidFileData \<Rightarrow> retp (Atoi pidFileData))
        else retp (Inr 0)))"

definition WritePid :: "'w os \<Rightarrow> HoverflyDirectory \<Rightarrow> string \<Rightarrow> string \<Rightarrow> int \<Rightarrow> ('w machine, string option) prog" where
  "WritePid X h adminPort proxyPort pid =
     (let pidFilePath = buildPidFilePath h adminPort proxyPort in
      bindp (fileIsPresent pidFilePath) (\<lambda>present.
        if present then retp (Some ''Hoverfly pid already exists'')
        else os_WriteFile X pidFilePath (Itoa pid)))"

definition DeletePid :: "'w os \<Rightarrow> HoverflyDirectory \<Rightarrow> string \<Rightarrow> string \<Rightarrow> ('w machine, string option) prog" where
  "DeletePid X h adminPort proxyPort = os_Remove X (buildPidFilePath h adminPort proxyPort)"

section \<open>Logs and files\<close>

record LogFile =
  lf_Path :: string
  lf_Name :: string

definition NewLogFile :: "HoverflyDirectory \<Rightarrow> string \<Rightarrow> string \<Rightarrow> LogFile" where
  "NewLogFile directory adminPort proxyPort =
     (let fileName = ''hoverfly.'' @ adminPort @ ''.'' @ proxyPort @ ''.log'' in
      \<lparr>lf_Path = filepath_Join (hd_Path directory) fileName, lf_Name = fileName\<rparr>)"

definition getLogs :: "'w os \<Rightarrow> LogFile \<Rightarrow> ('w machine, string + string) prog" where
  "getLogs X l = bindp (os_ReadFile X (lf_Path l)) (\<lambda>content. case content of
     Inl err \<Rightarrow> retp (Inl ''Could not open Hoverfly log file'') | Inr content \<Rightarrow> retp (Inr content))"

definition print :: "string \<Rightarrow> ('w machine, unit) prog" where
  "print text s = Returns ((), s\<lparr>mx_stdout := mx_stdout s @ [text]\<rparr>)"

definition LogFile_Print :: "'w os \<Rightarrow> LogFile \<Rightarrow> ('w machine, string option) prog" where
  "LogFile_Print X l = bindp (getLogs X l) (\<lambda>logs. case logs of
     Inl err \<Rightarrow> retp (Some err) | Inr logs \<Rightarrow> bindp (print logs) (\<lambda>u. retp None))"

definition LogFile_Tail :: "'w os \<Rightarrow> LogFile \<Rightarrow> ('w machine, string option) prog" where
  "LogFile_Tail X l = bindp (in_rest (os_tail X (lf_Path l))) (\<lambda>tail. case tail of
     Inl err \<Rightarrow> retp (Some ''Could not follow Hoverfly log file'')
   | Inr lines \<Rightarrow> (\<lambda>s. Returns (None, s\<lparr>mx_stdout := mx_stdout s @ map (\<lambda>line. line @ [CHR 0x0A]) lines\<rparr>)))"

definition WriteFile :: "'w os \<Rightarrow> string \<Rightarrow> string \<Rightarrow> ('w machine, string option) prog" where
  "WriteFile X filePath data =
     (let basePath = path_Dir filePath; fileName = path_Base filePath in
      bindp (os_MkdirAll X basePath) (\<lambda>err. case err of
        Some err \<Rightarrow> retp (Some err)
      | None \<Rightarrow> os_WriteFile X (basePath @ ''/'' @ fileName) data))"

definition DownloadFile :: "'w os \<Rightarrow> string \<Rightarrow> ('w machine, string + string) prog" where
  "DownloadFile X filePath = bindp (in_rest (os_download X filePath)) (\<lambda>response. case response of
     Inl err \<Rightarrow> retp (Inl ''Could not download simulation'')
   | Inr body \<Rightarrow> (case fst (ReadAll body) of
       Inl err \<Rightarrow> retp (Inl ''Could not download simulation'') | Inr body \<Rightarrow> retp (Inr body)))"

definition ReadFile :: "'w os \<Rightarrow> string \<Rightarrow> ('w machine, string + string) prog" where
  "ReadFile X filePath =
     (if HasPrefix filePath ''http://'' \<or> HasPrefix filePath ''https://'' then DownloadFile X filePath
      else bindp (os_ReadFile X filePath) (\<lambda>data. case data of
        Inl err \<Rightarrow> retp (Inl (''File not found: '' @ filePath)) | Inr data \<Rightarrow> retp (Inr data)))"

end
