(* ===== verification/HoverctlClient.thy ===== *)
theory HoverctlClient
  imports Hoverctl
begin

text \<open>
  The client of the admin API, \<^verbatim>\<open>hoverctl/wrapper/hoverfly.go\<close>, and the start and stop of the
  process it talks to.
\<close>

section \<open>Requests to the admin API\<close>

record wrapper_Hoverfly =
  wh_Host :: string
  wh_AdminPort :: string
  wh_ProxyPort :: string
  wh_Username :: string
  wh_Password :: string
  wh_authToken :: string
  wh_config :: Config

definition NewHoverfly :: "Config \<Rightarrow> wrapper_Hoverfly" where
  "NewHoverfly config =
     \<lparr>wh_Host = cg_HoverflyHost config, wh_AdminPort = cg_HoverflyAdminPort config,
      wh_ProxyPort = cg_HoverflyProxyPort config, wh_Username = cg_HoverflyUsername config,
      wh_Password = cg_HoverflyPassword config, wh_authToken = '''', wh_config = config\<rparr>"

definition v2ApiSimulation :: string where "v2ApiSimulation = ''/api/v2/simulation''"
definition v2ApiMode :: string where "v2ApiMode = ''/api/v2/hoverfly/mode''"
definition v2ApiDestination :: string where "v2ApiDestination = ''/api/v2/hoverfly/destination''"
definition v2ApiMiddleware :: string where "v2ApiMiddleware = ''/api/v2/hoverfly/middleware''"
definition v2ApiCache :: string where "v2ApiCache = ''/api/v2/cache''"

lemmas v2_paths = v2ApiSimulation_def v2ApiMode_def v2ApiDestination_def v2ApiMiddleware_def v2ApiCache_def

definition buildURL :: "wrapper_Hoverfly \<Rightarrow> string \<Rightarrow> string" where
  "buildURL h endpoint = ''http://'' @ wh_Host h @ '':'' @ wh_AdminPort h @ endpoint"

definition isLocal :: "wrapper_Hoverfly \<Rightarrow> bool" where
  "isLocal h \<longleftrightarrow> wh_Host h = ''localhost'' \<or> wh_Host h = ''127.0.0.1''"

definition generateAuthToken :: "'w os \<Rightarrow> wrapper_Hoverfly \<Rightarrow> ('w machine, string + string) prog" where
  "generateAuthToken X h = (case os_json_auth X \<lparr>ha_Username = wh_Username h, ha_Password = wh_Password h\<rparr> of
     Inl err \<Rightarrow> retp (Inl err)
   | Inr jsonCredentials \<Rightarrow>
       (let url = buildURL h ''/api/token-auth'' in
        if \<not> os_request_ok X url then retp (Inl (''parse '' @ url))
        else bindp (in_rest (os_do X \<lparr>rq_verb = ''POST'', rq_url = url, rq_payload = Some jsonCredentials,
                                      rq_authorization = None\<rparr>)) (\<lambda>response. case response of
            Inl err \<Rightarrow> retp (Inl err)
          | Inr response \<Rightarrow> (case fst (ReadAll (hp_Body response)) of
              Inl err \<Rightarrow> retp (Inl err)
            | Inr body \<Rightarrow> retp (os_json_token X body)))))"

definition prepared_request :: "wrapper_Hoverfly \<Rightarrow> string \<Rightarrow> string \<Rightarrow> string \<Rightarrow> ctl_request" where
  "prepared_request h verb url body =
     (let request = (if verb = ''DELETE'' then \<lparr>rq_verb = ''DELETE'', rq_url = url, rq_payload = None, rq_authorization = None\<rparr>
                     else if verb = ''PUT'' then \<lparr>rq_verb = ''PUT'', rq_url = url, rq_payload = Some body, rq_authorization = None\<rparr>
                     else \<lparr>rq_verb = ''GET'', rq_url = url, rq_payload = None, rq_authorization = None\<rparr>)
      in if length (wh_authToken h) > 0 then request\<lparr>rq_authorization := Some (''Bearer '' @ wh_authToken h)\<rparr> else request)"

definition send_request ::
  "'w os \<Rightarrow> wrapper_Hoverfly \<Rightarrow> string \<Rightarrow> string \<Rightarrow> string \<Rightarrow> ('w machine, string + http_response) prog" where
  "send_request X h verb url body =
     (if \<not> os_request_ok X url then retp (Inl ''Could not communicate with Hoverfly'')
      else bindp (in_rest (os_do X (prepared_request h verb url body))) (\<lambda>response. case response of
          Inl err \<Rightarrow> retp (Inl ''Could not communicate with Hoverfly'')
        | Inr response \<Rightarrow>
            if hp_Status response = 401 then retp (Inl ''Hoverfly requires authentication'')
            else retp (Inr response)))"

text \<open>
  The receiver is a copy: a token that was fetched is used for this request and forgotten.
\<close>

definition ctl_doRequest ::
  "'w os \<Rightarrow> wrapper_Hoverfly \<Rightarrow> string \<Rightarrow> string \<Rightarrow> string \<Rightarrow> ('w machine, string + http_response) prog" where
  "ctl_doRequest X h verb path body =
     (let url = ''http://'' @ wh_Host h @ '':'' @ wh_AdminPort h @ path in
      if length (wh_Username h) > 0 \<or> length (wh_Password h) > 0 \<and> length (wh_authToken h) = 0
      then bindp (generateAuthToken X h) (\<lambda>token. case token of
          Inl err \<Rightarrow> retp (Inl err)
        | Inr token \<Rightarrow> send_request X (h\<lparr>wh_authToken := token\<rparr>) verb url body)
      else send_request X h verb url body)"

section \<open>Reading responses\<close>

text \<open>A body that cannot be read leaves what was read of it: nothing is what the model keeps.\<close>

definition read_or_empty :: "http_response \<Rightarrow> string" where
  "read_or_empty response = (case fst (ReadAll (hp_Body response)) of Inl err \<Rightarrow> '''' | Inr body \<Rightarrow> body)"

definition createAPIStateResponse :: "'w os \<Rightarrow> http_response \<Rightarrow> APIStateSchema" where
  "createAPIStateResponse X response = os_json_state X (read_or_empty response)"

definition createMiddlewareSchema :: "'w os \<Rightarrow> http_response \<Rightarrow> MiddlewareView" where
  "createMiddlewareSchema X response = os_json_middleware_view X (read_or_empty response)"

definition error_message :: "'w os \<Rightarrow> string \<Rightarrow> string" where
  "error_message X body = (case os_json_error X body of Inl err \<Rightarrow> '''' | Inr message \<Rightarrow> message)"

definition handlerError :: "'w os \<Rightarrow> http_response \<Rightarrow> string" where
  "handlerError X response = (case fst (GetResponseBody (hp_Body response)) of
     Inl err \<Rightarrow> ''Error when communicating with Hoverfly''
   | Inr responseBody \<Rightarrow> (case os_json_error X responseBody of
       Inl err \<Rightarrow> ''Error when communicating with Hoverfly'' | Inr message \<Rightarrow> message))"

section \<open>The operations\<close>

definition ctl_DeleteSimulations :: "'w os \<Rightarrow> wrapper_Hoverfly \<Rightarrow> ('w machine, string option) prog" where
  "ctl_DeleteSimulations X h = bindp (ctl_doRequest X h ''DELETE'' v2ApiSimulation '''') (\<lambda>response. case response of
     Inl err \<Rightarrow> retp (Some err)
   | Inr response \<Rightarrow>
       if hp_Status response \<noteq> 200 then retp (Some ''Simulations were not deleted from Hoverfly'') else retp None)"

definition ctl_GetMode :: "'w os \<Rightarrow> wrapper_Hoverfly \<Rightarrow> ('w machine, string + string) prog" where
  "ctl_GetMode X h = bindp (ctl_doRequest X h ''GET'' v2ApiMode '''') (\<lambda>response. case response of
     Inl err \<Rightarrow> retp (Inl err)
   | Inr response \<Rightarrow> retp (Inr (as_Mode (createAPIStateResponse X response))))"

definition ctl_SetModeWithArguments ::
  "'w os \<Rightarrow> wrapper_Hoverfly \<Rightarrow> ModeView \<Rightarrow> ('w machine, string + string) prog" where
  "ctl_SetModeWithArguments X h modeView =
     (if mo_Mode modeView \<noteq> ''simulate'' \<and> mo_Mode modeView \<noteq> ''capture'' \<and>
         mo_Mode modeView \<noteq> ''modify'' \<and> mo_Mode modeView \<noteq> ''synthesize''
      then retp (Inl (mo_Mode modeView @ '' is not a valid mode''))
      else case os_json_mode X modeView of
        Inl err \<Rightarrow> retp (Inl err)
      | Inr bytes \<Rightarrow> bindp (ctl_doRequest X h ''PUT'' v2ApiMode bytes) (\<lambda>response. case response of
          Inl err \<Rightarrow> retp (Inl err)
        | Inr response \<Rightarrow>
            if hp_Status response = 400 then retp (Inl (handlerError X response))
            else retp (Inr (as_Mode (createAPIStateResponse X response)))))"

definition ctl_GetDestination :: "'w os \<Rightarrow> wrapper_Hoverfly \<Rightarrow> ('w machine, string + string) prog" where
  "ctl_GetDestination X h = bindp (ctl_doRequest X h ''GET'' v2ApiDestination '''') (\<lambda>response. case response of
     Inl err \<Rightarrow> retp (Inl err)
   | Inr response \<Rightarrow> retp (Inr (as_Destination (createAPIStateResponse X response))))"

definition destination_body :: "string \<Rightarrow> string" where
  "destination_body destination =
     CHR ''{'' # CHR 0x22 # ''destination'' @ CHR 0x22 # CHR '':'' # CHR 0x22 # destination @ [CHR 0x22, CHR ''}'']"

definition ctl_SetDestination :: "'w os \<Rightarrow> wrapper_Hoverfly \<Rightarrow> string \<Rightarrow> ('w machine, string + string) prog" where
  "ctl_SetDestination X h destination =
     bindp (ctl_doRequest X h ''PUT'' v2ApiDestination (destination_body destination)) (\<lambda>response. case response of
       Inl err \<Rightarrow> retp (Inl err)
     | Inr response \<Rightarrow> retp (Inr (as_Destination (createAPIStateResponse X response))))"

definition ctl_GetMiddleware :: "'w os \<Rightarrow> wrapper_Hoverfly \<Rightarrow> ('w machine, string + MiddlewareView) prog" where
  "ctl_GetMiddleware X h = bindp (ctl_doRequest X h ''GET'' v2ApiMiddleware '''') (\<lambda>response. case response of
     Inl err \<Rightarrow> retp (Inl err)
   | Inr response \<Rightarrow> retp (Inr (createMiddlewareSchema X response)))"

definition blank_line :: string where
  "blank_line = [CHR 0x0A, CHR 0x0A]"

definition ctl_SetMiddleware ::
  "'w os \<Rightarrow> wrapper_Hoverfly \<Rightarrow> string \<Rightarrow> string \<Rightarrow> string \<Rightarrow> ('w machine, string + MiddlewareView) prog" where
  "ctl_SetMiddleware X h binary script remote =
     (case os_json_middleware X \<lparr>mw_Binary = binary, mw_Script = script, mw_Remote = remote\<rparr> of
        Inl err \<Rightarrow> retp (Inl err)
      | Inr bytes \<Rightarrow> bindp (ctl_doRequest X h ''PUT'' v2ApiMiddleware bytes) (\<lambda>response. case response of
          Inl err \<Rightarrow> retp (Inl err)
        | Inr response \<Rightarrow>
            if hp_Status response = 403
            then retp (Inl ''Cannot change the mode of Hoverfly when running as a webserver'')
            else if hp_Status response \<noteq> 200
            then retp (Inl (''Hoverfly could not execute this middleware'' @ blank_line @
                            error_message X (read_or_empty response)))
            else retp (Inr (createMiddlewareSchema X response))))"

definition ctl_ImportSimulation :: "'w os \<Rightarrow> wrapper_Hoverfly \<Rightarrow> string \<Rightarrow> ('w machine, string option) prog" where
  "ctl_ImportSimulation X h simulationData =
     bindp (ctl_doRequest X h ''PUT'' v2ApiSimulation simulationData) (\<lambda>response. case response of
       Inl err \<Rightarrow> retp (Some err)
     | Inr response \<Rightarrow>
         if hp_Status response \<noteq> 200
         then retp (Some (''Import to Hoverfly failed: '' @ error_message X (read_or_empty response)))
         else retp None)"

definition ctl_FlushCache :: "'w os \<Rightarrow> wrapper_Hoverfly \<Rightarrow> ('w machine, string option) prog" where
  "ctl_FlushCache X h = bindp (ctl_doRequest X h ''DELETE'' v2ApiCache '''') (\<lambda>response. case response of
     Inl err \<Rightarrow> retp (Some err)
   | Inr response \<Rightarrow> if hp_Status response \<noteq> 200 then retp (Some ''Cache was not set on Hoverfly'') else retp None)"

definition ctl_ExportSimulation :: "'w os \<Rightarrow> wrapper_Hoverfly \<Rightarrow> ('w machine, string + string) prog" where
  "ctl_ExportSimulation X h = bindp (ctl_doRequest X h ''GET'' v2ApiSimulation '''') (\<lambda>response. case response of
     Inl err \<Rightarrow> retp (Inl err)
   | Inr response \<Rightarrow> (case fst (ReadAll (hp_Body response)) of
       Inl err \<Rightarrow> retp (Inl ''Could not export from Hoverfly'')
     | Inr body \<Rightarrow> (case os_json_indent X body of
         Inl err \<Rightarrow> retp (Inl ''Could not export from Hoverfly'') | Inr jsonBytes \<Rightarrow> retp (Inr jsonBytes))))"

section \<open>Starting and stopping\<close>

text \<open>\<^verbatim>\<open>os.Create\<close> empties the file, or makes it.\<close>

definition runBinary :: "'w os \<Rightarrow> wrapper_Hoverfly \<Rightarrow> string \<Rightarrow> HoverflyDirectory \<Rightarrow> ('w machine, string + int) prog" where
  "runBinary X h path hoverflyDirectory =
     (let flags = BuildFlags (wh_config h) in
      bindp (os_WriteFile X (hd_Path hoverflyDirectory @ ''/hoverfly.'' @ wh_AdminPort h @ ''.'' @ wh_ProxyPort h @ ''.log'') '''')
        (\<lambda>err. case err of
          Some err \<Rightarrow> retp (Inl ''Could not create log file'')
        | None \<Rightarrow> bindp (in_rest (os_start X path flags)) (\<lambda>started. case started of
            Inl err \<Rightarrow> retp (Inl ''Could not start Hoverfly'') | Inr pid \<Rightarrow> retp (Inr pid))))"

text \<open>
  Waiting for the new process: \<open>ticks\<close> is how many ticks of the timer are served before the
  ten seconds are over.
\<close>

fun wait_healthy :: "'w os \<Rightarrow> string \<Rightarrow> nat \<Rightarrow> int \<Rightarrow> ('w machine, string option) prog" where
  "wait_healthy X url 0 statusCode =
     retp (Some (''Timed out waiting for Hoverfly to become healthy, returns status: '' @ Itoa statusCode))"
| "wait_healthy X url (Suc ticks) statusCode = bindp (in_rest (os_health X url)) (\<lambda>resp.
     (let statusCode = (case resp of Inl err \<Rightarrow> 0 | Inr code \<Rightarrow> code) in
      if statusCode = 200 then retp None else wait_healthy X url ticks statusCode))"

definition launch_hoverfly :: "'w os \<Rightarrow> nat \<Rightarrow> wrapper_Hoverfly \<Rightarrow> HoverflyDirectory \<Rightarrow> int \<Rightarrow> ('w machine, string option) prog" where
  "launch_hoverfly X ticks h hoverflyDirectory pid =
     bindp (wait_healthy X (''http://localhost:'' @ wh_AdminPort h @ ''/api/v2/hoverfly/mode'') ticks 0) (\<lambda>timeout. case timeout of
       Some err \<Rightarrow> retp (Some err)
     | None \<Rightarrow> bindp (WritePid X hoverflyDirectory (wh_AdminPort h) (wh_ProxyPort h) pid) (\<lambda>err. case err of
         Some err \<Rightarrow> retp (Some ''Could not write a pid for Hoverfly'') | None \<Rightarrow> retp None))"

definition start_binary :: "'w os \<Rightarrow> nat \<Rightarrow> wrapper_Hoverfly \<Rightarrow> HoverflyDirectory \<Rightarrow> ('w machine, string option) prog" where
  "start_binary X ticks h hoverflyDirectory = (case os_executable_folder X of
     Inl err \<Rightarrow> retp (Some ''Could not start Hoverfly'')
   | Inr binaryLocation \<Rightarrow> bindp (runBinary X h (binaryLocation @ ''/hoverfly'') hoverflyDirectory) (\<lambda>cmd. case cmd of
       Inr pid \<Rightarrow> launch_hoverfly X ticks h hoverflyDirectory pid
     | Inl err \<Rightarrow> bindp (runBinary X h ''hoverfly'' hoverflyDirectory) (\<lambda>cmd. case cmd of
         Inr pid \<Rightarrow> launch_hoverfly X ticks h hoverflyDirectory pid
       | Inl err \<Rightarrow> retp (Some ''Could not read Hoverfly pid file''))))"

definition ctl_Start :: "'w os \<Rightarrow> nat \<Rightarrow> wrapper_Hoverfly \<Rightarrow> HoverflyDirectory \<Rightarrow> ('w machine, string option) prog" where
  "ctl_Start X ticks h hoverflyDirectory =
     (if \<not> isLocal h then retp (Some ''hoverctl can not start an instance of Hoverfly on a remote host'')
      else bindp (GetPid X hoverflyDirectory (wh_AdminPort h) (wh_ProxyPort h)) (\<lambda>pid. case pid of
        Inl err \<Rightarrow> retp (Some ''Could not read Hoverfly pid file'')
      | Inr pid \<Rightarrow>
          if pid \<noteq> 0 then bindp (ctl_GetMode X h) (\<lambda>mode. case mode of
            Inr m \<Rightarrow> retp (Some ''Hoverfly is already running'')
          | Inl err \<Rightarrow> bindp (DeletePid X hoverflyDirectory (wh_AdminPort h) (wh_ProxyPort h)) (\<lambda>ignored.
              start_binary X ticks h hoverflyDirectory))
          else start_binary X ticks h hoverflyDirectory))"

definition ctl_Stop :: "'w os \<Rightarrow> wrapper_Hoverfly \<Rightarrow> HoverflyDirectory \<Rightarrow> ('w machine, string option) prog" where
  "ctl_Stop X h hoverflyDirectory =
     (if \<not> isLocal h then retp (Some ''hoverctl can not stop an instance of Hoverfly on a remote host'')
      else bindp (GetPid X hoverflyDirectory (wh_AdminPort h) (wh_ProxyPort h)) (\<lambda>pid. case pid of
        Inl err \<Rightarrow> retp (Some ''Could not read Hoverfly pid file'')
      | Inr pid \<Rightarrow>
          if pid = 0 then retp (Some ''Hoverfly is not running'')
          else bindp (in_rest (os_kill X pid)) (\<lambda>err. case err of
            Some err \<Rightarrow> retp (Some ''Could not kill Hoverfly'')
          | None \<Rightarrow> bindp (DeletePid X hoverflyDirectory (wh_AdminPort h) (wh_ProxyPort h)) (\<lambda>err. case err of
              Some err \<Rightarrow> retp (Some ''Could not delete Hoverfly pid'') | None \<Rightarrow> retp None))))"

end
