(* ===== verification/CommandLine.thy ===== *)
theory CommandLine
  imports Startup
begin

text \<open>
  The command line of \<^verbatim>\<open>hoverfly\<close>: the flags \<^verbatim>\<open>main\<close> declares, read by the package \<^verbatim>\<open>flag\<close> of the
  standard library, which exits at the first flag it does not accept.
\<close>

section \<open>One argument\<close>

text \<open>\<^verbatim>\<open>strconv.ParseBool\<close>.\<close>

definition ParseBool :: "string \<Rightarrow> bool option" where
  "ParseBool s =
     (if s \<in> {''1'', ''t'', ''T'', ''TRUE'', ''true'', ''True''} then Some True
      else if s \<in> {''0'', ''f'', ''F'', ''FALSE'', ''false'', ''False''} then Some False else None)"

definition set_bool :: "string \<Rightarrow> bool \<Rightarrow> flags \<Rightarrow> flags option" where
  "set_bool name b fl =
     (if name = ''version'' then Some (fl\<lparr>fl_version := b\<rparr>)
      else if name = ''v'' then Some (fl\<lparr>fl_verbose := b\<rparr>)
      else if name = ''capture'' then Some (fl\<lparr>fl_capture := b\<rparr>)
      else if name = ''synthesize'' then Some (fl\<lparr>fl_synthesize := b\<rparr>)
      else if name = ''modify'' then Some (fl\<lparr>fl_modify := b\<rparr>)
      else if name = ''metrics'' then Some (fl\<lparr>fl_metrics := b\<rparr>)
      else if name = ''dev'' then Some (fl\<lparr>fl_dev := b\<rparr>)
      else if name = ''webserver'' then Some (fl\<lparr>fl_webserver := b\<rparr>)
      else if name = ''add'' then Some (fl\<lparr>fl_addNew := b\<rparr>)
      else if name = ''admin'' then Some (fl\<lparr>fl_isAdmin := b\<rparr>)
      else if name = ''auth'' then Some (fl\<lparr>fl_authEnabled := b\<rparr>)
      else if name = ''generate-ca-cert'' then Some (fl\<lparr>fl_generateCA := b\<rparr>)
      else if name = ''tls-verification'' then Some (fl\<lparr>fl_tlsVerification := b\<rparr>)
      else if name = ''disable-cache'' then Some (fl\<lparr>fl_disableCache := b\<rparr>)
      else None)"

definition set_string :: "string \<Rightarrow> string \<Rightarrow> flags \<Rightarrow> flags option" where
  "set_string name v fl =
     (if name = ''middleware'' then Some (fl\<lparr>fl_middleware := v\<rparr>)
      else if name = ''pp'' then Some (fl\<lparr>fl_proxyPort := v\<rparr>)
      else if name = ''ap'' then Some (fl\<lparr>fl_adminPort := v\<rparr>)
      else if name = ''destination'' then Some (fl\<lparr>fl_destination := v\<rparr>)
      else if name = ''username'' then Some (fl\<lparr>fl_addUser := v\<rparr>)
      else if name = ''password'' then Some (fl\<lparr>fl_addPassword := v\<rparr>)
      else if name = ''cert-name'' then Some (fl\<lparr>fl_certName := v\<rparr>)
      else if name = ''cert-org'' then Some (fl\<lparr>fl_certOrg := v\<rparr>)
      else if name = ''cert'' then Some (fl\<lparr>fl_cert := v\<rparr>)
      else if name = ''key'' then Some (fl\<lparr>fl_key := v\<rparr>)
      else if name = ''upstream-proxy'' then Some (fl\<lparr>fl_upstreamProxy := v\<rparr>)
      else if name = ''db-path'' then Some (fl\<lparr>fl_databasePath := v\<rparr>)
      else if name = ''db'' then Some (fl\<lparr>fl_database := v\<rparr>)
      else if name = ''import'' then Some (fl\<lparr>fl_importFlags := snd (arrayFlags_Set v (fl_importFlags fl))\<rparr>)
      else if name = ''dest'' then Some (fl\<lparr>fl_destinationFlags := snd (arrayFlags_Set v (fl_destinationFlags fl))\<rparr>)
      else None)"

text \<open>
  What an argument is: the end of the flags, one that is skipped to end them, bad syntax, or a flag
  with the value after its first \<^verbatim>\<open>=\<close>, if it has one.
\<close>

datatype argument = NoFlag | Terminator | BadSyntax | Flag string "string option"

definition name_value :: "string \<Rightarrow> string \<times> string option" where
  "name_value s = (if CHR ''='' \<in> set s
     then (takeWhile (\<lambda>c. c \<noteq> CHR ''='') s, Some (tl (dropWhile (\<lambda>c. c \<noteq> CHR ''='') s))) else (s, None))"

definition read_argument :: "string \<Rightarrow> argument" where
  "read_argument s =
     (if length s < 2 \<or> \<not> HasPrefix s ''-'' then NoFlag
      else if s = ''--'' then Terminator
      else let name = (if HasPrefix s ''--'' then drop 2 s else drop 1 s) in
        if name = '''' \<or> HasPrefix name ''-'' \<or> HasPrefix name ''='' then BadSyntax
        else case name_value name of (n, v) \<Rightarrow> Flag n v)"

section \<open>All arguments\<close>

fun parse_flags :: "string list \<Rightarrow> flags \<Rightarrow> string + flags" where
  "parse_flags [] fl = Inr fl"
| "parse_flags (s # args) fl = (case read_argument s of
     NoFlag \<Rightarrow> Inr fl
   | Terminator \<Rightarrow> Inr fl
   | BadSyntax \<Rightarrow> Inl (''bad flag syntax: '' @ s)
   | Flag name val \<Rightarrow>
       if set_bool name True fl \<noteq> None then
         (case val of
            None \<Rightarrow> parse_flags args (the (set_bool name True fl))
          | Some v \<Rightarrow> (case ParseBool v of
              None \<Rightarrow> Inl (''invalid boolean value for -'' @ name)
            | Some b \<Rightarrow> parse_flags args (the (set_bool name b fl))))
       else if set_string name '''' fl \<noteq> None then
         (case val of
            Some v \<Rightarrow> parse_flags args (the (set_string name v fl))
          | None \<Rightarrow> (case args of
              [] \<Rightarrow> Inl (''flag needs an argument: -'' @ name)
            | v # rest \<Rightarrow> parse_flags rest (the (set_string name v fl))))
       else Inl (''flag provided but not defined: -'' @ name))"

text \<open>The program on its arguments; a flag that is refused ends it with status 2.\<close>

definition hoverfly_program ::
  "'w world \<Rightarrow> 'w main_world \<Rightarrow> string list \<Rightarrow> 'w \<Rightarrow> (Hoverfly \<times> 'w) option outcome" where
  "hoverfly_program W M args w = (case parse_flags args default_flags of
     Inl err \<Rightarrow> Panics (''exit status 2: '' @ err)
   | Inr fl \<Rightarrow> hoverfly_main W M fl w)"

section \<open>Reading flags written as name=value\<close>

lemma name_value_eq: "CHR ''='' \<notin> set n \<Longrightarrow> name_value (n @ CHR ''='' # v) = (n, Some v)"
  by (simp add: name_value_def dropWhile_append takeWhile_append)

lemma read_argument_eq:
  assumes "n \<noteq> ''''" and "CHR ''-'' \<noteq> hd n" and "CHR ''='' \<notin> set n"
  shows "read_argument (''-'' @ n @ ''='' @ v) = Flag n (Some v)"
  using assms name_value_eq[OF assms(3), of v] by (cases n) (auto simp: read_argument_def)

lemma read_argument_name:
  assumes "n \<noteq> ''''" and "CHR ''-'' \<noteq> hd n" and "CHR ''='' \<notin> set n"
  shows "read_argument (''-'' @ n) = Flag n None"
  using assms by (cases n) (auto simp: read_argument_def name_value_def)

lemma parse_string_flag:
  assumes "set_bool n True fl = None" and "set_string n '''' fl \<noteq> None" and "set_string n v fl = Some fl'"
    and "n \<noteq> ''''" and "CHR ''-'' \<noteq> hd n" and "CHR ''='' \<notin> set n"
  shows "parse_flags ((''-'' @ n @ ''='' @ v) # args) fl = parse_flags args fl'"
  using assms read_argument_eq[OF assms(4-6), of v] by simp

lemma parse_bool_flag:
  assumes "set_bool n True fl = Some fl'" and "n \<noteq> ''''" and "CHR ''-'' \<noteq> hd n" and "CHR ''='' \<notin> set n"
  shows "parse_flags ((''-'' @ n) # args) fl = parse_flags args fl'"
  using assms read_argument_name[OF assms(2-4)] by simp

lemma parse_bool_value:
  assumes "set_bool n True fl \<noteq> None" and "ParseBool v = Some b" and "set_bool n b fl = Some fl'"
    and "n \<noteq> ''''" and "CHR ''-'' \<noteq> hd n" and "CHR ''='' \<notin> set n"
  shows "parse_flags ((''-'' @ n @ ''='' @ v) # args) fl = parse_flags args fl'"
  using assms read_argument_eq[OF assms(4-6), of v] by simp

end
