(* ===== verification/HoverctlCommands.thy ===== *)
theory HoverctlCommands
  imports HoverctlClient CommandLine
begin

text \<open>
  The commands of \<^verbatim>\<open>hoverctl\<close>, \<^verbatim>\<open>hoverctl/cmd\<close>, on the flags and arguments the library \<^verbatim>\<open>cobra\<close> has
  read, and what they promise: how a \<^verbatim>\<open>hoverctl\<close> configuration reaches the process it starts, the
  process id it keeps, and what it asks before it deletes. \<^verbatim>\<open>os.Exit\<close> is a \<^const>\<open>Panics\<close> with the status
  and what was printed on the error output.
\<close>

section \<open>Flags, printing and errors\<close>

record ctl_flags =
  cf_adminPort :: string
  cf_proxyPort :: string
  cf_host :: string
  cf_certificate :: string
  cf_key :: string
  cf_database :: string
  cf_upstreamProxy :: string
  cf_disableTls :: bool
  cf_verbose :: bool
  cf_force :: bool
  cf_cacheDisable :: bool
  cf_specficHeaders :: string
  cf_allHeaders :: bool
  cf_dryRun :: string
  cf_middlewareBinary :: string
  cf_middlewareScript :: string
  cf_middlewareRemote :: string
  cf_followLogs :: bool

text \<open>The flags when none is given.\<close>

definition default_ctl_flags :: ctl_flags where
  "default_ctl_flags = \<lparr>cf_adminPort = '''', cf_proxyPort = '''', cf_host = '''', cf_certificate = '''', cf_key = '''',
     cf_database = '''', cf_upstreamProxy = '''', cf_disableTls = False, cf_verbose = False, cf_force = False,
     cf_cacheDisable = False, cf_specficHeaders = '''', cf_allHeaders = False, cf_dryRun = '''',
     cf_middlewareBinary = '''', cf_middlewareScript = '''', cf_middlewareRemote = '''', cf_followLogs = False\<rparr>"

record ctl_context =
  cx_config :: Config
  cx_hoverfly :: wrapper_Hoverfly
  cx_hoverflyDirectory :: HoverflyDirectory
  cx_viper :: viper

definition Println :: "string list \<Rightarrow> ('w machine, unit) prog" where
  "Println words = print (Join words '' '' @ [newline])"

definition exit_with :: "string \<Rightarrow> ('w machine, 'a) prog" where
  "exit_with message = (\<lambda>s. Panics (''exit status 1: '' @ message))"

definition handleIfError :: "string option \<Rightarrow> ('w machine, unit) prog" where
  "handleIfError err = (case err of Some err \<Rightarrow> exit_with err | None \<Rightarrow> retp ())"

text \<open>A call whose error ends the program, its value otherwise.\<close>

definition orExit :: "('w machine, string + 'a) prog \<Rightarrow> ('w machine, 'a) prog" where
  "orExit m = bindp m (\<lambda>r. case r of Inl err \<Rightarrow> exit_with err | Inr x \<Rightarrow> retp x)"

definition checkArgAndExit :: "string list \<Rightarrow> string \<Rightarrow> string \<Rightarrow> ('w machine, unit) prog" where
  "checkArgAndExit args message command =
     (if length args = 0
      then exit_with (message @ newline # newline # ''Try hoverctl '' @ command @ '' --help for more information'')
      else retp ())"

lemma ReadString_shorter: "ReadString s = (Inr line, rest) \<Longrightarrow> length rest < length s"
  using length_dropWhile_le[of "\<lambda>c. c \<noteq> newline" s] by (auto simp: ReadString_def split: list.splits)

text \<open>The questions end with the input: each of them reads a line.\<close>

function askForConfirmation :: "string \<Rightarrow> 'w machine \<Rightarrow> (bool \<times> 'w machine) outcome" where
  "askForConfirmation message s =
     (let s = s\<lparr>mx_stdout := mx_stdout s @ [message @ '' [y/n]: '']\<rparr> in
      case ReadString (mx_stdin s) of
        (Inl err, rest) \<Rightarrow> Panics (''exit status 1: '' @ err)
      | (Inr line, rest) \<Rightarrow>
          (let s = s\<lparr>mx_stdin := rest\<rparr>; response = ToLower (TrimSpace line) in
           if response = ''y'' \<or> response = ''yes'' then Returns (True, s)
           else if response = ''n'' \<or> response = ''no'' then Returns (False, s)
           else askForConfirmation message s))"
  by pat_completeness auto

termination
  by (relation "measure (\<lambda>(message, s). length (mx_stdin s))") (auto dest!: ReadString_shorter[OF sym])

declare askForConfirmation.simps [simp del]

definition drawTable :: "'w os \<Rightarrow> string list list \<Rightarrow> ('w machine, unit) prog" where
  "drawTable X table = bindp (print [newline]) (\<lambda>u. print (os_table X table))"

section \<open>Setting up\<close>

definition initConfig :: "'w os \<Rightarrow> ctl_flags \<Rightarrow> ('w machine, ctl_context) prog" where
  "initConfig X fl s =
     (let v = SetConfigurationDefaults (os_viper X (mx_files s));
          config = GetConfig v;
          config = SetHost (cf_host fl) config;
          config = SetAdminPort (cf_adminPort fl) config;
          config = SetProxyPort (cf_proxyPort fl) config;
          config = SetUsername '''' config;
          config = SetPassword '''' config;
          config = SetCertificate (cf_certificate fl) config;
          config = SetKey (cf_key fl) config;
          config = DisableTls (cf_disableTls fl) config;
          config = SetDbType (cf_database fl) config;
          config = Config_SetUpstreamProxy (cf_upstreamProxy fl) config;
          config = DisableCache (cf_cacheDisable fl) config
      in bindp (orExit (NewHoverflyDirectory X v config)) (\<lambda>directory.
           retp \<lparr>cx_config = config, cx_hoverfly = HoverctlClient.NewHoverfly config,
                 cx_hoverflyDirectory = directory, cx_viper = v\<rparr>) s)"

section \<open>The commands\<close>

type_synonym 'w command = "ctl_context \<Rightarrow> string list \<Rightarrow> ('w machine, unit) prog"

definition mode_view :: "ctl_flags \<Rightarrow> string \<Rightarrow> ModeView" where
  "mode_view fl m = \<lparr>mo_Mode = m, mo_Arguments = \<lparr>ma_Headers =
     (if cf_allHeaders fl then [''*'']
      else if length (cf_specficHeaders fl) > 0 then Split (cf_specficHeaders fl) (CHR '','') else [])\<rparr>\<rparr>"

definition headers_message :: "ctl_flags \<Rightarrow> string" where
  "headers_message fl =
     (if cf_allHeaders fl then ''and will capture all request headers''
      else if length (cf_specficHeaders fl) > 0
      then ''and will capture the following request headers: ['' @
           Join (Split (cf_specficHeaders fl) (CHR '','')) '' '' @ '']'' @ [newline]
      else '''')"

definition modeCmd :: "'w os \<Rightarrow> ctl_flags \<Rightarrow> 'w command" where
  "modeCmd X fl c args = (case args of
     [] \<Rightarrow> bindp (orExit (ctl_GetMode X (cx_hoverfly c))) (\<lambda>m.
       Println [''Hoverfly is currently set to'', m, ''mode''])
   | m # rest \<Rightarrow> bindp (orExit (ctl_SetModeWithArguments X (cx_hoverfly c) (mode_view fl m))) (\<lambda>m.
       Println [''Hoverfly has been set to'', m, ''mode'', headers_message fl]))"

definition destinationCmd :: "'w os \<Rightarrow> ctl_flags \<Rightarrow> 'w command" where
  "destinationCmd X fl c args = (case args of
     [] \<Rightarrow> bindp (orExit (ctl_GetDestination X (cx_hoverfly c))) (\<lambda>destination.
       Println [''Current Hoverfly destination is set to'', destination])
   | pattern # rest \<Rightarrow> (case os_regexp X pattern of
       Inl err \<Rightarrow> exit_with ''Regex pattern does not compile''
     | Inr regexPattern \<Rightarrow>
         if cf_dryRun fl \<noteq> '''' then
           (if regexPattern (cf_dryRun fl) then Println [''The regex provided matches the dry-run URL'']
            else exit_with ''The regex provided does not match the dry-run URL'')
         else bindp (orExit (ctl_SetDestination X (cx_hoverfly c) pattern)) (\<lambda>destination.
           Println [''Hoverfly destination has been set to'', destination])))"

definition print_script :: "ctl_flags \<Rightarrow> string \<Rightarrow> ('w machine, unit) prog" where
  "print_script fl script =
     (let lines = Split script newline in
      bindp (if cf_verbose fl \<or> length lines < 5 then Println [''Script: '' @ script] else retp ()) (\<lambda>u.
        if length lines < 5 then (\<lambda>s. Panics ''runtime error: index out of range'')
        else Println [''Script: '' @ lines ! 0 @ newline # lines ! 1 @ newline # lines ! 2 @ newline #
                      lines ! 3 @ newline # lines ! 4 @ newline # ''...'']))"

definition print_middleware :: "ctl_flags \<Rightarrow> MiddlewareView \<Rightarrow> ('w machine, unit) prog" where
  "print_middleware fl middleware =
     bindp (if mw_Binary middleware \<noteq> '''' then Println [''Binary: '' @ mw_Binary middleware] else retp ()) (\<lambda>u.
     bindp (if mw_Script middleware \<noteq> '''' then print_script fl (mw_Script middleware) else retp ()) (\<lambda>u.
       if mw_Remote middleware \<noteq> '''' then Println [''Remote: '' @ mw_Remote middleware] else retp ()))"

definition middlewareCmd :: "'w os \<Rightarrow> ctl_flags \<Rightarrow> 'w command" where
  "middlewareCmd X fl c args =
     (if cf_middlewareBinary fl = '''' \<and> cf_middlewareScript fl = '''' \<and> cf_middlewareRemote fl = '''' then
        bindp (orExit (ctl_GetMiddleware X (cx_hoverfly c))) (\<lambda>middleware.
        bindp (Println [''Hoverfly middleware configuration is currently set to'']) (\<lambda>u.
          print_middleware fl middleware))
      else if cf_middlewareRemote fl \<noteq> '''' then
        bindp (orExit (ctl_SetMiddleware X (cx_hoverfly c) '''' '''' (cf_middlewareRemote fl))) (\<lambda>middleware.
        bindp (Println [''Hoverfly middleware configuration has been set to'']) (\<lambda>u.
          print_middleware fl middleware))
      else
        bindp (orExit (ReadFile X (cf_middlewareScript fl))) (\<lambda>script.
        bindp (orExit (ctl_SetMiddleware X (cx_hoverfly c) (cf_middlewareBinary fl) script '''')) (\<lambda>middleware.
        bindp (Println [''Hoverfly middleware configuration has been set to'']) (\<lambda>u.
          print_middleware fl middleware))))"

definition confirmed :: "ctl_flags \<Rightarrow> string \<Rightarrow> ('w machine, bool) prog" where
  "confirmed fl message = (if \<not> cf_force fl then askForConfirmation message else retp True)"

definition deleteCmd :: "'w os \<Rightarrow> ctl_flags \<Rightarrow> 'w command" where
  "deleteCmd X fl c args =
     bindp (confirmed fl ''Are you sure you want to delete the current simulation?'') (\<lambda>yes.
       if \<not> yes then retp ()
       else bindp (ctl_DeleteSimulations X (cx_hoverfly c)) (\<lambda>err.
            bindp (handleIfError err) (\<lambda>u. Println [''Simulation data has been deleted from Hoverfly''])))"

definition flushCmd :: "'w os \<Rightarrow> ctl_flags \<Rightarrow> 'w command" where
  "flushCmd X fl c args =
     bindp (confirmed fl ''Are you sure you want to flush the cache?'') (\<lambda>yes.
       if \<not> yes then retp ()
       else bindp (ctl_FlushCache X (cx_hoverfly c)) (\<lambda>err.
            bindp (handleIfError err) (\<lambda>u. Println [''Successfully flushed cache''])))"

definition exportCmd :: "'w os \<Rightarrow> 'w command" where
  "exportCmd X c args =
     bindp (checkArgAndExit args ''You have not provided a path to simulation'' ''export'') (\<lambda>u.
     bindp (orExit (ctl_ExportSimulation X (cx_hoverfly c))) (\<lambda>simulationData.
     bindp (WriteFile X (hd args) simulationData) (\<lambda>err.
     bindp (handleIfError err) (\<lambda>u. Println [''Successfully exported simulation to'', hd args]))))"

definition importCmd :: "'w os \<Rightarrow> 'w command" where
  "importCmd X c args =
     bindp (checkArgAndExit args ''You have not provided a path to simulation'' ''import'') (\<lambda>u.
     bindp (orExit (ReadFile X (hd args))) (\<lambda>simulationData.
     bindp (ctl_ImportSimulation X (cx_hoverfly c) simulationData) (\<lambda>err.
     bindp (handleIfError err) (\<lambda>u. Println [''Successfully imported simulation from'', hd args]))))"

definition logsCmd :: "'w os \<Rightarrow> ctl_flags \<Rightarrow> 'w command" where
  "logsCmd X fl c args =
     (let logfile = NewLogFile (cx_hoverflyDirectory c) (wh_AdminPort (cx_hoverfly c)) (wh_ProxyPort (cx_hoverfly c)) in
      bindp (if cf_followLogs fl then LogFile_Tail X logfile else LogFile_Print X logfile) handleIfError)"

definition startCmd :: "'w os \<Rightarrow> nat \<Rightarrow> 'w command" where
  "startCmd X ticks c args =
     (let config = (case args of [] \<Rightarrow> cx_config c | a # rest \<Rightarrow> SetWebserver a (cx_config c));
          hoverfly = (case args of [] \<Rightarrow> cx_hoverfly c | a # rest \<Rightarrow> HoverctlClient.NewHoverfly config)
      in bindp (ctl_Start X ticks hoverfly (cx_hoverflyDirectory c)) (\<lambda>err.
         bindp (handleIfError err) (\<lambda>u.
           if cg_HoverflyWebserver config then
             bindp (Println [''Hoverfly is now running as a webserver'']) (\<lambda>u.
               drawTable X [[''admin-port'', cg_HoverflyAdminPort config], [''webserver-port'', cg_HoverflyProxyPort config]])
           else
             bindp (Println [''Hoverfly is now running'']) (\<lambda>u.
               drawTable X [[''admin-port'', cg_HoverflyAdminPort config], [''proxy-port'', cg_HoverflyProxyPort config]]))))"

definition stopCmd :: "'w os \<Rightarrow> 'w command" where
  "stopCmd X c args =
     bindp (ctl_Stop X (cx_hoverfly c) (cx_hoverflyDirectory c)) (\<lambda>err.
     bindp (handleIfError err) (\<lambda>u. Println [''Hoverfly has been stopped'']))"

definition configCmd :: "'w os \<Rightarrow> 'w command" where
  "configCmd X c args =
     (let path = GetFilepath (cx_viper c) in
      bindp (Println [path]) (\<lambda>u.
      bindp (ReadFile X path) (\<lambda>configData.
        (let configLines = Split (case configData of Inl err \<Rightarrow> '''' | Inr text \<Rightarrow> text) newline in
         (\<lambda>s. Returns ((), s\<lparr>mx_stdout := mx_stdout s @
            map (\<lambda>line. line @ [newline]) (filter (\<lambda>line. line \<noteq> '''') configLines)\<rparr>))))))"

definition versionCmd :: "'w os \<Rightarrow> string \<Rightarrow> 'w command" where
  "versionCmd X version c args = (case os_executable_folder X of
     Inl err \<Rightarrow> exit_with err
   | Inr binaryLocation \<Rightarrow>
       bindp (in_rest (os_output X (binaryLocation @ ''/hoverfly'') [''-version''])) (\<lambda>hoverflyVersion.
         drawTable X [[''hoverctl'', version], [''hoverfly'', hoverflyVersion]]))"

text \<open>
  The commands by name; \<^verbatim>\<open>cobra\<close> has split the command line, and runs \<^verbatim>\<open>initConfig\<close> before the command.
\<close>

definition ctl_commands :: "'w os \<Rightarrow> nat \<Rightarrow> string \<Rightarrow> ctl_flags \<Rightarrow> (string \<times> 'w command) list" where
  "ctl_commands X ticks version fl =
     [(''config'', configCmd X), (''delete'', deleteCmd X fl), (''destination'', destinationCmd X fl),
      (''export'', exportCmd X), (''flush'', flushCmd X fl), (''import'', importCmd X), (''logs'', logsCmd X fl),
      (''middleware'', middlewareCmd X fl), (''mode'', modeCmd X fl), (''start'', startCmd X ticks),
      (''stop'', stopCmd X), (''version'', versionCmd X version)]"

definition ctl_Execute :: "'w os \<Rightarrow> nat \<Rightarrow> string \<Rightarrow> ctl_flags \<Rightarrow> string \<Rightarrow> string list \<Rightarrow> ('w machine, unit) prog" where
  "ctl_Execute X ticks version fl name args = (case map_of (ctl_commands X ticks version fl) name of
     None \<Rightarrow> (\<lambda>s. Panics (''exit status 255: unknown command '' @ name))
   | Some run \<Rightarrow> bindp (initConfig X fl) (\<lambda>c. run c args))"

end
