(* ===== verification/HoverctlLaws.thy ===== *)
theory HoverctlLaws
  imports HoverctlCommands
begin

text \<open>
  What \<^verbatim>\<open>hoverctl\<close> promises: its configuration reaches the process it starts, the process id it
  writes is the one it kills, and nothing is deleted without a yes.
\<close>

section \<open>The configuration reaches the process\<close>

lemma add_flag: "(if c then xs @ [x] else xs) = xs @ (if c then [x] else [])"
  by simp

text \<open>An option that is or is not among the arguments.\<close>

lemma parse_string_options:
  "parse_flags ((if c then [''-'' @ ''ap'' @ ''='' @ v] else []) @ args) fl =
     parse_flags args (fl\<lparr>fl_adminPort := (if c then v else fl_adminPort fl)\<rparr>)"
  "parse_flags ((if c then [''-'' @ ''pp'' @ ''='' @ v] else []) @ args) fl =
     parse_flags args (fl\<lparr>fl_proxyPort := (if c then v else fl_proxyPort fl)\<rparr>)"
  "parse_flags ((if c then [''-'' @ ''db'' @ ''='' @ v] else []) @ args) fl =
     parse_flags args (fl\<lparr>fl_database := (if c then v else fl_database fl)\<rparr>)"
  "parse_flags ((if c then [''-'' @ ''cert'' @ ''='' @ v] else []) @ args) fl =
     parse_flags args (fl\<lparr>fl_cert := (if c then v else fl_cert fl)\<rparr>)"
  "parse_flags ((if c then [''-'' @ ''key'' @ ''='' @ v] else []) @ args) fl =
     parse_flags args (fl\<lparr>fl_key := (if c then v else fl_key fl)\<rparr>)"
  "parse_flags ((if c then [''-'' @ ''upstream-proxy'' @ ''='' @ v] else []) @ args) fl =
     parse_flags args (fl\<lparr>fl_upstreamProxy := (if c then v else fl_upstreamProxy fl)\<rparr>)"
  using parse_string_flag[of "''ap''" fl v] parse_string_flag[of "''pp''" fl v] parse_string_flag[of "''db''" fl v]
    parse_string_flag[of "''cert''" fl v] parse_string_flag[of "''key''" fl v]
    parse_string_flag[of "''upstream-proxy''" fl v]
  by (simp_all add: set_bool_def set_string_def)

lemma parse_bool_options:
  "parse_flags ((if c then [''-'' @ ''webserver''] else []) @ args) fl =
     parse_flags args (fl\<lparr>fl_webserver := (c \<or> fl_webserver fl)\<rparr>)"
  "parse_flags ((if c then [''-'' @ ''disable-cache''] else []) @ args) fl =
     parse_flags args (fl\<lparr>fl_disableCache := (c \<or> fl_disableCache fl)\<rparr>)"
  "parse_flags ((if c then [''-'' @ ''tls-verification'' @ ''='' @ ''false''] else []) @ args) fl =
     parse_flags args (fl\<lparr>fl_tlsVerification := (\<not> c \<and> fl_tlsVerification fl)\<rparr>)"
  using parse_bool_flag[of "''webserver''" fl] parse_bool_flag[of "''disable-cache''" fl]
    parse_bool_value[of "''tls-verification''" fl "''false''" False]
  by (simp_all add: set_bool_def ParseBool_def)

text \<open>The flags \<^verbatim>\<open>BuildFlags\<close> writes, one option after the other.\<close>

lemma BuildFlags_options:
  "BuildFlags c =
     (if cg_HoverflyAdminPort c \<noteq> '''' then [''-'' @ ''ap'' @ ''='' @ cg_HoverflyAdminPort c] else []) @
     (if cg_HoverflyProxyPort c \<noteq> '''' then [''-'' @ ''pp'' @ ''='' @ cg_HoverflyProxyPort c] else []) @
     (if cg_HoverflyDbType c \<noteq> '''' then [''-'' @ ''db'' @ ''='' @ cg_HoverflyDbType c] else []) @
     (if cg_HoverflyWebserver c then [''-'' @ ''webserver''] else []) @
     (if cg_HoverflyCertificate c \<noteq> '''' then [''-'' @ ''cert'' @ ''='' @ cg_HoverflyCertificate c] else []) @
     (if cg_HoverflyKey c \<noteq> '''' then [''-'' @ ''key'' @ ''='' @ cg_HoverflyKey c] else []) @
     (if cg_HoverflyDisableTls c then [''-'' @ ''tls-verification'' @ ''='' @ ''false''] else []) @
     (if cg_HoverflyUpstreamProxy c \<noteq> '''' then [''-'' @ ''upstream-proxy'' @ ''='' @ cg_HoverflyUpstreamProxy c] else []) @
     (if cg_HoverflyCacheDisable c then [''-'' @ ''disable-cache''] else []) @ []"
  unfolding BuildFlags_def Let_def add_flag by simp

definition flags_of :: "Config \<Rightarrow> flags" where
  "flags_of c = default_flags
     \<lparr>fl_adminPort := cg_HoverflyAdminPort c, fl_proxyPort := cg_HoverflyProxyPort c,
      fl_database := (if cg_HoverflyDbType c = '''' then inmemoryBackend else cg_HoverflyDbType c),
      fl_webserver := cg_HoverflyWebserver c, fl_cert := cg_HoverflyCertificate c, fl_key := cg_HoverflyKey c,
      fl_tlsVerification := (\<not> cg_HoverflyDisableTls c), fl_upstreamProxy := cg_HoverflyUpstreamProxy c,
      fl_disableCache := cg_HoverflyCacheDisable c\<rparr>"

lemma parse_BuildFlags: "parse_flags (BuildFlags c) default_flags = Inr (flags_of c)"
  unfolding BuildFlags_options parse_string_options parse_bool_options
  by (simp add: flags_of_def default_flags_def)

text \<open>
  C18: Hoverfly started with the flags \<^verbatim>\<open>hoverctl\<close> writes for a configuration runs \<^verbatim>\<open>main\<close> with exactly
  that configuration: whatever the values are, each reaches its flag and no flag is refused.
\<close>

theorem configuration_reaches_main:
  "hoverfly_program W M (BuildFlags c) w =
     hoverfly_main W M (default_flags
       \<lparr>fl_adminPort := cg_HoverflyAdminPort c, fl_proxyPort := cg_HoverflyProxyPort c,
        fl_database := (if cg_HoverflyDbType c = '''' then inmemoryBackend else cg_HoverflyDbType c),
        fl_webserver := cg_HoverflyWebserver c, fl_cert := cg_HoverflyCertificate c, fl_key := cg_HoverflyKey c,
        fl_tlsVerification := (\<not> cg_HoverflyDisableTls c), fl_upstreamProxy := cg_HoverflyUpstreamProxy c,
        fl_disableCache := cg_HoverflyCacheDisable c\<rparr>) w"
  by (simp add: hoverfly_program_def parse_BuildFlags flags_of_def)

text \<open>
  A configuration written to its file and read again is the same but for the upstream proxy and
  whether the cache is disabled, which \<^verbatim>\<open>GetConfig\<close> does not read.
\<close>

lemma config_round_trip:
  "GetConfig (SetConfigurationDefaults (v\<lparr>vi_file := config_fields c\<rparr>)) =
     c\<lparr>cg_HoverflyUpstreamProxy := '''', cg_HoverflyCacheDisable := False\<rparr>"
  by (simp add: GetConfig_def SetConfigurationDefaults_def GetString_def GetBool_def viper_value_def
      config_fields_def map_get_def)

section \<open>The process id\<close>

definition pid_path :: "wrapper_Hoverfly \<Rightarrow> HoverflyDirectory \<Rightarrow> string" where
  "pid_path h d = buildPidFilePath d (wh_AdminPort h) (wh_ProxyPort h)"

text \<open>The process with this id was started with the flags of the configuration.\<close>

definition started :: "'w os \<Rightarrow> wrapper_Hoverfly \<Rightarrow> int \<Rightarrow> bool" where
  "started X h pid \<longleftrightarrow> (\<exists>path w. fst (os_start X path (BuildFlags (wh_config h)) w) = Inr pid)"

definition recorded :: "'w os \<Rightarrow> wrapper_Hoverfly \<Rightarrow> HoverflyDirectory \<Rightarrow> int \<Rightarrow> 'w machine \<Rightarrow> bool" where
  "recorded X h d pid s \<longleftrightarrow> file_at (pid_path h d) s = Some (Itoa pid) \<and> os_writable X (pid_path h d)"

lemma always_bindI:
  "always m Q s \<Longrightarrow> (\<And>x s'. Q x s' \<Longrightarrow> always (f x) P s') \<Longrightarrow> always (bindp m f) P s"
  by (auto simp: always_bindp elim!: always_mono)

lemma always_in_rest: "always (in_rest f) (\<lambda>x s'. x = fst (f (mx_rest s))) s"
  by (auto simp: always_def in_rest_def split: prod.splits)

lemma startedI: "fst (os_start X path (BuildFlags (wh_config h)) w) = Inr pid \<Longrightarrow> started X h pid"
  by (auto simp: started_def)

lemma runBinary_started: "always (runBinary X h path d) (\<lambda>r s'. \<forall>pid. r = Inr pid \<longrightarrow> started X h pid) s"
  unfolding runBinary_def Let_def
proof (rule always_bindI[OF always_True])
  fix err :: "string option" and s' :: "'a machine"
  show "always (case err of Some err \<Rightarrow> retp (Inl ''Could not create log file'')
      | None \<Rightarrow> bindp (in_rest (os_start X path (BuildFlags (wh_config h)))) (\<lambda>started. case started of
          Inl err \<Rightarrow> retp (Inl ''Could not start Hoverfly'') | Inr pid \<Rightarrow> retp (Inr pid)))
    (\<lambda>r s'. \<forall>pid. r = Inr pid \<longrightarrow> started X h pid) s'"
    by (auto simp: always_retp split: option.split sum.split intro!: always_bindI[OF always_in_rest] intro: startedI sym)
qed

lemma WritePid_recorded:
  "always (WritePid X d (wh_AdminPort h) (wh_ProxyPort h) pid) (\<lambda>r s'. r = None \<longrightarrow> recorded X h d pid s') s"
  by (auto simp: WritePid_def fileIsPresent_def os_WriteFile_def Let_def always_def bindp_def retp_def recorded_def
      pid_path_def file_at_def split: if_splits)

lemma launch_recorded: "always (launch_hoverfly X ticks h d pid) (\<lambda>r s'. r = None \<longrightarrow> recorded X h d pid s') s"
  unfolding launch_hoverfly_def
  by (auto simp: always_retp split: option.split
      intro!: always_bindI[OF always_True] always_bindI[OF WritePid_recorded])

lemma launch_started:
  "started X h pid \<Longrightarrow>
     always (launch_hoverfly X ticks h d pid) (\<lambda>r s'. r = None \<longrightarrow> (\<exists>pid. started X h pid \<and> recorded X h d pid s')) s"
  by (rule always_mono[OF launch_recorded]) blast

lemma start_binary_recorded:
  "always (start_binary X ticks h d) (\<lambda>r s'. r = None \<longrightarrow> (\<exists>pid. started X h pid \<and> recorded X h d pid s')) s"
  unfolding start_binary_def
  by (auto simp: always_retp launch_started split: sum.split intro!: always_bindI[OF runBinary_started])

lemma Start_recorded:
  "always (ctl_Start X ticks h d) (\<lambda>r s'. r = None \<longrightarrow> (\<exists>pid. started X h pid \<and> recorded X h d pid s')) s"
  unfolding ctl_Start_def
  by (auto simp: always_retp start_binary_recorded split: sum.split intro!: always_bindI[OF always_True])

lemma Start_local: "ctl_Start X ticks h d s = Returns (None, s') \<Longrightarrow> isLocal h"
  by (auto simp: ctl_Start_def split: if_splits)

lemma Stop_recorded:
  assumes "recorded X h d pid s" and "isLocal h" and "os_readable X (pid_path h d)" and "0 < pid" and "pid < 2 ^ 63"
  shows "ctl_Stop X h d s = (case os_kill X pid (mx_rest s) of
      (Some err, w) \<Rightarrow> Returns (Some ''Could not kill Hoverfly'', s\<lparr>mx_rest := w\<rparr>)
    | (None, w) \<Rightarrow> Returns (None, s\<lparr>mx_rest := w, mx_files := map_del (pid_path h d) (mx_files s)\<rparr>))"
  using assms Atoi_Itoa[of pid]
  by (auto simp: ctl_Stop_def GetPid_def DeletePid_def fileIsPresent_def os_ReadFile_def os_Remove_def recorded_def
      pid_path_def bindp_def retp_def in_rest_def file_at_def Let_def split: option.splits prod.splits)

definition valid_pids :: "'w os \<Rightarrow> bool" where
  "valid_pids X \<longleftrightarrow> (\<forall>path args w pid. fst (os_start X path args w) = Inr pid \<longrightarrow> 0 < pid \<and> pid < 2 ^ 63)"

text \<open>
  C31: When \<^verbatim>\<open>hoverctl start\<close> succeeds, a process was started with the flags of the configuration and
  its id is recorded: \<^verbatim>\<open>hoverctl stop\<close> kills that process and no other, and removes the record.
\<close>

theorem start_then_stop:
  assumes "ctl_Start X ticks h d s = Returns (None, s')" and "valid_pids X" and "os_readable X (pid_path h d)"
  shows "\<exists>pid. started X h pid \<and> ctl_Stop X h d s' = (case os_kill X pid (mx_rest s') of
      (Some err, w) \<Rightarrow> Returns (Some ''Could not kill Hoverfly'', s'\<lparr>mx_rest := w\<rparr>)
    | (None, w) \<Rightarrow> Returns (None, s'\<lparr>mx_rest := w, mx_files := map_del (pid_path h d) (mx_files s')\<rparr>))"
proof -
  obtain pid where pid: "started X h pid" "recorded X h d pid s'"
    using always_Returns[OF Start_recorded assms(1)] by auto
  moreover have "0 < pid" "pid < 2 ^ 63"
    using pid(1) assms(2) by (auto simp: started_def valid_pids_def)
  ultimately show ?thesis using Stop_recorded Start_local[OF assms(1)] assms(3) by blast
qed

text \<open>A machine on which everything works; its Hoverfly has the process id 4711.\<close>

definition calm_os :: "'w os" where
  "calm_os = \<lparr>os_readable = \<lambda>p. True, os_writable = \<lambda>p. True, os_home = Inr ''/home/u'',
     os_executable_folder = Inr ''/opt'', os_start = \<lambda>p args w. (Inr 4711, w), os_kill = \<lambda>pid w. (None, w),
     os_health = \<lambda>url w. (Inr 200, w), os_download = \<lambda>url w. (Inl ''no network'', w), os_request_ok = \<lambda>url. True,
     os_do = \<lambda>rq w. (Inr \<lparr>hp_Status = 200, hp_Header = None, hp_Body = new_body '''', hp_ContentLength = 0, hp_Request = None\<rparr>, w),
     os_yaml = \<lambda>m. Inr '''', os_json_auth = \<lambda>a. Inr '''', os_json_token = \<lambda>s. Inr ''t'', os_json_mode = \<lambda>m. Inr '''',
     os_json_middleware = \<lambda>m. Inr '''', os_json_state = \<lambda>s. \<lparr>as_Mode = '''', as_Destination = ''''\<rparr>,
     os_json_middleware_view = \<lambda>s. \<lparr>mw_Binary = '''', mw_Script = '''', mw_Remote = ''''\<rparr>,
     os_json_error = \<lambda>s. Inl '''', os_json_indent = Inr, os_tail = \<lambda>p w. (Inr [], w), os_output = \<lambda>p args w. ('''', w),
     os_table = \<lambda>t. '''', os_regexp = \<lambda>p. Inr (\<lambda>s. True),
     os_viper = \<lambda>files. \<lparr>vi_file = [], vi_defaults = [], vi_path = ''''\<rparr>\<rparr>"

definition calm_machine :: "string \<Rightarrow> unit machine" where
  "calm_machine input = \<lparr>mx_files = [], mx_dirs = [], mx_stdout = [], mx_stdin = input, mx_rest = ()\<rparr>"

definition calm_config :: Config where
  "calm_config = GetConfig (SetConfigurationDefaults \<lparr>vi_file = [], vi_defaults = [], vi_path = ''''\<rparr>)"

lemma calm_start:
  "case ctl_Start calm_os (Suc 0) (HoverctlClient.NewHoverfly calm_config) \<lparr>hd_Path = ''/d''\<rparr> (calm_machine '''') of
     Returns (r, s') \<Rightarrow> r = None | Panics e \<Rightarrow> False"
  by code_simp

theorem start_then_stop_witness:
  "\<exists>s' r pid. ctl_Stop (calm_os :: unit os) (HoverctlClient.NewHoverfly calm_config) \<lparr>hd_Path = ''/d''\<rparr> s' = Returns (None, r) \<and>
     started (calm_os :: unit os) (HoverctlClient.NewHoverfly calm_config) pid"
proof -
  obtain s' where s': "ctl_Start calm_os (Suc 0) (HoverctlClient.NewHoverfly calm_config) \<lparr>hd_Path = ''/d''\<rparr> (calm_machine '''') =
      Returns (None, s')"
    using calm_start by (auto split: outcome.splits prod.splits)
  have "valid_pids (calm_os :: unit os)" "\<And>p. os_readable (calm_os :: unit os) p" "\<And>pid w. os_kill (calm_os :: unit os) pid w = (None, w)"
    by (simp_all add: valid_pids_def calm_os_def)
  with start_then_stop[OF s' this(1,2)] show ?thesis by fastforce
qed

section \<open>Asking before deleting\<close>

text \<open>The answers in an input: its lines, trimmed and in lower case. The first that decides counts.\<close>

definition answers :: "string \<Rightarrow> string list" where
  "answers input = map (\<lambda>line. ToLower (TrimSpace line)) (butlast (Split input newline))"

definition first_answer :: "string \<Rightarrow> bool option" where
  "first_answer input = (case filter (\<lambda>a. a \<in> {''y'', ''yes'', ''n'', ''no''}) (answers input) of
     [] \<Rightarrow> None | a # rest \<Rightarrow> Some (a \<in> {''y'', ''yes''}))"

lemma is_space_newline: "is_space newline"
  by (simp add: is_space_def newline_def)

lemma TrimSpace_newline: "TrimSpace (line @ [newline]) = TrimSpace line"
proof (cases "\<forall>x\<in>set line. is_space x")
  case True
  with is_space_newline show ?thesis by (auto simp: TrimSpace_def dropWhile_append dest: set_dropWhileD)
next
  case False
  with is_space_newline show ?thesis by (auto simp: TrimSpace_def dropWhile_append)
qed

lemma ReadString_line: "newline \<notin> set line \<Longrightarrow> ReadString (line @ newline # rest) = (Inr (line @ [newline]), rest)"
  by (simp add: ReadString_def dropWhile_append takeWhile_append)

lemma ReadString_EOF: "newline \<notin> set input \<Longrightarrow> ReadString input = (Inl ''EOF'', '''')"
proof -
  assume "newline \<notin> set input"
  then have "dropWhile (\<lambda>c. c \<noteq> newline) input = []" by (auto simp: dropWhile_eq_Nil_conv)
  then show ?thesis by (simp only: ReadString_def list.case)
qed

lemma answers_line:
  "newline \<notin> set line \<Longrightarrow> answers (line @ newline # rest) = ToLower (TrimSpace line) # answers rest"
  by (simp add: answers_def Split_append_sep)

lemma answers_EOF: "newline \<notin> set input \<Longrightarrow> answers input = []"
  by (simp add: answers_def Split_no_sep)

lemma askForConfirmation_answer:
  "case askForConfirmation message s of
     Returns (yes, s') \<Rightarrow> first_answer (mx_stdin s) = Some yes \<and> mx_rest s' = mx_rest s \<and> mx_files s' = mx_files s
   | Panics e \<Rightarrow> first_answer (mx_stdin s) = None"
proof (induction message s rule: askForConfirmation.induct)
  case (1 message s)
  show ?case
  proof (cases "newline \<in> set (mx_stdin s)")
    case True
    then obtain line rest where eq: "mx_stdin s = line @ newline # rest" and line: "newline \<notin> set line"
      by (meson split_list_first)
    let ?s = "s\<lparr>mx_stdout := mx_stdout s @ [message @ '' [y/n]: '']\<rparr>"
    have read: "(Inr (line @ [newline]), rest) = ReadString (mx_stdin ?s)"
      using ReadString_line[OF line] by (simp add: eq)
    show ?thesis
      using "1.IH"[OF refl read refl refl refl]
      by (subst askForConfirmation.simps)
        (auto simp: Let_def eq ReadString_line[OF line] TrimSpace_newline first_answer_def answers_line[OF line]
          split: outcome.splits)
  next
    case False
    then show ?thesis
      by (subst askForConfirmation.simps) (simp add: Let_def ReadString_EOF first_answer_def answers_EOF)
  qed
qed

text \<open>
  C26: \<^verbatim>\<open>hoverctl delete\<close> without \<^verbatim>\<open>--force\<close> goes on as with it after a yes, does nothing after a
  no, and exits when the input ends without either; the first line that is one of them decides.
\<close>

lemma delete_asks:
  assumes "\<not> cf_force fl"
  shows "case first_answer (mx_stdin s) of
      Some yes \<Rightarrow> (\<exists>s'. mx_rest s' = mx_rest s \<and> mx_files s' = mx_files s \<and>
        deleteCmd X fl c args s = (if yes then deleteCmd X (fl\<lparr>cf_force := True\<rparr>) c args s' else Returns ((), s')))
    | None \<Rightarrow> panics (deleteCmd X fl c args s)"
  using askForConfirmation_answer[where s=s and message="''Are you sure you want to delete the current simulation?''"] assms
  by (auto simp: deleteCmd_def confirmed_def bindp_def retp_def split: outcome.splits option.splits)

definition calm_context :: ctl_context where
  "calm_context = \<lparr>cx_config = calm_config, cx_hoverfly = HoverctlClient.NewHoverfly calm_config,
     cx_hoverflyDirectory = \<lparr>hd_Path = ''/d''\<rparr>, cx_viper = \<lparr>vi_file = [], vi_defaults = [], vi_path = ''''\<rparr>\<rparr>"

lemma delete_asks_witness:
  "\<exists>s'. mx_rest s' = () \<and> deleteCmd calm_os default_ctl_flags calm_context [] (calm_machine (''hm'' @ newline # ''No'' @ [newline])) = Returns ((), s')"
proof -
  have "\<not> cf_force default_ctl_flags" by (simp add: default_ctl_flags_def)
  moreover have "first_answer (mx_stdin (calm_machine (''hm'' @ newline # ''No'' @ [newline]))) = Some False" by code_simp
  ultimately show ?thesis
    using delete_asks[where fl=default_ctl_flags and s="calm_machine (''hm'' @ newline # ''No'' @ [newline])" and X=calm_os
      and c=calm_context and args="[]"] by auto
qed

section \<open>What goes wrong\<close>

text \<open>A middleware script of one to four lines is printed and then read beyond its end.\<close>

lemma short_script_panics:
  assumes "mw_Script mw \<noteq> ''''" and "length (Split (mw_Script mw) newline) < 5"
  shows "panics (print_middleware fl mw s)"
  using assms by (simp add: print_middleware_def print_script_def bindp_def Println_def print_def retp_def)

text \<open>A destination Hoverfly refuses is reported as set: only the text of the response is read.\<close>

lemma refused_destination_reported_as_set:
  assumes "cf_dryRun fl = ''''" and "os_regexp X pattern = Inr matches"
    and "ctl_doRequest X (cx_hoverfly c) ''PUT'' v2ApiDestination (destination_body pattern) s = Returns (Inr response, s')"
  shows "destinationCmd X fl c [pattern] s =
    Println [''Hoverfly destination has been set to'', as_Destination (createAPIStateResponse X response)] s'"
  using assms by (simp add: destinationCmd_def orExit_def ctl_SetDestination_def bindp_def retp_def)

end
