(* ===== verification/Exports.thy ===== *)
theory Exports
  imports Service
begin

text \<open>
  The JSON a simulation is exported as, by the tags of the structs in
  \<^verbatim>\<open>core/handlers/v2/simulation_views.go\<close>, and whether the schema that guards the import accepts it.
  A map is written by its keys in order, a nil map as null, a nil pointer and an empty map marked \<^verbatim>\<open>omitempty\<close> not at
  all; the slices of header values are taken to be there.
\<close>

section \<open>Encoding\<close>

definition omit_nil :: "string \<Rightarrow> json option \<Rightarrow> (string \<times> json) list" where
  "omit_nil key v = (case v of None \<Rightarrow> [] | Some j \<Rightarrow> [(key, j)])"

definition header_map_json :: "header_map \<Rightarrow> json" where
  "header_map_json m = JObject (map (\<lambda>(k, vs). (k, JArray (map JString vs))) (sort_key fst m))"

definition headers_json :: "headers \<Rightarrow> json" where
  "headers_json h = (case h of None \<Rightarrow> JNull | Some m \<Rightarrow> header_map_json m)"

definition matchers_json :: "RequestFieldMatchersView \<Rightarrow> json" where
  "matchers_json f = JObject
     (omit_nil ''exactMatch'' (map_option JString (fv_ExactMatch f)) @ omit_nil ''xmlMatch'' (map_option JString (fv_XmlMatch f)) @
      omit_nil ''xpathMatch'' (map_option JString (fv_XpathMatch f)) @ omit_nil ''jsonMatch'' (map_option JString (fv_JsonMatch f)) @
      omit_nil ''jsonPathMatch'' (map_option JString (fv_JsonPathMatch f)) @
      omit_nil ''regexMatch'' (map_option JString (fv_RegexMatch f)) @ omit_nil ''globMatch'' (map_option JString (fv_GlobMatch f)))"

definition request_json :: "RequestDetailsViewV2 \<Rightarrow> json" where
  "request_json r = JObject
     (omit_nil ''path'' (map_option matchers_json (v2_Path r)) @ omit_nil ''method'' (map_option matchers_json (v2_Method r)) @
      omit_nil ''destination'' (map_option matchers_json (v2_Destination r)) @
      omit_nil ''scheme'' (map_option matchers_json (v2_Scheme r)) @ omit_nil ''query'' (map_option matchers_json (v2_Query r)) @
      omit_nil ''body'' (map_option matchers_json (v2_Body r)) @
      (case v2_Headers r of None \<Rightarrow> [] | Some m \<Rightarrow> if m = [] then [] else [(''headers'', header_map_json m)]))"

definition response_json :: "ResponseDetailsView \<Rightarrow> json" where
  "response_json r = JObject
     [(''status'', JNumber (Itoa (rv_Status r))), (''body'', JString (rv_Body r)),
      (''encodedBody'', JBool (rv_EncodedBody r)), (''headers'', headers_json (rv_Headers r))]"

definition pair_json :: "RequestResponsePairViewV2 \<Rightarrow> json" where
  "pair_json p = JObject [(''response'', response_json (p2_Response p)), (''request'', request_json (p2_Request p))]"

definition delay_json :: "ResponseDelayView \<Rightarrow> json" where
  "delay_json d = JObject
     [(''urlPattern'', JString (dv_UrlPattern d)), (''httpMethod'', JString (dv_HttpMethod d)), (''delay'', JNumber (Itoa (dv_Delay d)))]"

definition global_actions_json :: "GlobalActionsView \<Rightarrow> json" where
  "global_actions_json g = JObject [(''delays'', case ga_Delays g of None \<Rightarrow> JNull | Some ds \<Rightarrow> JArray (map delay_json ds))]"

definition meta_json :: "MetaView \<Rightarrow> json" where
  "meta_json m = JObject
     [(''schemaVersion'', JString (mv_SchemaVersion m)), (''hoverflyVersion'', JString (mv_HoverflyVersion m)),
      (''timeExported'', JString (mv_TimeExported m))]"

definition simulation_json :: "SimulationViewV2 \<Rightarrow> (string \<times> json) list" where
  "simulation_json s =
     [(''data'', JObject [(''pairs'', JArray (map pair_json (d2_RequestResponsePairs (s2_DataViewV2 s)))),
                          (''globalActions'', global_actions_json (d2_GlobalActions (s2_DataViewV2 s)))]),
      (''meta'', meta_json (s2_MetaView s))]"

section \<open>What conforms\<close>

text \<open>The numbers the library takes for integers: at least those a 64-bit float represents exactly.\<close>

definition exact_integers :: "(string \<Rightarrow> bool) \<Rightarrow> bool" where
  "exact_integers is_int64 \<longleftrightarrow> (\<forall>i. - (2 ^ 53) < i \<longrightarrow> i < 2 ^ 53 \<longrightarrow> is_int64 (Itoa i))"

definition small :: "int \<Rightarrow> bool" where
  "small i \<longleftrightarrow> - (2 ^ 53) < i \<and> i < 2 ^ 53"

lemma small_int64: "exact_integers is_int64 \<Longrightarrow> small i \<Longrightarrow> is_int64 (Itoa i)"
  by (simp add: exact_integers_def small_def)

lemmas conform_simps = has_type_def given_type_def map_get_def

lemma conforms_scalars [simp]:
  "conforms is_int64 string_schema (JString s)" "conforms is_int64 boolean_schema (JBool b)"
  "conforms is_int64 integer_schema (JNumber n) \<longleftrightarrow> is_int64 n"
  by (auto simp: schema_defs conform_simps)

lemma conforms_array [simp]:
  "conforms is_int64 (array_schema s) (JArray vs) \<longleftrightarrow> (\<forall>v \<in> set vs. conforms is_int64 s v)"
  by (simp add: schema_defs conform_simps)

lemma conforms_object [simp]:
  "conforms is_int64 (object_schema required properties) (JObject m) \<longleftrightarrow>
     (\<forall>r \<in> set required. map_get m r \<noteq> None) \<and>
     (\<forall>(k, s) \<in> set properties. case map_get m k of None \<Rightarrow> True | Some v \<Rightarrow> conforms is_int64 s v)"
  by (simp add: object_schema_def has_type_def given_type_def)

lemma conforms_headers [simp]:
  "conforms is_int64 headers_schema (headers_json h) \<longleftrightarrow> h \<noteq> None"
  "conforms is_int64 headers_schema (header_map_json m)"
  by (auto simp: headers_json_def header_map_json_def headers_schema_def has_type_def given_type_def split: option.split)

lemma map_get_Cons [simp]: "map_get ((k, v) # m) j = (if j = k then Some v else map_get m j)"
  by (simp add: map_get_def)

lemma map_get_omit_nil [simp]:
  "map_get (omit_nil k v @ m) j = (if j = k \<and> v \<noteq> None then v else map_get m j)"
  "map_get (omit_nil k v) j = (if j = k then v else None)"
  by (auto simp: omit_nil_def split: option.split)

lemma conforms_matchers [simp]: "conforms is_int64 matchers_schema (matchers_json f)"
  by (simp add: matchers_json_def matchers_schema_def split: option.split)

lemma conforms_request [simp]: "conforms is_int64 (request_schema matchers_schema) (request_json r)"
  by (simp add: request_json_def request_schema_def split: option.split)

lemma conforms_response:
  "is_int64 (Itoa (rv_Status r)) \<Longrightarrow> conforms is_int64 response_schema (response_json r) \<longleftrightarrow> rv_Headers r \<noteq> None"
  by (simp add: response_json_def response_schema_def map_get_def)

lemma conforms_delay: "is_int64 (Itoa (dv_Delay d)) \<Longrightarrow> conforms is_int64 delay_schema (delay_json d)"
  by (simp add: delay_json_def delay_schema_def map_get_def)

lemma conforms_meta [simp]: "conforms is_int64 meta_schema (meta_json m)"
  by (simp add: meta_json_def meta_schema_def map_get_def)

lemma conforms_simulation:
  assumes "\<forall>p \<in> set (d2_RequestResponsePairs (s2_DataViewV2 v)). is_int64 (Itoa (rv_Status (p2_Response p)))"
    and "ga_Delays (d2_GlobalActions (s2_DataViewV2 v)) = Some ds" and "\<forall>d \<in> set ds. is_int64 (Itoa (dv_Delay d))"
  shows "conforms is_int64 (simulation_schema matchers_schema) (JObject (simulation_json v)) \<longleftrightarrow>
    (\<forall>p \<in> set (d2_RequestResponsePairs (s2_DataViewV2 v)). rv_Headers (p2_Response p) \<noteq> None)"
  using assms
  by (simp add: simulation_schema_def simulation_json_def has_type_def given_type_def pair_json_def global_actions_json_def
      conforms_delay conforms_response)

lemma export_conforms:
  assumes "exact_integers is_int64"
    and "\<forall>p \<in> set (si_MatchingPairs (hf_Simulation hf)). small (rs_Status (mp_Response p))"
    and "\<forall>d \<in> set (si_ResponseDelays (hf_Simulation hf)). small (dl_Delay d)"
  shows "ValidateSimulation is_int64 (simulation_json (GetSimulation L now hf)) SimulationViewV2Schema = None \<longleftrightarrow>
    (\<forall>p \<in> set (si_MatchingPairs (hf_Simulation hf)). rs_Headers (mp_Response p) \<noteq> None)"
  unfolding ValidateSimulation_V2
  by (subst conforms_simulation[where ds="map delay_view (si_ResponseDelays (hf_Simulation hf))"])
    (use assms in \<open>auto simp: BuildView_def ConvertToResponseDetailsView_def Let_def GetSimulation_def foldl_snoc_map
      ConvertToResponseDelayPayloadView_def delay_view_def small_int64\<close>)

text \<open>An export is read as one of version 2.\<close>

lemma read_export:
  assumes "unmarshal_map rd body = Some (simulation_json (GetSimulation L now hf))"
  shows "NewSimulationViewFromResponseBody rd body = Returns (read_version rd body (simulation_json (GetSimulation L now hf)) ''v2'')"
proof -
  have "map_get (simulation_json (GetSimulation L now hf)) ''meta'' =
      Some (JObject [(''schemaVersion'', JString ''v2''), (''hoverflyVersion'', JString (hf_version hf)),
        (''timeExported'', JString now)])"
    by (simp add: simulation_json_def meta_json_def GetSimulation_def NewMetaView_def)
  then show ?thesis
    using assms by (simp add: NewSimulationViewFromResponseBody_def is_nil_def as_map_def as_string_def)
qed

lemma export_readable:
  assumes "unmarshal_map rd body = Some (simulation_json (GetSimulation L now hf))"
    and "unmarshal_v2 rd body = Inr (GetSimulation L now hf)" and "exact_integers (rd_is_int64 rd)"
    and "\<forall>p \<in> set (si_MatchingPairs (hf_Simulation hf)). small (rs_Status (mp_Response p)) \<and> rs_Headers (mp_Response p) \<noteq> None"
    and "\<forall>d \<in> set (si_ResponseDelays (hf_Simulation hf)). small (dl_Delay d)"
  shows "NewSimulationViewFromResponseBody rd body = Returns (Inr (GetSimulation L now hf))"
proof -
  have "ValidateSimulation (rd_is_int64 rd) (simulation_json (GetSimulation L now hf)) SimulationViewV2Schema = None"
    using assms(3-5) by (subst export_conforms) auto
  then show ?thesis using assms(2) by (simp add: read_export[OF assms(1)] read_version_def)
qed

text \<open>
  An export is read back, as far as the schema is concerned, exactly when every response of the simulation
  has a header map. A pair imported without headers in its response is stored with a nil map and
  exported with null for it, and that export is refused.
\<close>

lemma export_read_back:
  assumes "unmarshal_map rd body = Some (simulation_json (GetSimulation L now hf))"
    and "exact_integers (rd_is_int64 rd)"
    and "\<forall>p \<in> set (si_MatchingPairs (hf_Simulation hf)). small (rs_Status (mp_Response p))"
    and "\<forall>d \<in> set (si_ResponseDelays (hf_Simulation hf)). small (dl_Delay d)"
  shows "if \<forall>p \<in> set (si_MatchingPairs (hf_Simulation hf)). rs_Headers (mp_Response p) \<noteq> None
    then NewSimulationViewFromResponseBody rd body = Returns (unmarshal_v2 rd body)
    else \<exists>err. NewSimulationViewFromResponseBody rd body = Returns (Inl (''Invalid v2 simulation:'' @ err))"
  using export_conforms[OF assms(2-4), of L now] read_export[OF assms(1)]
  by (auto simp: read_version_def split: option.split)

text \<open>A pair whose response was imported without headers.\<close>

definition bare_pair :: RequestMatcherResponsePair where
  "bare_pair = NewRequestMatcherResponsePairFromView
     (p2_Response_update (\<lambda>r. r\<lparr>rv_Headers := None\<rparr>) (BuildView (\<lambda>s. ''text/plain'') (headers_pair None)))"

lemma export_read_back_witness:
  "\<exists>err. NewSimulationViewFromResponseBody
     \<lparr>unmarshal_map = \<lambda>s. Some (simulation_json (GetSimulation no_libs ''now'' (sample_hoverfly [bare_pair]))),
      rd_is_int64 = \<lambda>s. True, unmarshal_v2 = \<lambda>s. Inl '''', unmarshal_v1 = \<lambda>s. Inl ''''\<rparr> ''export'' =
     Returns (Inl (''Invalid v2 simulation:'' @ err))"
proof -
  have bare: "rs_Headers (mp_Response bare_pair) = None" "rs_Status (mp_Response bare_pair) = 200" by code_simp+
  have pairs: "si_MatchingPairs (hf_Simulation (sample_hoverfly [bare_pair])) = [bare_pair]"
    "si_ResponseDelays (hf_Simulation (sample_hoverfly [bare_pair])) = []"
    by (simp_all add: sample_hoverfly_def)
  show ?thesis
    using export_read_back[where hf="sample_hoverfly [bare_pair]" and L=no_libs and now="''now''" and body="''export''"
        and rd="\<lparr>unmarshal_map = \<lambda>s. Some (simulation_json (GetSimulation no_libs ''now'' (sample_hoverfly [bare_pair]))),
          rd_is_int64 = \<lambda>s. True, unmarshal_v2 = \<lambda>s. Inl '''', unmarshal_v1 = \<lambda>s. Inl ''''\<rparr>"]
    unfolding pairs by (simp add: bare exact_integers_def small_def)
qed

end
