(* ===== verification/Remote.thy ===== *)
theory Remote
  imports HoverctlLaws ApiLaws Exports
begin

text \<open>
  \<^verbatim>\<open>hoverctl\<close> at one end of the wire and the admin interface of Hoverfly at the other: requests are
  carried to \<^const>\<open>serve_api\<close> and its answers back. What is shown is what a command does to the Hoverfly
  it talks to, with authentication on or off.
\<close>

section \<open>The wire\<close>

text \<open>What the server sees of a request, and the client of an answer. The other headers are left out.\<close>

definition received :: "string \<Rightarrow> ctl_request \<Rightarrow> http_request" where
  "received address rq =
     (let path = drop (length (''http://'' @ address)) (rq_url rq) in
      \<lparr>hq_Method = rq_verb rq, hq_Host = address, hq_URL_Scheme = '''', hq_URL_Host = '''', hq_URL_Path = path,
       hq_URL_RawQuery = '''',
       hq_Header = Some (case rq_authorization rq of None \<Rightarrow> [] | Some v \<Rightarrow> [(''Authorization'', [v])]),
       hq_Body = Some (new_body (case rq_payload rq of None \<Rightarrow> '''' | Some b \<Rightarrow> b)), hq_RequestURI = path\<rparr>)"

definition sent :: "response_writer \<Rightarrow> http_response" where
  "sent wr = \<lparr>hp_Status = status_of wr, hp_Header = Some (wr_Sent wr), hp_Body = new_body (wr_Body wr),
     hp_ContentLength = int (length (wr_Body wr)), hp_Request = None\<rparr>"

text \<open>
  The machine of \<^verbatim>\<open>hoverctl\<close> with an admin interface at an address. The handler of negroni answers 500
  when a handler panics; what that handler changed before is not followed, and no theorem here
  depends on it.
\<close>

definition connected :: "'s os \<Rightarrow> (http_request \<Rightarrow> 's handler) \<Rightarrow> string \<Rightarrow> 's os" where
  "connected X serve address = X\<lparr>os_do := (\<lambda>rq s. case serve (received address rq) (s, new_writer) of
     Returns (u, (s', wr)) \<Rightarrow> (Inr (sent wr), s')
   | Panics e \<Rightarrow> (Inr (sent (WriteHeader 500 new_writer)), s))\<rparr>"

lemma os_do_connected:
  "os_do (connected X serve adr) rq s = (case serve (received adr rq) (s, new_writer) of
     Returns (u, (s', wr)) \<Rightarrow> (Inr (sent wr), s')
   | Panics e \<Rightarrow> (Inr (sent (WriteHeader 500 new_writer)), s))"
  by (simp add: connected_def)

definition address :: "wrapper_Hoverfly \<Rightarrow> string" where
  "address h = wh_Host h @ '':'' @ wh_AdminPort h"

lemma connected_simps [simp]:
  "os_request_ok (connected X serve a) = os_request_ok X" "os_json_auth (connected X serve a) = os_json_auth X"
  "os_json_token (connected X serve a) = os_json_token X" "os_json_mode (connected X serve a) = os_json_mode X"
  "os_json_state (connected X serve a) = os_json_state X" "os_json_error (connected X serve a) = os_json_error X"
  "os_json_indent (connected X serve a) = os_json_indent X"
  by (simp_all add: connected_def)

text \<open>The request a handler gets.\<close>

definition arrives :: "wrapper_Hoverfly \<Rightarrow> string \<Rightarrow> string \<Rightarrow> string \<Rightarrow> http_request" where
  "arrives h verb path body = received (address h) (prepared_request h verb (buildURL h path) body)"

lemma arrives_simps [simp]:
  "verb \<in> {''GET'', ''PUT'', ''DELETE''} \<Longrightarrow> hq_Method (arrives h verb path body) = verb"
  "hq_URL_Path (arrives h verb path body) = path"
  "hq_Body (arrives h ''PUT'' path body) = Some (new_body body)"
  "authorization (arrives h verb path body) = (if wh_authToken h = '''' then '''' else ''Bearer '' @ wh_authToken h)"
  by (auto simp: arrives_def received_def prepared_request_def buildURL_def address_def Let_def authorization_def
      Header_Get_Authorization) (simp_all add: Header_Get_def map_index_def map_get_def)


section \<open>One request\<close>

text \<open>What \<^const>\<open>ctl_doRequest\<close> makes of what the handler does.\<close>

definition reply :: "(unit \<times> ('s \<times> response_writer)) outcome \<Rightarrow> 's machine \<Rightarrow> ((string + http_response) \<times> 's machine) outcome" where
  "reply run m = (case run of
     Returns (u, (s', wr)) \<Rightarrow>
       Returns (if status_of wr = 401 then Inl ''Hoverfly requires authentication'' else Inr (sent wr), m\<lparr>mx_rest := s'\<rparr>)
   | Panics e \<Rightarrow> Returns (Inr (sent (WriteHeader 500 new_writer)), m))"

lemma status_500: "status_of (WriteHeader 500 new_writer) = 500"
  by (simp add: status_of_def WriteHeader_def new_writer_def)

lemma bindp_in_rest [simp]:
  "bindp (in_rest f) g m = g (fst (f (mx_rest m))) (m\<lparr>mx_rest := snd (f (mx_rest m))\<rparr>)"
  by (simp add: bindp_def in_rest_def split: prod.split)

lemma same_rest [simp]: "(m :: 'w machine)\<lparr>mx_rest := mx_rest m\<rparr> = m"
  by (cases m) simp

lemma send_request_connected:
  assumes "os_request_ok X (buildURL h path)"
  shows "send_request (connected X serve (address h)) h verb (buildURL h path) body m =
    reply (serve (arrives h verb path body) (mx_rest m, new_writer)) m"
  using assms by (auto simp: send_request_def connected_def arrives_def reply_def sent_def status_500
      split: outcome.splits prod.splits)

text \<open>The route is there, and it is open to the request.\<close>

lemma serve_api_route:
  assumes "find_route (hq_Method r) (hq_URL_Path r) (getBoneRouter S C E a) = Some rt"
    and "rt_guarded rt \<Longrightarrow> ah_Enabled a \<Longrightarrow> token_accepted E a (sv_Authentication S s) r"
  shows "serve_api S C E a ui r (s, w) = rt_handler rt r (s, w)"
  using assms by (simp add: serve_api_def mux_parse_def RequireTokenAuthentication_def)

lemma v2_routes_found [simp]:
  "find_route ''PUT'' v2ApiMode (getBoneRouter S C E a) =
     Some \<lparr>rt_method = ''PUT'', rt_path = v2ApiMode, rt_guarded = True, rt_handler = HoverflyModeHandler_Put S C\<rparr>"
  "find_route ''GET'' v2ApiSimulation (getBoneRouter S C E a) =
     Some \<lparr>rt_method = ''GET'', rt_path = v2ApiSimulation, rt_guarded = True, rt_handler = \<lambda>r. SimulationHandler_Get S C\<rparr>"
  "find_route ''PUT'' v2ApiSimulation (getBoneRouter S C E a) =
     Some \<lparr>rt_method = ''PUT'', rt_path = v2ApiSimulation, rt_guarded = True, rt_handler = SimulationHandler_Put S C\<rparr>"
  "find_route ''DELETE'' v2ApiSimulation (getBoneRouter S C E a) =
     Some \<lparr>rt_method = ''DELETE'', rt_path = v2ApiSimulation, rt_guarded = True, rt_handler = \<lambda>r. SimulationHandler_Delete S C\<rparr>"
  "find_route ''POST'' ''/api/token-auth'' (getBoneRouter S C E a) =
     Some \<lparr>rt_method = ''POST'', rt_path = ''/api/token-auth'', rt_guarded = False, rt_handler = AuthHandler_Login S C E a\<rparr>"
  by (simp_all add: find_route_def getBoneRouter_def auth_routes_def v1_routes_defs v2_routes_defs v2_paths)


section \<open>Logging in\<close>

text \<open>The user the configuration of \<^verbatim>\<open>hoverctl\<close> names, and the token a Hoverfly makes for it.\<close>

definition credentials :: "wrapper_Hoverfly \<Rightarrow> User" where
  "credentials h = \<lparr>us_UUID = '''', us_Username = wh_Username h, us_Password = wh_Password h, us_IsAdmin = False\<rparr>"

definition token_for :: "auth_env \<Rightarrow> AuthHandler \<Rightarrow> wrapper_Hoverfly \<Rightarrow> string + string" where
  "token_for E a h = jw_sign (ae_libs E)
     \<lparr>cl_exp = unix (ae_now E + hours (ah_JWTExpirationDelta a)), cl_iat = unix (ae_now E),
      cl_username = wh_Username h, cl_sub = ''''\<rparr> (ah_SecretKey a)"

definition password_right :: "auth_env \<Rightarrow> AuthHandler \<Rightarrow> CacheAuthBackend \<Rightarrow> wrapper_Hoverfly \<Rightarrow> bool" where
  "password_right E a ab h =
     Authenticate (ae_libs E) (InitJWTAuthenticationBackend ab (ah_SecretKey a) (ah_JWTExpirationDelta a)) (credentials h)"

text \<open>
  What is relied on: the JSON of the credentials and of the token is read as it was written, and nothing is
  not JSON; a signed token is not empty and is valid until it expires.
\<close>

definition login_codec :: "'s os \<Rightarrow> api_codec \<Rightarrow> auth_env \<Rightarrow> wrapper_Hoverfly \<Rightarrow> bool" where
  "login_codec X C E h \<longleftrightarrow>
     (\<exists>b. os_json_auth X \<lparr>ha_Username = wh_Username h, ha_Password = wh_Password h\<rparr> = Inr b \<and> js_user C b = Some (credentials h)) \<and>
     (\<forall>t. os_json_token X (au_token_json (ae_libs E) t) = Inr t) \<and> (\<exists>err. os_json_token X '''' = Inl err)"

definition tokens_verify :: "auth_env \<Rightarrow> bool" where
  "tokens_verify E \<longleftrightarrow> (\<forall>c k. \<exists>t. jw_sign (ae_libs E) c k = Inr t \<and> t \<noteq> '''' \<and>
     (unix (ae_now E) \<le> cl_exp c \<longrightarrow> jw_parse_hmac (ae_libs E) t k = Inr True))"

lemma post_arrives:
  "hq_Method (received adr \<lparr>rq_verb = v, rq_url = ''http://'' @ adr @ p, rq_payload = Some b, rq_authorization = None\<rparr>) = v"
  "hq_URL_Path (received adr \<lparr>rq_verb = v, rq_url = ''http://'' @ adr @ p, rq_payload = Some b, rq_authorization = None\<rparr>) = p"
  "hq_Body (received adr \<lparr>rq_verb = v, rq_url = ''http://'' @ adr @ p, rq_payload = Some b, rq_authorization = None\<rparr>) = Some (new_body b)"
  by (simp_all add: received_def Let_def)

lemma generateAuthToken_connected:
  assumes "ah_Enabled a" and "login_codec X C E h" and "os_request_ok X (buildURL h ''/api/token-auth'')"
  shows "generateAuthToken (connected X (serve_api S C E a ui) (address h)) h m =
    Returns (if password_right E a (sv_Authentication S (mx_rest m)) h
      then (case token_for E a h of Inl err \<Rightarrow> os_json_token X '''' | Inr t \<Rightarrow> Inr t) else os_json_token X '''', m)"
proof -
  obtain b where b: "os_json_auth X \<lparr>ha_Username = wh_Username h, ha_Password = wh_Password h\<rparr> = Inr b"
      "js_user C b = Some (credentials h)"
    and token: "\<And>t. os_json_token X (au_token_json (ae_libs E) t) = Inr t"
    using assms(2) by (auto simp: login_codec_def)
  have url: "buildURL h ''/api/token-auth'' = ''http://'' @ address h @ ''/api/token-auth''"
    by (simp add: buildURL_def address_def)
  let ?rq = "received (address h) \<lparr>rq_verb = ''POST'', rq_url = ''http://'' @ address h @ ''/api/token-auth'',
    rq_payload = Some b, rq_authorization = None\<rparr>"
  have serve: "serve_api S C E a ui ?rq (mx_rest m, new_writer) = AuthHandler_Login S C E a ?rq (mx_rest m, new_writer)"
    by (subst serve_api_route[where rt="\<lparr>rt_method = ''POST'', rt_path = ''/api/token-auth'', rt_guarded = False,
      rt_handler = AuthHandler_Login S C E a\<rparr>"]) (simp_all only: post_arrives v2_routes_found route.simps simp_thms)
  let ?token = "if password_right E a (sv_Authentication S (mx_rest m)) h
      then (case token_for E a h of Inl err \<Rightarrow> '''' | Inr t \<Rightarrow> au_token_json (ae_libs E) t) else ''''"
  have "decoded_user C ?rq = Some (credentials h)" using b(2) unfolding decoded_user_def post_arrives by (simp add: new_body_def)
  then have "\<exists>wr. AuthHandler_Login S C E a ?rq (mx_rest m, new_writer) = Returns ((), (mx_rest m, wr)) \<and> wr_Body wr = ?token"
    using assms(1) by (auto simp: AuthHandler_Login_def Let_def Login_def GenerateToken_def token_for_def password_right_def
        InitJWTAuthenticationBackend_def credentials_def Write_def WriteHeader_def SetHeader_def new_writer_def
        split: sum.split)
  then obtain wr where run: "serve_api S C E a ui ?rq (mx_rest m, new_writer) = Returns ((), (mx_rest m, wr))"
    and body: "wr_Body wr = ?token" unfolding serve by blast
  have "os_do (connected X (serve_api S C E a ui) (address h)) \<lparr>rq_verb = ''POST'',
      rq_url = ''http://'' @ address h @ ''/api/token-auth'', rq_payload = Some b, rq_authorization = None\<rparr> (mx_rest m) =
    (Inr (sent wr), mx_rest m)"
    by (simp only: os_do_connected run outcome.case prod.case)
  then show ?thesis
    using assms(3) b(1)
    by (simp add: generateAuthToken_def Let_def url sent_def body token del: append.simps append_assoc split: sum.split)
qed


section \<open>Who may use the API\<close>

text \<open>
  With authentication off, a \<^verbatim>\<open>hoverctl\<close> without credentials; with authentication on, one whose password is
  right, where the token it is given has not been revoked and the delta of its expiry does not wrap round.
\<close>

definition may_use :: "'s os \<Rightarrow> api_codec \<Rightarrow> auth_env \<Rightarrow> AuthHandler \<Rightarrow> wrapper_Hoverfly \<Rightarrow> CacheAuthBackend \<Rightarrow> bool" where
  "may_use X C E a h ab \<longleftrightarrow> (\<forall>path. os_request_ok X (buildURL h path)) \<and>
     (if ah_Enabled a
      then wh_Username h \<noteq> '''' \<and> password_right E a ab h \<and> login_codec X C E h \<and> tokens_verify E \<and>
        0 \<le> ah_JWTExpirationDelta a \<and> ah_JWTExpirationDelta a \<le> 2562047 \<and>
        (\<forall>t. token_for E a h = Inr t \<longrightarrow>
          \<not> IsInBlacklist (InitJWTAuthenticationBackend ab (ah_SecretKey a) (ah_JWTExpirationDelta a)) (''Bearer '' @ t))
      else wh_Username h = '''' \<and> wh_Password h = '''' \<and> wh_authToken h = '''')"

lemma ctl_doRequest_login:
  assumes "wh_Username h \<noteq> ''''"
  shows "ctl_doRequest X h verb path body = bindp (generateAuthToken X h) (\<lambda>token. case token of
      Inl err \<Rightarrow> retp (Inl err)
    | Inr token \<Rightarrow> send_request X (h\<lparr>wh_authToken := token\<rparr>) verb (buildURL h path) body)"
proof -
  have "length (wh_Username h) > 0" using assms by simp
  then show ?thesis by (simp only: ctl_doRequest_def buildURL_def Let_def if_True simp_thms)
qed

lemma buildURL_token [simp]: "buildURL (h\<lparr>wh_authToken := t\<rparr>) path = buildURL h path" "address (h\<lparr>wh_authToken := t\<rparr>) = address h"
  by (simp_all add: buildURL_def address_def)

lemma bindp_run: "f s = Returns (x, s') \<Longrightarrow> bindp f g s = g x s'"
  by (simp add: bindp_def)

lemma expires_later: "0 \<le> delta \<Longrightarrow> delta \<le> 2562047 \<Longrightarrow> unix now \<le> unix (now + hours delta)"
  by (simp add: hours_small unix_def zdiv_mono1)

text \<open>A request of a \<^verbatim>\<open>hoverctl\<close> that may use the API reaches the handler of its route.\<close>

lemma request_reaches_handler:
  assumes "may_use X C E a h (sv_Authentication S (mx_rest m))" and "verb \<in> {''GET'', ''PUT'', ''DELETE''}"
    and "find_route verb path (getBoneRouter S C E a) = Some rt"
  shows "\<exists>h'. ctl_doRequest (connected X (serve_api S C E a ui) (address h)) h verb path body m =
    reply (rt_handler rt (arrives h' verb path body) (mx_rest m, new_writer)) m"
proof (cases "ah_Enabled a")
  case False
  then have "ctl_doRequest (connected X (serve_api S C E a ui) (address h)) h verb path body =
      send_request (connected X (serve_api S C E a ui) (address h)) h verb (buildURL h path) body"
    using assms(1) by (simp add: may_use_def ctl_doRequest_def buildURL_def Let_def)
  then have "ctl_doRequest (connected X (serve_api S C E a ui) (address h)) h verb path body m =
      reply (serve_api S C E a ui (arrives h verb path body) (mx_rest m, new_writer)) m"
    using assms(1) by (simp add: may_use_def send_request_connected)
  moreover have "serve_api S C E a ui (arrives h verb path body) (mx_rest m, new_writer) =
      rt_handler rt (arrives h verb path body) (mx_rest m, new_writer)"
    by (rule serve_api_route) (use assms(2,3) False in simp_all)
  ultimately show ?thesis by metis
next
  case True
  let ?c = "\<lparr>cl_exp = unix (ae_now E + hours (ah_JWTExpirationDelta a)), cl_iat = unix (ae_now E),
      cl_username = wh_Username h, cl_sub = ''''\<rparr>"
  have use: "wh_Username h \<noteq> ''''" "password_right E a (sv_Authentication S (mx_rest m)) h" "login_codec X C E h"
      "tokens_verify E" "\<And>p. os_request_ok X (buildURL h p)"
    using assms(1) True by (simp_all add: may_use_def)
  obtain t where t: "token_for E a h = Inr t" "t \<noteq> ''''"
      "unix (ae_now E) \<le> cl_exp ?c \<longrightarrow> jw_parse_hmac (ae_libs E) t (ah_SecretKey a) = Inr True"
    using use(4) unfolding tokens_verify_def token_for_def by meson
  let ?h = "h\<lparr>wh_authToken := t\<rparr>"
  have auth: "authorization (arrives ?h verb path body) = ''Bearer '' @ t" using t(2) by simp
  have "request_token (ae_libs E) (arrives ?h verb path body) = Some t"
    by (rule request_token_Bearer[OF auth]) simp
  then have "token_accepted E a (sv_Authentication S (mx_rest m)) (arrives ?h verb path body)"
    using assms(1) True t(1,3) auth expires_later
    by (simp add: token_accepted_def may_use_def ParseFromRequest_def InitJWTAuthenticationBackend_def Let_def)
  then have "serve_api S C E a ui (arrives ?h verb path body) (mx_rest m, new_writer) =
      rt_handler rt (arrives ?h verb path body) (mx_rest m, new_writer)"
    by (intro serve_api_route) (use assms(2,3) in simp_all)
  moreover have "ctl_doRequest (connected X (serve_api S C E a ui) (address h)) h verb path body m =
      send_request (connected X (serve_api S C E a ui) (address h)) ?h verb (buildURL h path) body m"
    using generateAuthToken_connected[OF True use(3,5), of S ui m] use(2) t(1)
    by (simp add: ctl_doRequest_login[OF use(1)] bindp_run)
  ultimately show ?thesis
    using send_request_connected[of X ?h path "serve_api S C E a ui" verb body m] use(5) by auto
qed


section \<open>An example\<close>

text \<open>A \<^verbatim>\<open>hoverctl\<close> and a Hoverfly with one user, \<open>hf\<close>, whose password is \<open>pw\<close>.\<close>

definition wire_os :: "'s os" where
  "wire_os = calm_os\<lparr>os_json_auth := (\<lambda>a. Inr (ha_Password a)),
     os_json_token := (\<lambda>s. case s of [] \<Rightarrow> Inl ''EOF'' | c # t \<Rightarrow> Inr t), os_json_mode := (\<lambda>v. Inr (mo_Mode v)),
     os_json_state := (\<lambda>s. \<lparr>as_Mode = s, as_Destination = ''''\<rparr>), os_json_error := Inr\<rparr>"

definition wire_env :: auth_env where
  "wire_env = \<lparr>ae_libs = plain_auth\<lparr>au_token_json := (#) (CHR ''{'')\<rparr>, ae_now = 0\<rparr>"

definition wire_codec :: api_codec where
  "wire_codec = plain_codec\<lparr>js_user := (\<lambda>s. Some \<lparr>us_UUID = '''', us_Username = ''hf'', us_Password = s, us_IsAdmin = False\<rparr>)\<rparr>"

definition wire_ctl :: "string \<Rightarrow> wrapper_Hoverfly" where
  "wire_ctl password = (HoverctlClient.NewHoverfly calm_config)\<lparr>wh_Username := ''hf'', wh_Password := password\<rparr>"

definition wire_users :: CacheAuthBackend where
  "wire_users = NewCacheBasedAuthBackend (Memory NewInMemoryCache) (Memory \<lparr>elements = [(''hf'', ''user'')]\<rparr>)"

definition wire_hoverfly :: "RequestMatcherResponsePair list \<Rightarrow> Hoverfly" where
  "wire_hoverfly pairs = (sample_hoverfly pairs)\<lparr>hf_Authentication := wire_users\<rparr>"

definition wire_machine :: "Hoverfly \<Rightarrow> (Hoverfly \<times> unit) machine" where
  "wire_machine hf = \<lparr>mx_files = [], mx_dirs = [], mx_stdout = [], mx_stdin = '''', mx_rest = (hf, ())\<rparr>"

lemma wire_password: "password_right wire_env locked wire_users (wire_ctl p) \<longleftrightarrow> p = ''pw''"
  by (auto simp: password_right_def wire_env_def wire_users_def wire_ctl_def credentials_def Authenticate_def GetUser_def
      DecodeUser_def InitJWTAuthenticationBackend_def NewCacheBasedAuthBackend_def Mem_Get_def map_index_def map_get_def plain_auth_def)

lemma wire_laws:
  "login_codec wire_os wire_codec wire_env (wire_ctl p)" "tokens_verify wire_env" "ah_Enabled locked"
  "wh_Username (wire_ctl p) \<noteq> ''''" "ah_JWTExpirationDelta locked = 24" "os_request_ok wire_os url"
  "\<not> IsInBlacklist (InitJWTAuthenticationBackend wire_users k d) t"
  by (simp_all add: login_codec_def wire_os_def wire_codec_def wire_env_def wire_ctl_def credentials_def plain_auth_def
      tokens_verify_def locked_def calm_os_def IsInBlacklist_def InitJWTAuthenticationBackend_def IsTokenBlacklisted_def
      wire_users_def NewCacheBasedAuthBackend_def Mem_Get_def NewInMemoryCache_def map_index_def map_get_def)

lemma wire_may_use: "may_use wire_os wire_codec wire_env locked (wire_ctl ''pw'') wire_users"
  by (simp add: may_use_def wire_laws wire_password)

text \<open>
  C22: with authentication on, the password decides. With the right one every request of \<^verbatim>\<open>hoverctl\<close> is
  handled as the API handles it; with a wrong one or for a user that is not there, \<^verbatim>\<open>hoverctl\<close> reports an error and
  Hoverfly is as it was.
\<close>

theorem remote_credentials:
  assumes "ah_Enabled a" and "wh_Username h \<noteq> ''''" and "\<forall>path. os_request_ok X (buildURL h path)"
    and "login_codec X C E h" and "tokens_verify E"
    and "0 \<le> ah_JWTExpirationDelta a" and "ah_JWTExpirationDelta a \<le> 2562047"
    and "\<forall>t. token_for E a h = Inr t \<longrightarrow> \<not> IsInBlacklist (InitJWTAuthenticationBackend (sv_Authentication S (mx_rest m))
        (ah_SecretKey a) (ah_JWTExpirationDelta a)) (''Bearer '' @ t)"
    and "verb \<in> {''GET'', ''PUT'', ''DELETE''}" and "find_route verb path (getBoneRouter S C E a) = Some rt"
  shows "if Authenticate (ae_libs E) (InitJWTAuthenticationBackend (sv_Authentication S (mx_rest m)) (ah_SecretKey a)
        (ah_JWTExpirationDelta a)) (credentials h)
    then \<exists>h'. ctl_doRequest (connected X (serve_api S C E a ui) (address h)) h verb path body m =
      reply (rt_handler rt (arrives h' verb path body) (mx_rest m, new_writer)) m
    else \<exists>err. ctl_doRequest (connected X (serve_api S C E a ui) (address h)) h verb path body m = Returns (Inl err, m)"
proof (cases "password_right E a (sv_Authentication S (mx_rest m)) h")
  case True
  then have "may_use X C E a h (sv_Authentication S (mx_rest m))" using assms(1-8) by (simp add: may_use_def)
  from request_reaches_handler[OF this assms(9,10)] True show ?thesis by (simp add: password_right_def)
next
  case False
  obtain err where "os_json_token X '''' = Inl err" using assms(4) by (auto simp: login_codec_def)
  then have "ctl_doRequest (connected X (serve_api S C E a ui) (address h)) h verb path body m = Returns (Inl err, m)"
    using generateAuthToken_connected[OF assms(1,4), of S ui m] assms(3) False
    by (simp add: ctl_doRequest_login[OF assms(2)] bindp_run retp_def)
  then show ?thesis using False by (auto simp: password_right_def)
qed

text \<open>A wrong password.\<close>

theorem remote_credentials_witness:
  "\<exists>err. ctl_doRequest (connected wire_os (serve_api hello_service wire_codec wire_env locked (\<lambda>r. upgraded))
      (address (wire_ctl ''guess''))) (wire_ctl ''guess'') ''DELETE'' v2ApiSimulation '''' (wire_machine (wire_hoverfly [])) =
    Returns (Inl err, wire_machine (wire_hoverfly []))"
proof -
  have ab: "sv_Authentication hello_service (mx_rest (wire_machine (wire_hoverfly []))) = wire_users"
    by (simp add: hello_service_def hoverfly_service_def wire_machine_def wire_hoverfly_def)
  have "\<not> Authenticate (ae_libs wire_env) (InitJWTAuthenticationBackend wire_users (ah_SecretKey locked)
      (ah_JWTExpirationDelta locked)) (credentials (wire_ctl ''guess''))"
    using wire_password[of "''guess''"] by (simp add: password_right_def)
  with remote_credentials[of locked "wire_ctl ''guess''" wire_os wire_codec wire_env hello_service
      "wire_machine (wire_hoverfly [])" "''DELETE''" v2ApiSimulation _ "\<lambda>r. upgraded" "''''"]
  show ?thesis by (simp add: wire_laws ab)
qed

section \<open>The mode\<close>

text \<open>The JSON of a mode, of the mode now set and of errors is read as it was written.\<close>

definition mode_codec :: "'s os \<Rightarrow> api_codec \<Rightarrow> ModeView \<Rightarrow> bool" where
  "mode_codec X C v \<longleftrightarrow> (\<exists>b. os_json_mode X v = Inr b \<and> js_mode C b = Inr v) \<and>
     (\<forall>m. as_Mode (os_json_state X (marshalled C (VMode m))) = mo_Mode m) \<and>
     (\<forall>e. \<exists>b. js_marshal C (VError \<lparr>ev_Error = e\<rparr>) = Inr b \<and> os_json_error X b = Inr e)"

lemma bindp_try [simp]:
  "bindp (serving (try_hoverfly f)) g ((hf, w), wr) = bind_outcome (f hf) (\<lambda>(x, hf'). g x ((hf', w), wr))"
  by (cases "f hf") (auto simp: bindp_def serving_def try_hoverfly_def)

lemma WriteErrorResponse_new:
  "js_marshal C (VError \<lparr>ev_Error = e\<rparr>) = Inr b \<Longrightarrow>
     status_of (WriteErrorResponse C e code new_writer) = code \<and> wr_Body (WriteErrorResponse C e code new_writer) = b"
  by (simp add: WriteErrorResponse_def WriteResponse_def writer_defs status_of_def Let_def)

lemma read_sent [simp]: "read_or_empty (sent wr) = wr_Body wr" "fst (GetResponseBody (hp_Body (sent wr))) = Inr (wr_Body wr)"
    "hp_Status (sent wr) = status_of wr" "fst (ReadAll (hp_Body (sent wr))) = Inr (wr_Body wr)"
  by (simp_all add: sent_def read_or_empty_def)

text \<open>What the handler of modes does, with the state it leaves.\<close>

lemma mode_put_run:
  assumes "wf_hoverfly (w_libs W) hf" and "hq_Body r = Some (new_body b)" and "js_mode C b = Inr v"
  shows "if mode_accepted v hf
    then \<exists>hf' wr. HoverflyModeHandler_Put (hoverfly_service W now) C r ((hf, w), new_writer) = Returns ((), ((hf', w), wr)) \<and>
      GetMode hf' = mo_Mode v \<and> status_of wr = 200 \<and> wr_Body wr = marshalled C (VMode \<lparr>mo_Mode = mo_Mode v, mo_Arguments = \<lparr>ma_Headers = []\<rparr>\<rparr>)
    else \<exists>e. HoverflyModeHandler_Put (hoverfly_service W now) C r ((hf, w), new_writer) =
      Returns ((), ((hf, w), WriteErrorResponse C e 400 new_writer))"
proof (cases "mode_accepted v hf")
  case True
  then obtain m where "map_get (hf_modeMap hf) (mo_Mode v) = Some m"
    using wf_hoverfly_some[OF assms(1), of "mo_Mode v"] by (auto simp: mode_accepted_def)
  from SetModeWithArguments_accepted[OF True this, of "w_libs W"] obtain hf' where
    "SetModeWithArguments (w_libs W) v hf = Returns (None, hf')" "GetMode hf' = mo_Mode v" by (auto simp: GetMode_def)
  then show ?thesis
    using True assms(2,3) by (simp add: HoverflyModeHandler_Put_def ReadFromRequest_def new_body_def HoverflyModeHandler_Get_def WriteResponse_new)
next
  case False
  from SetModeWithArguments_refused[OF this, of "w_libs W"] obtain e where
    "SetModeWithArguments (w_libs W) v hf = Returns (Some e, hf)" by blast
  then show ?thesis
    using False assms(2,3) by (auto simp: HoverflyModeHandler_Put_def ReadFromRequest_def new_body_def)
qed


text \<open>
  C15: \<^verbatim>\<open>hoverctl mode\<close>, from the command to the Hoverfly: a mode that Hoverfly accepts is set and reported as
  set; of any other \<^verbatim>\<open>hoverctl\<close> reports an error, and Hoverfly is as it was.
\<close>

theorem remote_mode:
  assumes "mx_rest m = (hf, w)" and "wf_hoverfly (w_libs W) hf" and "mode_codec X C v"
    and "may_use X C E a h (hf_Authentication hf)"
  shows "\<exists>hf' r. ctl_SetModeWithArguments (connected X (serve_api (hoverfly_service W now) C E a ui) (address h)) h v m =
      Returns (r, m\<lparr>mx_rest := (hf', w)\<rparr>) \<and>
    (if mode_accepted v hf then r = Inr (mo_Mode v) \<and> GetMode hf' = mo_Mode v else hf' = hf \<and> (\<exists>err. r = Inl err))"
proof (cases "mo_Mode v \<in> set all_modes")
  case False
  then show ?thesis
    using assms(1) same_rest[of m] by (auto simp: ctl_SetModeWithArguments_def retp_def mode_accepted_def all_modes_def mode_names)
next
  case True
  obtain b where b: "os_json_mode X v = Inr b" "js_mode C b = Inr v"
    and state: "\<And>mo. as_Mode (os_json_state X (marshalled C (VMode mo))) = mo_Mode mo"
    using assms(3) by (auto simp: mode_codec_def)
  have "may_use X C E a h (sv_Authentication (hoverfly_service W now) (mx_rest m))"
    using assms(1,4) by (simp add: hoverfly_service_def)
  from request_reaches_handler[OF this, of "''PUT''" v2ApiMode _ ui b] obtain h' where
    req: "ctl_doRequest (connected X (serve_api (hoverfly_service W now) C E a ui) (address h)) h ''PUT'' v2ApiMode b m =
      reply (HoverflyModeHandler_Put (hoverfly_service W now) C (arrives h' ''PUT'' v2ApiMode b) ((hf, w), new_writer)) m"
    using assms(1) by auto
  have run: "ctl_SetModeWithArguments (connected X (serve_api (hoverfly_service W now) C E a ui) (address h)) h v =
      bindp (ctl_doRequest (connected X (serve_api (hoverfly_service W now) C E a ui) (address h)) h ''PUT'' v2ApiMode b)
        (\<lambda>response. case response of Inl err \<Rightarrow> retp (Inl err)
         | Inr response \<Rightarrow> if hp_Status response = 400
             then retp (Inl (handlerError (connected X (serve_api (hoverfly_service W now) C E a ui) (address h)) response))
             else retp (Inr (as_Mode (createAPIStateResponse (connected X (serve_api (hoverfly_service W now) C E a ui) (address h)) response))))"
    using True b(1) by (auto simp: ctl_SetModeWithArguments_def all_modes_def mode_names)
  note put = mode_put_run[OF assms(2), of "arrives h' ''PUT'' v2ApiMode b" b C v now w, OF _ b(2)]
  show ?thesis
  proof (cases "mode_accepted v hf")
    case True
    with put req show ?thesis
      by (auto simp: run bindp_run reply_def createAPIStateResponse_def retp_def state)
  next
    case False
    then obtain e where e: "HoverflyModeHandler_Put (hoverfly_service W now) C (arrives h' ''PUT'' v2ApiMode b) ((hf, w), new_writer) =
        Returns ((), ((hf, w), WriteErrorResponse C e 400 new_writer))" using put by auto
    obtain j where "js_marshal C (VError \<lparr>ev_Error = e\<rparr>) = Inr j" using assms(3) by (auto simp: mode_codec_def)
    from WriteErrorResponse_new[OF this, of 400] e req False show ?thesis
      by (auto simp: run bindp_run reply_def retp_def)
  qed
qed

theorem remote_mode_witness:
  "\<exists>hf'. ctl_SetModeWithArguments (connected wire_os (serve_api hello_service wire_codec wire_env locked (\<lambda>r. upgraded))
      (address (wire_ctl ''pw''))) (wire_ctl ''pw'') \<lparr>mo_Mode = ''modify'', mo_Arguments = \<lparr>ma_Headers = []\<rparr>\<rparr>
      (wire_machine (wire_hoverfly [])) = Returns (Inr ''modify'', wire_machine hf') \<and> GetMode hf' = ''modify''"
proof -
  have "mode_accepted \<lparr>mo_Mode = ''modify'', mo_Arguments = \<lparr>ma_Headers = []\<rparr>\<rparr> (wire_hoverfly [])"
    by (simp add: mode_accepted_def all_modes_def mode_names bad_asterisk_def)
  moreover have "wf_hoverfly (w_libs hello_world) (wire_hoverfly [])"
    using wf_sample_hoverfly by (simp add: wire_hoverfly_def wf_hoverfly_def modes_ok_def wf_auth_def wire_users_def
        NewCacheBasedAuthBackend_def wf_memory_def wf_map_def NewInMemoryCache_def)
  moreover have "mode_codec wire_os wire_codec \<lparr>mo_Mode = ''modify'', mo_Arguments = \<lparr>ma_Headers = []\<rparr>\<rparr>"
    by (simp add: mode_codec_def wire_os_def wire_codec_def plain_codec_def marshalled_def)
  ultimately show ?thesis
    using remote_mode[of "wire_machine (wire_hoverfly [])" "wire_hoverfly []" "()" hello_world wire_os wire_codec
        "\<lparr>mo_Mode = ''modify'', mo_Arguments = \<lparr>ma_Headers = []\<rparr>\<rparr>" wire_env locked "wire_ctl ''pw''" "''now''" "\<lambda>r. upgraded"]
      wire_may_use
    by (auto simp: wire_machine_def wire_hoverfly_def hello_service_def)
qed

section \<open>Backups\<close>

text \<open>
  The JSON of the simulation, indented by \<^verbatim>\<open>hoverctl\<close> and read again, is the simulation. (An empty map of
  request headers is not written and would be read as nil.)
\<close>

definition simulation_codec :: "'s os \<Rightarrow> api_codec \<Rightarrow> api_codec \<Rightarrow> SimulationViewV2 \<Rightarrow> bool" where
  "simulation_codec X C C' v \<longleftrightarrow> (\<exists>b f. js_marshal C (VSimulation v) = Inr b \<and> os_json_indent X b = Inr f \<and>
     unmarshal_map (js_simulation C') f = Some (simulation_json v) \<and> unmarshal_v2 (js_simulation C') f = Inr v)"

lemma simulation_put_run:
  assumes "hq_Body r = Some (new_body f)" and "NewSimulationViewFromResponseBody (js_simulation C) f = Returns (Inr v)"
    and "PutSimulation (w_libs W) v (DeleteSimulation hf) = (None, hf')"
  shows "\<exists>wr. SimulationHandler_Put (hoverfly_service W now) C r ((hf, w), new_writer) = Returns ((), ((hf', w), wr)) \<and>
    status_of wr = 200"
  using assms by (simp add: SimulationHandler_Put_def SimulationHandler_Get_def new_body_def WriteResponse_new)




definition wire_pair :: RequestMatcherResponsePair where
  "wire_pair = (headers_pair None)\<lparr>mp_Response := \<lparr>rs_Status = 200, rs_Body = ''ok'', rs_Headers = Some []\<rparr>\<rparr>"

text \<open>A codec that carries one export.\<close>

definition export_codec :: "SimulationViewV2 \<Rightarrow> api_codec" where
  "export_codec v = wire_codec\<lparr>js_simulation := \<lparr>unmarshal_map = (\<lambda>s. Some (simulation_json v)), rd_is_int64 = (\<lambda>s. True),
     unmarshal_v2 = (\<lambda>s. Inr v), unmarshal_v1 = (\<lambda>s. Inl '''')\<rparr>\<rparr>"

lemma same_login: "login_codec X (export_codec v) E h = login_codec X wire_codec E h"
  by (simp add: login_codec_def export_codec_def)


end
