(* ===== verification/Interleaving.thy ===== *)
theory Interleaving
  imports Service
begin

text \<open>
  Requests answered at the same time. Each proxied request and each call of the API runs in a
  goroutine of its own, and nothing in \<^verbatim>\<open>GetResponse\<close> (\<^verbatim>\<open>core/hoverfly.go\<close>) or \<^verbatim>\<open>DeleteSimulation\<close>
  (\<^verbatim>\<open>core/hoverfly_service.go\<close>) holds a lock over more than one access to the cache. Here both are split at
  their accesses to what is shared, and any number of them run interleaved with imports, captures,
  flushes and changes of mode.
\<close>

section \<open>Answering and deleting in steps\<close>

text \<open>
  Where a goroutine stands. A request is \<open>Asked\<close>, has \<open>Looked\<close> into the cache without an answer, has
  \<open>Matched\<close> the simulation, with the result and the request as the matcher leaves it, and is \<open>Answered\<close>.
  A deletion is \<open>Deleting\<close>, has \<open>Emptied\<close> the pairs, has \<open>Cleared\<close> the delays, and is \<open>Deleted\<close> when it has
  flushed the cache.
\<close>

datatype activity =
    Asked RequestDetails
  | Looked RequestDetails
  | Matched "string + RequestMatcherResponsePair" RequestDetails
  | Answered "MatchingError + ResponseDetails" RequestDetails
  | Deleting
  | Emptied
  | Cleared
  | Deleted

definition look_up :: "libs \<Rightarrow> RequestDetails \<Rightarrow> Hoverfly \<Rightarrow> activity" where
  "look_up L requestDetails hf =
     (case GetCachedResponse L (hf_CacheMatcher hf) requestDetails of
        Inl cacheErr \<Rightarrow> Looked requestDetails
      | Inr cachedResponse \<Rightarrow>
          (case cr_MatchingPair cachedResponse of
             None \<Rightarrow> Answered (Inl not_recorded) requestDetails
           | Some p \<Rightarrow>
               if \<not> cr_HeaderMatch cachedResponse then Answered (Inr (mp_Response p)) requestDetails
               else Looked requestDetails))"

definition match_simulation :: "libs \<Rightarrow> RequestDetails \<Rightarrow> Hoverfly \<Rightarrow> activity" where
  "match_simulation L requestDetails hf =
     (case RequestMatcher_fn L requestDetails (cf_Webserver (hf_Cfg hf)) (hf_Simulation hf) of
        (matched, requestDetails') \<Rightarrow> Matched matched requestDetails')"

definition save_and_answer ::
  "libs \<Rightarrow> string + RequestMatcherResponsePair \<Rightarrow> RequestDetails \<Rightarrow> Hoverfly \<Rightarrow> activity \<times> Hoverfly" where
  "save_and_answer L matched requestDetails hf =
     (let pair = (case matched of Inl err \<Rightarrow> None | Inr p \<Rightarrow> Some p);
          (err, cm) = SaveRequestMatcherResponsePair L (hf_CacheMatcher hf) requestDetails pair
      in (Answered (case matched of Inl err \<Rightarrow> Inl not_recorded | Inr p \<Rightarrow> Inr (mp_Response p)) requestDetails,
          hf\<lparr>hf_CacheMatcher := cm\<rparr>))"

fun advance :: "libs \<Rightarrow> activity \<Rightarrow> Hoverfly \<Rightarrow> activity \<times> Hoverfly" where
  "advance L (Asked r) hf = (look_up L r hf, hf)"
| "advance L (Looked r) hf = (match_simulation L r hf, hf)"
| "advance L (Matched m r) hf = save_and_answer L m r hf"
| "advance L (Answered a r) hf = (Answered a r, hf)"
| "advance L Deleting hf = (Emptied, hf\<lparr>hf_Simulation := (hf_Simulation hf)\<lparr>si_MatchingPairs := []\<rparr>\<rparr>)"
| "advance L Emptied hf = (Cleared, DeleteResponseDelays hf)"
| "advance L Cleared hf = (Deleted, snd (Svc_FlushCache hf))"
| "advance L Deleted hf = (Deleted, hf)"

fun advances :: "libs \<Rightarrow> nat \<Rightarrow> activity \<times> Hoverfly \<Rightarrow> activity \<times> Hoverfly" where
  "advances L 0 s = s"
| "advances L (Suc n) s = advances L n (advance L (fst s) (snd s))"

text \<open>
  Three steps of a request with nothing in between are \<^verbatim>\<open>GetResponse\<close>, with the same answer, the same
  request afterwards and the same state, and three steps of a deletion are \<^verbatim>\<open>DeleteSimulation\<close>.
\<close>

lemma steps_alone:
  "advances L 3 (Asked r, hf) = (case GetResponse L r hf of ((a, r'), hf') \<Rightarrow> (Answered a r', hf')) \<and>
   advances L 3 (Deleting, hf) = (Deleted, DeleteSimulation hf)"
  by (simp add: numeral_3_eq_3 look_up_def match_simulation_def save_and_answer_def GetResponse_def
      match_and_save_def DeleteSimulation_def Let_def split: sum.split option.split prod.split)

section \<open>Running together\<close>

definition is_matched :: "activity \<Rightarrow> bool" where
  "is_matched a = (case a of Matched m r \<Rightarrow> True | _ \<Rightarrow> False)"

definition being_deleted :: "activity list \<Rightarrow> bool" where
  "being_deleted as = (Emptied \<in> set as \<or> Cleared \<in> set as)"

text \<open>
  The states a Hoverfly and the goroutines on it can reach. With \<open>guarded\<close>, the last step of a deletion waits
  until no request stands between matching and saving, as a lock over both would have it; the program is
  the case without.
\<close>

inductive concurrent :: "libs \<Rightarrow> bool \<Rightarrow> Hoverfly \<Rightarrow> Hoverfly \<Rightarrow> activity list \<Rightarrow> bool"
  for L :: libs and guarded :: bool and hf0 :: Hoverfly where
  starts: "concurrent L guarded hf0 hf0 []"
| arrives: "concurrent L guarded hf0 hf as \<Longrightarrow> concurrent L guarded hf0 hf (as @ [Asked r])"
| deletes: "concurrent L guarded hf0 hf as \<Longrightarrow> concurrent L guarded hf0 hf (as @ [Deleting])"
| proceeds: "concurrent L guarded hf0 hf as \<Longrightarrow> i < length as \<Longrightarrow>
    \<not> (guarded \<and> as ! i = Cleared \<and> list_ex is_matched as) \<Longrightarrow>
    concurrent L guarded hf0 (snd (advance L (as ! i) hf)) (as[i := fst (advance L (as ! i) hf)])"
| loads: "concurrent L guarded hf0 hf as \<Longrightarrow> concurrent L guarded hf0 (snd (PutSimulation L v hf)) as"
| captures: "concurrent L guarded hf0 hf as \<Longrightarrow> concurrent L guarded hf0 (snd (Save q d hs hf)) as"
| flushes: "concurrent L guarded hf0 hf as \<Longrightarrow> concurrent L guarded hf0 (snd (Svc_FlushCache hf)) as"
| mode: "concurrent L guarded hf0 hf as \<Longrightarrow> SetModeWithArguments L mv hf = Returns (e, hf') \<Longrightarrow>
    concurrent L guarded hf0 hf' as"

section \<open>What the cache may hold\<close>

text \<open>
  What the gob codec encodes it decodes, up to pointers to empty strings; it need not encode everything.
\<close>

definition codec_ok :: "libs \<Rightarrow> bool" where
  "codec_ok L = (\<forall>c b. gob_enc L c = Inr b \<longrightarrow> gob_dec L b = Inr (gob_normal c))"

text \<open>Every response in the cache is one the predicate allows.\<close>

definition cache_holds :: "libs \<Rightarrow> ResponseDetails set \<Rightarrow> CacheMatcher \<Rightarrow> bool" where
  "cache_holds L R cm = (\<forall>r c p. GetCachedResponse L cm r = Inr c \<longrightarrow> cr_MatchingPair c = Some p \<longrightarrow> mp_Response p \<in> R)"

definition responses_of :: "Hoverfly \<Rightarrow> ResponseDetails set" where
  "responses_of hf = mp_Response ` set (si_MatchingPairs (hf_Simulation hf))"

lemma cache_holds_mono: "cache_holds L R cm \<Longrightarrow> R \<subseteq> R' \<Longrightarrow> cache_holds L R' cm"
  unfolding cache_holds_def by blast

lemma store_Set_found:
  "found (store_Get (snd (store_Set c k v)) j) = Some u \<Longrightarrow> found (store_Get c j) = Some u \<or> u = v"
  by (cases c)
    (auto simp: Mem_Set_def Mem_Get_def map_index_def bolt_defs map_get_sorted_put
      split: option.splits sum.splits if_splits)

lemma GetCachedResponse_iff:
  "GetCachedResponse L cm r = Inr c \<longleftrightarrow>
     (\<exists>s b. cm_RequestCache cm = Some s \<and> found (store_Get s (cache_key cm r)) = Some b \<and> gob_dec L b = Inr c)"
  by (auto simp: GetCachedResponse_def NewCachedResponseFromBytes_def found_Some_iff
      split: option.splits sum.splits)

lemma GetCachedResponse_after_Save:
  assumes "codec_ok L" and "GetCachedResponse L (snd (SaveRequestMatcherResponsePair L cm q pair)) r = Inr c"
  shows "GetCachedResponse L cm r = Inr c \<or> c = gob_normal (cached_response q pair)"
proof (cases "cm_RequestCache cm")
  case (Some s)
  show ?thesis
  proof (cases "gob_enc L (cached_response q pair)")
    case (Inr b)
    have "snd (SaveRequestMatcherResponsePair L cm q pair) =
        cm\<lparr>cm_RequestCache := Some (snd (store_Set s (cache_key cm q) b))\<rparr>"
      by (simp add: SaveRequestMatcherResponsePair_def Some Encode_def Inr split: prod.split sum.split)
    with assms(2) obtain u where u: "found (store_Get (snd (store_Set s (cache_key cm q) b)) (cache_key cm r)) = Some u"
        "gob_dec L u = Inr c"
      by (auto simp: GetCachedResponse_iff cache_key_def)
    from store_Set_found[OF u(1)] show ?thesis
      using assms(1) Inr u(2) Some by (auto simp: GetCachedResponse_iff codec_ok_def)
  qed (use assms(2) Some in \<open>simp add: SaveRequestMatcherResponsePair_def Encode_def\<close>)
qed (use assms(2) in \<open>simp add: SaveRequestMatcherResponsePair_def\<close>)

lemma cache_holds_Save:
  assumes "codec_ok L" and "cache_holds L R cm" and "\<And>p. pair = Some p \<Longrightarrow> mp_Response p \<in> R"
  shows "cache_holds L R (snd (SaveRequestMatcherResponsePair L cm q pair))"
  unfolding cache_holds_def
proof (intro allI impI)
  fix r c p
  assume c: "GetCachedResponse L (snd (SaveRequestMatcherResponsePair L cm q pair)) r = Inr c" "cr_MatchingPair c = Some p"
  from GetCachedResponse_after_Save[OF assms(1) c(1)] show "mp_Response p \<in> R"
  proof
    assume "c = gob_normal (cached_response q pair)"
    then show ?thesis using c(2) assms(3) by (auto simp: gob_normal_def cached_response_def)
  qed (use assms(2) c(2) in \<open>simp add: cache_holds_def\<close>)
qed

lemma cache_holds_Flush: "wf_matcher cm \<Longrightarrow> cache_holds L R (snd (FlushCache cm))"
  using GetCachedResponse_flushed[of cm L] unfolding cache_holds_def by (metis sum.distinct(1))

lemma Svc_FlushCache_snd: "snd (Svc_FlushCache hf) = hf\<lparr>hf_CacheMatcher := snd (FlushCache (hf_CacheMatcher hf))\<rparr>"
  by (simp add: Svc_FlushCache_def split: prod.split)

lemma cache_holds_preload:
  "\<lbrakk>codec_ok L; cache_holds L R cm; mp_Response ` set ps \<subseteq> R\<rbrakk> \<Longrightarrow> cache_holds L R (foldl (preload_pair L) cm ps)"
  by (induction ps arbitrary: cm) (auto simp: preload_pair_def intro!: cache_holds_Save split: option.splits)

lemma cache_holds_PreloadCache:
  "\<lbrakk>codec_ok L; cache_holds L R cm; mp_Response ` set (si_MatchingPairs sim) \<subseteq> R\<rbrakk> \<Longrightarrow>
     cache_holds L R (snd (PreloadCache L cm sim))"
  by (simp add: PreloadCache_def cache_holds_preload split: option.split)


section \<open>The invariant of guarded runs\<close>

text \<open>
  Unless a deletion has emptied the pairs and not flushed the cache yet, every response in the cache, and every
  one a request is about to save, is that of a pair of the simulation.
\<close>

definition current :: "libs \<Rightarrow> Hoverfly \<Rightarrow> activity list \<Rightarrow> bool" where
  "current L hf as =
     (cache_holds L (responses_of hf) (hf_CacheMatcher hf) \<and>
      (\<forall>p r. Matched (Inr p) r \<in> set as \<longrightarrow> mp_Response p \<in> responses_of hf))"

definition settled :: "libs \<Rightarrow> Hoverfly \<Rightarrow> activity list \<Rightarrow> bool" where
  "settled L hf as = (wf_matcher (hf_CacheMatcher hf) \<and> (being_deleted as \<or> current L hf as))"

lemma current_mono:
  assumes "current L hf as" and "responses_of hf \<subseteq> responses_of hf'"
    and "cache_holds L (responses_of hf') (hf_CacheMatcher hf')"
  shows "current L hf' as"
  using assms unfolding current_def by blast

lemma settled_snoc: "settled L hf as \<Longrightarrow> a \<in> {Asked r, Deleting} \<Longrightarrow> settled L hf (as @ [a])"
  by (auto simp: settled_def being_deleted_def current_def)

lemma set_update: "i < length as \<Longrightarrow> b \<in> set as \<Longrightarrow> b \<noteq> as ! i \<Longrightarrow> b \<in> set (as[i := a])"
  by (metis in_set_conv_nth length_list_update nth_list_update_neq)

lemma being_deleted_update:
  "\<lbrakk>being_deleted as; i < length as; as ! i \<notin> {Emptied, Cleared}\<rbrakk> \<Longrightarrow> being_deleted (as[i := a])"
  by (auto simp: being_deleted_def intro: set_update)

lemma current_update:
  "\<lbrakk>current L hf as; \<And>p r. a = Matched (Inr p) r \<Longrightarrow> mp_Response p \<in> responses_of hf\<rbrakk> \<Longrightarrow>
     current L hf (as[i := a])"
  unfolding current_def using set_update_subset_insert[of as i a] by blast

lemma settled_update:
  "\<lbrakk>settled L hf as; i < length as; as ! i \<notin> {Emptied, Cleared};
    \<And>p r. a = Matched (Inr p) r \<Longrightarrow> mp_Response p \<in> responses_of hf\<rbrakk> \<Longrightarrow> settled L hf (as[i := a])"
  unfolding settled_def using being_deleted_update[of as i a] current_update[of L hf as a i] by blast

lemma matched_is_current:
  assumes "match_simulation L r hf = Matched (Inr p) r'"
  shows "mp_Response p \<in> responses_of hf"
proof -
  have "fst (RequestMatcher_fn L r (cf_Webserver (hf_Cfg hf)) (hf_Simulation hf)) = Inr p"
    using assms by (simp add: match_simulation_def split: prod.splits)
  then have "find (pair_matches L (cf_Webserver (hf_Cfg hf)) r) (si_MatchingPairs (hf_Simulation hf)) = Some p"
    by (simp add: RequestMatcher_fn_find split: option.splits)
  then show ?thesis by (auto simp: responses_of_def find_Some_iff)
qed

lemma save_and_answer_snd:
  "snd (save_and_answer L m r hf) = hf\<lparr>hf_CacheMatcher := snd (SaveRequestMatcherResponsePair L (hf_CacheMatcher hf) r
     (case m of Inl err \<Rightarrow> None | Inr p \<Rightarrow> Some p))\<rparr>"
  "fst (save_and_answer L m r hf) =
     Answered (case m of Inl err \<Rightarrow> Inl not_recorded | Inr p \<Rightarrow> Inr (mp_Response p)) r"
  by (auto simp: save_and_answer_def Let_def split: prod.split)

lemma settled_saved:
  assumes "codec_ok L" and "settled L hf as" and "Matched m r \<in> set as"
  shows "settled L (snd (save_and_answer L m r hf)) as"
proof -
  let ?hf = "snd (save_and_answer L m r hf)"
  have same: "responses_of ?hf = responses_of hf" by (simp add: save_and_answer_snd responses_of_def)
  have "current L ?hf as" if cur: "current L hf as"
  proof (rule current_mono[OF cur])
    have "mp_Response p \<in> responses_of hf" if "m = Inr p" for p
      using cur assms(3) that by (auto simp: current_def)
    then show "cache_holds L (responses_of ?hf) (hf_CacheMatcher ?hf)"
      unfolding same using cur
      by (auto simp: save_and_answer_snd current_def intro!: cache_holds_Save[OF assms(1)] split: sum.splits)
  qed (simp add: same)
  then show ?thesis
    using assms(2) by (auto simp: settled_def save_and_answer_snd wf_matcher_Save)
qed

lemma look_up_cases: "look_up L r hf = Looked r \<or> (\<exists>x. look_up L r hf = Answered x r)"
  by (auto simp: look_up_def split: sum.splits option.splits)

lemma settled_advance:
  assumes "codec_ok L" and "settled L hf as" and "i < length as" and "\<not> (as ! i = Cleared \<and> list_ex is_matched as)"
  shows "settled L (snd (advance L (as ! i) hf)) (as[i := fst (advance L (as ! i) hf)])"
proof (cases "as ! i")
  case (Asked r)
  then show ?thesis
    using look_up_cases[of L r hf] by (auto intro!: settled_update[OF assms(2,3)])
next
  case (Looked r)
  then show ?thesis
    by (auto intro!: settled_update[OF assms(2,3)] intro: matched_is_current)
next
  case (Matched m r)
  have "Matched m r \<in> set as" using assms(3) Matched nth_mem by metis
  from settled_saved[OF assms(1,2) this] obtain x where "fst (save_and_answer L m r hf) = Answered x r"
      "settled L (snd (save_and_answer L m r hf)) as"
    using save_and_answer_snd(2) by metis
  then show ?thesis using Matched assms(3) by (auto intro!: settled_update)
next
  case (Answered x r)
  then show ?thesis by (auto intro!: settled_update[OF assms(2,3)])
next
  case Deleting
  then show ?thesis
    using assms(2,3) set_update_memI[of i as Emptied] by (simp add: settled_def being_deleted_def)
next
  case Emptied
  then show ?thesis
    using assms(2,3) set_update_memI[of i as Cleared] by (simp add: settled_def being_deleted_def DeleteResponseDelays_def)
next
  case Cleared
  have wf: "wf_matcher (hf_CacheMatcher hf)" using assms(2) by (simp add: settled_def)
  have "\<not> list_ex is_matched as" using assms(4) Cleared by simp
  then have "Matched m r \<notin> set as" for m r by (auto simp: list_ex_iff is_matched_def)
  then have "Matched m r \<notin> set (as[i := Deleted])" for m r
    using set_update_subset_insert[of as i Deleted] by blast
  with Cleared show ?thesis
    by (simp add: settled_def current_def Svc_FlushCache_snd wf_matcher_Flush[OF wf] cache_holds_Flush[OF wf])
next
  case Deleted
  then show ?thesis by (auto intro!: settled_update[OF assms(2,3)])
qed

text \<open>Operations that leave the goroutines where they are.\<close>

lemma settled_by:
  assumes "settled L hf as" and "wf_matcher (hf_CacheMatcher hf')" and "responses_of hf \<subseteq> responses_of hf'"
    and "cache_holds L (responses_of hf) (hf_CacheMatcher hf) \<Longrightarrow> cache_holds L (responses_of hf) (hf_CacheMatcher hf')"
  shows "settled L hf' as"
  using assms cache_holds_mono[OF assms(4) assms(3)] current_mono[of L hf as hf']
  by (auto simp: settled_def current_def)

lemma settled_SetMode:
  assumes "codec_ok L" and "settled L hf as" and "SetModeWithArguments L mv hf = Returns (e, hf')"
  shows "settled L hf' as"
proof -
  have "hf_Simulation hf' = hf_Simulation hf \<and>
      hf_CacheMatcher hf' \<in> {hf_CacheMatcher hf, snd (FlushCache (hf_CacheMatcher hf)),
        snd (PreloadCache L (hf_CacheMatcher hf) (hf_Simulation hf))}"
    using assms(3) by (auto simp: SetModeWithArguments_def Let_def split: if_splits option.splits)
  moreover have "wf_matcher (hf_CacheMatcher hf)" using assms(2) by (simp add: settled_def)
  ultimately show ?thesis
    by (intro settled_by[OF assms(2)])
      (auto simp: responses_of_def wf_matcher_Flush wf_matcher_PreloadCache cache_holds_Flush
        intro!: cache_holds_PreloadCache[OF assms(1)])
qed

lemma guarded_settled:
  assumes "codec_ok L" and "settled L hf0 []" and "concurrent L True hf0 hf as"
  shows "settled L hf as"
  using assms(3)
proof induction
  case starts show ?case by (rule assms(2))
next
  case (arrives hf as r) then show ?case by (intro settled_snoc) auto
next
  case (deletes hf as) then show ?case by (intro settled_snoc[where r = zero_request]) auto
next
  case (proceeds hf as i) then show ?case by (intro settled_advance[OF assms(1)]) auto
next
  case (loads hf as v)
  then show ?case
    by (intro settled_by[OF loads.IH])
      (auto simp: settled_def responses_of_def PutSimulation_eq Let_def SetResponseDelays_eq
        ImportRequestResponsePairViews_eq split: option.splits)
next
  case (captures hf as q d hs)
  then show ?case
    by (intro settled_by[OF captures.IH])
      (auto simp: settled_def responses_of_def Save_def AddRequestMatcherResponsePair_def)
next
  case (flushes hf as)
  then show ?case
    by (intro settled_by[OF flushes.IH])
      (auto simp: settled_def responses_of_def Svc_FlushCache_snd wf_matcher_Flush cache_holds_Flush)
next
  case (mode hf as mv e hf')
  then show ?case by (blast intro: settled_SetMode[OF assms(1)])
qed



text \<open>The codec that knows one entry refuses the others.\<close>

definition one_entry_codec :: "CachedResponse \<Rightarrow> libs" where
  "one_entry_codec c = no_libs\<lparr>gob_enc := (\<lambda>c'. if c' = c then Inr ''gob'' else Inl ''unknown''),
     gob_dec := (\<lambda>_. Inr (gob_normal c))\<rparr>"

lemma codec_ok_one_entry: "codec_ok (one_entry_codec c)"
  by (simp add: codec_ok_def one_entry_codec_def)

lemma storable_one_entry_codec: "storable (one_entry_codec c) c"
  by (simp add: storable_def one_entry_codec_def MaxValueSize_def)

lemma no_headers_matches:
  "RequestMatcher_fn L zero_request web \<lparr>si_MatchingPairs = [headers_pair None], si_ResponseDelays = ds\<rparr> =
     (Inr (headers_pair None), zero_request)"
  by (simp add: RequestMatcher_fn_def match_loop_Cons headers_pair_def fields_match_def HeaderMatcher_def)

section \<open>What the missing lock allows\<close>

text \<open>
  C13: the code has no such lock. A request that has missed the cache and matched a pair without header matchers
  may save it after a deletion of the simulation has flushed the cache: the run ends with no pairs,
  no request or deletion under way, and the deleted response still answers the request, as it does any other with the same key.
\<close>

theorem delete_race:
  assumes "wf_matcher (hf_CacheMatcher hf)" and "cm_RequestCache (hf_CacheMatcher hf) \<noteq> None"
    and "GetCachedResponse L (hf_CacheMatcher hf) r = Inl e"
    and "RequestMatcher_fn L r (cf_Webserver (hf_Cfg hf)) (hf_Simulation hf) = (Inr p, r')"
    and "no_header_matchers p" and "storable L (cached_response r' (Some p))"
  shows "\<exists>hf'. concurrent L False hf hf' [Answered (Inr (mp_Response p)) r', Deleted] \<and>
    si_MatchingPairs (hf_Simulation hf') = [] \<and> fst (fst (GetResponse L r hf')) = Inr (mp_Response p)"
proof -
  let ?D = "DeleteSimulation hf"
  let ?S = "snd (save_and_answer L (Inr p) r' ?D)"
  have "concurrent L False hf hf ([] @ [Asked r])" by (rule arrives starts)+
  from proceeds[OF this, of 0] have "concurrent L False hf hf [Looked r]"
    by (simp add: look_up_def assms(3))
  from proceeds[OF this, of 0] have "concurrent L False hf hf ([Matched (Inr p) r'] @ [Deleting])"
    by - (rule deletes, simp add: match_simulation_def assms(4))
  from proceeds[OF this, of 1] have "concurrent L False hf (snd (advance L Deleting hf)) [Matched (Inr p) r', Emptied]"
    by simp
  from proceeds[OF this, of 1] have
    "concurrent L False hf (DeleteResponseDelays (snd (advance L Deleting hf))) [Matched (Inr p) r', Cleared]"
    by simp
  from proceeds[OF this, of 1] have "concurrent L False hf ?D [Matched (Inr p) r', Deleted]"
    by (simp add: DeleteSimulation_def Let_def)
  from proceeds[OF this, of 0] have run: "concurrent L False hf ?S [Answered (Inr (mp_Response p)) r', Deleted]"
    by (simp add: save_and_answer_snd(2))
  obtain hs where r': "r' = r\<lparr>rq_Headers := hs\<rparr>"
    using RequestMatcher_snd[of L r "cf_Webserver (hf_Cfg hf)" "hf_Simulation hf"] assms(4) by auto
  have key: "cache_key cm r' = cache_key cm r" for cm
    by (simp add: r' cache_key_def Hash_def HashWithoutHost_def concatenate_eq)
  have D: "hf_CacheMatcher ?D = snd (FlushCache (hf_CacheMatcher hf))" by (simp add: DeleteSimulation_eq)
  have "GetCachedResponse L (hf_CacheMatcher ?S) r = Inr (gob_normal (cached_response r' (Some p)))"
    using GetCachedResponse_Save[OF wf_matcher_Flush[OF assms(1)] _ assms(6), of r] assms(2)
    by (simp add: save_and_answer_snd(1) D key)
  then have "fst (fst (GetResponse L r ?S)) = Inr (mp_Response p)"
    using assms(5) by (simp add: GetResponse_def gob_normal_def cached_response_def no_header_matchers_def)
  moreover have "si_MatchingPairs (hf_Simulation ?S) = []" by (simp add: save_and_answer_snd(1) DeleteSimulation_eq)
  ultimately show ?thesis using run by blast
qed

theorem delete_race_witness:
  "let L = one_entry_codec (cached_response zero_request (Some (headers_pair None))) in
   \<exists>hf'. concurrent L False (sample_hoverfly [headers_pair None]) hf'
       [Answered (Inr \<lparr>rs_Status = 200, rs_Body = ''ok'', rs_Headers = None\<rparr>) zero_request, Deleted] \<and>
     si_MatchingPairs (hf_Simulation hf') = [] \<and>
     fst (fst (GetResponse L zero_request hf')) = Inr \<lparr>rs_Status = 200, rs_Body = ''ok'', rs_Headers = None\<rparr>"
proof -
  obtain e where "GetCachedResponse (one_entry_codec (cached_response zero_request (Some (headers_pair None))))
      (hf_CacheMatcher (sample_hoverfly [headers_pair None])) zero_request = Inl e"
    using empty_cache_misses by blast
  from delete_race[OF wf_sample _ this _ _ storable_one_entry_codec] show ?thesis
    by (simp add: no_headers_matches no_header_matchers_iff Let_def)
      (simp add: headers_pair_def)
qed

text \<open>A guarded run: a request is answered, the simulation is deleted, and the request is asked again.\<close>

lemma guarded_run:
  assumes "look_up L r hf = Looked r" and "match_simulation L r hf = Matched (Inr p) r"
  shows "concurrent L True hf (DeleteSimulation (snd (save_and_answer L (Inr p) r hf)))
    [Answered (Inr (mp_Response p)) r, Deleted]"
proof -
  let ?S = "snd (save_and_answer L (Inr p) r hf)"
  have "concurrent L True hf hf ([] @ [Asked r])" by (rule arrives starts)+
  from proceeds[OF this, of 0] have "concurrent L True hf hf [Looked r]" by (simp add: assms(1))
  from proceeds[OF this, of 0] have "concurrent L True hf hf [Matched (Inr p) r]" by (simp add: assms(2))
  from proceeds[OF this, of 0] have "concurrent L True hf ?S ([Answered (Inr (mp_Response p)) r] @ [Deleting])"
    by - (rule deletes, simp add: save_and_answer_snd(2))
  from proceeds[OF this, of 1] have
    "concurrent L True hf (snd (advance L Deleting ?S)) [Answered (Inr (mp_Response p)) r, Emptied]" by simp
  from proceeds[OF this, of 1] have
    "concurrent L True hf (DeleteResponseDelays (snd (advance L Deleting ?S))) [Answered (Inr (mp_Response p)) r, Cleared]"
    by simp
  from proceeds[OF this, of 1] show ?thesis
    by (simp add: DeleteSimulation_def Let_def is_matched_def)
qed


end
