(* ===== verification/Admin.thy ===== *)
theory Admin
  imports ApiLaws
begin

text \<open>
  The web server of the admin interface: the router \<^verbatim>\<open>bone\<close> (\<^verbatim>\<open>vendor/github.com/go-zoo/bone\<close>) as the
  program uses it, the pages of the user interface and the chain of \<^verbatim>\<open>negroni\<close> around them
  (\<^verbatim>\<open>core/admin.go\<close>), and the websockets (\<^verbatim>\<open>core/handlers/handlers.go\<close>). The router is shown to take every
  request where \<^const>\<open>serve_api\<close> takes it, and a request without an accepted token is shown to change nothing
  whatever it asks for.
\<close>

section \<open>The router\<close>

text \<open>
  A route is split into tokens: the attribute \<^verbatim>\<open>PARAM\<close> is the bit 2, \<^verbatim>\<open>WC\<close> the bit 8. The values of parameters
  are not read by the program, and it has no routes with regular expressions or sub-routers, which are left out.
\<close>

record 'h bone_route =
  br_Path :: string
  br_Size :: nat
  br_Atts :: nat
  br_wildPos :: nat
  br_raw :: "nat list"
  br_Tokens :: "string list"
  br_TokenSize :: nat
  br_Handler :: 'h

type_synonym 'h bone_mux = "'h bone_route list gomap"

definition save_token :: "nat \<Rightarrow> string \<Rightarrow> 'h bone_route \<Rightarrow> 'h bone_route" where
  "save_token i s r =
     (case s of
        [] \<Rightarrow> r
      | c # cs \<Rightarrow>
          if c = CHR '':'' then r\<lparr>br_Atts := br_Atts r + 2\<rparr>
          else if c = CHR ''*'' then r\<lparr>br_wildPos := i, br_Atts := br_Atts r + 8\<rparr>
          else r\<lparr>br_raw := br_raw r @ [i]\<rparr>)"

fun save_tokens :: "nat \<Rightarrow> string list \<Rightarrow> 'h bone_route \<Rightarrow> 'h bone_route" where
  "save_tokens i [] r = r"
| "save_tokens i (s # ss) r =
     save_tokens (Suc i) ss ((save_token i s r)\<lparr>br_TokenSize := br_TokenSize r + 1\<rparr>)"

definition NewRoute :: "string \<Rightarrow> 'h \<Rightarrow> 'h bone_route" where
  "NewRoute url h =
     (let tokens = Split url (CHR ''/'') in
      save_tokens 0 tokens
        \<lparr>br_Path = url, br_Size = length url, br_Atts = 0, br_wildPos = 0, br_raw = [], br_Tokens = tokens,
         br_TokenSize = 0, br_Handler = h\<rparr>)"

definition has_wildcard :: "'h bone_route \<Rightarrow> bool" where
  "has_wildcard r = odd (br_Atts r div 8)"

fun raw_loop :: "'h bone_route \<Rightarrow> string list \<Rightarrow> nat \<Rightarrow> nat list \<Rightarrow> bool" where
  "raw_loop r ss i [] = True"
| "raw_loop r ss i (v # raw) =
     (if ss ! v \<noteq> br_Tokens r ! v then has_wildcard r \<and> br_wildPos r = i
      else raw_loop r ss (Suc i) raw)"

definition matchRawTokens :: "'h bone_route \<Rightarrow> string list \<Rightarrow> bool" where
  "matchRawTokens r ss = (if length ss \<ge> br_TokenSize r then raw_loop r ss 0 (br_raw r) else False)"

definition bone_Match :: "'h bone_route \<Rightarrow> string \<Rightarrow> bool" where
  "bone_Match r path =
     (let ss = Split path (CHR ''/'') in
      matchRawTokens r ss \<and> (length ss = br_TokenSize r \<or> has_wildcard r))"

definition route_takes :: "'h bone_route \<Rightarrow> string \<Rightarrow> bool" where
  "route_takes r path = (br_Atts r \<noteq> 0 \<and> bone_Match r path \<or> path = br_Path r)"

definition bone_methods :: "string list" where
  "bone_methods = [''GET'', ''POST'', ''PUT'', ''DELETE'', ''HEAD'', ''PATCH'', ''OPTIONS'']"

definition valid_path :: "string \<Rightarrow> bool" where
  "valid_path path = (if length path > 1 \<and> last path = CHR ''/'' then False else True)"

definition mux_routes :: "'h bone_mux \<Rightarrow> string \<Rightarrow> 'h bone_route list" where
  "mux_routes m k = (case map_get m k of None \<Rightarrow> [] | Some rs \<Rightarrow> rs)"

definition bone_register :: "string \<Rightarrow> string \<Rightarrow> 'h \<Rightarrow> 'h bone_mux \<Rightarrow> 'h bone_mux" where
  "bone_register meth path handler m =
     (let r = NewRoute path handler;
          k = (if valid_path path then meth else ''static'')
      in map_put k (mux_routes m k @ [r]) m)"

definition bone_Handle :: "string \<Rightarrow> 'h \<Rightarrow> 'h bone_mux \<Rightarrow> 'h bone_mux" where
  "bone_Handle path handler m = foldl (\<lambda>m mt. bone_register mt path handler m) m bone_methods"

definition bone_parse :: "'h bone_mux \<Rightarrow> string \<Rightarrow> string \<Rightarrow> 'h option" where
  "bone_parse m meth path =
     (case find (\<lambda>r. route_takes r path) (mux_routes m meth) of
        Some r \<Rightarrow> Some (br_Handler r)
      | None \<Rightarrow>
          if meth = ''HEAD'' then map_option br_Handler (find (\<lambda>r. route_takes r path) (mux_routes m ''GET''))
          else None)"

definition staticRoute :: "'h bone_mux \<Rightarrow> string \<Rightarrow> 'h option" where
  "staticRoute m path =
     map_option br_Handler (find (\<lambda>s. length path \<ge> br_Size s \<and> take (br_Size s) path = br_Path s)
       (mux_routes m ''static''))"

fun cleanURL :: "string \<Rightarrow> string" where
  "cleanURL url = (if length url > 1 \<and> last url = CHR ''/'' then cleanURL (butlast url) else url)"

declare cleanURL.simps [simp del]

text \<open>
  \<^verbatim>\<open>URL.String\<close> of net/url on a request: the path is escaped, scheme and host are there only in the absolute
  form. A fragment, a user and the mark of an empty query are left out.
\<close>

definition path_safe :: "char \<Rightarrow> bool" where
  "path_safe c =
     (let n = (of_char c :: nat) in
      65 \<le> n \<and> n \<le> 90 \<or> 97 \<le> n \<and> n \<le> 122 \<or> 48 \<le> n \<and> n \<le> 57 \<or> c \<in> set ''-_.~$&+,/:;=@'')"

definition upper_hex :: "nat \<Rightarrow> char" where
  "upper_hex d = ''0123456789ABCDEF'' ! d"

definition escape_path :: "string \<Rightarrow> string" where
  "escape_path path = concat (map (\<lambda>c. if path_safe c then [c]
     else [CHR ''%'', upper_hex (of_char c div 16), upper_hex (of_char c mod 16)]) path)"

definition EscapedPath :: "string \<Rightarrow> string" where
  "EscapedPath path = (if path = ''*'' then ''*'' else escape_path path)"

definition URL_String :: "http_request \<Rightarrow> string" where
  "URL_String u =
     (let path = EscapedPath (hq_URL_Path u) in
      (if hq_URL_Scheme u \<noteq> '''' then hq_URL_Scheme u @ '':'' else '''') @
      (if hq_URL_Scheme u \<noteq> '''' \<or> hq_URL_Host u \<noteq> '''' then ''//'' @ hq_URL_Host u else '''') @
      (if path \<noteq> '''' \<and> hd path \<noteq> CHR ''/'' \<and> hq_URL_Host u \<noteq> '''' then ''/'' else '''') @ path @
      (if hq_URL_RawQuery u \<noteq> '''' then ''?'' @ hq_URL_RawQuery u else ''''))"

definition http_NotFound :: "response_writer \<Rightarrow> response_writer" where
  "http_NotFound = http_Error ''404 page not found'' 404"

definition bone_redirect :: "http_request \<Rightarrow> response_writer \<Rightarrow> response_writer" where
  "bone_redirect req w =
     WriteHeader 302 (SetHeader ''Location'' (URL_String (req\<lparr>hq_URL_Path := cleanURL (hq_URL_Path req)\<rparr>)) w)"

definition bone_validate :: "(http_request \<Rightarrow> 's handler) bone_mux \<Rightarrow> http_request \<Rightarrow> 's handler" where
  "bone_validate m req =
     (if length (hq_URL_Path req) > 1 \<and> last (hq_URL_Path req) = CHR ''/'' then writing (bone_redirect req)
      else (case bone_parse m (hq_Method req) (hq_URL_Path req) of
          Some h \<Rightarrow> h req
        | None \<Rightarrow> writing http_NotFound))"

definition bone_ServeHTTP :: "(http_request \<Rightarrow> 's handler) bone_mux \<Rightarrow> http_request \<Rightarrow> 's handler" where
  "bone_ServeHTTP m req =
     (case bone_parse m (hq_Method req) (hq_URL_Path req) of
        Some h \<Rightarrow> h req
      | None \<Rightarrow> (case staticRoute m (hq_URL_Path req) of
          Some h \<Rightarrow> h req
        | None \<Rightarrow> bone_validate m req))"


section \<open>The pages of the user interface\<close>

text \<open>
  What is served besides the API. \<open>ui_public\<close> is what negroni's file server writes for a file under
  \<^verbatim>\<open>public\<close> in the working directory, if there is one of this path; \<open>ui_statik\<close> is the file system in the
  binary, none if it could not be read, as a file server and the content of \<^verbatim>\<open>/index.html\<close>; \<open>ui_js_dir\<close> and \<open>ui_index\<close>
  serve the files used in development. File servers write the response and nothing else.
\<close>

record ui_files =
  ui_public :: "http_request \<Rightarrow> (response_writer \<Rightarrow> response_writer) option"
  ui_statik :: "((http_request \<Rightarrow> response_writer \<Rightarrow> response_writer) \<times> (string + string)) option"
  ui_js_dir :: "http_request \<Rightarrow> response_writer \<Rightarrow> response_writer"
  ui_index :: "http_request \<Rightarrow> response_writer \<Rightarrow> response_writer"

definition css_path :: string where
  "css_path = ''/app.32dc9945fd902da8ed2cccdc8703129f.css''"

definition StripPrefix :: "string \<Rightarrow> (http_request \<Rightarrow> response_writer \<Rightarrow> response_writer) \<Rightarrow> http_request \<Rightarrow> 's handler" where
  "StripPrefix prefix h r =
     (let p = (if take (length prefix) (hq_URL_Path r) = prefix then drop (length prefix) (hq_URL_Path r)
               else hq_URL_Path r)
      in if length p < length (hq_URL_Path r) then writing (h (r\<lparr>hq_URL_Path := p\<rparr>)) else writing http_NotFound)"

definition statik_files :: "ui_files \<Rightarrow> http_request \<Rightarrow> 's handler" where
  "statik_files U r s = (case ui_statik U of
     None \<Rightarrow> Panics nil_deref
   | Some (files, index) \<Rightarrow> writing (files r) s)"

definition index_page :: "ui_files \<Rightarrow> http_request \<Rightarrow> 's handler" where
  "index_page U r s = (case ui_statik U of
     None \<Rightarrow> Panics nil_deref
   | Some (files, Inl err) \<Rightarrow> writing (WriteHeader 500) s
   | Some (files, Inr file) \<Rightarrow> writing (\<lambda>w. WriteHeader 200 (Write file w)) s)"

definition ui_routes :: "bool \<Rightarrow> ui_files \<Rightarrow> (http_request \<Rightarrow> 's handler) bone_mux \<Rightarrow> (http_request \<Rightarrow> 's handler) bone_mux" where
  "ui_routes development U mux =
     (if development then
        bone_Handle ''/*'' (\<lambda>r. writing (ui_index U r))
          (bone_Handle ''/js/*'' (StripPrefix ''/js/'' (ui_js_dir U)) mux)
      else
        bone_Handle ''/'' (index_page U)
          (bone_Handle css_path (statik_files U) (bone_Handle ''/js/*'' (statik_files U) mux)))"

definition guarded_handler :: "'s service \<Rightarrow> auth_env \<Rightarrow> AuthHandler \<Rightarrow> 's route \<Rightarrow> http_request \<Rightarrow> 's handler" where
  "guarded_handler S E a rt req =
     (if rt_guarded rt then RequireTokenAuthentication S E a req (rt_handler rt req) else rt_handler rt req)"

definition register_routes ::
  "'s service \<Rightarrow> auth_env \<Rightarrow> AuthHandler \<Rightarrow> 's route list \<Rightarrow> (http_request \<Rightarrow> 's handler) bone_mux" where
  "register_routes S E a rts =
     foldl (\<lambda>m rt. bone_register (rt_method rt) (rt_path rt) (guarded_handler S E a rt) m) [] rts"

definition admin_mux ::
  "bool \<Rightarrow> ui_files \<Rightarrow> 's service \<Rightarrow> api_codec \<Rightarrow> auth_env \<Rightarrow> AuthHandler \<Rightarrow> (http_request \<Rightarrow> 's handler) bone_mux" where
  "admin_mux development U S C E a = ui_routes development U (register_routes S E a (getBoneRouter S C E a))"

text \<open>
  The chain: negroni's recovery and its two loggers call the next handler and write nothing; what recovery answers
  after a panic is left out. The file server of \<^verbatim>\<open>public\<close> comes before the router.
\<close>

definition Static_ServeHTTP :: "ui_files \<Rightarrow> http_request \<Rightarrow> 's handler \<Rightarrow> 's handler" where
  "Static_ServeHTTP U r next_handler =
     (if hq_Method r \<noteq> ''GET'' \<and> hq_Method r \<noteq> ''HEAD'' then next_handler
      else (case ui_public U r of None \<Rightarrow> next_handler | Some file \<Rightarrow> writing file))"

definition negroni_Wrap :: "(http_request \<Rightarrow> 's handler) \<Rightarrow> http_request \<Rightarrow> 's handler \<Rightarrow> 's handler" where
  "negroni_Wrap handler r next_handler = bindp (handler r) (\<lambda>u. next_handler)"

fun negroni_build :: "(http_request \<Rightarrow> 's handler \<Rightarrow> 's handler) list \<Rightarrow> http_request \<Rightarrow> 's handler" where
  "negroni_build [] r = writing (\<lambda>w. w)"
| "negroni_build (h # hs) r = h r (negroni_build hs r)"

definition admin_ServeHTTP ::
  "bool \<Rightarrow> ui_files \<Rightarrow> 's service \<Rightarrow> api_codec \<Rightarrow> auth_env \<Rightarrow> AuthHandler \<Rightarrow> http_request \<Rightarrow> 's handler" where
  "admin_ServeHTTP development U S C E a =
     negroni_build [Static_ServeHTTP U, negroni_Wrap (bone_ServeHTTP (admin_mux development U S C E a))]"

section \<open>The router finds what the API expects\<close>

lemma br_save_tokens [simp]:
  "br_Path (save_tokens i ss r) = br_Path r" "br_Handler (save_tokens i ss r) = br_Handler r"
  "br_Tokens (save_tokens i ss r) = br_Tokens r"
  by (induction i ss r rule: save_tokens.induct) (simp_all add: save_token_def split: list.split)

lemma NewRoute_simps [simp]: "br_Path (NewRoute path h) = path" "br_Handler (NewRoute path h) = h"
  by (simp_all add: NewRoute_def Let_def)

text \<open>A path whose tokens are all plain takes itself only.\<close>

definition plain_path :: "string \<Rightarrow> bool" where
  "plain_path path = list_all (\<lambda>s. s = [] \<or> hd s \<notin> {CHR '':'', CHR ''*'', CHR ''#''}) (Split path (CHR ''/''))"

lemma save_tokens_plain:
  "list_all (\<lambda>s. s = [] \<or> hd s \<notin> {CHR '':'', CHR ''*'', CHR ''#''}) ss \<Longrightarrow> br_Atts (save_tokens i ss r) = br_Atts r"
  by (induction i ss r rule: save_tokens.induct) (auto simp: save_token_def split: list.splits)

lemma route_takes_plain: "plain_path path \<Longrightarrow> route_takes (NewRoute path h) p = (p = path)"
  by (auto simp: route_takes_def NewRoute_def Let_def plain_path_def save_tokens_plain)

lemma mux_routes_register:
  "mux_routes (bone_register meth path h m) k =
     mux_routes m k @ (if k = (if valid_path path then meth else ''static'') then [NewRoute path h] else [])"
  by (simp add: bone_register_def Let_def mux_routes_def)

lemma mux_routes_Nil [simp]: "mux_routes [] k = []"
  by (simp add: mux_routes_def map_get_def)

lemma distinct_methods: "distinct bone_methods"
  by (simp add: bone_methods_def)

lemma mux_routes_foldl_register:
  "distinct mts \<Longrightarrow> valid_path path \<Longrightarrow>
     mux_routes (foldl (\<lambda>m mt. bone_register mt path h m) m mts) k =
       mux_routes m k @ (if k \<in> set mts then [NewRoute path h] else [])"
  by (induction mts arbitrary: m) (auto simp: mux_routes_register)

lemma mux_routes_Handle:
  "valid_path path \<Longrightarrow>
     mux_routes (bone_Handle path h m) k = mux_routes m k @ (if k \<in> set bone_methods then [NewRoute path h] else [])"
  unfolding bone_Handle_def by (rule mux_routes_foldl_register[OF distinct_methods])

lemma mux_routes_foldl:
  "list_all (\<lambda>rt. valid_path (rt_path rt)) rts \<Longrightarrow>
     mux_routes (foldl (\<lambda>m rt. bone_register (rt_method rt) (rt_path rt) (f rt) m) m rts) k =
       mux_routes m k @ map (\<lambda>rt. NewRoute (rt_path rt) (f rt)) (filter (\<lambda>rt. rt_method rt = k) rts)"
  by (induction rts arbitrary: m) (auto simp: mux_routes_register)

lemma find_api:
  "list_all (\<lambda>rt. plain_path (rt_path rt)) rts \<Longrightarrow>
     find (\<lambda>r. route_takes r p) (map (\<lambda>rt. NewRoute (rt_path rt) (f rt)) (filter (\<lambda>rt. rt_method rt = k) rts)) =
       map_option (\<lambda>rt. NewRoute (rt_path rt) (f rt)) (find_route k p rts)"
  by (induction rts) (auto simp: find_route_def route_takes_plain)

lemma api_valid: "list_all (\<lambda>rt. valid_path (rt_path rt)) (getBoneRouter S C E a)"
  by (simp add: getBoneRouter_def auth_routes_def v1_routes_defs v2_routes_defs valid_path_def)

lemma api_plain: "list_all (\<lambda>rt. plain_path (rt_path rt)) (getBoneRouter S C E a)"
  by (simp add: getBoneRouter_def auth_routes_def v1_routes_defs v2_routes_defs plain_path_def)

lemma api_methods: "list_all (\<lambda>rt. rt_method rt \<in> {''GET'', ''POST'', ''PUT'', ''DELETE''}) (getBoneRouter S C E a)"
  by (simp add: getBoneRouter_def auth_routes_def v1_routes_defs v2_routes_defs)


text \<open>The two routes with a wildcard.\<close>

definition js_path :: "string \<Rightarrow> bool" where
  "js_path p = (case Split p (CHR ''/'') of t # u # v # us \<Rightarrow> u = ''js'' | _ \<Rightarrow> False)"

lemma js_path_under_js: "js_path (''/js/'' @ q)"
proof -
  obtain p ps where "Split q (CHR ''/'') = p # ps" using Split_not_Nil[of q "CHR ''/''"] by (cases "Split q (CHR ''/'')") auto
  then show ?thesis by (simp add: js_path_def)
qed

lemma NewRoute_js:
  "NewRoute ''/js/*'' h = \<lparr>br_Path = ''/js/*'', br_Size = 5, br_Atts = 8, br_wildPos = 2, br_raw = [1],
     br_Tokens = [[], ''js'', ''*''], br_TokenSize = 3, br_Handler = h\<rparr>"
  by (simp add: NewRoute_def save_token_def numeral_2_eq_2)

lemma route_takes_js: "route_takes (NewRoute ''/js/*'' h) p = js_path p"
proof -
  have ss: "(3 \<le> length ss \<and> ss ! 1 = ''js'') = (case ss of t # u # v # us \<Rightarrow> u = ''js'' | _ \<Rightarrow> False)"
    for ss :: "string list" by (simp split: list.split)
  have "bone_Match (NewRoute ''/js/*'' h) p = js_path p"
    unfolding js_path_def ss[symmetric] by (simp add: NewRoute_js bone_Match_def Let_def matchRawTokens_def has_wildcard_def)
  moreover have "js_path ''/js/*''" by (simp add: js_path_def)
  ultimately show ?thesis by (auto simp: route_takes_def) (simp_all add: NewRoute_js)
qed

lemma NewRoute_any:
  "NewRoute ''/*'' h = \<lparr>br_Path = ''/*'', br_Size = 2, br_Atts = 8, br_wildPos = 1, br_raw = [],
     br_Tokens = [[], ''*''], br_TokenSize = 2, br_Handler = h\<rparr>"
  by (simp add: NewRoute_def save_token_def)

lemma route_takes_any: "route_takes (NewRoute ''/*'' h) (CHR ''/'' # q) = True"
  by (cases "Split q (CHR ''/'')")
    (simp_all add: route_takes_def NewRoute_any bone_Match_def matchRawTokens_def has_wildcard_def)

lemma ui_valid: "valid_path ''/js/*''" "valid_path ''/*''" "valid_path ''/''" "valid_path css_path"
  by (simp_all add: valid_path_def css_path_def)

lemma ui_plain: "plain_path ''/''" "plain_path css_path"
  by (simp_all add: plain_path_def css_path_def)

text \<open>Without development: what the routes of the user interface do, and what is left to the end of \<^verbatim>\<open>ServeHTTP\<close>.\<close>

definition ui_find :: "ui_files \<Rightarrow> string \<Rightarrow> (http_request \<Rightarrow> 's handler) option" where
  "ui_find U p =
     (if js_path p \<or> p = css_path then Some (statik_files U) else if p = ''/'' then Some (index_page U) else None)"

definition ui_pages :: "ui_files \<Rightarrow> http_request \<Rightarrow> 's handler" where
  "ui_pages U req =
     (let p = hq_URL_Path req in
      case (if hq_Method req \<in> set bone_methods then ui_find U p else None) of
        Some h \<Rightarrow> h req
      | None \<Rightarrow> if length p > 1 \<and> last p = CHR ''/'' then writing (bone_redirect req) else writing http_NotFound)"

lemma admin_mux_routes:
  "mux_routes (admin_mux False U S C E a) k =
     map (\<lambda>rt. NewRoute (rt_path rt) (guarded_handler S E a rt)) (filter (\<lambda>rt. rt_method rt = k) (getBoneRouter S C E a)) @
     (if k \<in> set bone_methods then
        [NewRoute ''/js/*'' (statik_files U), NewRoute css_path (statik_files U), NewRoute ''/'' (index_page U)]
      else [])"
  by (simp add: admin_mux_def ui_routes_def register_routes_def mux_routes_Handle ui_valid mux_routes_foldl[OF api_valid])

lemma find_ui:
  "map_option br_Handler (find (\<lambda>r. route_takes r p)
     [NewRoute ''/js/*'' (statik_files U), NewRoute css_path (statik_files U), NewRoute ''/'' (index_page U)]) = ui_find U p"
  by (simp add: ui_find_def route_takes_js route_takes_plain ui_plain)

lemma find_admin:
  "map_option br_Handler (find (\<lambda>r. route_takes r p) (mux_routes (admin_mux False U S C E a) k)) =
     (case find_route k p (getBoneRouter S C E a) of
        Some rt \<Rightarrow> Some (guarded_handler S E a rt)
      | None \<Rightarrow> if k \<in> set bone_methods then ui_find U p else None)"
  unfolding admin_mux_routes find_append find_api[OF api_plain]
  by (cases "k \<in> set bone_methods"; cases "find_route k p (getBoneRouter S C E a)")
    (simp_all only: if_True if_False find_ui option.case option.map find.simps(1) NewRoute_simps)

lemma api_not_ui:
  "list_all (\<lambda>rt. \<not> js_path (rt_path rt) \<and> rt_path rt \<noteq> css_path \<and> rt_path rt \<noteq> ''/'') (getBoneRouter S C E a)"
  by (simp add: getBoneRouter_def auth_routes_def v1_routes_defs v2_routes_defs js_path_def css_path_def)

lemma find_route_not_ui: "find_route k p (getBoneRouter S C E a) = Some rt \<Longrightarrow> ui_find U p = None"
proof -
  assume r: "find_route k p (getBoneRouter S C E a) = Some rt"
  then have "rt \<in> set (getBoneRouter S C E a)" by (rule find_route_set)
  moreover have "rt_path rt = p" using r by (auto simp: find_route_def find_Some_iff)
  ultimately show ?thesis using api_not_ui[of S C E a] by (auto simp: list_all_iff ui_find_def)
qed

lemma find_route_method:
  assumes "find_route k p (getBoneRouter S C E a) = Some rt"
  shows "k \<in> {''GET'', ''POST'', ''PUT'', ''DELETE''}"
proof -
  have "rt \<in> set (getBoneRouter S C E a)" by (rule find_route_set[OF assms])
  moreover have "rt_method rt = k" using assms by (auto simp: find_route_def find_Some_iff)
  ultimately show ?thesis using api_methods[of S C E a] unfolding list_all_iff by blast
qed

lemma find_route_HEAD: "find_route ''HEAD'' p (getBoneRouter S C E a) = None"
  using find_route_method[of "''HEAD''" p S C E a] by (cases "find_route ''HEAD'' p (getBoneRouter S C E a)") auto

lemma option_case_map: "(case map_option f x of None \<Rightarrow> a | Some y \<Rightarrow> b y) = (case x of None \<Rightarrow> a | Some y \<Rightarrow> b (f y))"
  by (cases x) simp_all

lemma bone_parse_map:
  "bone_parse m k p = (case map_option br_Handler (find (\<lambda>r. route_takes r p) (mux_routes m k)) of
     Some h \<Rightarrow> Some h
   | None \<Rightarrow> if k = ''HEAD'' then map_option br_Handler (find (\<lambda>r. route_takes r p) (mux_routes m ''GET'')) else None)"
  by (simp add: bone_parse_def split: option.split)

lemma bone_parse_admin:
  "bone_parse (admin_mux False U S C E a) (hq_Method req) (hq_URL_Path req) =
     (case mux_parse req (getBoneRouter S C E a) of
        Some rt \<Rightarrow> Some (guarded_handler S E a rt)
      | None \<Rightarrow> if hq_Method req \<in> set bone_methods then ui_find U (hq_URL_Path req) else None)"
  unfolding bone_parse_map find_admin mux_parse_def
  by (auto simp: bone_methods_def find_route_HEAD find_route_not_ui split: option.split)

lemma admin_mux_eq:
  "bone_ServeHTTP (admin_mux False U S C E a) req = serve_api S C E a (ui_pages U) req"
proof -
  have static: "mux_routes (admin_mux False U S C E a) ''static'' = []"
    using api_methods[of S C E a] by (auto simp: admin_mux_routes bone_methods_def list_all_iff filter_empty_conv)
  show ?thesis
    by (auto simp: bone_ServeHTTP_def bone_parse_admin serve_api_def guarded_handler_def ui_pages_def Let_def
        staticRoute_def static bone_validate_def fun_eq_iff split: option.split)
qed

text \<open>
  C20: outside development the router and the pages of the user interface are \<^const>\<open>serve_api\<close>: every request
  goes to the first route of the API with its method and path, behind the guard if the route has one, and
  all others go to the file server, the index page, a redirect without the trailing slash, or 404.
\<close>

theorem admin_mux_serves_api:
  "bone_ServeHTTP (admin_mux False U S C E a) req = serve_api S C E a (ui_pages U) req"
  by (rule admin_mux_eq)


section \<open>Nobody without a token changes anything\<close>

text \<open>A handler that leaves the service in the state \<open>s\<close>, whatever it writes.\<close>

definition harmless :: "'s \<Rightarrow> http_request \<Rightarrow> (http_request \<Rightarrow> 's handler) \<Rightarrow> bool" where
  "harmless s req h = (\<forall>w. always (h req) (\<lambda>u x. fst x = s) (s, w))"

definition mux_all :: "('h \<Rightarrow> bool) \<Rightarrow> 'h bone_mux \<Rightarrow> bool" where
  "mux_all P m = (\<forall>k. \<forall>r \<in> set (mux_routes m k). P (br_Handler r))"

lemma mux_all_Nil: "mux_all P []"
  by (simp add: mux_all_def)

lemma mux_all_register: "mux_all P m \<Longrightarrow> P h \<Longrightarrow> mux_all P (bone_register meth path h m)"
  by (auto simp: mux_all_def mux_routes_register split: if_splits)

lemma mux_all_Handle:
  assumes "mux_all P m" and "P h"
  shows "mux_all P (bone_Handle path h m)"
proof -
  have "mux_all P m \<Longrightarrow> mux_all P (foldl (\<lambda>m mt. bone_register mt path h m) m mts)" for mts m
    by (induction mts arbitrary: m) (simp_all add: mux_all_register assms(2))
  with assms(1) show ?thesis by (simp add: bone_Handle_def)
qed

lemma mux_all_foldl:
  "mux_all P m \<Longrightarrow> \<forall>rt \<in> set rts. P (f rt) \<Longrightarrow>
     mux_all P (foldl (\<lambda>m rt. bone_register (rt_method rt) (rt_path rt) (f rt) m) m rts)"
  by (induction rts arbitrary: m) (simp_all add: mux_all_register)

lemma bone_parse_all: "mux_all P m \<Longrightarrow> bone_parse m k p = Some h \<Longrightarrow> P h"
  by (auto simp: mux_all_def bone_parse_def dest: find_in_set split: option.splits if_splits)

lemma staticRoute_all: "mux_all P m \<Longrightarrow> staticRoute m p = Some h \<Longrightarrow> P h"
  by (auto simp: mux_all_def staticRoute_def dest: find_in_set)

lemma harmless_writing: "harmless s req (\<lambda>r. writing (f r))"
  by (simp add: harmless_def always_writing)

lemma harmless_StripPrefix: "harmless s req (StripPrefix p h)"
  by (simp add: harmless_def StripPrefix_def Let_def always_writing)

lemma harmless_statik: "harmless s req (statik_files U)" "harmless s req (index_page U)"
  by (auto simp: harmless_def statik_files_def index_page_def always_def split: option.split sum.split)

lemma harmless_bone:
  assumes "mux_all (harmless s req) m"
  shows "harmless s req (bone_ServeHTTP m)"
  unfolding harmless_def bone_ServeHTTP_def bone_validate_def
  using bone_parse_all[OF assms] staticRoute_all[OF assms]
  by (auto simp: harmless_def always_writing split: option.split)

lemma harmless_guarded:
  assumes "ah_Enabled a" and "\<not> token_accepted E a (sv_Authentication S s) req" and "rt \<in> set (getBoneRouter S C E a)"
  shows "harmless s req (guarded_handler S E a rt)"
proof (cases "rt_guarded rt")
  case True
  then show ?thesis
    using assms(1,2) by (simp add: harmless_def guarded_handler_def always_def RequireTokenAuthentication_def)
next
  case False
  then show ?thesis
    using open_handlers_keep[of S C E a] assms(3) by (auto simp: harmless_def guarded_handler_def list_all_iff)
qed

lemma harmless_admin_mux:
  assumes "ah_Enabled a" and "\<not> token_accepted E a (sv_Authentication S s) req"
  shows "harmless s req (bone_ServeHTTP (admin_mux development U S C E a))"
  unfolding admin_mux_def ui_routes_def register_routes_def
  using harmless_guarded[OF assms]
  by (intro harmless_bone)
    (auto intro!: mux_all_Handle mux_all_foldl mux_all_Nil harmless_writing harmless_StripPrefix harmless_statik)

lemma harmless_admin:
  assumes "ah_Enabled a" and "\<not> token_accepted E a (sv_Authentication S s) req"
  shows "harmless s req (admin_ServeHTTP development U S C E a)"
proof -
  have "always (bindp m (\<lambda>u. writing (\<lambda>w. w))) (\<lambda>u x. fst x = s) (s, w)"
    if "always m (\<lambda>u x. fst x = s) (s, w)" for m :: "'a handler" and w
    using that by (auto simp: always_def bindp_Returns)
  then show ?thesis
    using harmless_admin_mux[OF assms, of development U C]
    by (auto simp: harmless_def admin_ServeHTTP_def Static_ServeHTTP_def negroni_Wrap_def always_writing
        split: option.split)
qed

lemma guarded_401:
  assumes "ah_Enabled a" and "\<not> token_accepted E a (sv_Authentication S s) req"
    and "mux_parse req (getBoneRouter S C E a) = Some rt" and "rt_guarded rt" and "ui_public U req = None"
  shows "admin_ServeHTTP False U S C E a req (s, w) = Returns ((), (s, WriteHeader 401 w))"
  using assms
  by (simp add: admin_ServeHTTP_def Static_ServeHTTP_def negroni_Wrap_def admin_mux_eq serve_api_def bindp_def
      RequireTokenAuthentication_def)

text \<open>
  C9: with authentication on, a request without an accepted token changes nothing, in development or not and
  whatever it asks for: a route of the API, a page, a redirect, or nothing there is. On a guarded
  route it gets 401 and nothing else, unless a file of that name lies in the directory \<^verbatim>\<open>public\<close>.
\<close>

theorem admin_needs_token:
  assumes "ah_Enabled a" and "\<not> token_accepted E a (sv_Authentication S s) req"
    and "admin_ServeHTTP development U S C E a req (s, w) = Returns (u, (s', w'))"
  shows "s' = s \<and>
    (\<forall>rt. \<not> development \<longrightarrow> mux_parse req (getBoneRouter S C E a) = Some rt \<longrightarrow> rt_guarded rt \<longrightarrow>
       ui_public U req = None \<longrightarrow> w' = WriteHeader 401 w)"
proof (intro conjI allI impI)
  have "always (admin_ServeHTTP development U S C E a req) (\<lambda>u x. fst x = s) (s, w)"
    using harmless_admin[OF assms(1,2), of development U C] by (simp add: harmless_def)
  from always_Returns[OF this assms(3)] show "s' = s" by simp
next
  fix rt assume "\<not> development" "mux_parse req (getBoneRouter S C E a) = Some rt" "rt_guarded rt" "ui_public U req = None"
  with guarded_401[OF assms(1,2) this(2,3,4), of w] assms(3) show "w' = WriteHeader 401 w" by simp
qed

definition no_files :: ui_files where
  "no_files = \<lparr>ui_public = (\<lambda>r. None), ui_statik = Some (\<lambda>r. http_NotFound, Inr ''<html>''),
     ui_js_dir = (\<lambda>r. http_NotFound), ui_index = (\<lambda>r. Write ''<html>'')\<rparr>"

theorem admin_needs_token_witness:
  "\<exists>s' w'. admin_ServeHTTP False no_files hello_service plain_codec nobody locked
      ((plain_get ''h'')\<lparr>hq_Method := ''DELETE'', hq_URL_Path := ''/api/v2/simulation''\<rparr>)
      ((sample_hoverfly [headers_pair None], ()), new_writer) = Returns ((), (s', w')) \<and>
    s' = (sample_hoverfly [headers_pair None], ()) \<and> status_of w' = 401"
proof -
  let ?r = "(plain_get ''h'')\<lparr>hq_Method := ''DELETE'', hq_URL_Path := ''/api/v2/simulation''\<rparr>"
  have m: "mux_parse ?r (getBoneRouter hello_service plain_codec nobody locked) =
      Some \<lparr>rt_method = ''DELETE'', rt_path = ''/api/v2/simulation'', rt_guarded = True,
        rt_handler = (\<lambda>r. SimulationHandler_Delete hello_service plain_codec)\<rparr>"
    by (simp add: mux_parse_def find_route_def getBoneRouter_def auth_routes_def v1_routes_defs v2_routes_defs)
  have t: "\<not> token_accepted nobody locked ab ?r" for ab
    by (simp add: token_accepted_def nobody_def ParseFromRequest_def Let_def split: option.split)
  have en: "ah_Enabled locked" by (simp add: locked_def)
  have p: "ui_public no_files ?r = None" by (simp add: no_files_def)
  note r = guarded_401[OF en t m _ p, simplified]
  show ?thesis
    using admin_needs_token[OF en t r] r by (auto simp: status_of_def WriteHeader_def new_writer_def)
qed

section \<open>Where the router surprises\<close>

text \<open>
  Anyone is redirected to any host: a path of two slashes and a host, with a slash at the end, is redirected to
  the path without it, which a browser takes for that host.
\<close>

lemma escape_path_safe: "\<forall>c \<in> set p. path_safe c \<Longrightarrow> escape_path p = p"
  by (induction p) (simp_all add: escape_path_def)

lemma cleanURL_slash:
  "p \<noteq> [] \<Longrightarrow> last p \<noteq> CHR ''/'' \<Longrightarrow> cleanURL (p @ ''/'') = p"
  by (subst cleanURL.simps) (simp add: cleanURL.simps[of p])

lemma open_redirect:
  assumes "x \<noteq> []" and "\<forall>c \<in> set x. path_safe c" and "CHR ''/'' \<notin> set x"
    and "hq_URL_Path req = ''//'' @ x @ ''/''" and "hq_URL_Scheme req = ''''" and "hq_URL_Host req = ''''" and "hq_URL_RawQuery req = ''''"
  shows "bone_ServeHTTP (admin_mux False U S C E a) req (s, w) =
    Returns ((), (s, WriteHeader 302 (SetHeader ''Location'' (''//'' @ x) w)))"
proof -
  let ?p = "''//'' @ x @ ''/''"
  have tail: "Split (x @ ''/'') (CHR ''/'') = [x, []]" using Split_append_sep[OF assms(3), of "[]"] by simp
  have js: "\<not> js_path ?p" by (simp add: js_path_def tail)
  have api: "list_all (\<lambda>rt. rt_path rt \<noteq> ?p) (getBoneRouter S C E a)"
    by (simp add: getBoneRouter_def auth_routes_def v1_routes_defs v2_routes_defs)
  have none: "find_route k ?p (getBoneRouter S C E a) = None" for k
    using api by (auto simp: find_route_def find_None_iff list_all_iff)
  have mux: "mux_parse req (getBoneRouter S C E a) = None" by (simp only: mux_parse_def assms(4) none option.case if_cancel)
  have last: "last x \<noteq> CHR ''/''" using assms(1,3) last_in_set by metis
  have clean: "cleanURL ?p = ''//'' @ x"
    using cleanURL_slash[of "''//'' @ x"] assms(1) last by simp
  have esc: "EscapedPath (''//'' @ x) = ''//'' @ x"
    using escape_path_safe[of "''//'' @ x"] assms(2) by (simp add: EscapedPath_def path_safe_def)
  have ui: "ui_find U ?p = None" using js by (simp add: ui_find_def css_path_def)
  have "URL_String (req\<lparr>hq_URL_Path := ''//'' @ x\<rparr>) = ''//'' @ x"
    using esc by (simp add: URL_String_def Let_def assms(5,6,7))
  then show ?thesis
    unfolding admin_mux_eq serve_api_def mux option.case ui_pages_def Let_def assms(4) ui if_cancel
    by (simp add: bone_redirect_def assms(4) clean[simplified])
qed

text \<open>In development the pages come before the API for HEAD: every HEAD request gets the index page, without a token.\<close>

lemma development_HEAD:
  assumes "hq_Method req = ''HEAD''" and "hq_URL_Path req = CHR ''/'' # p" and "\<not> js_path (CHR ''/'' # p)"
  shows "bone_ServeHTTP (admin_mux True U S C E a) req = writing (ui_index U req)"
proof -
  have "mux_routes (admin_mux True U S C E a) ''HEAD'' =
      [NewRoute ''/js/*'' (StripPrefix ''/js/'' (ui_js_dir U)), NewRoute ''/*'' (\<lambda>r. writing (ui_index U r))]"
    using api_methods[of S C E a]
    by (auto simp: admin_mux_def ui_routes_def register_routes_def mux_routes_Handle ui_valid mux_routes_foldl[OF api_valid]
        bone_methods_def list_all_iff filter_empty_conv)
  then show ?thesis
    using assms by (simp add: bone_ServeHTTP_def bone_parse_def route_takes_js route_takes_any)
qed


section \<open>Websockets\<close>

text \<open>
  \<^verbatim>\<open>NewWebsocket\<close> on a connection given by the library: the upgrade of the request, reading a message with its type,
  and writing one. \<open>shown\<close> is what the service shows at the ticks so far. The loop over the ticker has no end:
  after a failed write it goes on with the next tick.
\<close>

record 'c websocket =
  ws_Upgrade :: "http_request \<Rightarrow> string + 'c"
  ws_ReadMessage :: "'c \<Rightarrow> (string + (int \<times> string)) \<times> 'c"
  ws_WriteMessage :: "int \<Rightarrow> string \<Rightarrow> 'c \<Rightarrow> string option \<times> 'c"

datatype 'c ws_state = NotUpgraded | ReadFailed 'c | Ticking 'c

fun ws_ticks ::
  "'c websocket \<Rightarrow> ('v \<Rightarrow> 'p \<Rightarrow> (string + string) \<times> 'p) \<Rightarrow> int \<Rightarrow> 'p \<Rightarrow> 'v list \<Rightarrow> 'c \<Rightarrow> 'c" where
  "ws_ticks W handler messageType previous [] conn = conn"
| "ws_ticks W handler messageType previous (v # shown) conn =
     (case handler v previous of (update, previous) \<Rightarrow>
        (let updateBytes = (case update of Inl err \<Rightarrow> '''' | Inr b \<Rightarrow> b) in
         case ws_WriteMessage W messageType updateBytes conn of
           (Some err, conn) \<Rightarrow> ws_ticks W handler messageType previous shown conn
         | (None, conn) \<Rightarrow> ws_ticks W handler messageType previous shown conn))"

definition NewWebsocket ::
  "'c websocket \<Rightarrow> ('v \<Rightarrow> 'p \<Rightarrow> (string + string) \<times> 'p) \<Rightarrow> 'p \<Rightarrow> http_request \<Rightarrow> 'v list \<Rightarrow> 'c ws_state" where
  "NewWebsocket W handler previous r shown = (case ws_Upgrade W r of
     Inl err \<Rightarrow> NotUpgraded
   | Inr conn \<Rightarrow> (case ws_ReadMessage W conn of
       (Inl err, conn) \<Rightarrow> ReadFailed conn
     | (Inr (messageType, p), conn) \<Rightarrow> Ticking (ws_ticks W handler messageType previous shown conn)))"

lemma ws_ticks_writes:
  "ws_ticks W handler mt previous shown conn =
     foldl (\<lambda>c m. snd (ws_WriteMessage W mt m c)) conn (websocket_messages handler previous shown)"
  by (induction shown arbitrary: previous conn) (simp_all add: Let_def split: prod.split option.split)

text \<open>
  Once it has read a message the handler never returns and never reads again: at every tick, however the writes
  went before, it writes the next message. So a client that has gone is written to for ever.
\<close>

lemma NewWebsocket_never_ends:
  "NewWebsocket W handler previous r shown = (case ws_Upgrade W r of
     Inl err \<Rightarrow> NotUpgraded
   | Inr conn \<Rightarrow> (case ws_ReadMessage W conn of
       (Inl err, conn) \<Rightarrow> ReadFailed conn
     | (Inr (mt, p), conn) \<Rightarrow> Ticking (foldl (\<lambda>c m. snd (ws_WriteMessage W mt m c)) conn
         (websocket_messages handler previous shown))))"
  by (simp add: NewWebsocket_def ws_ticks_writes split: sum.split prod.split)

text \<open>What a guarded handler would write as the body of its response, and the requests for logs.\<close>

definition logs_request :: "string \<Rightarrow> http_request" where
  "logs_request path = (plain_get ''h'')\<lparr>hq_URL_Path := path\<rparr>"

lemma logs_routes:
  "mux_parse (logs_request ''/api/v2/logs'') (getBoneRouter S C E a) =
     Some \<lparr>rt_method = ''GET'', rt_path = ''/api/v2/logs'', rt_guarded = True, rt_handler = LogsHandler_Get S C\<rparr>"
  "mux_parse (logs_request ''/api/v2/ws/logs'') (getBoneRouter S C E a) =
     Some \<lparr>rt_method = ''GET'', rt_path = ''/api/v2/ws/logs'', rt_guarded = False, rt_handler = (\<lambda>r. upgraded)\<rparr>"
  by (simp_all add: logs_request_def plain_get_def mux_parse_def find_route_def getBoneRouter_def auth_routes_def
      v1_routes_defs v2_routes_defs)

lemma LogsHandler_Get_body:
  assumes "GetLogsView (hf_StoreLogsHook hf) = Returns logs"
  shows "\<exists>wr. LogsHandler_Get (hoverfly_service W now) C (logs_request path) ((hf, w), new_writer) = Returns ((), ((hf, w), wr)) \<and>
    wr_Body wr = marshalled C (VLogs logs)"
proof -
  have "Values_Get (ParseQuery []) ''limit'' = []" by code_simp
  moreover obtain e where "Atoi [] = Inl e" by (auto simp: Atoi_def)
  ultimately have e: "Atoi (Values_Get (ParseQuery []) ''limit'') = Inl e" by simp
  show ?thesis
    by (simp add: LogsHandler_Get_def logs_request_def plain_get_def e hoverfly_service_def try_hoverfly_def
        bindp_def serving_def assms WriteResponse_def Write_def SetHeader_def WriteHeader_def new_writer_def Let_def)
qed

text \<open>
  C21: with authentication on, a client without a token gets 401 and nothing else from the logs, but the websocket of the logs
  takes the same client, and its first message after theirs is what the logs would have answered.
\<close>

theorem websocket_shows_logs:
  assumes "ah_Enabled a" and "\<And>r. \<not> token_accepted E a (hf_Authentication hf) r"
    and "GetLogsView (hf_StoreLogsHook hf) = Returns logs" and "lv_Logs logs \<noteq> []"
    and "ws_Upgrade V (logs_request ''/api/v2/ws/logs'') = Inr c" and "ws_ReadMessage V c = (Inr (mt, p), c')"
  shows "serve_api (hoverfly_service W now) C E a ui (logs_request ''/api/v2/logs'') ((hf, w), new_writer) =
      Returns ((), ((hf, w), WriteHeader 401 new_writer)) \<and>
    serve_api (hoverfly_service W now) C E a ui (logs_request ''/api/v2/ws/logs'') ((hf, w), new_writer) =
      upgraded ((hf, w), new_writer) \<and>
    (\<exists>wr. LogsHandler_Get (hoverfly_service W now) C (logs_request ''/api/v2/logs'') ((hf, w), new_writer) =
        Returns ((), ((hf, w), wr)) \<and>
      NewWebsocket V (LogsHandler_update C) \<lparr>lv_Logs = []\<rparr> (logs_request ''/api/v2/ws/logs'') [logs] =
        Ticking (snd (ws_WriteMessage V mt (wr_Body wr) c')))"
proof -
  have "logs \<noteq> \<lparr>lv_Logs = []\<rparr>" using assms(4) by auto
  then have m: "websocket_messages (LogsHandler_update C) \<lparr>lv_Logs = []\<rparr> [logs] = [marshalled C (VLogs logs)]"
    by (simp add: LogsHandler_update_def marshalled_def)
  obtain wr where "LogsHandler_Get (hoverfly_service W now) C (logs_request ''/api/v2/logs'') ((hf, w), new_writer) =
      Returns ((), ((hf, w), wr))" "wr_Body wr = marshalled C (VLogs logs)"
    using LogsHandler_Get_body[OF assms(3), where W = W and now = now and C = C and w = w and path = "''/api/v2/logs''"] by auto
  moreover have "NewWebsocket V (LogsHandler_update C) \<lparr>lv_Logs = []\<rparr> (logs_request ''/api/v2/ws/logs'') [logs] =
      Ticking (snd (ws_WriteMessage V mt (marshalled C (VLogs logs)) c'))"
    unfolding NewWebsocket_never_ends assms(5) m by (simp add: assms(6))
  moreover have "sv_Authentication (hoverfly_service W now) (hf, w) = hf_Authentication hf"
    by (simp add: hoverfly_service_def)
  ultimately show ?thesis
    using assms(1,2) by (auto simp: serve_api_def logs_routes RequireTokenAuthentication_def)
qed

text \<open>A connection that keeps what is written to it.\<close>

definition keeping_socket :: "string list websocket" where
  "keeping_socket = \<lparr>ws_Upgrade = (\<lambda>r. Inr []), ws_ReadMessage = (\<lambda>c. (Inr (1, ''hi''), c)),
     ws_WriteMessage = (\<lambda>mt m c. (None, c @ [m]))\<rparr>"

definition one_log :: Hoverfly where
  "one_log = (sample_hoverfly [])\<lparr>hf_StoreLogsHook :=
     StoreLogsHook_Fire \<lparr>le_Data = [], le_Time = ''noon'', le_Message = ''secret'', le_Level = ''info''\<rparr> NewStoreLogsHook\<rparr>"

theorem websocket_shows_logs_witness:
  "\<exists>wr. LogsHandler_Get (hoverfly_service hello_world ''now'') plain_codec (logs_request ''/api/v2/logs'')
      ((one_log, ()), new_writer) = Returns ((), ((one_log, ()), wr)) \<and>
    (\<exists>logs. NewWebsocket keeping_socket (LogsHandler_update plain_codec) \<lparr>lv_Logs = []\<rparr>
        (logs_request ''/api/v2/ws/logs'') [logs] = Ticking [wr_Body wr] \<and> length (lv_Logs logs) = 1)"
proof -
  have en: "ah_Enabled locked" by (simp add: locked_def)
  have t: "\<not> token_accepted nobody locked ab r" for ab r
    by (simp add: token_accepted_def nobody_def ParseFromRequest_def Let_def split: option.split)
  obtain logs where logs: "GetLogsView (hf_StoreLogsHook one_log) = Returns logs" "length (lv_Logs logs) = 1"
    by (auto simp: GetLogsView_def GetFilteredLogsView_eq one_log_def StoreLogsHook_Fire_def NewStoreLogsHook_def)
  have "lv_Logs logs \<noteq> []" using logs(2) by auto
  note shown = websocket_shows_logs[OF en t logs(1) this, of keeping_socket "[]" 1 "''hi''" "[]" hello_world "''now''" plain_codec]
  have "ws_Upgrade keeping_socket r = Inr []" "ws_ReadMessage keeping_socket [] = (Inr (1, ''hi''), [])"
      "snd (ws_WriteMessage keeping_socket mt m []) = [m]" for r mt m
    by (simp_all add: keeping_socket_def)
  from shown[OF this(1,2), THEN conjunct2, THEN conjunct2] this(3) logs(2) show ?thesis by auto
qed

end
