(* ===== verification/Json.thy ===== *)
theory Json
  imports Exports Api "HOL-Library.Monad_Syntax"
begin

text \<open>
  The part of encoding/json that reads and writes simulations: strings with their escapes and UTF-8, the grammar of
  values, and the decoding into the structs of \<^verbatim>\<open>core/handlers/v2/simulation_views.go\<close> by their tags. It makes a concrete
  \<^typ>\<open>simulation_reader\<close>, for which an exported simulation is shown to be read back from its text.
\<close>

section \<open>UTF-8\<close>

text \<open>
  The lead bytes of sequences of two to four bytes, with the range of the second byte and the length. A byte that starts no
  valid sequence is a rune of its own, which the library replaces.
\<close>

definition byte_in :: "nat \<Rightarrow> nat \<Rightarrow> char \<Rightarrow> bool" where
  "byte_in lo hi c = (lo \<le> of_char c \<and> of_char c \<le> hi)"

definition lead_byte :: "nat \<Rightarrow> (nat \<times> nat \<times> nat) option" where
  "lead_byte n =
     (if 194 \<le> n \<and> n \<le> 223 then Some (128, 191, 2)
      else if n = 224 then Some (160, 191, 3)
      else if n = 237 then Some (128, 159, 3)
      else if 225 \<le> n \<and> n \<le> 239 then Some (128, 191, 3)
      else if n = 240 then Some (144, 191, 4)
      else if 241 \<le> n \<and> n \<le> 243 then Some (128, 191, 4)
      else if n = 244 then Some (128, 143, 4)
      else None)"

definition rune_length :: "char \<Rightarrow> string \<Rightarrow> nat" where
  "rune_length c t =
     (case lead_byte (of_char c) of
        None \<Rightarrow> 1
      | Some (lo, hi, n) \<Rightarrow>
          if n - 1 \<le> length t \<and> byte_in lo hi (t ! 0) \<and> list_all (byte_in 128 191) (take (n - 2) (tl t)) then n else 1)"

fun runes :: "string \<Rightarrow> string list" where
  "runes [] = []"
| "runes (c # t) = (c # take (rune_length c t - 1) t) # runes (drop (rune_length c t - 1) t)"

definition bad_rune :: "string \<Rightarrow> bool" where
  "bad_rune r = (length r = 1 \<and> (of_char (hd r) :: nat) \<ge> 128)"

definition valid_utf8 :: "string \<Rightarrow> bool" where
  "valid_utf8 s = list_all (\<lambda>r. \<not> bad_rune r) (runes s)"

definition replacement :: string where
  "replacement = [CHR 0xEF, CHR 0xBF, CHR 0xBD]"

definition coerce_utf8 :: "string \<Rightarrow> string" where
  "coerce_utf8 s = concat (map (\<lambda>r. if bad_rune r then replacement else r) (runes s))"

lemma concat_runes [simp]: "concat (runes s) = s"
  by (induction s rule: runes.induct) simp_all

lemma coerce_valid: "valid_utf8 s \<Longrightarrow> coerce_utf8 s = s"
proof -
  assume "valid_utf8 s"
  then have "map (\<lambda>r. if bad_rune r then replacement else r) (runes s) = runes s"
    by (intro map_idI) (simp add: valid_utf8_def list_all_iff)
  then show ?thesis by (simp add: coerce_utf8_def)
qed

lemma lead_byte_cases: "lead_byte n = Some (lo, hi, k) \<Longrightarrow> 128 \<le> n \<and> k \<in> {2, 3, 4}"
  by (auto simp: lead_byte_def split: if_splits)

lemma lead_byte_ascii: "n < 128 \<Longrightarrow> lead_byte n = None"
  by (simp add: lead_byte_def)

text \<open>A rune that is not bad keeps its length whatever follows.\<close>

lemma rune_length_append:
  assumes "\<not> bad_rune (c # take (rune_length c t - 1) t)"
  shows "rune_length c (take (rune_length c t - 1) t @ u) = rune_length c t"
    and "rune_length c t - 1 \<le> length t"
proof -
  have "rune_length c (take (rune_length c t - 1) t @ u) = rune_length c t \<and> rune_length c t - 1 \<le> length t"
  proof (cases "lead_byte (of_char c)")
    case None
    then show ?thesis by (simp add: rune_length_def)
  next
    case (Some k)
    obtain lo hi n where k: "k = (lo, hi, n)" by (cases k)
    have n: "128 \<le> (of_char c :: nat)" "n \<in> {2, 3, 4}" using lead_byte_cases[of "of_char c" lo hi n] Some k by simp_all
    have ok: "n - 1 \<le> length t \<and> byte_in lo hi (t ! 0) \<and> list_all (byte_in 128 191) (take (n - 2) (tl t))"
      using assms n(1) by (auto simp: rune_length_def Some k bad_rune_def split: if_splits)
    then have len: "rune_length c t = n" by (simp add: rune_length_def Some k)
    have tl: "take (n - 2) (tl (take (n - 1) t @ u)) = take (n - 2) (tl t)" "(take (n - 1) t @ u) ! 0 = t ! 0"
      using ok n(2) by (cases t; force simp: nth_append)+
    have "n - 1 \<le> length (take (n - 1) t @ u)" using ok by simp
    then have "rune_length c (take (n - 1) t @ u) = n"
      unfolding rune_length_def Some option.case k prod.case tl using ok by (intro if_P) blast
    then show ?thesis using ok len by simp
  qed
  then show "rune_length c (take (rune_length c t - 1) t @ u) = rune_length c t" "rune_length c t - 1 \<le> length t" by simp_all
qed

lemma runes_append:
  "valid_utf8 s \<Longrightarrow> runes (s @ u) = runes s @ runes u"
proof (induction s rule: runes.induct)
  case (2 c t)
  let ?n = "rune_length c t - 1"
  have bad: "\<not> bad_rune (c # take ?n t)" and rest: "valid_utf8 (drop ?n t)"
    using "2.prems" by (simp_all add: valid_utf8_def)
  have "t @ u = take ?n t @ (drop ?n t @ u)" by simp
  then have "rune_length c (t @ u) = rune_length c t" using rune_length_append(1)[OF bad] by metis
  then show ?case using rune_length_append(2)[OF bad] "2.IH"[OF rest] by simp
qed (simp add: valid_utf8_def)

lemma valid_utf8_append [simp]: "valid_utf8 s \<Longrightarrow> valid_utf8 (s @ u) = valid_utf8 u"
  using runes_append[of s u] by (simp add: valid_utf8_def)

lemma runes_ascii: "of_char c < (128::nat) \<Longrightarrow> runes (c # t) = [c] # runes t"
  by (simp add: rune_length_def lead_byte_ascii)

lemma valid_utf8_Cons: "of_char c < (128::nat) \<Longrightarrow> valid_utf8 (c # t) = valid_utf8 t"
  by (simp add: valid_utf8_def runes_ascii bad_rune_def del: runes.simps)

lemma valid_utf8_Nil [simp]: "valid_utf8 []"
  by (simp add: valid_utf8_def)

lemma valid_ascii: "list_all (\<lambda>c. of_char c < (128::nat)) s \<Longrightarrow> valid_utf8 s"
  by (induction s) (simp_all add: valid_utf8_Cons)

lemma valid_runes: "valid_utf8 s \<Longrightarrow> r \<in> set (runes s) \<Longrightarrow> valid_utf8 r"
proof (induction s rule: runes.induct)
  case (2 c t)
  let ?n = "rune_length c t - 1"
  have bad: "\<not> bad_rune (c # take ?n t)" and rest: "valid_utf8 (drop ?n t)"
    using "2.prems"(1) by (simp_all add: valid_utf8_def)
  have "runes (c # take ?n t) = [c # take ?n t]" using rune_length_append(1)[OF bad, of "[]"] by simp
  with bad have "valid_utf8 (c # take ?n t)" by (simp add: valid_utf8_def)
  then show ?case using "2.prems"(2) "2.IH"[OF rest] by auto
qed simp


section \<open>Strings\<close>

text \<open>
  Writing: the quote, the backslash, control characters and what HTML minds are escaped, a byte that is not UTF-8
  is written as the escape of U+FFFD, the two line separators U+2028 and U+2029 as theirs.
\<close>

definition backslash :: char where "backslash = CHR 0x5C"
definition dquote :: char where "dquote = CHR 0x22"

definition lower_hex :: "nat \<Rightarrow> char" where
  "lower_hex d = ''0123456789abcdef'' ! d"

definition quote_char :: "char \<Rightarrow> string" where
  "quote_char c =
     (let n = (of_char c :: nat) in
      if n \<ge> 128 then backslash # ''ufffd''
      else if c = backslash \<or> c = dquote then [backslash, c]
      else if n = 10 then [backslash, CHR ''n'']
      else if n = 13 then [backslash, CHR ''r'']
      else if n = 9 then [backslash, CHR ''t'']
      else if n < 32 \<or> c = CHR ''<'' \<or> c = CHR ''>'' \<or> c = CHR ''&''
        then [backslash, CHR ''u'', CHR ''0'', CHR ''0'', lower_hex (n div 16), lower_hex (n mod 16)]
      else [c])"

definition quote_rune :: "string \<Rightarrow> string" where
  "quote_rune r =
     (case r of
        [c] \<Rightarrow> quote_char c
      | _ \<Rightarrow> if r = [CHR 0xE2, CHR 0x80, CHR 0xA8] then backslash # ''u2028''
             else if r = [CHR 0xE2, CHR 0x80, CHR 0xA9] then backslash # ''u2029''
             else r)"

definition quote_string :: "string \<Rightarrow> string" where
  "quote_string s = dquote # concat (map quote_rune (runes s)) @ [dquote]"

text \<open>
  Reading: escapes, with surrogate pairs, of which half a one is U+FFFD; control characters are errors. The text has been
  made valid UTF-8 before.
\<close>

definition utf8_encode :: "nat \<Rightarrow> string" where
  "utf8_encode n =
     (if n < 128 then [char_of n]
      else if n < 2048 then [char_of (192 + n div 64), char_of (128 + n mod 64)]
      else if n < 65536 then [char_of (224 + n div 4096), char_of (128 + n div 64 mod 64), char_of (128 + n mod 64)]
      else [char_of (240 + n div 262144), char_of (128 + n div 4096 mod 64), char_of (128 + n div 64 mod 64),
            char_of (128 + n mod 64)])"

definition hex4 :: "string \<Rightarrow> (nat \<times> string) option" where
  "hex4 s = (case s of
     a # b # c # d # t \<Rightarrow> do {
       x \<leftarrow> hex_digit a; y \<leftarrow> hex_digit b; z \<leftarrow> hex_digit c; w \<leftarrow> hex_digit d;
       Some (x * 4096 + y * 256 + z * 16 + w, t)
     }
   | _ \<Rightarrow> None)"

definition surrogate :: "nat \<Rightarrow> string \<Rightarrow> nat \<times> string" where
  "surrogate r v =
     (if 55296 \<le> r \<and> r < 57344 then
        (case v of
           b # u # w \<Rightarrow>
             if b = backslash \<and> u = CHR ''u'' then
               (case hex4 w of
                  None \<Rightarrow> (65533, v)
                | Some (r2, w') \<Rightarrow>
                    if r < 56320 \<and> 56320 \<le> r2 \<and> r2 < 57344 then ((r - 55296) * 1024 + (r2 - 56320) + 65536, w')
                    else (65533, v))
             else (65533, v)
         | _ \<Rightarrow> (65533, v))
      else (r, v))"

definition escaped :: "char \<Rightarrow> char option" where
  "escaped e =
     (if e = dquote \<or> e = backslash \<or> e = CHR ''/'' then Some e
      else map_of [(CHR ''b'', CHR 0x08), (CHR ''f'', CHR 0x0C), (CHR ''n'', CHR 0x0A), (CHR ''r'', CHR 0x0D),
        (CHR ''t'', CHR 0x09)] e)"

definition unquote_char :: "char \<Rightarrow> string \<Rightarrow> (string \<times> string) option" where
  "unquote_char c t =
     (if c = backslash then (case t of
        [] \<Rightarrow> None
      | e # u \<Rightarrow>
          if e = CHR ''u'' then map_option (\<lambda>(r, v). case surrogate r v of (r', v') \<Rightarrow> (utf8_encode r', v')) (hex4 u)
          else map_option (\<lambda>x. ([x], u)) (escaped e))
      else if (of_char c :: nat) < 32 then None
      else Some ([c], t))"

lemma hex4_length: "hex4 s = Some (r, t) \<Longrightarrow> length t < length s"
  by (auto simp: hex4_def bind_eq_Some_conv split: list.splits)

lemma surrogate_length: "surrogate r v = (r', v') \<Longrightarrow> length v' \<le> length v"
  by (auto simp: surrogate_def split: if_splits list.splits option.splits prod.splits dest: hex4_length)

lemma unquote_char_length: "unquote_char c t = Some (x, u) \<Longrightarrow> length u \<le> length t"
proof -
  assume "unquote_char c t = Some (x, u)"
  then consider "u = t" | "\<exists>e. t = e # u" | e r v r' where "t = e # v" "hex4 v = Some (r', r)" "u = snd (surrogate r' r)"
    by (auto simp: unquote_char_def case_prod_beta split: if_splits list.splits)
  then show ?thesis
  proof cases
    case (3 e r v r')
    then show ?thesis using hex4_length[of v r' r] surrogate_length[of r' r "fst (surrogate r' r)" u] by simp
  qed auto
qed

function unquote :: "string \<Rightarrow> (string \<times> string) option" where
  "unquote [] = None"
| "unquote (c # t) =
     (if c = dquote then Some ([], t)
      else (case unquote_char c t of
          None \<Rightarrow> None
        | Some (x, u) \<Rightarrow> map_option (apfst ((@) x)) (unquote u)))"
  by pat_completeness auto
termination
  by (relation "measure length") (auto dest: unquote_char_length)

text \<open>One rune at a time, then all of them.\<close>

lemma char_bound: "(of_char c :: nat) \<le> 255"
  using nat_of_char_less_256[of c] by linarith

lemma hex_digit_lower: "d < 16 \<Longrightarrow> hex_digit (lower_hex d) = Some d"
proof -
  assume "d < 16"
  then have "d \<in> set [0..<16]" by simp
  moreover have "list_all (\<lambda>d. hex_digit (lower_hex d) = Some d) [0..<16]" by code_simp
  ultimately show ?thesis by (auto simp: list_all_iff)
qed

lemma unquote_quote_char:
  assumes "of_char c < (128::nat)"
  shows "\<exists>d u. quote_char c = d # u \<and> d \<noteq> dquote \<and> unquote_char d (u @ t) = Some ([c], t)"
proof -
  let ?n = "of_char c :: nat"
  have c: "c = char_of ?n" by simp
  consider "c = backslash \<or> c = dquote" | "?n = 10 \<or> ?n = 13 \<or> ?n = 9"
    | "c \<noteq> backslash \<and> c \<noteq> dquote \<and> ?n \<notin> {9, 10, 13} \<and> (?n < 32 \<or> c = CHR ''<'' \<or> c = CHR ''>'' \<or> c = CHR ''&'')"
    | "c \<noteq> backslash \<and> c \<noteq> dquote \<and> \<not> ?n < 32 \<and> c \<noteq> CHR ''<'' \<and> c \<noteq> CHR ''>'' \<and> c \<noteq> CHR ''&''"
    by auto
  then show ?thesis
  proof cases
    case 1
    then show ?thesis using assms by (auto simp: quote_char_def unquote_char_def escaped_def backslash_def dquote_def)
  next
    case 2
    then have "c \<in> {CHR 0x0A, CHR 0x0D, CHR 0x09}"
      using of_char_eq_iff[of c "CHR 0x0A", where ?'a = nat] of_char_eq_iff[of c "CHR 0x0D", where ?'a = nat]
        of_char_eq_iff[of c "CHR 0x09", where ?'a = nat] by auto
    then show ?thesis
      by (elim insertE) (simp_all add: quote_char_def unquote_char_def escaped_def backslash_def dquote_def)
  next
    case 3
    have "hex4 (CHR ''0'' # CHR ''0'' # lower_hex (?n div 16) # lower_hex (?n mod 16) # t) = Some (?n, t)"
      using assms by (simp add: hex4_def hex_digit_lower) (simp add: hex_digit_def)
    with 3 show ?thesis
      using assms by (simp add: quote_char_def unquote_char_def Let_def surrogate_def utf8_encode_def) (simp add: backslash_def dquote_def)
  next
    case 4
    then show ?thesis using assms by (auto simp: quote_char_def unquote_char_def Let_def)
  qed
qed


lemma unquote_step: "c \<noteq> dquote \<Longrightarrow> unquote_char c t = Some (x, u) \<Longrightarrow> unquote (c # t) = map_option (apfst ((@) x)) (unquote u)"
  by simp

lemma map_apfst_append: "map_option (apfst ((@) x)) (map_option (apfst ((@) y)) m) = map_option (apfst ((@) (x @ y))) m"
  by (cases m) auto

lemma unquote_raw: "list_all (byte_in 128 255) r \<Longrightarrow> unquote (r @ t) = map_option (apfst ((@) r)) (unquote t)"
proof (induction r)
  case Nil
  then show ?case by (cases "unquote t") auto
next
  case (Cons c r)
  then have "c \<noteq> dquote" "unquote_char c (r @ t) = Some ([c], r @ t)"
    by (auto simp: byte_in_def unquote_char_def dquote_def backslash_def)
  from unquote_step[OF this] Cons have "unquote (c # r @ t) = map_option (apfst ((@) ([c] @ r))) (unquote t)"
    by (simp only: map_apfst_append list.pred_inject)
  moreover have eq: "[c] @ r = c # r" "(c # r) @ t = c # r @ t" by simp_all
  ultimately show ?case unfolding eq by blast
qed

lemma rune_bytes:
  assumes "r \<in> set (runes s)" and "\<not> bad_rune r"
  shows "(\<exists>c. r = [c] \<and> of_char c < (128::nat)) \<or> (length r > 1 \<and> list_all (byte_in 128 255) r)"
  using assms
proof (induction s rule: runes.induct)
  case (2 c t)
  let ?n = "rune_length c t"
  show ?case
  proof (cases "r = c # take (?n - 1) t")
    case True
    show ?thesis
    proof (cases "?n = 1")
      case one: True
      then show ?thesis using True "2.prems"(2) by (auto simp: bad_rune_def)
    next
      case False
      obtain lo hi n where l: "lead_byte (of_char c) = Some (lo, hi, n)"
        using False by (auto simp: rune_length_def split: option.splits)
      have ok: "n - 1 \<le> length t" "byte_in lo hi (t ! 0)" "list_all (byte_in 128 191) (take (n - 2) (tl t))" "?n = n"
        using False by (auto simp: rune_length_def l split: if_splits)
      have b: "128 \<le> (of_char c :: nat)" "128 \<le> lo" "hi \<le> 191" "2 \<le> n"
        using l by (auto simp: lead_byte_def split: if_splits)
      obtain d u where t: "t = d # u" using ok(1) b(4) by (cases t) auto
      have "take (n - 1) t = d # take (n - 2) u" using b(4) by (simp add: t take_Cons' numeral_2_eq_2)
      moreover have "list_all (byte_in 128 255) (take (n - 2) u)"
        using ok(3) unfolding t list.sel by (rule list.pred_mono_strong) (simp add: byte_in_def)
      moreover have "byte_in 128 255 d" using ok(2) b(2,3) by (simp add: t byte_in_def)
      moreover have "(of_char c :: nat) \<le> 255" by (simp add: char_bound)
      ultimately show ?thesis using True b(1) ok(4) by (simp add: byte_in_def[of _ _ c])
    qed
  next
    case False
    then show ?thesis using "2.IH" "2.prems" by simp
  qed
qed simp

lemma unquote_quote_rune:
  assumes "r \<in> set (runes s)" and "\<not> bad_rune r"
  shows "unquote (quote_rune r @ t) = map_option (apfst ((@) r)) (unquote t)"
proof -
  consider c where "r = [c]" "of_char c < (128::nat)"
    | "r = [CHR 0xE2, CHR 0x80, CHR 0xA8] \<or> r = [CHR 0xE2, CHR 0x80, CHR 0xA9]"
    | "length r > 1" "list_all (byte_in 128 255) r" "r \<noteq> [CHR 0xE2, CHR 0x80, CHR 0xA8]" "r \<noteq> [CHR 0xE2, CHR 0x80, CHR 0xA9]"
    using rune_bytes[OF assms] by blast
  then show ?thesis
  proof cases
    case (1 c)
    then obtain d u where d: "quote_char c = d # u" "d \<noteq> dquote" "unquote_char d (u @ t) = Some ([c], t)"
      using unquote_quote_char[OF 1(2)] by blast
    show ?thesis using unquote_step[OF d(2,3)] by (simp add: 1 quote_rune_def d(1) del: unquote.simps)
  next
    case 2
    have "unquote_char backslash (''u2028'' @ t) = Some ([CHR 0xE2, CHR 0x80, CHR 0xA8], t)"
      "unquote_char backslash (''u2029'' @ t) = Some ([CHR 0xE2, CHR 0x80, CHR 0xA9], t)"
      by (simp_all add: unquote_char_def hex4_def hex_digit_def surrogate_def utf8_encode_def) code_simp+
    moreover have "backslash \<noteq> dquote" by (simp add: backslash_def dquote_def)
    ultimately show ?thesis
      using 2 unquote_step[of backslash "''u2028'' @ t"] unquote_step[of backslash "''u2029'' @ t"]
      by (elim disjE) (simp_all add: quote_rune_def del: unquote.simps)
  next
    case 3
    then have "quote_rune r = r" by (auto simp: quote_rune_def split: list.split)
    then show ?thesis using unquote_raw[OF 3(2)] by simp
  qed
qed

lemma unquote_end [simp]: "unquote (dquote # t) = Some ([], t)"
  by simp

lemma unquote_quote_runes:
  "\<forall>r \<in> set rs. r \<in> set (runes s) \<and> \<not> bad_rune r \<Longrightarrow>
     unquote (concat (map quote_rune rs) @ dquote # t) = Some (concat rs, t)"
  by (induction rs) (simp_all add: unquote_quote_rune[of _ s] del: unquote.simps(2))

lemma unquote_quote:
  "valid_utf8 s \<Longrightarrow> unquote (concat (map quote_rune (runes s)) @ dquote # t) = Some (s, t)"
  using unquote_quote_runes[of "runes s" s t] by (simp add: valid_utf8_def list_all_iff del: unquote.simps)


section \<open>Values\<close>

text \<open>Writing a value, without any space.\<close>

fun json_text :: "json \<Rightarrow> string" where
  "json_text JNull = ''null''"
| "json_text (JBool b) = (if b then ''true'' else ''false'')"
| "json_text (JNumber n) = n"
| "json_text (JString s) = quote_string s"
| "json_text (JArray js) = ''['' @ Join (map json_text js) '','' @ '']''"
| "json_text (JObject kvs) = ''{'' @ Join (map (\<lambda>(k, j). quote_string k @ '':'' @ json_text j) kvs) '','' @ ''}''"

text \<open>
  Reading: the number is the text of the grammar. Every call of the three functions below has less fuel than its
  caller; twice the length of the text is enough, as one of two calls has read a character (\<open>parse_enough\<close>).
\<close>

definition json_space :: "char \<Rightarrow> bool" where
  "json_space c = (c \<in> {CHR '' '', CHR 0x09, CHR 0x0A, CHR 0x0D})"

definition skip_ws :: "string \<Rightarrow> string" where
  "skip_ws s = dropWhile json_space s"

definition number_int :: "string \<Rightarrow> (string \<times> string) option" where
  "number_int s = (case s of
     [] \<Rightarrow> None
   | c # t \<Rightarrow> if c = CHR ''0'' then Some ([c], t)
       else if is_digit c then Some (takeWhile is_digit s, dropWhile is_digit s) else None)"

definition number_frac :: "string \<Rightarrow> (string \<times> string) option" where
  "number_frac s = (case s of
     [] \<Rightarrow> Some ([], [])
   | c # t \<Rightarrow> if c = CHR ''.'' then
         (if takeWhile is_digit t = [] then None else Some (c # takeWhile is_digit t, dropWhile is_digit t))
       else Some ([], s))"

definition number_exp :: "string \<Rightarrow> (string \<times> string) option" where
  "number_exp s = (case s of
     [] \<Rightarrow> Some ([], [])
   | c # t \<Rightarrow> if c = CHR ''e'' \<or> c = CHR ''E'' then
         (let (sign, u) = (case t of d # v \<Rightarrow> if d = CHR ''+'' \<or> d = CHR ''-'' then ([d], v) else ([], t) | [] \<Rightarrow> ([], t))
          in if takeWhile is_digit u = [] then None else Some (c # sign @ takeWhile is_digit u, dropWhile is_digit u))
       else Some ([], s))"

definition number_sign :: "string \<Rightarrow> string \<times> string" where
  "number_sign s = (case s of c # t \<Rightarrow> if c = CHR ''-'' then ([c], t) else ([], s) | [] \<Rightarrow> ([], s))"

definition parse_number :: "string \<Rightarrow> (string \<times> string) option" where
  "parse_number s = (case number_sign s of (sign, t) \<Rightarrow> do {
     (i, u) \<leftarrow> number_int t;
     (f, v) \<leftarrow> number_frac u;
     (e, w) \<leftarrow> number_exp v;
     Some (sign @ i @ f @ e, w)
   })"

definition literal :: "string \<Rightarrow> 'a \<Rightarrow> string \<Rightarrow> ('a \<times> string) option" where
  "literal word j s = (if HasPrefix s word then Some (j, drop (length word) s) else None)"

text \<open>A key given again replaces the value in place.\<close>

definition make_object :: "(string \<times> json) list \<Rightarrow> json" where
  "make_object kvs = JObject (foldl (\<lambda>m (k, j). map_put k j m) [] kvs)"

fun parse_value :: "nat \<Rightarrow> string \<Rightarrow> (json \<times> string) option"
  and parse_elements :: "nat \<Rightarrow> string \<Rightarrow> (json list \<times> string) option"
  and parse_members :: "nat \<Rightarrow> string \<Rightarrow> ((string \<times> json) list \<times> string) option" where
  "parse_value 0 s = None"
| "parse_value (Suc n) s = (case s of
     [] \<Rightarrow> None
   | c # t \<Rightarrow>
       if c = CHR ''{'' then
         (case skip_ws t of
            [] \<Rightarrow> None
          | d # u \<Rightarrow> if d = CHR ''}'' then Some (JObject [], u)
              else map_option (apfst make_object) (parse_members n (d # u)))
       else if c = CHR ''['' then
         (case skip_ws t of
            [] \<Rightarrow> None
          | d # u \<Rightarrow> if d = CHR '']'' then Some (JArray [], u)
              else map_option (apfst JArray) (parse_elements n (d # u)))
       else if c = dquote then map_option (apfst JString) (unquote t)
       else if c = CHR ''t'' then literal ''true'' (JBool True) s
       else if c = CHR ''f'' then literal ''false'' (JBool False) s
       else if c = CHR ''n'' then literal ''null'' JNull s
       else map_option (apfst JNumber) (parse_number s))"
| "parse_elements 0 s = None"
| "parse_elements (Suc n) s = (case parse_value n s of
     None \<Rightarrow> None
   | Some (j, t) \<Rightarrow> (case skip_ws t of
       [] \<Rightarrow> None
     | c # u \<Rightarrow> if c = CHR '']'' then Some ([j], u)
         else if c = CHR '','' then map_option (apfst ((#) j)) (parse_elements n (skip_ws u))
         else None))"
| "parse_members 0 s = None"
| "parse_members (Suc n) s = (case s of
     [] \<Rightarrow> None
   | q # s' \<Rightarrow> if q \<noteq> dquote then None else (case unquote s' of
       None \<Rightarrow> None
     | Some (k, t) \<Rightarrow> (case skip_ws t of
         [] \<Rightarrow> None
       | c # u \<Rightarrow> if c \<noteq> CHR '':'' then None else (case parse_value n (skip_ws u) of
           None \<Rightarrow> None
         | Some (j, v) \<Rightarrow> (case skip_ws v of
             [] \<Rightarrow> None
           | d # w \<Rightarrow> if d = CHR ''}'' then Some ([(k, j)], w)
               else if d = CHR '','' then map_option (apfst ((#) (k, j))) (parse_members n (skip_ws w))
               else None)))))"

definition json_parse :: "string \<Rightarrow> json option" where
  "json_parse s =
     (let s = coerce_utf8 s in
      case parse_value (2 * length s + 1) (skip_ws s) of
        None \<Rightarrow> None
      | Some (j, rest) \<Rightarrow> if skip_ws rest = [] then Some j else None)"


section \<open>What is written is read\<close>

text \<open>Values of the program: strings are UTF-8, numbers are integers, the keys of an object are distinct.\<close>

fun json_ok :: "json \<Rightarrow> bool" where
  "json_ok JNull = True"
| "json_ok (JBool b) = True"
| "json_ok (JNumber n) = (\<exists>i. n = Itoa i)"
| "json_ok (JString s) = valid_utf8 s"
| "json_ok (JArray js) = (\<forall>j \<in> set js. json_ok j)"
| "json_ok (JObject kvs) = (distinct (map fst kvs) \<and> (\<forall>(k, j) \<in> set kvs. valid_utf8 k \<and> json_ok j))"

definition stops :: "string \<Rightarrow> bool" where
  "stops t = (t = [] \<or> hd t \<in> {CHR '','', CHR '']'', CHR ''}''})"

lemma show_nat_zero: "n \<noteq> 0 \<Longrightarrow> hd (show_nat n) \<noteq> CHR ''0''"
proof (induction n rule: show_nat.induct)
  case (1 n)
  show ?case
  proof (cases "n < 10")
    case True
    have "of_char (char_of (48 + n) :: char) = (48 + n :: nat)" using True by simp
    then have "(of_char (char_of (48 + n) :: char) :: nat) \<noteq> of_char (CHR ''0'')" using 1(2) by simp
    then have "(char_of (48 + n) :: char) \<noteq> CHR ''0''" by metis
    then show ?thesis using True by (simp add: show_nat.simps[of n])
  next
    case False
    then have "n div 10 \<noteq> 0" by auto
    with 1(1)[OF False] False show_nat_digits[of "n div 10"] show ?thesis by (subst show_nat.simps) simp
  qed
qed

lemma number_int_show:
  assumes "stops t"
  shows "number_int (show_nat n @ t) = Some (show_nat n, t)"
proof -
  have t: "takeWhile is_digit t = []" "dropWhile is_digit t = t"
    using assms by (cases t; auto simp: stops_def is_digit_def)+
  obtain c cs where c: "show_nat n = c # cs" using show_nat_digits[of n] by (cases "show_nat n") auto
  have d: "is_digit c" "list_all is_digit cs" using show_nat_digits[of n] by (simp_all add: c)
  then have w: "takeWhile is_digit (cs @ t) = cs" "dropWhile is_digit (cs @ t) = t"
    using t by (simp_all add: takeWhile_append dropWhile_append list_all_iff)
  have zero: "(char_of (48::nat) :: char) = CHR ''0''" by code_simp
  show ?thesis
  proof (cases "n = 0")
    case True
    then show ?thesis by (simp add: number_int_def show_nat.simps[of 0] zero)
  next
    case False
    then have "c \<noteq> CHR ''0''" using show_nat_zero[of n] c by simp
    then show ?thesis using d w by (simp add: number_int_def c)
  qed
qed

lemma number_tail: "stops t \<Longrightarrow> number_frac t = Some ([], t) \<and> number_exp t = Some ([], t)"
  by (cases t) (auto simp: stops_def number_frac_def number_exp_def)

lemma show_nat_head: "\<exists>c cs. show_nat n = c # cs \<and> is_digit c"
  using show_nat_digits[of n] by (cases "show_nat n") auto

lemma parse_number_Itoa:
  assumes "stops t"
  shows "parse_number (Itoa i @ t) = Some (Itoa i, t)"
proof (cases "i < 0")
  case True
  then show ?thesis
    using number_int_show[OF assms, of "nat (- i)"] number_tail[OF assms]
    by (simp add: Itoa_def parse_number_def number_sign_def)
next
  case False
  obtain c cs where c: "show_nat (nat i) = c # cs" "is_digit c" using show_nat_head by blast
  then have "c \<noteq> CHR ''-''" by (auto simp: is_digit_def)
  then have "number_sign (show_nat (nat i) @ t) = ([], show_nat (nat i) @ t)" by (simp add: number_sign_def c(1))
  then show ?thesis
    using False number_int_show[OF assms, of "nat i"] number_tail[OF assms] by (simp add: Itoa_def parse_number_def)
qed

text \<open>How a text begins, by which the reader finds its way.\<close>

lemma json_text_head:
  assumes "json_ok j"
  shows "\<exists>c cs. json_text j = c # cs \<and> \<not> json_space c \<and> c \<noteq> CHR '']'' \<and> c \<noteq> CHR ''}''"
proof (cases j)
  case (JNumber n)
  then obtain i where i: "n = Itoa i" using assms by auto
  obtain c cs where c: "Itoa i = c # cs" "c = CHR ''-'' \<or> is_digit c"
    using show_nat_head[of "nat i"] by (cases "i < 0") (auto simp: Itoa_def)
  have "\<not> json_space c \<and> c \<noteq> CHR '']'' \<and> c \<noteq> CHR ''}''" using c(2) by (auto simp: is_digit_def json_space_def)
  then show ?thesis using c(1) by (simp add: JNumber i)
qed (auto simp: quote_string_def dquote_def json_space_def)

lemma skip_ws_head [simp]: "\<not> json_space c \<Longrightarrow> skip_ws (c # t) = c # t"
  by (simp add: skip_ws_def)

lemma skip_ws_text: "json_ok j \<Longrightarrow> skip_ws (json_text j @ t) = json_text j @ t"
  using json_text_head[of j] by auto

lemma punctuation [simp]:
  "\<not> json_space (CHR '','')" "\<not> json_space (CHR '']'')" "\<not> json_space (CHR ''}'')" "\<not> json_space (CHR '':'')"
  "\<not> json_space dquote"
  by (simp_all add: json_space_def dquote_def)

lemma stops_simps [simp]: "stops []" "stops (CHR '','' # t)" "stops (CHR '']'' # t)" "stops (CHR ''}'' # t)"
  by (simp_all add: stops_def)

definition reads_back :: "json \<Rightarrow> bool" where
  "reads_back j = (\<forall>n t. length (json_text j) \<le> n \<longrightarrow> stops t \<longrightarrow> parse_value n (json_text j @ t) = Some (j, t))"

lemma parse_elements_texts:
  "\<lbrakk>js \<noteq> []; \<forall>j \<in> set js. json_ok j \<and> reads_back j; length (Join (map json_text js) '','') < n\<rbrakk> \<Longrightarrow>
     parse_elements n (Join (map json_text js) '','' @ CHR '']'' # t) = Some (js, t)"
proof (induction js arbitrary: n)
  case (Cons j js)
  obtain m where n: "n = Suc m" using Cons.prems(3) by (cases n) auto
  have rb: "reads_back j" and ok: "json_ok j" using Cons.prems(2) by simp_all
  show ?case
  proof (cases js)
    case Nil
    then show ?thesis using rb Cons.prems(3) by (simp add: reads_back_def n)
  next
    case (Cons k ks)
    have "length (json_text j) > 0" using json_text_head[OF ok] by auto
    then have "length (Join (map json_text js) '','') < m" "length (json_text j) \<le> m"
      using Cons.prems(3) by (simp_all add: n Cons)
    moreover have "parse_elements m (Join (map json_text js) '','' @ CHR '']'' # t) = Some (js, t)"
      using Cons.prems(2) calculation(1) by (intro Cons.IH) (simp_all add: Cons)
    moreover have "skip_ws (Join (map json_text js) '','' @ CHR '']'' # t) = Join (map json_text js) '','' @ CHR '']'' # t"
      using Cons.prems(2) by (cases ks) (simp_all add: Cons skip_ws_text)
    ultimately show ?thesis using rb by (simp add: reads_back_def n Cons)
  qed
qed simp

definition member_text :: "string \<times> json \<Rightarrow> string" where
  "member_text kv = quote_string (fst kv) @ '':'' @ json_text (snd kv)"

lemma parse_members_texts:
  "\<lbrakk>kvs \<noteq> []; \<forall>(k, j) \<in> set kvs. valid_utf8 k \<and> json_ok j \<and> reads_back j; length (Join (map member_text kvs) '','') < n\<rbrakk> \<Longrightarrow>
     parse_members n (Join (map member_text kvs) '','' @ CHR ''}'' # t) = Some (kvs, t)"
proof (induction kvs arbitrary: n)
  case (Cons kv kvs)
  obtain k j where kv: "kv = (k, j)" by (cases kv)
  obtain m where n: "n = Suc m" using Cons.prems(3) by (cases n) auto
  have rb: "reads_back j" and ok: "json_ok j" and k: "valid_utf8 k" using Cons.prems(2) by (simp_all add: kv)
  have len: "length (member_text kv) > length (json_text j)" by (simp add: kv member_text_def)
  have uq: "unquote (concat (map quote_rune (runes k)) @ dquote # u) = Some (k, u)" for u by (rule unquote_quote[OF k])
  show ?case
  proof (cases kvs)
    case Nil
    then show ?thesis using rb ok Cons.prems(3)
      by (simp add: reads_back_def n kv member_text_def quote_string_def uq skip_ws_text del: unquote.simps)
  next
    case (Cons lv lvs)
    have "length (Join (map member_text kvs) '','') < m" "length (json_text j) \<le> m"
      using Cons.prems(3) len by (simp_all add: n Cons)
    moreover have "parse_members m (Join (map member_text kvs) '','' @ CHR ''}'' # t) = Some (kvs, t)"
      using Cons.prems(2) calculation(1) by (intro Cons.IH) (simp_all add: Cons)
    moreover have "skip_ws (Join (map member_text kvs) '','' @ CHR ''}'' # t) = Join (map member_text kvs) '','' @ CHR ''}'' # t"
      by (cases lvs) (simp_all add: Cons member_text_def quote_string_def)
    ultimately show ?thesis using rb ok
      by (simp add: reads_back_def n Cons kv member_text_def[of "(k, j)"] quote_string_def uq skip_ws_text del: unquote.simps)
  qed
qed simp


lemma foldl_map_put_distinct:
  "distinct (map fst (m @ kvs)) \<Longrightarrow> foldl (\<lambda>m (k, j). map_put k j m) m kvs = m @ kvs"
proof (induction kvs arbitrary: m)
  case (Cons kv kvs)
  obtain k j where kv: "kv = (k, j)" by (cases kv)
  have new: "AList.update k j m = m @ [(k, j)]" if "k \<notin> fst ` set m" for m using that by (induction m) auto
  have "AList.update k j m = m @ [(k, j)]" using Cons.prems by (intro new) (auto simp: kv)
  then show ?case using Cons.IH[of "m @ [(k, j)]"] Cons.prems by (simp add: kv map_put_def)
qed simp

lemma make_object_distinct: "distinct (map fst kvs) \<Longrightarrow> make_object kvs = JObject kvs"
  using foldl_map_put_distinct[of "[]" kvs] by (simp add: make_object_def)

lemma reads_backI:
  assumes "json_ok j"
    and "\<And>m t. stops t \<Longrightarrow> length (json_text j) \<le> Suc m \<Longrightarrow> parse_value (Suc m) (json_text j @ t) = Some (j, t)"
  shows "reads_back j"
  unfolding reads_back_def
proof (intro allI impI)
  fix n t assume n: "length (json_text j) \<le> n" "stops t"
  moreover have "0 < length (json_text j)" using json_text_head[OF assms(1)] by auto
  ultimately show "parse_value n (json_text j @ t) = Some (j, t)" using assms(2) by (cases n) auto
qed

lemma HasPrefix_append [simp]: "HasPrefix (p @ t) p"
  by (induction p) auto

lemma read_number: "reads_back (JNumber (Itoa i))"
proof (rule reads_backI)
  fix m t assume t: "stops t"
  obtain c cs where c: "Itoa i = c # cs" "c = CHR ''-'' \<or> is_digit c"
    using show_nat_head[of "nat i"] by (cases "i < 0") (auto simp: Itoa_def)
  have "c \<notin> {CHR ''{'', CHR ''['', dquote, CHR ''t'', CHR ''f'', CHR ''n''}" using c(2) by (auto simp: is_digit_def dquote_def)
  then have "parse_value (Suc m) (Itoa i @ t) = map_option (apfst JNumber) (parse_number (Itoa i @ t))"
    by (simp add: c(1))
  then show "parse_value (Suc m) (json_text (JNumber (Itoa i)) @ t) = Some (JNumber (Itoa i), t)"
    by (simp add: parse_number_Itoa[OF t])
qed auto

lemma dquote_other [simp]: "dquote \<noteq> CHR ''{''" "dquote \<noteq> CHR ''[''"
  by (simp_all add: dquote_def)

lemma read_string: "valid_utf8 s \<Longrightarrow> reads_back (JString s)"
  by (rule reads_backI) (simp_all add: quote_string_def unquote_quote del: unquote.simps)

lemma Join_map_head:
  assumes "xs \<noteq> []" and "\<forall>x \<in> set xs. \<exists>c cs. f x = c # cs \<and> P c"
  shows "\<exists>c cs. Join (map f xs) sep = c # cs \<and> P c"
  using assms by (cases xs rule: remdups_adj.cases) auto

lemma read_array:
  assumes "\<forall>j \<in> set js. json_ok j \<and> reads_back j"
  shows "reads_back (JArray js)"
proof (rule reads_backI)
  fix m t assume "stops t" and m: "length (json_text (JArray js)) \<le> Suc m"
  show "parse_value (Suc m) (json_text (JArray js) @ t) = Some (JArray js, t)"
  proof (cases "js = []")
    case False
    obtain c cs where c: "Join (map json_text js) '','' = c # cs" "\<not> json_space c \<and> c \<noteq> CHR '']''"
      using Join_map_head[OF False, of json_text "\<lambda>c. \<not> json_space c \<and> c \<noteq> CHR '']''" "'',''"] assms json_text_head by blast
    have "parse_elements m (Join (map json_text js) '','' @ CHR '']'' # t) = Some (js, t)"
      using m by (intro parse_elements_texts[OF False assms]) simp
    then show ?thesis using c by simp
  qed simp
qed (use assms in auto)

lemma read_object:
  assumes "\<forall>(k, j) \<in> set kvs. valid_utf8 k \<and> json_ok j \<and> reads_back j" and "distinct (map fst kvs)"
  shows "reads_back (JObject kvs)"
proof (rule reads_backI)
  fix m t assume "stops t" and m: "length (json_text (JObject kvs)) \<le> Suc m"
  have members: "map (\<lambda>(k, j). quote_string k @ CHR '':'' # json_text j) kvs = map member_text kvs"
    by (simp add: member_text_def case_prod_beta)
  show "parse_value (Suc m) (json_text (JObject kvs) @ t) = Some (JObject kvs, t)"
  proof (cases "kvs = []")
    case False
    obtain c cs where c: "Join (map member_text kvs) '','' = c # cs" "c = dquote"
      using Join_map_head[OF False, of member_text "\<lambda>c. c = dquote" "'',''"] by (auto simp: member_text_def quote_string_def)
    have "parse_members m (Join (map member_text kvs) '','' @ CHR ''}'' # t) = Some (kvs, t)"
      using m by (intro parse_members_texts[OF False assms(1)]) (simp add: members del: map_eq_conv)
    then show ?thesis using c by (simp add: members make_object_distinct[OF assms(2)] del: map_eq_conv) (simp add: dquote_def)
  qed simp
qed (use assms in auto)

lemma json_reads_back: "json_ok j \<Longrightarrow> reads_back j"
proof (induction j)
  case (JArray js)
  then show ?case by (intro read_array) auto
next
  case (JObject kvs)
  have "reads_back j" if "(k, j) \<in> set kvs" for k j
    using JObject that by (fastforce simp: snds.simps)
  then show ?case using JObject.prems by (intro read_object) auto
next
  case JNull
  show ?case by (rule reads_backI) (auto simp: literal_def dquote_def)
next
  case (JBool b)
  show ?case by (rule reads_backI) (auto simp: literal_def dquote_def)
qed (auto intro: read_number read_string)


text \<open>The text of a value is UTF-8, so the parser takes it as it is.\<close>

lemma ascii_hex: "d < 16 \<Longrightarrow> of_char (lower_hex d) < (128::nat)"
proof -
  assume "d < 16"
  then have "d \<in> set [0..<16]" by simp
  moreover have "list_all (\<lambda>d. of_char (lower_hex d) < (128::nat)) [0..<16]" by code_simp
  ultimately show ?thesis by (auto simp: list_all_iff)
qed

lemma quote_char_ascii: "of_char c < (128::nat) \<Longrightarrow> list_all (\<lambda>c. of_char c < (128::nat)) (quote_char c)"
  by (auto simp: quote_char_def Let_def backslash_def dquote_def ascii_hex)

lemma valid_quote_rune:
  assumes "valid_utf8 s" and "r \<in> set (runes s)"
  shows "valid_utf8 (quote_rune r)"
proof -
  have bad: "\<not> bad_rune r" using assms by (auto simp: valid_utf8_def list_all_iff)
  consider c where "r = [c]" "of_char c < (128::nat)" | "length r > 1" using rune_bytes[OF assms(2) bad] by blast
  then show ?thesis
  proof cases
    case (1 c)
    then show ?thesis by (simp add: quote_rune_def valid_ascii quote_char_ascii)
  next
    case 2
    then obtain c d cs where r: "r = c # d # cs" by (cases r rule: remdups_adj.cases) auto
    have "valid_utf8 (backslash # ''u2028'')" "valid_utf8 (backslash # ''u2029'')"
      by (simp_all add: valid_ascii backslash_def)
    then show ?thesis using valid_runes[OF assms] by (simp add: quote_rune_def r del: runes.simps)
  qed
qed

lemma valid_concat: "\<forall>s \<in> set ss. valid_utf8 s \<Longrightarrow> valid_utf8 (concat ss)"
  by (induction ss) auto

lemma valid_quote: "valid_utf8 s \<Longrightarrow> valid_utf8 (quote_string s)"
proof -
  assume s: "valid_utf8 s"
  have q: "valid_utf8 (concat (map quote_rune (runes s)))" by (rule valid_concat) (use valid_quote_rune[OF s] in auto)
  then show ?thesis by (simp add: quote_string_def valid_utf8_Cons dquote_def)
qed

lemma valid_Join: "\<forall>s \<in> set ss. valid_utf8 s \<Longrightarrow> valid_utf8 sep \<Longrightarrow> valid_utf8 (Join ss sep)"
  by (induction ss sep rule: Join.induct) simp_all

lemma valid_Itoa: "valid_utf8 (Itoa i)"
proof (rule valid_ascii)
  have "list_all (\<lambda>c. of_char c < (128::nat)) (show_nat n)" for n
    using show_nat_digits[of n] by (auto simp: list_all_iff is_digit_def)
  then show "list_all (\<lambda>c. of_char c < (128::nat)) (Itoa i)" by (simp add: Itoa_def)
qed

lemma valid_json_text: "json_ok j \<Longrightarrow> valid_utf8 (json_text j)"
proof (induction j)
  case (JArray js)
  have "valid_utf8 (Join (map json_text js) '','')"
    using JArray by (intro valid_Join) (auto simp: valid_utf8_Cons)
  then show ?case by (simp add: valid_utf8_Cons)
next
  case (JObject kvs)
  have "valid_utf8 (member_text (k, j))" if "(k, j) \<in> set kvs" for k j
  proof -
    have "valid_utf8 k" "valid_utf8 (json_text j)" using JObject that by (fastforce simp: snds.simps)+
    then show ?thesis by (simp add: member_text_def valid_quote valid_utf8_Cons)
  qed
  then have "valid_utf8 (Join (map member_text kvs) '','')"
    by (intro valid_Join) (auto simp: valid_utf8_Cons)
  moreover have "map (\<lambda>(k, j). quote_string k @ CHR '':'' # json_text j) kvs = map member_text kvs"
    by (simp add: member_text_def case_prod_beta)
  ultimately show ?case by (simp add: valid_utf8_Cons del: map_eq_conv)
qed (auto simp: valid_quote valid_Itoa valid_utf8_Cons)

lemma json_parse_text:
  assumes "json_ok j"
  shows "json_parse (json_text j) = Some j"
proof -
  have "parse_value (2 * length (json_text j) + 1) (json_text j @ []) = Some (j, [])"
    using json_reads_back[OF assms] unfolding reads_back_def by (metis (no_types, opaque_lifting) add.commute le_add2 mult_2 stops_simps(1) trans_le_add2)
  moreover have "skip_ws (json_text j) = json_text j" using skip_ws_text[OF assms, of "[]"] by simp
  ultimately show ?thesis
    by (simp add: json_parse_def coerce_valid[OF valid_json_text[OF assms]] Let_def skip_ws_def del: parse_value.simps)
qed

text \<open>More fuel than the length of the text does not change what is read, so a refusal is never for lack of it.\<close>

lemma skip_ws_length: "length (skip_ws s) \<le> length s"
  by (simp add: skip_ws_def length_dropWhile_le)

lemma unquote_length: "unquote s = Some (x, t) \<Longrightarrow> length t < length s"
proof (induction s arbitrary: x t rule: unquote.induct)
  case (2 c s)
  show ?case
  proof (cases "c = dquote")
    case False
    then obtain y u z where u: "unquote_char c s = Some (y, u)" "unquote u = Some (z, t)"
      using "2.prems" by (auto split: option.splits)
    then show ?thesis using "2.IH"[OF False u(1) refl u(2)] unquote_char_length[OF u(1)] by simp
  qed (use "2.prems" in simp)
qed simp

lemma parse_number_length: "parse_number s = Some (x, t) \<Longrightarrow> length t < length s"
proof -
  assume "parse_number s = Some (x, t)"
  then obtain sg a i b f c e where n: "number_sign s = (sg, a)" "number_int a = Some (i, b)" "number_frac b = Some (f, c)"
      "number_exp c = Some (e, t)"
    by (auto simp: parse_number_def bind_eq_Some_conv split: prod.splits)
  have d: "length (dropWhile is_digit u) \<le> length u" for u by (rule length_dropWhile_le)
  have "length a \<le> length s" using n(1) by (auto simp: number_sign_def split: list.splits if_splits)
  moreover have "length b < length a"
    using n(2) d by (auto simp: number_int_def less_Suc_eq_le split: list.splits if_splits)
  moreover have "length c \<le> length b"
    using n(3) d by (auto simp: number_frac_def le_Suc_eq split: list.splits if_splits)
  moreover have "length t \<le> length c"
    using n(4) d by (auto simp: number_exp_def Let_def le_Suc_eq split: list.splits if_splits)
  ultimately show ?thesis by simp
qed


lemma parse_lengths:
  "parse_value n s = Some (j, t) \<Longrightarrow> length t < length s"
  "parse_elements n s = Some (js, t) \<Longrightarrow> length t < length s"
  "parse_members n s = Some (kvs, t) \<Longrightarrow> length t < length s"
proof (induction n s and n s and n s arbitrary: j t and js t and kvs t
    rule: parse_value_parse_elements_parse_members.induct)
  case (2 n s)
  show ?case
  proof (cases s)
    case (Cons c u)
    have w: "length (skip_ws u) \<le> length u" by (rule skip_ws_length)
    show ?thesis
      using "2.prems" w "2.IH"[OF Cons] parse_number_length[of s] unquote_length[of u]
      by (fastforce simp: Cons literal_def split: list.splits if_splits option.splits)
  qed (use "2.prems" in simp)
next
  case (4 n s)
  then obtain j t0 c u where v: "parse_value n s = Some (j, t0)" "skip_ws t0 = c # u"
    and u: "t = u \<or> (\<exists>js'. parse_elements n (skip_ws u) = Some (js', t) \<and> c = CHR '','')"
    by (auto split: option.splits list.splits if_splits)
  have "length t0 < length s" by (rule "4.IH"(1)[OF v(1)])
  moreover have "length (c # u) \<le> length t0" using skip_ws_length[of t0] v(2) by simp
  moreover have "length t \<le> length u"
    using u "4.IH"(2)[OF v(1) refl v(2)] skip_ws_length[of u] by fastforce
  ultimately show ?case by simp
next
  case (6 n s)
  then obtain s' k t0 u j v d w where s: "s = dquote # s'" "unquote s' = Some (k, t0)" "skip_ws t0 = CHR '':'' # u"
      "parse_value n (skip_ws u) = Some (j, v)" "skip_ws v = d # w"
    and w: "t = w \<or> (\<exists>kvs'. parse_members n (skip_ws w) = Some (kvs', t) \<and> d = CHR '','')"
    by (auto split: option.splits list.splits if_splits)
  have "length v < length (skip_ws u)" using "6.IH"(1)[OF s(1) _ s(2) refl s(3) _ s(4)] by simp
  moreover have "length t \<le> length w"
    using w "6.IH"(2)[OF s(1) _ s(2) refl s(3) _ s(4) refl s(5)] skip_ws_length[of w] by fastforce
  ultimately show ?case
    using unquote_length[OF s(2)] skip_ws_length[of t0] skip_ws_length[of u] skip_ws_length[of v] s(1,3,5) by simp
qed simp_all


lemma parse_enough_all:
  "\<forall>s m. (2 * length s < n \<longrightarrow> 2 * length s < m \<longrightarrow> parse_value n s = parse_value m s) \<and>
     (2 * length s + 1 < n \<longrightarrow> 2 * length s + 1 < m \<longrightarrow>
       parse_elements n s = parse_elements m s \<and> parse_members n s = parse_members m s)"
proof (induction n)
  case (Suc n)
  have V: "2 * length s < n \<Longrightarrow> 2 * length s < m \<Longrightarrow> parse_value n s = parse_value m s"
    and E: "2 * length s + 1 < n \<Longrightarrow> 2 * length s + 1 < m \<Longrightarrow> parse_elements n s = parse_elements m s"
    and M: "2 * length s + 1 < n \<Longrightarrow> 2 * length s + 1 < m \<Longrightarrow> parse_members n s = parse_members m s" for s m
    using Suc.IH by blast+
  show ?case
  proof (intro allI conjI impI)
    fix s :: string and m assume len: "2 * length s < Suc n" "2 * length s < m"
    then obtain k where m: "m = Suc k" by (cases m) auto
    show "parse_value (Suc n) s = parse_value m s"
    proof (cases s)
      case (Cons c t)
      have "parse_members n (d # u) = parse_members k (d # u) \<and> parse_elements n (d # u) = parse_elements k (d # u)"
        if "skip_ws t = d # u" for d u
        using that skip_ws_length[of t] len by (intro conjI M E) (simp_all add: Cons m)
      then show ?thesis by (simp add: m Cons split: list.split)
    qed (simp add: m)
  next
    fix s :: string and m assume len: "2 * length s + 1 < Suc n" "2 * length s + 1 < m"
    then obtain k where m: "m = Suc k" by (cases m) auto
    have v: "parse_value n s = parse_value k s" using len by (intro V) (simp_all add: m)
    have "parse_elements n (skip_ws u) = parse_elements k (skip_ws u)"
      if "parse_value k s = Some (j, t)" "skip_ws t = c # u" for j t c u
      using parse_lengths(1)[OF that(1)] skip_ws_length[of t] skip_ws_length[of u] that(2) len
      by (intro E) (simp_all add: m)
    then show "parse_elements (Suc n) s = parse_elements m s"
      by (simp add: m v split: option.split list.split)
  next
    fix s :: string and m assume len: "2 * length s + 1 < Suc n" "2 * length s + 1 < m"
    then obtain k where m: "m = Suc k" by (cases m) auto
    show "parse_members (Suc n) s = parse_members m s"
    proof (cases s)
      case (Cons q s')
      show ?thesis
      proof (cases "unquote s'")
        case (Some xt)
        obtain x t where xt: "xt = (x, t)" by (cases xt)
        show ?thesis
        proof (cases "skip_ws t")
          case c: (Cons c u)
          have u: "2 * length (skip_ws u) + 4 < 2 * length s"
            using unquote_length[of s' x t] Some xt skip_ws_length[of t] skip_ws_length[of u] by (simp add: c Cons)
          have v: "parse_value n (skip_ws u) = parse_value k (skip_ws u)" using u len by (intro V) (simp_all add: m)
          show ?thesis
          proof (cases "parse_value k (skip_ws u)")
            case j: (Some jv)
            obtain j v where jv: "jv = (j, v)" by (cases jv)
            show ?thesis
            proof (cases "skip_ws v")
              case d: (Cons d w)
              have w: "parse_members n (skip_ws w) = parse_members k (skip_ws w)"
                using parse_lengths(1)[of k "skip_ws u" j v] j jv u d skip_ws_length[of v] skip_ws_length[of w] len
                by (intro M) (simp_all add: m)
              show ?thesis by (simp add: m Cons Some xt c v j jv d w)
            qed (simp add: m Cons Some xt c v j jv)
          qed (simp add: m Cons Some xt c v)
        qed (simp add: m Cons Some xt)
      qed (simp add: m Cons)
    qed (simp add: m)
  qed
qed simp

lemma parse_enough: "2 * length s < n \<Longrightarrow> parse_value n s = parse_value (2 * length s + 1) s"
  using parse_enough_all[of n] by (metis less_add_one)


section \<open>Decoding into the views\<close>

text \<open>
  \<^verbatim>\<open>json.Unmarshal\<close> into a struct: a field takes the value of the last key that is its name up to case, null and a missing
  key leave it as it was, here its zero value, and a value of another kind is an error, \<^const>\<open>None\<close> below. The text is
  taken to have no field twice.
\<close>

definition json_field :: "string \<Rightarrow> (string \<times> json) list \<Rightarrow> json" where
  "json_field name m = (case find (\<lambda>(k, v). EqualFold k name) (rev m) of None \<Rightarrow> JNull | Some (k, v) \<Rightarrow> v)"

definition dec_string :: "json \<Rightarrow> string option" where
  "dec_string j = (case j of JNull \<Rightarrow> Some [] | JString s \<Rightarrow> Some s | _ \<Rightarrow> None)"

definition dec_bool :: "json \<Rightarrow> bool option" where
  "dec_bool j = (case j of JNull \<Rightarrow> Some False | JBool b \<Rightarrow> Some b | _ \<Rightarrow> None)"

definition dec_int :: "json \<Rightarrow> int option" where
  "dec_int j = (case j of JNull \<Rightarrow> Some 0
     | JNumber n \<Rightarrow> (case Atoi n of Inl err \<Rightarrow> None | Inr i \<Rightarrow> Some i) | _ \<Rightarrow> None)"

definition dec_pointer :: "(json \<Rightarrow> 'a option) \<Rightarrow> json \<Rightarrow> 'a option option" where
  "dec_pointer dec j = (if j = JNull then Some None else map_option Some (dec j))"

definition dec_slice :: "(json \<Rightarrow> 'a option) \<Rightarrow> json \<Rightarrow> 'a list option option" where
  "dec_slice dec j = (case j of JNull \<Rightarrow> Some None | JArray js \<Rightarrow> map_option Some (those (map dec js)) | _ \<Rightarrow> None)"

definition dec_struct :: "((string \<times> json) list \<Rightarrow> 'a option) \<Rightarrow> json \<Rightarrow> 'a option" where
  "dec_struct dec j = (case j of JNull \<Rightarrow> dec [] | JObject m \<Rightarrow> dec m | _ \<Rightarrow> None)"

definition nil_empty :: "'a list option \<Rightarrow> 'a list" where
  "nil_empty x = (case x of None \<Rightarrow> [] | Some xs \<Rightarrow> xs)"

definition dec_headers :: "json \<Rightarrow> headers option" where
  "dec_headers j = (case j of JNull \<Rightarrow> Some None
     | JObject m \<Rightarrow> map_option Some (those (map (\<lambda>(k, v). map_option (\<lambda>vs. (k, nil_empty vs)) (dec_slice dec_string v)) m))
     | _ \<Rightarrow> None)"

definition dec_matchers :: "(string \<times> json) list \<Rightarrow> RequestFieldMatchersView option" where
  "dec_matchers m = do {
     ex \<leftarrow> dec_pointer dec_string (json_field ''exactMatch'' m);
     xm \<leftarrow> dec_pointer dec_string (json_field ''xmlMatch'' m);
     xp \<leftarrow> dec_pointer dec_string (json_field ''xpathMatch'' m);
     js \<leftarrow> dec_pointer dec_string (json_field ''jsonMatch'' m);
     jp \<leftarrow> dec_pointer dec_string (json_field ''jsonPathMatch'' m);
     re \<leftarrow> dec_pointer dec_string (json_field ''regexMatch'' m);
     gl \<leftarrow> dec_pointer dec_string (json_field ''globMatch'' m);
     Some \<lparr>fv_ExactMatch = ex, fv_XmlMatch = xm, fv_XpathMatch = xp, fv_JsonMatch = js, fv_JsonPathMatch = jp,
       fv_RegexMatch = re, fv_GlobMatch = gl\<rparr>
   }"

definition dec_request :: "(string \<times> json) list \<Rightarrow> RequestDetailsViewV2 option" where
  "dec_request m = do {
     path \<leftarrow> dec_pointer (dec_struct dec_matchers) (json_field ''path'' m);
     meth \<leftarrow> dec_pointer (dec_struct dec_matchers) (json_field ''method'' m);
     dest \<leftarrow> dec_pointer (dec_struct dec_matchers) (json_field ''destination'' m);
     scheme \<leftarrow> dec_pointer (dec_struct dec_matchers) (json_field ''scheme'' m);
     query \<leftarrow> dec_pointer (dec_struct dec_matchers) (json_field ''query'' m);
     body \<leftarrow> dec_pointer (dec_struct dec_matchers) (json_field ''body'' m);
     hs \<leftarrow> dec_headers (json_field ''headers'' m);
     Some \<lparr>v2_Path = path, v2_Method = meth, v2_Destination = dest, v2_Scheme = scheme, v2_Query = query,
       v2_Body = body, v2_Headers = hs\<rparr>
   }"

definition dec_request_v1 :: "(string \<times> json) list \<Rightarrow> RequestDetailsViewV1 option" where
  "dec_request_v1 m = do {
     kind \<leftarrow> dec_pointer dec_string (json_field ''requestType'' m);
     path \<leftarrow> dec_pointer dec_string (json_field ''path'' m);
     meth \<leftarrow> dec_pointer dec_string (json_field ''method'' m);
     dest \<leftarrow> dec_pointer dec_string (json_field ''destination'' m);
     scheme \<leftarrow> dec_pointer dec_string (json_field ''scheme'' m);
     query \<leftarrow> dec_pointer dec_string (json_field ''query'' m);
     body \<leftarrow> dec_pointer dec_string (json_field ''body'' m);
     hs \<leftarrow> dec_headers (json_field ''headers'' m);
     Some \<lparr>v1_RequestType = kind, v1_Path = path, v1_Method = meth, v1_Destination = dest, v1_Scheme = scheme,
       v1_Query = query, v1_Body = body, v1_Headers = hs\<rparr>
   }"

definition dec_response :: "(string \<times> json) list \<Rightarrow> ResponseDetailsView option" where
  "dec_response m = do {
     status \<leftarrow> dec_int (json_field ''status'' m);
     body \<leftarrow> dec_string (json_field ''body'' m);
     enc \<leftarrow> dec_bool (json_field ''encodedBody'' m);
     hs \<leftarrow> dec_headers (json_field ''headers'' m);
     Some \<lparr>rv_Status = status, rv_Body = body, rv_EncodedBody = enc, rv_Headers = hs\<rparr>
   }"

definition dec_pair :: "(string \<times> json) list \<Rightarrow> RequestResponsePairViewV2 option" where
  "dec_pair m = do {
     resp \<leftarrow> dec_struct dec_response (json_field ''response'' m);
     req \<leftarrow> dec_struct dec_request (json_field ''request'' m);
     Some \<lparr>p2_Response = resp, p2_Request = req\<rparr>
   }"

definition dec_pair_v1 :: "(string \<times> json) list \<Rightarrow> RequestResponsePairViewV1 option" where
  "dec_pair_v1 m = do {
     resp \<leftarrow> dec_struct dec_response (json_field ''response'' m);
     req \<leftarrow> dec_struct dec_request_v1 (json_field ''request'' m);
     Some \<lparr>p1_Response = resp, p1_Request = req\<rparr>
   }"

definition dec_delay :: "(string \<times> json) list \<Rightarrow> ResponseDelayView option" where
  "dec_delay m = do {
     url \<leftarrow> dec_string (json_field ''urlPattern'' m);
     meth \<leftarrow> dec_string (json_field ''httpMethod'' m);
     delay \<leftarrow> dec_int (json_field ''delay'' m);
     Some \<lparr>dv_UrlPattern = url, dv_HttpMethod = meth, dv_Delay = delay\<rparr>
   }"

definition dec_global_actions :: "(string \<times> json) list \<Rightarrow> GlobalActionsView option" where
  "dec_global_actions m = map_option (\<lambda>ds. \<lparr>ga_Delays = ds\<rparr>) (dec_slice (dec_struct dec_delay) (json_field ''delays'' m))"

definition dec_meta :: "(string \<times> json) list \<Rightarrow> MetaView option" where
  "dec_meta m = do {
     schema \<leftarrow> dec_string (json_field ''schemaVersion'' m);
     version \<leftarrow> dec_string (json_field ''hoverflyVersion'' m);
     exported \<leftarrow> dec_string (json_field ''timeExported'' m);
     Some \<lparr>mv_SchemaVersion = schema, mv_HoverflyVersion = version, mv_TimeExported = exported\<rparr>
   }"

definition dec_data :: "(string \<times> json) list \<Rightarrow> DataViewV2 option" where
  "dec_data m = do {
     pairs \<leftarrow> dec_slice (dec_struct dec_pair) (json_field ''pairs'' m);
     actions \<leftarrow> dec_struct dec_global_actions (json_field ''globalActions'' m);
     Some \<lparr>d2_RequestResponsePairs = nil_empty pairs, d2_GlobalActions = actions\<rparr>
   }"

definition dec_data_v1 :: "(string \<times> json) list \<Rightarrow> DataViewV1 option" where
  "dec_data_v1 m = do {
     pairs \<leftarrow> dec_slice (dec_struct dec_pair_v1) (json_field ''pairs'' m);
     actions \<leftarrow> dec_struct dec_global_actions (json_field ''globalActions'' m);
     Some \<lparr>d1_RequestResponsePairViewV1 = nil_empty pairs, d1_GlobalActions = actions\<rparr>
   }"

definition dec_simulation :: "(string \<times> json) list \<Rightarrow> SimulationViewV2 option" where
  "dec_simulation m = do {
     d \<leftarrow> dec_struct dec_data (json_field ''data'' m);
     meta \<leftarrow> dec_struct dec_meta (json_field ''meta'' m);
     Some \<lparr>s2_DataViewV2 = d, s2_MetaView = meta\<rparr>
   }"

definition dec_simulation_v1 :: "(string \<times> json) list \<Rightarrow> SimulationViewV1 option" where
  "dec_simulation_v1 m = do {
     d \<leftarrow> dec_struct dec_data_v1 (json_field ''data'' m);
     meta \<leftarrow> dec_struct dec_meta (json_field ''meta'' m);
     Some \<lparr>s1_DataViewV1 = d, s1_MetaView = meta\<rparr>
   }"

text \<open>
  The reader of simulations on this part of encoding/json; the text of errors is shortened. Which numbers the schemas
  take for integers is left to the argument, as it depends on how floats are printed.
\<close>

definition unmarshal :: "((string \<times> json) list \<Rightarrow> 'a option) \<Rightarrow> string \<Rightarrow> string + 'a" where
  "unmarshal dec body = (case json_parse body of
     None \<Rightarrow> Inl ''invalid character''
   | Some j \<Rightarrow> (case dec_struct dec j of None \<Rightarrow> Inl ''json: cannot unmarshal'' | Some v \<Rightarrow> Inr v))"

definition json_reader :: "(string \<Rightarrow> bool) \<Rightarrow> simulation_reader" where
  "json_reader is_int64 =
     \<lparr>unmarshal_map = (\<lambda>body. case json_parse body of Some JNull \<Rightarrow> Some [] | Some (JObject m) \<Rightarrow> Some m | _ \<Rightarrow> None),
      rd_is_int64 = is_int64, unmarshal_v2 = unmarshal dec_simulation, unmarshal_v1 = unmarshal dec_simulation_v1\<rparr>"


section \<open>An exported simulation is read back\<close>

text \<open>What is left of a view in its text: maps by their keys in order, and no empty map of header matchers.\<close>

definition written_headers :: "headers \<Rightarrow> headers" where
  "written_headers h = map_option (sort_key fst) h"

definition written_pair :: "RequestResponsePairViewV2 \<Rightarrow> RequestResponsePairViewV2" where
  "written_pair p =
     p\<lparr>p2_Response := (p2_Response p)\<lparr>rv_Headers := written_headers (rv_Headers (p2_Response p))\<rparr>,
       p2_Request := (p2_Request p)\<lparr>v2_Headers :=
         (if v2_Headers (p2_Request p) = Some [] then None else written_headers (v2_Headers (p2_Request p)))\<rparr>\<rparr>"

definition written_view :: "SimulationViewV2 \<Rightarrow> SimulationViewV2" where
  "written_view v =
     v\<lparr>s2_DataViewV2 := (s2_DataViewV2 v)\<lparr>d2_RequestResponsePairs := map written_pair (d2_RequestResponsePairs (s2_DataViewV2 v))\<rparr>\<rparr>"

definition nullable :: "json option \<Rightarrow> json" where
  "nullable v = (case v of None \<Rightarrow> JNull | Some j \<Rightarrow> j)"

definition nonnil :: "json option \<Rightarrow> bool" where
  "nonnil v = (v \<noteq> None)"

lemma nullable_nonnil [simp]: "(if nonnil v then nullable v else JNull) = nullable v"
  by (cases v) (simp_all add: nullable_def nonnil_def)

lemma not_nonnil [simp]: "\<not> nonnil v \<Longrightarrow> nullable v = JNull"
  by (cases v) (simp_all add: nullable_def nonnil_def)

definition has_field :: "string \<Rightarrow> (string \<times> json) list \<Rightarrow> bool" where
  "has_field name m = (find (\<lambda>(k, v). EqualFold k name) (rev m) \<noteq> None)"

lemma json_fields:
  "json_field name [] = JNull" "has_field name [] = False"
  "json_field name (xs @ ys) = (if has_field name ys then json_field name ys else json_field name xs)"
  "has_field name (xs @ ys) = (has_field name xs \<or> has_field name ys)"
  "json_field name (omit_nil k v) = (if EqualFold k name then nullable v else JNull)"
  "has_field name (omit_nil k v) = (nonnil v \<and> EqualFold k name)"
  "json_field name ((k, w) # m) = (if has_field name m then json_field name m else if EqualFold k name then w else JNull)"
  "has_field name ((k, w) # m) = (EqualFold k name \<or> has_field name m)"
  by (auto simp: json_field_def has_field_def find_append omit_nil_def nullable_def nonnil_def split: option.splits)

lemma lowered:
  "ToLower ''exactMatch'' = ''exactmatch''" "ToLower ''xmlMatch'' = ''xmlmatch''" "ToLower ''xpathMatch'' = ''xpathmatch''"
  "ToLower ''jsonMatch'' = ''jsonmatch''" "ToLower ''jsonPathMatch'' = ''jsonpathmatch''"
  "ToLower ''regexMatch'' = ''regexmatch''" "ToLower ''globMatch'' = ''globmatch''" "ToLower ''path'' = ''path''"
  "ToLower ''method'' = ''method''" "ToLower ''destination'' = ''destination''" "ToLower ''scheme'' = ''scheme''"
  "ToLower ''query'' = ''query''" "ToLower ''body'' = ''body''" "ToLower ''headers'' = ''headers''"
  "ToLower ''status'' = ''status''" "ToLower ''encodedBody'' = ''encodedbody''" "ToLower ''response'' = ''response''"
  "ToLower ''request'' = ''request''" "ToLower ''urlPattern'' = ''urlpattern''" "ToLower ''httpMethod'' = ''httpmethod''"
  "ToLower ''delay'' = ''delay''" "ToLower ''delays'' = ''delays''" "ToLower ''schemaVersion'' = ''schemaversion''"
  "ToLower ''hoverflyVersion'' = ''hoverflyversion''" "ToLower ''timeExported'' = ''timeexported''"
  "ToLower ''pairs'' = ''pairs''" "ToLower ''globalActions'' = ''globalactions''" "ToLower ''data'' = ''data''"
  "ToLower ''meta'' = ''meta''"
  by code_simp+

lemmas fold_simps = EqualFold_def lowered

lemma dec_string_simps [simp]: "dec_string (JString s) = Some s" "dec_string JNull = Some []"
  by (simp_all add: dec_string_def)

lemma dec_pointer_string:
  "dec_pointer dec_string (nullable (map_option JString x)) = Some x"
  by (cases x) (simp_all add: dec_pointer_def nullable_def)

lemma matchers_fields:
  assumes "matchers_json f = JObject m"
  shows "json_field ''exactMatch'' m = nullable (map_option JString (fv_ExactMatch f))"
    and "json_field ''xmlMatch'' m = nullable (map_option JString (fv_XmlMatch f))"
    and "json_field ''xpathMatch'' m = nullable (map_option JString (fv_XpathMatch f))"
    and "json_field ''jsonMatch'' m = nullable (map_option JString (fv_JsonMatch f))"
    and "json_field ''jsonPathMatch'' m = nullable (map_option JString (fv_JsonPathMatch f))"
    and "json_field ''regexMatch'' m = nullable (map_option JString (fv_RegexMatch f))"
    and "json_field ''globMatch'' m = nullable (map_option JString (fv_GlobMatch f))"
  using assms unfolding matchers_json_def by (auto simp: json_fields fold_simps)

lemma dec_matchers_json: "dec_struct dec_matchers (matchers_json f) = Some f"
proof -
  obtain m where m: "matchers_json f = JObject m" by (simp add: matchers_json_def)
  show ?thesis
    by (simp add: m dec_struct_def dec_matchers_def matchers_fields[OF m] dec_pointer_string)
qed

lemma dec_pointer_matchers:
  "dec_pointer (dec_struct dec_matchers) (nullable (map_option matchers_json x)) = Some x"
  by (cases x) (simp_all add: dec_pointer_def nullable_def dec_matchers_json, simp add: matchers_json_def)

lemma those_Some: "(\<And>x. x \<in> set xs \<Longrightarrow> f x = Some (g x)) \<Longrightarrow> those (map f xs) = Some (map g xs)"
  by (induction xs) auto

lemma dec_slice_map:
  "(\<And>x. x \<in> set xs \<Longrightarrow> dec (enc x) = Some (f x)) \<Longrightarrow> dec_slice dec (JArray (map enc xs)) = Some (Some (map f xs))"
  using those_Some[of xs "dec \<circ> enc" f] by (simp add: dec_slice_def)

lemma dec_header_map: "dec_headers (header_map_json m) = Some (Some (sort_key fst m))"
proof -
  have "dec_slice dec_string (JArray (map JString vs)) = Some (Some vs)" for vs
    using dec_slice_map[of vs dec_string JString "\<lambda>x. x"] by simp
  then have "those (map (\<lambda>(k, v). map_option (\<lambda>vs. (k, nil_empty vs)) (dec_slice dec_string v))
      (map (\<lambda>(k, vs). (k, JArray (map JString vs))) (sort_key fst m))) = Some (map (\<lambda>x. x) (sort_key fst m))"
    unfolding map_map by (intro those_Some) (auto simp: nil_empty_def)
  then show ?thesis by (simp add: header_map_json_def dec_headers_def)
qed

lemma dec_headers_json: "dec_headers (headers_json h) = Some (written_headers h)"
  by (cases h) (simp_all add: headers_json_def dec_header_map written_headers_def, simp add: dec_headers_def)

lemma nullable_simps [simp]: "nullable None = JNull" "nullable (Some j) = j"
  by (simp_all add: nullable_def)

lemma dec_pointer_null [simp]: "dec_pointer dec JNull = Some None"
  by (simp add: dec_pointer_def)

lemma omit_headers:
  "(case h of None \<Rightarrow> [] | Some m \<Rightarrow> if m = [] then [] else [(''headers'', header_map_json m)]) =
   omit_nil ''headers'' (if h = Some [] then None else map_option header_map_json h)"
  by (auto simp: omit_nil_def split: option.split)

lemma request_fields:
  assumes "request_json r = JObject m"
  shows "json_field ''path'' m = nullable (map_option matchers_json (v2_Path r))"
    and "json_field ''method'' m = nullable (map_option matchers_json (v2_Method r))"
    and "json_field ''destination'' m = nullable (map_option matchers_json (v2_Destination r))"
    and "json_field ''scheme'' m = nullable (map_option matchers_json (v2_Scheme r))"
    and "json_field ''query'' m = nullable (map_option matchers_json (v2_Query r))"
    and "json_field ''body'' m = nullable (map_option matchers_json (v2_Body r))"
    and "json_field ''headers'' m = nullable (if v2_Headers r = Some [] then None else map_option header_map_json (v2_Headers r))"
  using assms unfolding request_json_def omit_headers by (auto simp: json_fields fold_simps)

lemma dec_headers_omitted:
  "dec_headers (nullable (if h = Some [] then None else map_option header_map_json h)) =
   Some (if h = Some [] then None else written_headers h)"
  by (cases h) (simp_all add: dec_header_map written_headers_def, simp_all add: dec_headers_def)

lemma dec_request_json:
  "dec_struct dec_request (request_json r) = Some (r\<lparr>v2_Headers :=
     (if v2_Headers r = Some [] then None else written_headers (v2_Headers r))\<rparr>)"
proof -
  obtain m where m: "request_json r = JObject m" by (simp add: request_json_def)
  show ?thesis
    by (simp add: m dec_struct_def dec_request_def request_fields[OF m] dec_pointer_matchers dec_headers_omitted)
qed

lemma dec_int_Itoa: "small i \<Longrightarrow> dec_int (JNumber (Itoa i)) = Some i"
  by (simp add: dec_int_def Atoi_Itoa small_def)

lemma dec_bool_simps [simp]: "dec_bool (JBool b) = Some b"
  by (simp add: dec_bool_def)

lemma dec_response_json:
  assumes "small (rv_Status r)"
  shows "dec_struct dec_response (response_json r) = Some (r\<lparr>rv_Headers := written_headers (rv_Headers r)\<rparr>)"
  using dec_int_Itoa[OF assms]
  by (simp add: response_json_def dec_struct_def dec_response_def json_fields fold_simps dec_headers_json)

lemma dec_pair_json:
  assumes "small (rv_Status (p2_Response p))"
  shows "dec_struct dec_pair (pair_json p) = Some (written_pair p)"
  using dec_response_json[OF assms] dec_request_json[of "p2_Request p"]
  by (simp add: pair_json_def written_pair_def dec_struct_def dec_pair_def json_fields fold_simps)

lemma dec_delay_json: "small (dv_Delay d) \<Longrightarrow> dec_struct dec_delay (delay_json d) = Some d"
  using dec_int_Itoa[of "dv_Delay d"]
  by (simp add: delay_json_def dec_struct_def dec_delay_def json_fields fold_simps)

definition delays_small :: "GlobalActionsView \<Rightarrow> bool" where
  "delays_small g \<longleftrightarrow> (case ga_Delays g of None \<Rightarrow> True | Some ds \<Rightarrow> \<forall>d \<in> set ds. small (dv_Delay d))"

lemma dec_delays_json:
  assumes "delays_small g"
  shows "dec_slice (dec_struct dec_delay) (case ga_Delays g of None \<Rightarrow> JNull | Some ds \<Rightarrow> JArray (map delay_json ds)) =
    Some (ga_Delays g)"
proof (cases "ga_Delays g")
  case None
  then show ?thesis by (simp add: dec_slice_def)
next
  case (Some ds)
  then have "\<And>d. d \<in> set ds \<Longrightarrow> dec_struct dec_delay (delay_json d) = Some d"
    using assms by (auto simp: delays_small_def dec_delay_json)
  from dec_slice_map[of ds "dec_struct dec_delay" delay_json "\<lambda>d. d", OF this]
  show ?thesis by (simp add: Some)
qed

lemma dec_global_actions_json:
  "delays_small g \<Longrightarrow> dec_struct dec_global_actions (global_actions_json g) = Some g"
  using dec_delays_json[of g]
  by (simp add: global_actions_json_def dec_struct_def dec_global_actions_def json_fields fold_simps)

lemma dec_meta_json: "dec_struct dec_meta (meta_json m) = Some m"
  by (simp add: meta_json_def dec_struct_def dec_meta_def json_fields fold_simps)

lemma dec_data_json:
  assumes "\<forall>p \<in> set (d2_RequestResponsePairs d). small (rv_Status (p2_Response p))" and "delays_small (d2_GlobalActions d)"
  shows "dec_struct dec_data (JObject [(''pairs'', JArray (map pair_json (d2_RequestResponsePairs d))),
           (''globalActions'', global_actions_json (d2_GlobalActions d))]) =
    Some (d\<lparr>d2_RequestResponsePairs := map written_pair (d2_RequestResponsePairs d)\<rparr>)"
  using dec_slice_map[of "d2_RequestResponsePairs d" "dec_struct dec_pair" pair_json written_pair]
    dec_pair_json dec_global_actions_json[OF assms(2)] assms(1)
  by (simp add: dec_struct_def[of dec_data] dec_data_def json_fields fold_simps nil_empty_def)

lemma dec_simulation_json:
  assumes "\<forall>p \<in> set (d2_RequestResponsePairs (s2_DataViewV2 v)). small (rv_Status (p2_Response p))"
    and "delays_small (d2_GlobalActions (s2_DataViewV2 v))"
  shows "dec_struct dec_simulation (JObject (simulation_json v)) = Some (written_view v)"
  using dec_data_json[OF assms] dec_meta_json[of "s2_MetaView v"]
  by (simp add: simulation_json_def dec_struct_def[of dec_simulation] dec_simulation_def json_fields fold_simps written_view_def)


text \<open>The text of a view can be read when its strings are UTF-8 and no map of headers lists a header twice.\<close>

definition opt_ok :: "('a \<Rightarrow> bool) \<Rightarrow> 'a option \<Rightarrow> bool" where
  "opt_ok P v = (case v of None \<Rightarrow> True | Some x \<Rightarrow> P x)"

definition header_map_ok :: "header_map \<Rightarrow> bool" where
  "header_map_ok m \<longleftrightarrow> distinct (map fst m) \<and> list_all (\<lambda>(k, vs). valid_utf8 k \<and> list_all valid_utf8 vs) m"

definition matchers_ok :: "RequestFieldMatchersView \<Rightarrow> bool" where
  "matchers_ok f \<longleftrightarrow> list_all (opt_ok valid_utf8) [fv_ExactMatch f, fv_XmlMatch f, fv_XpathMatch f, fv_JsonMatch f,
     fv_JsonPathMatch f, fv_RegexMatch f, fv_GlobMatch f]"

definition pair_ok :: "RequestResponsePairViewV2 \<Rightarrow> bool" where
  "pair_ok p \<longleftrightarrow> valid_utf8 (rv_Body (p2_Response p)) \<and> opt_ok header_map_ok (rv_Headers (p2_Response p)) \<and>
     list_all (opt_ok matchers_ok) [v2_Path (p2_Request p), v2_Method (p2_Request p), v2_Destination (p2_Request p),
       v2_Scheme (p2_Request p), v2_Query (p2_Request p), v2_Body (p2_Request p)] \<and>
     opt_ok header_map_ok (v2_Headers (p2_Request p))"

definition delay_ok :: "ResponseDelayView \<Rightarrow> bool" where
  "delay_ok d \<longleftrightarrow> valid_utf8 (dv_UrlPattern d) \<and> valid_utf8 (dv_HttpMethod d)"

definition view_ok :: "SimulationViewV2 \<Rightarrow> bool" where
  "view_ok v \<longleftrightarrow> list_all pair_ok (d2_RequestResponsePairs (s2_DataViewV2 v)) \<and>
     opt_ok (list_all delay_ok) (ga_Delays (d2_GlobalActions (s2_DataViewV2 v))) \<and>
     list_all valid_utf8 [mv_SchemaVersion (s2_MetaView v), mv_HoverflyVersion (s2_MetaView v), mv_TimeExported (s2_MetaView v)]"

definition members_ok :: "(string \<times> json) list \<Rightarrow> bool" where
  "members_ok m = json_ok (JObject m)"

lemma members_ok_simps [simp]:
  "members_ok []" "members_ok ((k, j) # m) \<longleftrightarrow> k \<notin> fst ` set m \<and> valid_utf8 k \<and> json_ok j \<and> members_ok m"
  by (auto simp: members_ok_def)

lemma omit_keys [simp]:
  "k \<in> fst ` set (omit_nil k' v) \<longleftrightarrow> v \<noteq> None \<and> k = k'"
  by (auto simp: omit_nil_def split: option.split)

lemma members_ok_omit:
  assumes "opt_ok P v" and "\<And>x. P x \<Longrightarrow> json_ok (f x)" and "valid_utf8 k" and "k \<notin> fst ` set m" and "members_ok m"
  shows "members_ok (omit_nil k (map_option f v) @ m)"
  using assms by (auto simp: omit_nil_def opt_ok_def split: option.splits)

lemma members_ok_omit_last:
  assumes "opt_ok P v" and "\<And>x. P x \<Longrightarrow> json_ok (f x)" and "valid_utf8 k"
  shows "members_ok (omit_nil k (map_option f v))"
  using members_ok_omit[OF assms, where m="[]"] by simp

lemma utf8_keys:
  "list_all valid_utf8 [''exactMatch'', ''xmlMatch'', ''xpathMatch'', ''jsonMatch'', ''jsonPathMatch'', ''regexMatch'', ''globMatch'',
     ''path'', ''method'', ''destination'', ''scheme'', ''query'', ''body'', ''headers'', ''status'', ''encodedBody'', ''response'',
     ''request'', ''urlPattern'', ''httpMethod'', ''delay'', ''delays'', ''schemaVersion'', ''hoverflyVersion'', ''timeExported'',
     ''pairs'', ''globalActions'', ''data'', ''meta'']"
  by code_simp

lemma json_ok_headers: "header_map_ok m \<Longrightarrow> json_ok (header_map_json m)"
proof -
  assume m: "header_map_ok m"
  have "distinct (map fst (sort_key fst m))"
    using m by (simp add: header_map_ok_def distinct_map inj_on_def)
  then show "json_ok (header_map_json m)"
    using m by (auto simp: header_map_ok_def header_map_json_def list_all_iff case_prod_beta comp_def)
qed

lemma json_ok_matchers: "matchers_ok f \<Longrightarrow> json_ok (matchers_json f)"
  using utf8_keys unfolding matchers_json_def members_ok_def[symmetric] matchers_ok_def
  by (intro members_ok_omit[where P=valid_utf8] members_ok_omit_last[where P=valid_utf8]) (simp_all add: image_Un)

lemma json_ok_request:
  assumes "list_all (opt_ok matchers_ok) [v2_Path r, v2_Method r, v2_Destination r, v2_Scheme r, v2_Query r, v2_Body r]"
    and "opt_ok header_map_ok (v2_Headers r)"
  shows "json_ok (request_json r)"
proof -
  have eq: "(if v2_Headers r = Some [] then None else map_option header_map_json (v2_Headers r)) =
      map_option header_map_json (if v2_Headers r = Some [] then None else v2_Headers r)" by simp
  have "opt_ok header_map_ok (if v2_Headers r = Some [] then None else v2_Headers r)"
    using assms(2) by (simp add: opt_ok_def)
  then show ?thesis
    using utf8_keys assms(1) unfolding request_json_def omit_headers eq members_ok_def[symmetric]
    by (intro members_ok_omit[where P=matchers_ok] members_ok_omit_last[where P=header_map_ok])
      (simp_all add: json_ok_matchers json_ok_headers image_Un)
qed

lemma json_ok_Itoa [simp]: "json_ok (JNumber (Itoa i))"
  unfolding json_ok.simps by (rule exI) (rule refl)

lemma json_ok_pair:
  assumes "pair_ok p"
  shows "json_ok (pair_json p)"
proof -
  have h: "json_ok (headers_json (rv_Headers (p2_Response p)))"
    using assms by (auto simp: pair_ok_def headers_json_def opt_ok_def json_ok_headers split: option.splits)
  have "json_ok (response_json (p2_Response p))"
    using utf8_keys assms h unfolding response_json_def members_ok_def[symmetric]
    by (simp add: pair_ok_def del: json_ok.simps(3))
  moreover have "json_ok (request_json (p2_Request p))"
    using assms by (intro json_ok_request) (simp_all add: pair_ok_def)
  ultimately show ?thesis
    using utf8_keys unfolding pair_json_def members_ok_def[symmetric] by simp
qed

lemma json_ok_delay: "delay_ok d \<Longrightarrow> json_ok (delay_json d)"
  using utf8_keys unfolding delay_json_def members_ok_def[symmetric]
  by (simp add: delay_ok_def del: json_ok.simps(3))

lemma json_ok_simulation:
  assumes "view_ok v"
  shows "json_ok (JObject (simulation_json v))"
proof -
  have "json_ok (global_actions_json (d2_GlobalActions (s2_DataViewV2 v)))"
    using utf8_keys assms unfolding global_actions_json_def members_ok_def[symmetric]
    by (auto simp: view_ok_def opt_ok_def list_all_iff json_ok_delay split: option.splits)
  moreover have "json_ok (meta_json (s2_MetaView v))"
    using utf8_keys assms unfolding meta_json_def members_ok_def[symmetric] by (simp add: view_ok_def)
  moreover have "json_ok (JArray (map pair_json (d2_RequestResponsePairs (s2_DataViewV2 v))))"
    using assms by (auto simp: view_ok_def list_all_iff json_ok_pair)
  ultimately show ?thesis
    using utf8_keys unfolding simulation_json_def members_ok_def[symmetric]
    by (simp del: json_ok.simps(5))
qed


lemma export_small:
  assumes "\<forall>p \<in> set (si_MatchingPairs (hf_Simulation hf)). small (rs_Status (mp_Response p))"
    and "\<forall>d \<in> set (si_ResponseDelays (hf_Simulation hf)). small (dl_Delay d)"
  shows "\<forall>p \<in> set (d2_RequestResponsePairs (s2_DataViewV2 (GetSimulation L now hf))). small (rv_Status (p2_Response p))"
    and "delays_small (d2_GlobalActions (s2_DataViewV2 (GetSimulation L now hf)))"
  using assms by (auto simp: GetSimulation_def foldl_snoc_map BuildView_def ConvertToResponseDetailsView_def Let_def
      ConvertToResponseDelayPayloadView_def delay_view_def delays_small_def)

lemma reader_map: "view_ok v \<Longrightarrow>
    unmarshal_map (json_reader is_int64) (json_text (JObject (simulation_json v))) = Some (simulation_json v)"
  by (simp add: json_reader_def json_parse_text[OF json_ok_simulation] del: json_text.simps)

lemma reader_v2:
  assumes "view_ok v" and "\<forall>p \<in> set (d2_RequestResponsePairs (s2_DataViewV2 v)). small (rv_Status (p2_Response p))"
    and "delays_small (d2_GlobalActions (s2_DataViewV2 v))"
  shows "unmarshal_v2 (json_reader is_int64) (json_text (JObject (simulation_json v))) = Inr (written_view v)"
  using dec_simulation_json[OF assms(2,3)]
  by (simp add: json_reader_def unmarshal_def json_parse_text[OF json_ok_simulation[OF assms(1)]] del: json_text.simps)

text \<open>
  C6: The text a simulation is exported as is read back as that simulation, its headers by their names, when its strings
  are UTF-8, every response has a header map and the numbers are small; with a response that has no header map,
  the text is refused by the schema.
\<close>

theorem exported_text_read:
  assumes "view_ok (GetSimulation L now hf)" and "exact_integers is_int64"
    and "\<forall>p \<in> set (si_MatchingPairs (hf_Simulation hf)). small (rs_Status (mp_Response p))"
    and "\<forall>d \<in> set (si_ResponseDelays (hf_Simulation hf)). small (dl_Delay d)"
  shows "if \<forall>p \<in> set (si_MatchingPairs (hf_Simulation hf)). rs_Headers (mp_Response p) \<noteq> None
    then NewSimulationViewFromResponseBody (json_reader is_int64) (json_text (JObject (simulation_json (GetSimulation L now hf)))) =
      Returns (Inr (written_view (GetSimulation L now hf)))
    else \<exists>err. NewSimulationViewFromResponseBody (json_reader is_int64)
        (json_text (JObject (simulation_json (GetSimulation L now hf)))) = Returns (Inl (''Invalid v2 simulation:'' @ err))"
proof -
  have ints: "exact_integers (rd_is_int64 (json_reader is_int64))" using assms(2) by (simp add: json_reader_def)
  show ?thesis
    using export_read_back[OF reader_map[OF assms(1), of is_int64] ints assms(3,4)]
    unfolding reader_v2[OF assms(1) export_small[OF assms(3,4)]] .
qed

definition sample_export :: string where
  "sample_export = json_text (JObject (simulation_json
     (GetSimulation no_libs ''now'' (sample_hoverfly [mp_Response_update (rs_Headers_update (\<lambda>h. Some [(''B'', [''2'']), (''A'', [''1''])]))
       (headers_pair None)]))))"

theorem exported_text_read_witness:
  "\<exists>v. NewSimulationViewFromResponseBody (json_reader (\<lambda>n. True)) sample_export = Returns (Inr v) \<and>
     map (\<lambda>p. rv_Headers (p2_Response p)) (d2_RequestResponsePairs (s2_DataViewV2 v)) = [Some [(''A'', [''1'']), (''B'', [''2''])]]"
proof -
  define p where "p = mp_Response_update (rs_Headers_update (\<lambda>h. Some [(''B'', [''2'']), (''A'', [''1''])])) (headers_pair None)"
  define hf where "hf = sample_hoverfly [p]"
  have ok: "view_ok (GetSimulation no_libs ''now'' hf)" unfolding hf_def p_def by code_simp
  have p: "rs_Status (mp_Response p) = 200" "rs_Headers (mp_Response p) \<noteq> None"
    by (simp_all add: p_def headers_pair_def)
  have sim: "si_MatchingPairs (hf_Simulation hf) = [p]" "si_ResponseDelays (hf_Simulation hf) = []" by (simp_all add: hf_def)
  have hyps: "exact_integers (\<lambda>n. True)" "\<forall>q \<in> set (si_MatchingPairs (hf_Simulation hf)). small (rs_Status (mp_Response q))"
    "\<forall>d \<in> set (si_ResponseDelays (hf_Simulation hf)). small (dl_Delay d)"
    "\<forall>q \<in> set (si_MatchingPairs (hf_Simulation hf)). rs_Headers (mp_Response q) \<noteq> None"
    using p by (simp_all add: sim exact_integers_def small_def)
  have text_eq: "sample_export = json_text (JObject (simulation_json (GetSimulation no_libs ''now'' hf)))"
    by (simp only: sample_export_def hf_def p_def)
  have "NewSimulationViewFromResponseBody (json_reader (\<lambda>n. True)) sample_export =
      Returns (Inr (written_view (GetSimulation no_libs ''now'' hf)))"
    unfolding text_eq using exported_text_read[OF ok hyps(1,2,3)] unfolding if_P[OF hyps(4)] .
  moreover have "map (\<lambda>p. rv_Headers (p2_Response p)) (d2_RequestResponsePairs (s2_DataViewV2 (written_view (GetSimulation no_libs ''now'' hf)))) =
      [Some [(''A'', [''1'']), (''B'', [''2''])]]"
    unfolding hf_def p_def by code_simp
  ultimately show ?thesis by (intro exI[where x="written_view (GetSimulation no_libs ''now'' hf)"] conjI)
qed

end
