(* ===== verification/Payloads.thy ===== *)
theory Payloads
  imports Json
begin

text \<open>
  The payloads of middleware as JSON, by the tags of \<^verbatim>\<open>RequestResponsePairViewV1\<close>, and the example middleware
  \<^verbatim>\<open>core/examples/middleware/go_example/change_to_custom_404.go\<close>: a program that reads payloads from its input, a line
  each, and writes them with another response. It is then run by Hoverfly.
\<close>

section \<open>The payload of middleware\<close>

definition string_json :: "string option \<Rightarrow> json" where
  "string_json x = (case x of None \<Rightarrow> JNull | Some s \<Rightarrow> JString s)"

definition request_v1_json :: "RequestDetailsViewV1 \<Rightarrow> json" where
  "request_v1_json r = JObject
     [(''requestType'', string_json (v1_RequestType r)), (''path'', string_json (v1_Path r)), (''method'', string_json (v1_Method r)),
      (''destination'', string_json (v1_Destination r)), (''scheme'', string_json (v1_Scheme r)), (''query'', string_json (v1_Query r)),
      (''body'', string_json (v1_Body r)), (''headers'', headers_json (v1_Headers r))]"

definition pair_v1_json :: "RequestResponsePairViewV1 \<Rightarrow> json" where
  "pair_v1_json p = JObject [(''response'', response_json (p1_Response p)), (''request'', request_v1_json (p1_Request p))]"

definition marshal_pair :: "RequestResponsePairViewV1 \<Rightarrow> string + string" where
  "marshal_pair v = Inr (json_text (pair_v1_json v))"

definition unmarshal_pair :: "string \<Rightarrow> string + RequestResponsePairViewV1" where
  "unmarshal_pair = unmarshal dec_pair_v1"

definition pair_v1_ok :: "RequestResponsePairViewV1 \<Rightarrow> bool" where
  "pair_v1_ok p \<longleftrightarrow> valid_utf8 (rv_Body (p1_Response p)) \<and> opt_ok header_map_ok (rv_Headers (p1_Response p)) \<and>
     list_all (opt_ok valid_utf8) [v1_RequestType (p1_Request p), v1_Path (p1_Request p), v1_Method (p1_Request p),
       v1_Destination (p1_Request p), v1_Scheme (p1_Request p), v1_Query (p1_Request p), v1_Body (p1_Request p)] \<and>
     opt_ok header_map_ok (v1_Headers (p1_Request p))"

lemma utf8_request_type: "valid_utf8 ''requestType''"
  by code_simp

lemma json_ok_string: "opt_ok valid_utf8 x \<Longrightarrow> json_ok (string_json x)"
  by (cases x) (simp_all add: string_json_def opt_ok_def)

lemma json_ok_some_headers: "opt_ok header_map_ok h \<Longrightarrow> json_ok (headers_json h)"
  by (cases h) (simp_all add: headers_json_def opt_ok_def json_ok_headers)

lemma json_ok_pair_v1:
  assumes "pair_v1_ok p"
  shows "json_ok (pair_v1_json p)"
proof -
  have "json_ok (response_json (p1_Response p))"
    using utf8_keys assms json_ok_some_headers unfolding response_json_def members_ok_def[symmetric]
    by (simp add: pair_v1_ok_def del: json_ok.simps(3))
  moreover have "json_ok (request_v1_json (p1_Request p))"
    using utf8_keys utf8_request_type assms json_ok_some_headers unfolding request_v1_json_def members_ok_def[symmetric]
    by (simp add: pair_v1_ok_def json_ok_string)
  ultimately show ?thesis
    using utf8_keys unfolding pair_v1_json_def members_ok_def[symmetric] by simp
qed

section \<open>The example middleware\<close>

record go_request =
  gq_Path :: string
  gq_Method :: string
  gq_Destination :: string
  gq_Query :: string

record go_response =
  gp_Status :: int
  gp_Body :: string
  gp_Headers :: headers

record go_payload =
  py_Response :: go_response
  py_Request :: go_request
  py_ID :: string

text \<open>
  \<^verbatim>\<open>json.Unmarshal\<close> into a payload fills what it can: a field of the wrong kind stays empty, and the error is only logged.
  The response is overwritten afterwards, so its decoding is left out.
\<close>

definition string_field :: "string \<Rightarrow> json \<Rightarrow> string" where
  "string_field name j = (case j of JObject m \<Rightarrow> (case json_field name m of JString s \<Rightarrow> s | _ \<Rightarrow> []) | _ \<Rightarrow> [])"

definition struct_field :: "string \<Rightarrow> json \<Rightarrow> json" where
  "struct_field name j = (case j of JObject m \<Rightarrow> json_field name m | _ \<Rightarrow> JNull)"

definition read_request :: "json \<Rightarrow> go_request" where
  "read_request j = \<lparr>gq_Path = string_field ''path'' j, gq_Method = string_field ''method'' j,
     gq_Destination = string_field ''destination'' j, gq_Query = string_field ''query'' j\<rparr>"

definition read_payload :: "string \<Rightarrow> go_payload" where
  "read_payload line =
     (let j = (case json_parse line of None \<Rightarrow> JNull | Some j \<Rightarrow> j) in
      \<lparr>py_Response = \<lparr>gp_Status = 0, gp_Body = [], gp_Headers = None\<rparr>,
       py_Request = read_request (struct_field ''request'' j), py_ID = string_field ''id'' j\<rparr>)"

definition custom_404 :: "go_payload \<Rightarrow> go_payload" where
  "custom_404 payload =
     (let newHeaders = Some [(''middleware'', [''changed response''])] in
      payload\<lparr>py_Response := (py_Response payload)\<lparr>gp_Status := 404, gp_Body := ''Custom body here'', gp_Headers := newHeaders\<rparr>\<rparr>)"

definition payload_json :: "go_payload \<Rightarrow> json" where
  "payload_json p = JObject
     [(''response'', JObject [(''status'', JNumber (Itoa (gp_Status (py_Response p)))), (''body'', JString (gp_Body (py_Response p))),
        (''headers'', headers_json (gp_Headers (py_Response p)))]),
      (''request'', JObject [(''path'', JString (gq_Path (py_Request p))), (''method'', JString (gq_Method (py_Request p))),
        (''destination'', JString (gq_Destination (py_Request p))), (''query'', JString (gq_Query (py_Request p)))]),
      (''id'', JString (py_ID p))]"

text \<open>
  \<^verbatim>\<open>bufio.Scanner\<close>: the lines of the input without their ends, as far as they fit into its buffer of 64 KB: a line that
  does not, with its end, ends the scan, and the program does not ask for the error.
\<close>

definition MaxScanTokenSize :: nat where
  "MaxScanTokenSize = 65536"

definition dropCR :: "string \<Rightarrow> string" where
  "dropCR line = (if line \<noteq> [] \<and> last line = CHR 0x0D then butlast line else line)"

function scan_lines :: "string \<Rightarrow> string list" where
  "scan_lines input =
     (if input = [] then []
      else (let line = takeWhile (\<lambda>c. c \<noteq> CHR 0x0A) input; after = dropWhile (\<lambda>c. c \<noteq> CHR 0x0A) input in
        if length line \<ge> MaxScanTokenSize then []
        else if after = [] then [dropCR line]
        else dropCR line # scan_lines (tl after)))"
  by pat_completeness auto
termination
proof (relation "measure length")
  fix input line after :: string
  assume input: "input \<noteq> []" and after: "after = dropWhile (\<lambda>c. c \<noteq> CHR 0x0A) input"
  have "length after \<le> length input" unfolding after by (rule length_dropWhile_le)
  moreover have "0 < length input" using input by simp
  ultimately show "(tl after, input) \<in> measure length" by (simp del: length_greater_0_conv)
qed simp

declare scan_lines.simps [simp del]

definition custom_404_main :: "string \<Rightarrow> string" where
  "custom_404_main stdin = concat (map (\<lambda>line. json_text (payload_json (custom_404 (read_payload line)))) (scan_lines stdin))"


section \<open>A payload is one line\<close>

definition one_line :: "string \<Rightarrow> bool" where
  "one_line s \<longleftrightarrow> CHR 0x0A \<notin> set s"

lemma one_line_simps [simp]:
  "one_line []" "one_line (c # s) \<longleftrightarrow> c \<noteq> CHR 0x0A \<and> one_line s" "one_line (s @ t) \<longleftrightarrow> one_line s \<and> one_line t"
  by (auto simp: one_line_def)

lemma one_line_concat: "\<forall>s \<in> set ss. one_line s \<Longrightarrow> one_line (concat ss)"
  by (induction ss) simp_all

lemma one_line_Join: "\<forall>s \<in> set ss. one_line s \<Longrightarrow> one_line sep \<Longrightarrow> one_line (Join ss sep)"
  by (induction ss sep rule: Join.induct) simp_all

lemma one_line_hex: "d < 16 \<Longrightarrow> lower_hex d \<noteq> CHR 0x0A"
proof -
  assume "d < 16"
  then have "d \<in> set [0..<16]" by simp
  moreover have "list_all (\<lambda>d. lower_hex d \<noteq> CHR 0x0A) [0..<16]" by code_simp
  ultimately show ?thesis by (auto simp: list_all_iff)
qed

lemma one_line_quote_char: "one_line (quote_char c)"
proof (cases "c = CHR 0x0A")
  case True
  show ?thesis unfolding True by code_simp
next
  case False
  have "(of_char c :: nat) div 16 < 16" using char_bound[of c] by simp
  then show ?thesis using False by (simp add: quote_char_def Let_def backslash_def dquote_def one_line_hex)
qed

lemma one_line_quote:
  assumes "valid_utf8 s"
  shows "one_line (quote_string s)"
proof -
  have "one_line (quote_rune r)" if r: "r \<in> set (runes s)" for r
  proof -
    have "\<not> bad_rune r" using assms r by (auto simp: valid_utf8_def list_all_iff)
    then consider c where "r = [c]" | "length r > 1" "list_all (byte_in 128 255) r" using rune_bytes[OF r] by blast
    then show ?thesis
    proof cases
      case (1 c)
      then show ?thesis by (simp add: quote_rune_def one_line_quote_char)
    next
      case 2
      then obtain c d cs where c: "r = c # d # cs" by (cases r rule: remdups_adj.cases) auto
      have "\<not> byte_in 128 255 (CHR 0x0A)" by code_simp
      then have "one_line r" using 2(2) by (auto simp: one_line_def list_all_iff)
      then show ?thesis by (simp add: quote_rune_def c) (simp add: backslash_def)
    qed
  qed
  then have "one_line (concat (map quote_rune (runes s)))" by (intro one_line_concat) auto
  then show ?thesis by (simp add: quote_string_def) (simp add: dquote_def)
qed

lemma one_line_Itoa: "one_line (Itoa i)"
proof -
  have "CHR 0x0A \<notin> set (show_nat n)" for n
    using show_nat_digits[of n] by (auto simp: list_all_iff is_digit_def)
  then show ?thesis by (simp add: Itoa_def one_line_def)
qed

lemma one_line_json: "json_ok j \<Longrightarrow> one_line (json_text j)"
proof (induction j)
  case (JArray js)
  then have "one_line (Join (map json_text js) '','')" by (intro one_line_Join) auto
  then show ?case by simp
next
  case (JObject kvs)
  have "one_line (quote_string k @ CHR '':'' # json_text j)" if "(k, j) \<in> set kvs" for k j
    using JObject that one_line_quote by (fastforce simp: snds.simps)
  then have "one_line (Join (map (\<lambda>(k, j). quote_string k @ CHR '':'' # json_text j) kvs) '','')"
    by (intro one_line_Join) auto
  then show ?case by simp
qed (auto intro: one_line_Itoa one_line_quote)

lemma scan_one_line:
  assumes "one_line s" and "s \<noteq> []" and "last s \<noteq> CHR 0x0D"
  shows "scan_lines s = (if length s \<ge> MaxScanTokenSize then [] else [s])"
proof -
  have w: "takeWhile (\<lambda>c. c \<noteq> CHR 0x0A) s = s" "dropWhile (\<lambda>c. c \<noteq> CHR 0x0A) s = []"
    using assms(1) by (auto simp: one_line_def takeWhile_eq_all_conv)
  show ?thesis unfolding scan_lines.simps[of s] w Let_def using assms(2,3) by (simp add: dropCR_def)
qed

lemma scan_object: "json_ok (JObject m) \<Longrightarrow> scan_lines (json_text (JObject m)) =
    (if length (json_text (JObject m)) \<ge> MaxScanTokenSize then [] else [json_text (JObject m)])"
  by (rule scan_one_line[OF one_line_json]) simp_all


section \<open>The example run by Hoverfly\<close>

text \<open>A world whose middleware is the example, on the payloads of Hoverfly as JSON.\<close>

definition custom_404_world :: "'w world \<Rightarrow> 'w world" where
  "custom_404_world W = W\<lparr>w_marshal_pair := marshal_pair, w_unmarshal_pair := unmarshal_pair,
     w_run := (\<lambda>binary args stdin w. (Finished (custom_404_main stdin), w))\<rparr>"

lemma read_string_field: "string_field name (JObject m) = (case json_field name m of JString s \<Rightarrow> s | _ \<Rightarrow> [])"
  by (simp add: string_field_def)

lemma payload_folds: "ToLower ''requestType'' = ''requesttype''" "ToLower ''id'' = ''id''"
  by code_simp+

lemmas payload_fields = json_fields fold_simps payload_folds

lemma read_payload_pair:
  assumes "pair_v1_ok p"
  shows "read_payload (json_text (pair_v1_json p)) =
     \<lparr>py_Response = \<lparr>gp_Status = 0, gp_Body = [], gp_Headers = None\<rparr>,
      py_Request = \<lparr>gq_Path = PointerToString (v1_Path (p1_Request p)), gq_Method = PointerToString (v1_Method (p1_Request p)),
        gq_Destination = PointerToString (v1_Destination (p1_Request p)), gq_Query = PointerToString (v1_Query (p1_Request p))\<rparr>,
      py_ID = []\<rparr>"
proof -
  have "case_json [] (\<lambda>b. []) (\<lambda>n. []) (\<lambda>s. s) (\<lambda>js. []) (\<lambda>m. []) (string_json x) = PointerToString x" for x
    by (cases x) (simp_all add: string_json_def PointerToString_def)
  then show ?thesis
    by (simp add: read_payload_def json_parse_text[OF json_ok_pair_v1[OF assms]] del: json_text.simps)
      (simp add: pair_v1_json_def struct_field_def read_request_def request_v1_json_def read_string_field payload_fields)
qed

lemma json_ok_payload:
  assumes "valid_utf8 (gq_Path q)" and "valid_utf8 (gq_Method q)" and "valid_utf8 (gq_Destination q)" and "valid_utf8 (gq_Query q)"
    and "valid_utf8 (gp_Body r)" and "opt_ok header_map_ok (gp_Headers r)" and "valid_utf8 i"
  shows "json_ok (payload_json \<lparr>py_Response = r, py_Request = q, py_ID = i\<rparr>)"
proof -
  have "valid_utf8 ''id''" by code_simp
  then show ?thesis
    using utf8_keys assms json_ok_some_headers unfolding payload_json_def members_ok_def[symmetric]
    by (simp add: members_ok_def[symmetric] del: json_ok.simps(3))
qed

lemma payload_as_pair:
  assumes "json_ok (payload_json \<lparr>py_Response = r, py_Request = q, py_ID = i\<rparr>)" and "small (gp_Status r)"
  shows "unmarshal_pair (json_text (payload_json \<lparr>py_Response = r, py_Request = q, py_ID = i\<rparr>)) = Inr
    \<lparr>p1_Response = \<lparr>rv_Status = gp_Status r, rv_Body = gp_Body r, rv_EncodedBody = False, rv_Headers = written_headers (gp_Headers r)\<rparr>,
     p1_Request = \<lparr>v1_RequestType = None, v1_Path = Some (gq_Path q), v1_Method = Some (gq_Method q),
       v1_Destination = Some (gq_Destination q), v1_Scheme = None, v1_Query = Some (gq_Query q), v1_Body = None, v1_Headers = None\<rparr>\<rparr>"
proof -
  have p: "dec_pointer dec_string (JString s) = Some (Some s)" "dec_bool JNull = Some False" "dec_headers JNull = Some None" for s
    by (simp_all add: dec_pointer_def dec_bool_def dec_headers_def)
  show ?thesis
    unfolding unmarshal_pair_def unmarshal_def json_parse_text[OF assms(1)]
    using dec_int_Itoa[OF assms(2)] dec_headers_json[of "gp_Headers r"]
    by (simp add: payload_json_def dec_struct_def dec_pair_v1_def dec_response_def dec_request_v1_def payload_fields p)
qed

text \<open>
  C19: run by Hoverfly, the example middleware gives every payload its response, as long as the payload fits into the buffer
  the program reads lines with; a longer one is left alone without an error. The program knows four
  fields of a request, so the scheme, the body and the headers are lost on the way.
\<close>

theorem custom_404_executed:
  assumes "pair_v1_ok (ConvertToRequestResponsePairView (sniff (w_libs W)) pair)" and "mi_Binary mw \<noteq> ''''" and "mi_Remote mw = ''''"
    and "mi_Script mw = Some name"
  shows "Execute (custom_404_world W) mw pair w = Returns
    ((if length (json_text (pair_v1_json (ConvertToRequestResponsePairView (sniff (w_libs W)) pair))) \<ge> MaxScanTokenSize then pair
      else \<lparr>pr_Response = \<lparr>rs_Status = 404, rs_Body = ''Custom body here'', rs_Headers = Some [(''middleware'', [''changed response''])]\<rparr>,
        pr_Request = zero_request\<lparr>rq_Path := rq_Path (pr_Request pair), rq_Method := rq_Method (pr_Request pair),
          rq_Destination := rq_Destination (pr_Request pair), rq_Query := SortQueryString (rq_Query (pr_Request pair))\<rparr>\<rparr>, None), w)"
proof -
  let ?v = "ConvertToRequestResponsePairView (sniff (w_libs W)) pair"
  let ?bytes = "json_text (pair_v1_json ?v)"
  let ?q = "\<lparr>gq_Path = rq_Path (pr_Request pair), gq_Method = rq_Method (pr_Request pair),
    gq_Destination = rq_Destination (pr_Request pair), gq_Query = rq_Query (pr_Request pair)\<rparr>"
  let ?r = "\<lparr>gp_Status = 404, gp_Body = ''Custom body here'', gp_Headers = Some [(''middleware'', [''changed response''])]\<rparr>"
  let ?out = "json_text (payload_json \<lparr>py_Response = ?r, py_Request = ?q, py_ID = []\<rparr>)"
  have v: "v1_Path (p1_Request ?v) = Some (rq_Path (pr_Request pair))" "v1_Method (p1_Request ?v) = Some (rq_Method (pr_Request pair))"
    "v1_Destination (p1_Request ?v) = Some (rq_Destination (pr_Request pair))" "v1_Query (p1_Request ?v) = Some (rq_Query (pr_Request pair))"
    by (simp_all add: ConvertToRequestResponsePairView_def ConvertToRequestDetailsView_def)
  have scan: "scan_lines ?bytes = (if length ?bytes \<ge> MaxScanTokenSize then [] else [?bytes])"
    using json_ok_pair_v1[OF assms(1)] unfolding pair_v1_json_def by (rule scan_object)
  have main: "custom_404_main ?bytes = (if length ?bytes \<ge> MaxScanTokenSize then [] else ?out)"
    by (simp add: custom_404_main_def scan read_payload_pair[OF assms(1)] v PointerToString_def custom_404_def del: json_text.simps)
  have utf8: "valid_utf8 ''Custom body here''" "header_map_ok [(''middleware'', [''changed response''])]" by code_simp+
  have "json_ok (payload_json \<lparr>py_Response = ?r, py_Request = ?q, py_ID = []\<rparr>)"
    using assms(1) utf8 by (intro json_ok_payload) (simp_all add: pair_v1_ok_def v opt_ok_def)
  from payload_as_pair[OF this] have out: "unmarshal_pair ?out = Inr
    \<lparr>p1_Response = \<lparr>rv_Status = 404, rv_Body = ''Custom body here'', rv_EncodedBody = False,
       rv_Headers = Some [(''middleware'', [''changed response''])]\<rparr>,
     p1_Request = \<lparr>v1_RequestType = None, v1_Path = Some (rq_Path (pr_Request pair)), v1_Method = Some (rq_Method (pr_Request pair)),
       v1_Destination = Some (rq_Destination (pr_Request pair)), v1_Scheme = None, v1_Query = Some (rq_Query (pr_Request pair)),
       v1_Body = None, v1_Headers = None\<rparr>\<rparr>"
    by (simp add: small_def written_headers_def del: json_text.simps)
  have nonempty: "?out \<noteq> []" by (simp add: payload_json_def)
  show ?thesis
    using assms(2-4) nonempty
    by (simp add: Execute_def IsSet_def executeMiddlewareLocally_def custom_404_world_def bindp_def liftp_def retp_def marshal_pair_def
        main out NewRequestResponsePairFromRequestResponsePairView_def NewResponseDetailsFromResponse_def
        NewRequestDetailsFromRequest_def GetPath_def GetMethod_def GetDestination_def GetScheme_def GetQuery_def GetBody_def
        GetHeaders_def PointerToString_def zero_request_def del: json_text.simps)
qed


definition sample_pair :: RequestResponsePair where
  "sample_pair = \<lparr>pr_Response = \<lparr>rs_Status = 200, rs_Body = ''hi'', rs_Headers = None\<rparr>,
     pr_Request = \<lparr>rq_Path = ''/a'', rq_Method = ''POST'', rq_Destination = ''h'', rq_Scheme = ''https'', rq_Query = ''q=1'',
       rq_Body = ''data'', rq_Headers = None\<rparr>\<rparr>"

theorem custom_404_executed_witness:
  "Execute (custom_404_world (quiet_world (Finished []))) \<lparr>mi_Binary = ''custom_404'', mi_Script = Some ''s'', mi_Remote = ''''\<rparr> sample_pair () =
     Returns ((\<lparr>pr_Response = \<lparr>rs_Status = 404, rs_Body = ''Custom body here'', rs_Headers = Some [(''middleware'', [''changed response''])]\<rparr>,
       pr_Request = \<lparr>rq_Path = ''/a'', rq_Method = ''POST'', rq_Destination = ''h'', rq_Scheme = '''', rq_Query = ''q=1'', rq_Body = '''',
         rq_Headers = None\<rparr>\<rparr>, None), ())"
proof -
  let ?v = "ConvertToRequestResponsePairView (sniff (w_libs (quiet_world (Finished [])))) sample_pair"
  have ok: "pair_v1_ok ?v" by code_simp
  have "length (json_text (pair_v1_json ?v)) \<le> 300" by code_simp
  then have short: "\<not> length (json_text (pair_v1_json ?v)) \<ge> MaxScanTokenSize" by (simp add: MaxScanTokenSize_def)
  have "SortQueryString ''q=1'' = ''q=1''" by code_simp
  then show ?thesis
    using custom_404_executed[OF ok, of "\<lparr>mi_Binary = ''custom_404'', mi_Script = Some ''s'', mi_Remote = ''''\<rparr>" "''s''" "()"] short
    by (simp add: zero_request_def sample_pair_def del: json_text.simps)
qed

end
