(* ===== verification/Tokens.thy ===== *)
theory Tokens
  imports Json
begin

text \<open>
  Texts with spaces. The reader of \<^verbatim>\<open>Json\<close> skips spaces between tokens; here a text is cut into its tokens first, a
  line at a time, and the reader is shown to find the value whose tokens they are. By this the fixtures of the functional
  tests are read.
\<close>

section \<open>Tokens\<close>

datatype token = Punct char | Quoted string | Bare json

definition is_punct :: "char \<Rightarrow> bool" where
  "is_punct c = (c = CHR ''{'' \<or> c = CHR ''}'' \<or> c = CHR ''['' \<or> c = CHR '']'' \<or> c = CHR '','' \<or> c = CHR '':'')"

definition bare :: "string \<Rightarrow> (json \<times> string) option" where
  "bare s = (case s of
     [] \<Rightarrow> None
   | c # t \<Rightarrow>
       if c = CHR ''t'' then literal ''true'' (JBool True) s
       else if c = CHR ''f'' then literal ''false'' (JBool False) s
       else if c = CHR ''n'' then literal ''null'' JNull s
       else map_option (apfst JNumber) (parse_number s))"

lemma HasPrefix_length: "HasPrefix s p \<Longrightarrow> length p \<le> length s"
  by (induction s p rule: HasPrefix.induct) simp_all

lemma HasPrefix_longer: "HasPrefix s p \<Longrightarrow> HasPrefix (s @ v) p"
  by (induction s p rule: HasPrefix.induct) simp_all

lemma bare_length: "bare s = Some (j, t) \<Longrightarrow> length t < length s"
  by (auto simp: bare_def literal_def dest: parse_number_length split: list.splits if_splits)

function lex :: "string \<Rightarrow> token list option" where
  "lex [] = Some []"
| "lex (c # t) =
     (if json_space c then lex t
      else if is_punct c then map_option ((#) (Punct c)) (lex t)
      else if c = dquote then (case unquote t of None \<Rightarrow> None | Some (x, u) \<Rightarrow> map_option ((#) (Quoted x)) (lex u))
      else (case bare (c # t) of None \<Rightarrow> None | Some (j, u) \<Rightarrow> map_option ((#) (Bare j)) (lex u)))"
  by pat_completeness auto
termination
  by (relation "measure length") (auto dest: unquote_length bare_length)

fun commas :: "token list list \<Rightarrow> token list" where
  "commas [] = []"
| "commas [ts] = ts"
| "commas (ts # us # tss) = ts @ Punct (CHR '','') # commas (us # tss)"

fun tokens_of :: "json \<Rightarrow> token list" where
  "tokens_of (JString s) = [Quoted s]"
| "tokens_of (JArray js) = Punct (CHR ''['') # commas (map tokens_of js) @ [Punct (CHR '']'')]"
| "tokens_of (JObject kvs) =
     Punct (CHR ''{'') # commas (map (\<lambda>(k, j). Quoted k # Punct (CHR '':'') # tokens_of j) kvs) @ [Punct (CHR ''}'')]"
| "tokens_of j = [Bare j]"

fun distinct_keys :: "json \<Rightarrow> bool" where
  "distinct_keys (JArray js) = (\<forall>j \<in> set js. distinct_keys j)"
| "distinct_keys (JObject kvs) = (distinct (map fst kvs) \<and> (\<forall>(k, j) \<in> set kvs. distinct_keys j))"
| "distinct_keys j = True"


text \<open>By the bits of a character, which is quicker to evaluate than its number.\<close>

lemma char_bits:
  "(of_char c :: nat) < 128 \<longleftrightarrow> \<not> digit7 c"
  "(of_char c :: nat) < 32 \<longleftrightarrow> \<not> digit5 c \<and> \<not> digit6 c \<and> \<not> digit7 c"
  by (cases c; auto simp: of_bool_def)+

lemma unquote_char_bits [code]:
  "unquote_char c t =
     (if c = backslash then (case t of
        [] \<Rightarrow> None
      | e # u \<Rightarrow>
          if e = CHR ''u'' then map_option (\<lambda>(r, v). case surrogate r v of (r', v') \<Rightarrow> (utf8_encode r', v')) (hex4 u)
          else map_option (\<lambda>x. ([x], u)) (escaped e))
      else if \<not> digit5 c \<and> \<not> digit6 c \<and> \<not> digit7 c then None
      else Some ([c], t))"
  by (simp add: unquote_char_def char_bits)

lemma json_space_cases [code]: "json_space c \<longleftrightarrow> c = CHR '' '' \<or> c = CHR 0x09 \<or> c = CHR 0x0A \<or> c = CHR 0x0D"
  by (simp add: json_space_def)

section \<open>A line at a time\<close>

lemma hex4_append: "hex4 s = Some (r, t) \<Longrightarrow> hex4 (s @ v) = Some (r, t @ v)"
  by (auto simp: hex4_def bind_eq_Some_conv split: list.splits)

lemma surrogate_append:
  assumes "surrogate r s = (r', t)" and "unquote t \<noteq> None"
  shows "surrogate r (s @ v) = (r', t @ v)"
proof (cases "55296 \<le> r \<and> r < 57344")
  case True
  have "unquote [] = None" "unquote [backslash] = None" by (simp_all add: unquote_char_def backslash_def dquote_def)
  moreover have "unquote (backslash # CHR ''u'' # w) = None" if "hex4 w = None" for w
    using that by (simp add: unquote_char_def) (simp add: backslash_def dquote_def)
  ultimately show ?thesis
    using assms True by (cases s rule: remdups_adj.cases; cases v)
      (auto simp: surrogate_def hex4_append split: if_splits option.splits dest: hex4_append simp del: unquote.simps)
qed (use assms in \<open>auto simp: surrogate_def\<close>)

lemma unquote_char_append:
  assumes "unquote_char c s = Some (y, t)" and "unquote t \<noteq> None"
  shows "unquote_char c (s @ v) = Some (y, t @ v)"
proof (cases s)
  case Nil
  then show ?thesis using assms by (auto simp: unquote_char_def split: if_splits)
next
  case (Cons e u)
  show ?thesis
  proof (cases "c = backslash \<and> e = CHR ''u''")
    case True
    then obtain r w where h: "hex4 u = Some (r, w)" using assms by (auto simp: unquote_char_def Cons)
    obtain r' w' where "surrogate r w = (r', w')" by fastforce
    then show ?thesis
      using assms True h hex4_append[OF h, of v] surrogate_append[of r w r' w' v] by (auto simp: unquote_char_def Cons)
  next
    case False
    then show ?thesis using assms by (auto simp: unquote_char_def Cons split: if_splits)
  qed
qed

lemma unquote_append: "unquote s = Some (x, t) \<Longrightarrow> unquote (s @ v) = Some (x, t @ v)"
proof (induction s arbitrary: x rule: unquote.induct)
  case (2 c s)
  show ?case
  proof (cases "c = dquote")
    case False
    then obtain y u z where u: "unquote_char c s = Some (y, u)" "unquote u = Some (z, t)" "x = y @ z"
      using "2.prems" by (auto split: option.splits)
    have "unquote_char c (s @ v) = Some (y, u @ v)" by (rule unquote_char_append) (use u in auto)
    then show ?thesis using False "2.IH"[OF False u(1) refl u(2)] u(3) by simp
  qed (use "2.prems" in auto)
qed simp

lemma space_char: "json_space w \<Longrightarrow> \<not> is_digit w \<and> w \<noteq> CHR ''.'' \<and> w \<noteq> CHR ''e'' \<and> w \<noteq> CHR ''E'' \<and> w \<noteq> CHR ''-''"
  by (auto simp: json_space_def is_digit_def)

lemma digits_space:
  assumes "json_space w"
  shows "takeWhile is_digit (s @ w # t) = takeWhile is_digit s" "dropWhile is_digit (s @ w # t) = dropWhile is_digit s @ w # t"
  using space_char[OF assms] by (simp_all add: takeWhile_append takeWhile_tail dropWhile_append)
    (induction s, auto)+

lemma number_space:
  assumes "json_space w"
  shows "number_int s = Some (i, u) \<Longrightarrow> number_int (s @ w # t) = Some (i, u @ w # t)"
    and "number_frac s = Some (i, u) \<Longrightarrow> number_frac (s @ w # t) = Some (i, u @ w # t)"
    and "number_exp s = Some (i, u) \<Longrightarrow> number_exp (s @ w # t) = Some (i, u @ w # t)"
  using space_char[OF assms]
  by (auto simp: number_int_def number_frac_def number_exp_def digits_space[OF assms] Let_def split: list.splits if_splits)

lemma parse_number_space:
  assumes "json_space w" and "parse_number s = Some (n, u)"
  shows "parse_number (s @ w # t) = Some (n, u @ w # t)"
proof -
  obtain sg a i b f c e where n: "number_sign s = (sg, a)" "number_int a = Some (i, b)" "number_frac b = Some (f, c)"
      "number_exp c = Some (e, u)" "n = sg @ i @ f @ e"
    using assms(2) by (auto simp: parse_number_def bind_eq_Some_conv split: prod.splits)
  have "s \<noteq> []" using n(1,2) by (auto simp: number_sign_def number_int_def)
  then have "number_sign (s @ w # t) = (sg, a @ w # t)" using n(1) by (auto simp: number_sign_def split: list.splits if_splits)
  then show ?thesis using n number_space[OF assms(1)] by (simp add: parse_number_def)
qed

lemma literal_append: "literal word j s = Some (k, u) \<Longrightarrow> literal word j (s @ v) = Some (k, u @ v)"
  by (auto simp: literal_def HasPrefix_longer split: if_splits dest: HasPrefix_length)

lemma bare_space:
  assumes "json_space w" and "bare s = Some (j, u)"
  shows "bare (s @ w # t) = Some (j, u @ w # t)"
  using assms(2) parse_number_space[OF assms(1), of s] literal_append[of "''true''" "JBool True" s]
    literal_append[of "''false''" "JBool False" s] literal_append[of "''null''" JNull s]
  by (auto simp: bare_def split: list.splits if_splits)

lemma lex_space:
  assumes "json_space w"
  shows "lex s = Some ts \<Longrightarrow> lex (s @ w # t) = map_option ((@) ts) (lex t)"
proof (induction s arbitrary: ts rule: lex.induct)
  case 1
  then show ?case using assms by (cases "lex t") auto
next
  case (2 c s)
  have app: "map_option ((#) k) (map_option ((@) us) m) = map_option ((@) (k # us)) m" for k us m
    by (cases m) auto
  consider "json_space c" | "\<not> json_space c" "is_punct c" | "\<not> json_space c" "\<not> is_punct c" "c = dquote"
    | "\<not> json_space c" "\<not> is_punct c" "c \<noteq> dquote" by blast
  then show ?case
  proof cases
    case 3
    then obtain x u us where u: "unquote s = Some (x, u)" "lex u = Some us" "ts = Quoted x # us"
      using "2.prems" by (auto split: option.splits)
    then show ?thesis using 3 "2.IH"(3)[OF 3 u(1) refl u(2)] unquote_append[OF u(1), of "w # t"] by (cases "lex t") auto
  next
    case 4
    then obtain j u us where u: "bare (c # s) = Some (j, u)" "lex u = Some us" "ts = Bare j # us"
      using "2.prems" by (auto split: option.splits)
    then show ?thesis using 4 "2.IH"(4)[OF 4 u(1) refl u(2)] bare_space[OF assms u(1), of t] by (cases "lex t") auto
  qed (use "2.prems" "2.IH"(1,2) in \<open>auto simp: app\<close>)
qed

definition lex_lines :: "string list \<Rightarrow> token list option" where
  "lex_lines ls = map_option concat (those (map lex ls))"

lemma lex_lines: "lex_lines ls = Some ts \<Longrightarrow> lex (Join ls [CHR 0x0A]) = Some ts"
proof (induction ls "[CHR 0x0A]" arbitrary: ts rule: Join.induct)
  case (3 l m ls)
  then obtain us vs where "lex l = Some us" "lex_lines (m # ls) = Some vs" "ts = us @ vs"
    by (auto simp: lex_lines_def split: option.splits)
  moreover have "json_space (CHR 0x0A)" by (simp add: json_space_def)
  ultimately show ?case using 3(1)[of vs] lex_space[of "CHR 0x0A" l us "Join (m # ls) [CHR 0x0A]"] by simp
qed (auto simp: lex_lines_def split: option.splits)


section \<open>The value of the tokens\<close>

lemma lex_skip: "lex (skip_ws s) = lex s"
  by (induction s) (auto simp: skip_ws_def simp del: lex.simps(2), simp)

lemma skip_ws_cases: "skip_ws s = [] \<or> (\<exists>c t. skip_ws s = c # t \<and> \<not> json_space c)"
  by (induction s) (auto simp: skip_ws_def)

lemma lex_cases:
  shows "lex s = Some [] \<Longrightarrow> skip_ws s = []"
    and "lex s = Some (Punct c # ts) \<Longrightarrow> \<exists>t. skip_ws s = c # t \<and> lex t = Some ts \<and> is_punct c"
    and "lex s = Some (Quoted x # ts) \<Longrightarrow> \<exists>t u. skip_ws s = dquote # t \<and> unquote t = Some (x, u) \<and> lex u = Some ts"
    and "lex s = Some (Bare j # ts) \<Longrightarrow> \<exists>c t u. skip_ws s = c # t \<and> \<not> is_punct c \<and> c \<noteq> dquote \<and> bare (c # t) = Some (j, u) \<and>
           lex u = Some ts"
  unfolding lex_skip[of s, symmetric] using skip_ws_cases[of s]
  by (auto split: if_splits option.splits)

definition lexed :: "json \<Rightarrow> bool" where
  "lexed j = (\<forall>s ts n. lex s = Some (tokens_of j @ ts) \<longrightarrow> 2 * length s < n \<longrightarrow>
     (\<exists>t. parse_value n (skip_ws s) = Some (j, t) \<and> lex t = Some ts))"

lemma lexedD:
  assumes "lexed j" and "lex s = Some (tokens_of j @ ts)" and "2 * length s < n"
  obtains t where "parse_value n (skip_ws s) = Some (j, t)" "lex t = Some ts" "length t < length s"
proof -
  obtain t where t: "parse_value n (skip_ws s) = Some (j, t)" "lex t = Some ts"
    using assms unfolding lexed_def by blast
  then have "length t < length s" using parse_lengths(1)[OF t(1)] skip_ws_length[of s] by simp
  with t that show ?thesis by blast
qed

lemma lex_elements:
  assumes "js \<noteq> []" and "\<forall>j \<in> set js. lexed j" and "lex s = Some (commas (map tokens_of js) @ Punct (CHR '']'') # ts)"
    and "2 * length s + 1 < n"
  shows "\<exists>t. parse_elements n (skip_ws s) = Some (js, t) \<and> lex t = Some ts"
  using assms
proof (induction js arbitrary: s n)
  case (Cons j js)
  obtain m where n: "n = Suc m" using Cons.prems(4) by (cases n) auto
  have len: "2 * length s < m" using Cons.prems(4) by (simp add: n)
  show ?case
  proof (cases js)
    case Nil
    then obtain t where t: "parse_value m (skip_ws s) = Some (j, t)" "lex t = Some (Punct (CHR '']'') # ts)"
      using lexedD[of j s "Punct (CHR '']'') # ts" m] Cons.prems(2,3) len by auto
    then show ?thesis using lex_cases(2)[OF t(2)] by (auto simp: n Nil)
  next
    case (Cons k ks)
    let ?rest = "commas (map tokens_of js) @ Punct (CHR '']'') # ts"
    have "lex s = Some (tokens_of j @ Punct (CHR '','') # ?rest)" using Cons.prems(3) by (simp add: Cons)
    then obtain t where t: "parse_value m (skip_ws s) = Some (j, t)" "lex t = Some (Punct (CHR '','') # ?rest)" "length t < length s"
      using lexedD[of j s "Punct (CHR '','') # ?rest" m] Cons.prems(2) len by auto
    obtain u where u: "skip_ws t = CHR '','' # u" "lex u = Some ?rest" using lex_cases(2)[OF t(2)] by blast
    have "2 * length u + 1 < m" using u(1) skip_ws_length[of t] t(3) len by simp
    then obtain v where "parse_elements m (skip_ws u) = Some (js, v)" "lex v = Some ts"
      using Cons.IH[of u m] Cons.prems(2) u(2) by (auto simp: Cons)
    then show ?thesis using t(1) u(1) by (simp add: n)
  qed
qed simp

lemma lex_members:
  assumes "kvs \<noteq> []" and "\<forall>(k, j) \<in> set kvs. lexed j" and "2 * length s + 1 < n"
    and "lex s = Some (commas (map (\<lambda>(k, j). Quoted k # Punct (CHR '':'') # tokens_of j) kvs) @ Punct (CHR ''}'') # ts)"
  shows "\<exists>t. parse_members n (skip_ws s) = Some (kvs, t) \<and> lex t = Some ts"
  using assms
proof (induction kvs arbitrary: s n)
  case (Cons kv kvs)
  obtain k j where kv: "kv = (k, j)" by (cases kv)
  obtain m where n: "n = Suc m" using Cons.prems(3) by (cases n) auto
  let ?members = "\<lambda>kvs. commas (map (\<lambda>(k, j). Quoted k # Punct (CHR '':'') # tokens_of j) kvs) @ Punct (CHR ''}'') # ts"
  define rest where "rest = (if kvs = [] then Punct (CHR ''}'') # ts else Punct (CHR '','') # ?members kvs)"
  have "lex s = Some (Quoted k # Punct (CHR '':'') # tokens_of j @ rest)"
    using Cons.prems(4) by (cases kvs) (simp_all add: kv rest_def)
  then obtain a b where a: "skip_ws s = dquote # a" "unquote a = Some (k, b)" "lex b = Some (Punct (CHR '':'') # tokens_of j @ rest)"
    using lex_cases(3) by blast
  then obtain c where c: "skip_ws b = CHR '':'' # c" "lex c = Some (tokens_of j @ rest)" using lex_cases(2) by blast
  have len: "2 * length c + 4 < 2 * length s"
    using skip_ws_length[of s] skip_ws_length[of b] unquote_length[OF a(2)] a(1) c(1) by simp
  obtain t where t: "parse_value m (skip_ws c) = Some (j, t)" "lex t = Some rest" "length t < length c"
    using lexedD[of j c rest m] Cons.prems(2,3) c(2) len by (auto simp: kv n)
  show ?case
  proof (cases "kvs = []")
    case True
    then obtain u where "skip_ws t = CHR ''}'' # u" "lex u = Some ts"
      using t(2) lex_cases(2)[of t] by (auto simp: rest_def)
    then show ?thesis using a c t(1) by (simp add: n kv True)
  next
    case False
    then obtain u where u: "skip_ws t = CHR '','' # u" "lex u = Some (?members kvs)"
      using t(2) lex_cases(2)[of t] by (auto simp: rest_def)
    have "2 * length u + 1 < m" using u(1) skip_ws_length[of t] t(3) len Cons.prems(3) by (simp add: n)
    then obtain v where "parse_members m (skip_ws u) = Some (kvs, v)" "lex v = Some ts"
      using Cons.IH[of u m] False Cons.prems(2) u(2) by auto
    then show ?thesis using a c t(1) u(1) by (simp add: n kv)
  qed
qed simp


lemma lexedI:
  assumes "\<And>s ts n. lex s = Some (tokens_of j @ ts) \<Longrightarrow> 2 * length s < Suc n \<Longrightarrow>
    \<exists>t. parse_value (Suc n) (skip_ws s) = Some (j, t) \<and> lex t = Some ts"
  shows "lexed j"
  unfolding lexed_def
proof (intro allI impI)
  fix s ts n assume "lex s = Some (tokens_of j @ ts)" "2 * length s < n"
  then show "\<exists>t. parse_value n (skip_ws s) = Some (j, t) \<and> lex t = Some ts" using assms by (cases n) auto
qed

lemma lexed_string: "lexed (JString x)"
proof (rule lexedI)
  fix s ts n assume "lex s = Some (tokens_of (JString x) @ ts)"
  then have "lex s = Some (Quoted x # ts)" by simp
  from lex_cases(3)[OF this] show "\<exists>t. parse_value (Suc n) (skip_ws s) = Some (JString x, t) \<and> lex t = Some ts"
    by (elim exE conjE) (simp del: unquote.simps)
qed

lemma lexed_bare:
  assumes "tokens_of j = [Bare j]"
  shows "lexed j"
proof (rule lexedI)
  fix s ts n assume "lex s = Some (tokens_of j @ ts)"
  then have "lex s = Some (Bare j # ts)" by (simp add: assms)
  from lex_cases(4)[OF this] obtain c t u where t: "skip_ws s = c # t" "\<not> is_punct c" "c \<noteq> dquote" "bare (c # t) = Some (j, u)"
      "lex u = Some ts" by blast
  then have "c \<noteq> CHR ''{''" "c \<noteq> CHR ''[''" by (auto simp: is_punct_def)
  then have "parse_value (Suc n) (c # t) = bare (c # t)" using t(3) by (simp add: bare_def)
  then show "\<exists>v. parse_value (Suc n) (skip_ws s) = Some (j, v) \<and> lex v = Some ts" using t by simp
qed

lemma parse_elements_nil: "parse_elements n [] \<noteq> Some r"
proof (cases n)
  case (Suc m)
  then show ?thesis by (cases m) simp_all
qed simp

lemma lexed_array:
  assumes "\<forall>j \<in> set js. lexed j"
  shows "lexed (JArray js)"
proof (rule lexedI)
  fix s ts n assume s: "lex s = Some (tokens_of (JArray js) @ ts)" and n: "2 * length s < Suc n"
  then have "lex s = Some (Punct (CHR ''['') # commas (map tokens_of js) @ Punct (CHR '']'') # ts)" by simp
  from lex_cases(2)[OF this] obtain t where t: "skip_ws s = CHR ''['' # t"
      "lex t = Some (commas (map tokens_of js) @ Punct (CHR '']'') # ts)" by blast
  show "\<exists>v. parse_value (Suc n) (skip_ws s) = Some (JArray js, v) \<and> lex v = Some ts"
  proof (cases "js = []")
    case True
    then show ?thesis using t lex_cases(2)[of t] by auto
  next
    case False
    have "2 * length t + 1 < n" using t(1) skip_ws_length[of s] n by simp
    from lex_elements[OF False assms t(2) this] obtain v where v: "parse_elements n (skip_ws t) = Some (js, v)" "lex v = Some ts"
      by blast
    obtain d u where d: "skip_ws t = d # u" using v(1) skip_ws_cases[of t] parse_elements_nil by auto
    have "d \<noteq> CHR '']''"
    proof
      assume "d = CHR '']''"
      then have "lex t = lex (CHR '']'' # u)" using lex_skip[of t] d by simp
      then have "\<exists>us. lex t = Some (Punct (CHR '']'') # us)"
        using t(2) by (cases "lex u") (auto simp: is_punct_def json_space_def)
      then obtain us where "commas (map tokens_of js) @ Punct (CHR '']'') # ts = Punct (CHR '']'') # us" using t(2) by auto
      moreover obtain j ks where "js = j # ks" using False by (cases js) auto
      ultimately show False by (cases j; cases ks) auto
    qed
    then show ?thesis using t(1) d v by simp
  qed
qed

lemma lexed_object:
  assumes "\<forall>(k, j) \<in> set kvs. lexed j" and "distinct (map fst kvs)"
  shows "lexed (JObject kvs)"
proof (rule lexedI)
  fix s ts n assume s: "lex s = Some (tokens_of (JObject kvs) @ ts)" and n: "2 * length s < Suc n"
  let ?members = "commas (map (\<lambda>(k, j). Quoted k # Punct (CHR '':'') # tokens_of j) kvs) @ Punct (CHR ''}'') # ts"
  have "lex s = Some (Punct (CHR ''{'') # ?members)" using s by simp
  from lex_cases(2)[OF this] obtain t where t: "skip_ws s = CHR ''{'' # t" "lex t = Some ?members" by blast
  show "\<exists>v. parse_value (Suc n) (skip_ws s) = Some (JObject kvs, v) \<and> lex v = Some ts"
  proof (cases kvs)
    case Nil
    then show ?thesis using t lex_cases(2)[of t] by auto
  next
    case (Cons kv kvs')
    obtain k j where kv: "kv = (k, j)" by (cases kv)
    have "2 * length t + 1 < n" using t(1) skip_ws_length[of s] n by simp
    from lex_members[OF _ assms(1) this t(2)] obtain v where v: "parse_members n (skip_ws t) = Some (kvs, v)" "lex v = Some ts"
      by (auto simp: Cons)
    have "\<exists>us. lex t = Some (Quoted k # us)" using t(2) by (cases kvs') (auto simp: Cons kv)
    then obtain u where "skip_ws t = dquote # u" using lex_cases(3) by blast
    then show ?thesis using t(1) v by (simp add: make_object_distinct[OF assms(2)]) (simp add: dquote_def)
  qed
qed

lemma tokens_value: "distinct_keys j \<Longrightarrow> lexed j"
proof (induction j)
  case (JArray js)
  then show ?case by (intro lexed_array) auto
next
  case (JObject kvs)
  have "lexed j" if "(k, j) \<in> set kvs" for k j using JObject that by (fastforce simp: snds.simps)
  then show ?case using JObject.prems by (intro lexed_object) auto
qed (auto intro: lexed_string lexed_bare)

lemma lines_value:
  assumes "lex_lines ls = Some (tokens_of j)" and "distinct_keys j" and "list_all (list_all (\<lambda>c. \<not> digit7 c)) ls"
  shows "json_parse (Join ls [CHR 0x0A]) = Some j"
proof -
  let ?s = "Join ls [CHR 0x0A]"
  have "valid_utf8 ?s"
    using assms(3) by (intro valid_Join) (auto simp: list_all_iff char_bits intro!: valid_ascii)
  moreover obtain t where "parse_value (2 * length ?s + 1) (skip_ws ?s) = Some (j, t)" "lex t = Some []"
    using lexedD[OF tokens_value[OF assms(2)], of ?s "[]" "2 * length ?s + 1"] lex_lines[OF assms(1)] by auto
  ultimately show ?thesis using lex_cases(1)[of t] by (simp add: json_parse_def coerce_valid Let_def del: parse_value.simps)
qed

end
