(* ===== verification/FunctionalTests.thy ===== *)
theory FunctionalTests
  imports Tokens
begin

text \<open>
  The fixtures of the functional tests, \<^verbatim>\<open>functional-tests/testdata.go\<close>, as they stand there, a line at a time: what
  they are read as, and what a Hoverfly that has imported one answers, as \<^verbatim>\<open>ft_simulation_matching_test.go\<close>,
  \<^verbatim>\<open>ft_simulate_mode_test.go\<close>, \<^verbatim>\<open>ft_webserver_test.go\<close>, \<^verbatim>\<open>ft_cache_test.go\<close> and \<^verbatim>\<open>ft_api_v2_simulation_test.go\<close> expect.
\<close>

section \<open>The fixtures\<close>

definition go_text :: "string list \<Rightarrow> string" where
  "go_text ls = Join ls [CHR 0x0A]"

definition JsonPayload :: string where
  \<open>JsonPayload = go_text
    [''{'',
     ''    "data": {'',
     ''        "pairs": ['',
     ''            {'',
     ''                "response": {'',
     ''                    "status": 200,'',
     ''                    "body": "exact match",'',
     ''                    "encodedBody": false,'',
     ''                    "headers": {'',
     ''                        "Header": ['',
     ''                            "value1",'',
     ''                            "value2"'',
     ''                        ]'',
     ''                    }'',
     ''                },'',
     ''                "request": {'',
     ''                    "path": {'',
     ''						"exactMatch": "/path1"        '',
     ''                    },'',
     ''                    "method": {'',
     ''						"exactMatch": "GET"'',
     ''                    },'',
     ''                    "destination": {'',
     ''						"exactMatch": "test-server.com"'',
     ''                    },'',
     ''                    "scheme": {'',
     ''						"exactMatch": "http"'',
     ''                    },'',
     ''                    "query": {'',
     ''						"exactMatch": ""'',
     ''                    },'',
     ''                    "body": {'',
     ''						"exactMatch": ""'',
     ''                    },'',
     ''                    "headers": {'',
     ''                        "Accept-Encoding": ['',
     ''						    "gzip"'',
     ''						],'',
     ''					    "User-Agent": ['',
     ''						    "Go-http-client/1.1"'',
     ''						]'',
     ''                    }'',
     ''                }'',
     ''            },'',
     ''            {'',
     ''                "response": {'',
     ''                    "status": 200,'',
     ''                    "body": "destination matched",'',
     ''                    "encodedBody": false,'',
     ''                    "headers": {}'',
     ''                },'',
     ''                "request": {'',
     ''                    "destination": {'',
     ''                        "exactMatch": "destination-server.com"'',
     ''                    }'',
     ''                }'',
     ''            }'',
     ''        ],'',
     ''        "globalActions": {'',
     ''            "delays": []'',
     ''        }'',
     ''    },'',
     ''    "meta": {'',
     ''        "schemaVersion": "v2",'',
     ''        "hoverflyVersion": "v0.10.2",'',
     ''        "timeExported": "2017-02-23T12:43:48Z"'',
     ''    }'',
     ''}'']\<close>

definition XmlSimulation :: string where
  \<open>XmlSimulation = go_text
    [''{'',
     ''    "data": {'',
     ''        "pairs": ['',
     ''            {'',
     ''                "response": {'',
     ''                    "status": 200,'',
     ''                    "body": "xml match",'',
     ''                    "encodedBody": false,'',
     ''                    "headers": {}'',
     ''                },'',
     ''                "request": {'',
     ''                    "body": {'',
     ''						"xmlMatch": "<items><item>one</item></items>"'',
     ''                    }'',
     ''                }'',
     ''            }'',
     ''        ],'',
     ''        "globalActions": {'',
     ''            "delays": []'',
     ''        }'',
     ''    },'',
     ''    "meta": {'',
     ''        "schemaVersion": "v2",'',
     ''        "hoverflyVersion": "v0.10.2",'',
     ''        "timeExported": "2017-02-23T12:43:48Z"'',
     ''    }'',
     ''}'']\<close>

definition XpathSimulation :: string where
  \<open>XpathSimulation = go_text
    [''{'',
     ''    "data": {'',
     ''        "pairs": ['',
     ''            {'',
     ''                "response": {'',
     ''                    "status": 200,'',
     ''                    "body": "xpath match",'',
     ''                    "encodedBody": false,'',
     ''                    "headers": {}'',
     ''                },'',
     ''                "request": {'',
     ''                    "body": {'',
     ''						"xpathMatch": "//item[count(preceding::item) < 5]"'',
     ''                    }'',
     ''                }'',
     ''            }'',
     ''        ],'',
     ''        "globalActions": {'',
     ''            "delays": []'',
     ''        }'',
     ''    },'',
     ''    "meta": {'',
     ''        "schemaVersion": "v2",'',
     ''        "hoverflyVersion": "v0.10.2",'',
     ''        "timeExported": "2017-02-23T12:43:48Z"'',
     ''    }'',
     ''}'']\<close>

definition JsonPathMatchSimulation :: string where
  \<open>JsonPathMatchSimulation = go_text
    [''{'',
     ''    "data": {'',
     ''        "pairs": ['',
     ''            {'',
     ''                "response": {'',
     ''                    "status": 200,'',
     ''                    "body": "json match",'',
     ''                    "encodedBody": false,'',
     ''                    "headers": {}'',
     ''                },'',
     ''                "request": {'',
     ''                    "body": {'',
     ''						"jsonPathMatch": "$.items[4]"'',
     ''                    }'',
     ''                }'',
     ''            }'',
     ''        ],'',
     ''        "globalActions": {'',
     ''            "delays": []'',
     ''        }'',
     ''    },'',
     ''    "meta": {'',
     ''        "schemaVersion": "v2",'',
     ''        "hoverflyVersion": "v0.10.2",'',
     ''        "timeExported": "2017-02-23T12:43:48Z"'',
     ''    }'',
     ''}'']\<close>

definition RegexMatchSimulation :: string where
  \<open>RegexMatchSimulation = go_text
    [''{'',
     ''    "data": {'',
     ''        "pairs": ['',
     ''            {'',
     ''                "response": {'',
     ''                    "status": 200,'',
     ''                    "body": "regex match",'',
     ''                    "encodedBody": false,'',
     ''                    "headers": {}'',
     ''                },'',
     ''                "request": {'',
     ''                    "body": {'',
     ''						"regexMatch": "<item field=(.*)>"'',
     ''                    }'',
     ''                }'',
     ''            }'',
     ''        ],'',
     ''        "globalActions": {'',
     ''            "delays": []'',
     ''        }'',
     ''    },'',
     ''    "meta": {'',
     ''        "schemaVersion": "v2",'',
     ''        "hoverflyVersion": "v0.10.2",'',
     ''        "timeExported": "2017-02-23T12:43:48Z"'',
     ''    }'',
     ''}'']\<close>

definition GlobMatchSimulation :: string where
  \<open>GlobMatchSimulation = go_text
    [''{'',
     ''    "data": {'',
     ''        "pairs": ['',
     ''            {'',
     ''                "response": {'',
     ''                    "status": 200,'',
     ''                    "body": "glob match",'',
     ''                    "encodedBody": false,'',
     ''                    "headers": {}'',
     ''                },'',
     ''                "request": {'',
     ''                    "body": {'',
     ''						"globMatch": "*<item field=*>*"'',
     ''                    }'',
     ''                }'',
     ''            }'',
     ''        ],'',
     ''        "globalActions": {'',
     ''            "delays": []'',
     ''        }'',
     ''    },'',
     ''    "meta": {'',
     ''        "schemaVersion": "v2",'',
     ''        "hoverflyVersion": "v0.10.2",'',
     ''        "timeExported": "2017-02-23T12:43:48Z"'',
     ''    }'',
     ''}'']\<close>

definition JsonMatchSimulation :: string where
  \<open>JsonMatchSimulation = go_text
    [''{'',
     ''    "data": {'',
     ''        "pairs": ['',
     ''            {'',
     ''                "response": {'',
     ''                    "status": 200,'',
     ''                    "body": "json match",'',
     ''                    "encodedBody": false,'',
     ''                    "headers": {}'',
     ''                },'',
     ''                "request": {'',
     ''                    "body": {'',
     ''						"jsonMatch": "{'' @ backslash # ''"test'' @ backslash # ''": '' @ backslash # ''"data'' @ backslash # ''"}"'',
     ''                    }'',
     ''                }'',
     ''            }'',
     ''        ],'',
     ''        "globalActions": {'',
     ''            "delays": []'',
     ''        }'',
     ''    },'',
     ''    "meta": {'',
     ''        "schemaVersion": "v2",'',
     ''        "hoverflyVersion": "v0.10.2",'',
     ''        "timeExported": "2017-02-23T12:43:48Z"'',
     ''    }'',
     ''}'']\<close>

definition MultipleMatchSimulation :: string where
  \<open>MultipleMatchSimulation = go_text
    [''{'',
     ''    "data": {'',
     ''        "pairs": ['',
     ''            {'',
     ''                "response": {'',
     ''                    "status": 200,'',
     ''                    "body": "multiple matches",'',
     ''                    "encodedBody": false,'',
     ''                    "headers": {}'',
     ''                },'',
     ''                "request": {'',
     ''                    "body": {'',
     ''						"globMatch": "*<item field=*>*",'',
     ''                        "regexMatch": "something"'',
     ''                    }'',
     ''                }'',
     ''            },'',
     ''            {'',
     ''                "response": {'',
     ''                    "status": 200,'',
     ''                    "body": "multiple matches 2",'',
     ''                    "encodedBody": false,'',
     ''                    "headers": {}'',
     ''                },'',
     ''                "request": {'',
     ''                    "destination": {'',
     ''                        "exactMatch": "destination.com",'',
     ''                        "globMatch": "*.com"'',
     ''                    }'',
     ''                }'',
     ''            }'',
     ''        ],'',
     ''        "globalActions": {'',
     ''            "delays": []'',
     ''        }'',
     ''    },'',
     ''    "meta": {'',
     ''        "schemaVersion": "v2",'',
     ''        "hoverflyVersion": "v0.10.2",'',
     ''        "timeExported": "2017-02-23T12:43:48Z"'',
     ''    }'',
     ''}'']\<close>

definition JsonSimulationGetAndPost :: string where
  \<open>JsonSimulationGetAndPost = go_text
    [''{'',
     ''    "data": {'',
     ''        "pairs": ['',
     ''            {'',
     ''                "response": {'',
     ''                    "status": 201,'',
     ''                    "body": "body1",'',
     ''                    "encodedBody": false,'',
     ''                    "headers": {'',
     ''                        "Header": ['',
     ''                            "value1",'',
     ''                            "value2"'',
     ''                        ]'',
     ''                    }'',
     ''                },'',
     ''                "request": {'',
     ''                    "path": {'',
     ''						"exactMatch": "/path1"'',
     ''                    },'',
     ''                    "method": {'',
     ''						"exactMatch": "GET"'',
     ''                    },'',
     ''                    "destination": {'',
     ''						"exactMatch": "destination1"'',
     ''                    },'',
     ''                    "scheme": {'',
     ''						"exactMatch": "http"'',
     ''                    },'',
     ''                    "query": {'',
     ''						"exactMatch": ""'',
     ''                    },'',
     ''                    "body": {'',
     ''						"exactMatch": ""'',
     ''                    }'',
     ''                }'',
     ''            },'',
     ''            {'',
     ''                "response": {'',
     ''                    "status": 200,'',
     ''                    "body": "POST body response",'',
     ''                    "encodedBody": false,'',
     ''                    "headers": {}'',
     ''                },'',
     ''                "request": {'',
     ''                    "path": {'',
     ''						"exactMatch": "/path2/resource"'',
     ''                    },'',
     ''                    "method": {'',
     ''						"exactMatch": "POST"'',
     ''                    },'',
     ''                    "destination": {'',
     ''						"exactMatch": "another-destination.com"'',
     ''                    },'',
     ''                    "scheme": {'',
     ''						"exactMatch": "http"'',
     ''                    },'',
     ''                    "query": {'',
     ''						"exactMatch": ""'',
     ''                    },'',
     ''                    "body": {'',
     ''						"exactMatch": ""'',
     ''                    }'',
     ''                }'',
     ''            }'',
     ''        ],'',
     ''        "globalActions": {'',
     ''            "delays": []'',
     ''        }'',
     ''    },'',
     ''    "meta": {'',
     ''        "schemaVersion": "v2",'',
     ''        "hoverflyVersion": "v0.10.2",'',
     ''        "timeExported": "2017-02-23T12:43:48Z"'',
     ''    }'',
     ''}'']\<close>

definition JsonPayloadV1 :: string where
  \<open>JsonPayloadV1 = go_text
    [''{'',
     ''    "data": {'',
     ''        "pairs": ['',
     ''            {'',
     ''                "response": {'',
     ''                    "status": 200,'',
     ''                    "body": "v1 match",'',
     ''                    "encodedBody": false,'',
     ''                    "headers": {}'',
     ''                },'',
     ''                "request": {'',
     ''                    "destination": "v1-simulation.com"'',
     ''                }'',
     ''            },'',
     ''            {'',
     ''                "response": {'',
     ''                    "status": 200,'',
     ''                    "body": "v1 match",'',
     ''                    "encodedBody": false,'',
     ''                    "headers": {}'',
     ''                },'',
     ''                "request": {'',
     ''                    "requestType": "recording",'',
     ''                    "destination": "v1-simulation.com",'',
     ''                    "method": "GET",'',
     ''                    "scheme": "http",'',
     ''                    "path": "/path",'',
     ''                    "query": "",'',
     ''                    "body": "",'',
     ''                    "headers": {'',
     ''                        "Accept-Encoding": ['',
     ''						    "gzip"'',
     ''						],'',
     ''					    "User-Agent": ['',
     ''						    "Go-http-client/1.1"'',
     ''						]'',
     ''                    }'',
     ''                }'',
     ''            }'',
     ''        ],'',
     ''        "globalActions": {'',
     ''            "delays": []'',
     ''        }'',
     ''    },'',
     ''    "meta": {'',
     ''        "schemaVersion": "v1",'',
     ''        "hoverflyVersion": "v0.10.2",'',
     ''        "timeExported": "2017-02-23T12:43:48Z"'',
     ''    }'',
     ''}'']\<close>

definition ExactMatchPayload :: string where
  \<open>ExactMatchPayload = go_text
    [''{'',
     ''    "data": {'',
     ''        "pairs": ['',
     ''            {'',
     ''                "response": {'',
     ''                    "status": 200,'',
     ''                    "body": "exact match 1",'',
     ''                    "encodedBody": false,'',
     ''                    "headers": {'',
     ''                        "Header": ['',
     ''                            "value1"'',
     ''                        ]'',
     ''                    }'',
     ''                },'',
     ''                "request": {'',
     ''                    "path": {'',
     ''						"exactMatch": "/path1"        '',
     ''                    },'',
     ''                    "method": {'',
     ''						"exactMatch": "GET"'',
     ''                    },'',
     ''                    "destination": {'',
     ''						"exactMatch": "test-server.com"'',
     ''                    },'',
     ''                    "scheme": {'',
     ''						"exactMatch": "http"'',
     ''                    },'',
     ''                    "query": {'',
     ''						"exactMatch": ""'',
     ''                    },'',
     ''                    "body": {'',
     ''						"exactMatch": ""'',
     ''                    },'',
     ''                    "headers": {'',
     ''                        "Header": ['',
     ''						    "value1"'',
     ''						]'',
     ''                    }'',
     ''                }'',
     ''            },'',
     ''            {'',
     ''                "response": {'',
     ''                    "status": 200,'',
     ''                    "body": "exact match 2",'',
     ''                    "encodedBody": false,'',
     ''                    "headers": {'',
     ''                        "Header": ['',
     ''                            "value2"'',
     ''                        ]'',
     ''                    }'',
     ''                },'',
     ''                "request": {'',
     ''                    "path": {'',
     ''						"exactMatch": "/path1"        '',
     ''                    },'',
     ''                    "method": {'',
     ''						"exactMatch": "GET"'',
     ''                    },'',
     ''                    "destination": {'',
     ''						"exactMatch": "test-server.com"'',
     ''                    },'',
     ''                    "scheme": {'',
     ''						"exactMatch": "http"'',
     ''                    },'',
     ''                    "query": {'',
     ''						"exactMatch": ""'',
     ''                    },'',
     ''                    "body": {'',
     ''						"exactMatch": ""'',
     ''                    },'',
     ''                    "headers": {'',
     ''                        "Header": ['',
     ''						    "value2"'',
     ''						]'',
     ''                    }'',
     ''                }'',
     ''            },'',
     ''            {'',
     ''                "response": {'',
     ''                    "status": 200,'',
     ''                    "body": "destination matched",'',
     ''                    "encodedBody": false,'',
     ''                    "headers": {}'',
     ''                },'',
     ''                "request": {'',
     ''                    "destination": {'',
     ''                        "exactMatch": "destination-server.com"'',
     ''                    }'',
     ''                }'',
     ''            }'',
     ''        ],'',
     ''        "globalActions": {'',
     ''            "delays": []'',
     ''        }'',
     ''    },'',
     ''    "meta": {'',
     ''        "schemaVersion": "v2",'',
     ''        "hoverflyVersion": "v0.10.2",'',
     ''        "timeExported": "2017-02-23T12:43:48Z"'',
     ''    }'',
     ''}'']\<close>


section \<open>What they are read as\<close>

definition exactly :: "string \<Rightarrow> RequestFieldMatchersView option" where
  "exactly s = Some (empty_matchers_view\<lparr>fv_ExactMatch := Some s\<rparr>)"

definition any_request :: RequestDetailsViewV2 where
  "any_request = \<lparr>v2_Path = None, v2_Method = None, v2_Destination = None, v2_Scheme = None, v2_Query = None, v2_Body = None,
     v2_Headers = None\<rparr>"

definition with_body :: "RequestFieldMatchersView \<Rightarrow> RequestDetailsViewV2" where
  "with_body f = any_request\<lparr>v2_Body := Some f\<rparr>"

definition exact_request :: "string \<Rightarrow> string \<Rightarrow> string \<Rightarrow> headers \<Rightarrow> RequestDetailsViewV2" where
  "exact_request destination method path hs =
     \<lparr>v2_Path = exactly path, v2_Method = exactly method, v2_Destination = exactly destination, v2_Scheme = exactly ''http'',
      v2_Query = exactly '''', v2_Body = exactly '''', v2_Headers = hs\<rparr>"

definition reply_view :: "string \<Rightarrow> header_map \<Rightarrow> ResponseDetailsView" where
  "reply_view body hs = \<lparr>rv_Status = 200, rv_Body = body, rv_EncodedBody = False, rv_Headers = Some hs\<rparr>"

definition pair_view :: "ResponseDetailsView \<Rightarrow> RequestDetailsViewV2 \<Rightarrow> RequestResponsePairViewV2" where
  "pair_view response request = \<lparr>p2_Response = response, p2_Request = request\<rparr>"

definition fixture_view :: "RequestResponsePairViewV2 list \<Rightarrow> SimulationViewV2" where
  "fixture_view pairs =
     \<lparr>s2_DataViewV2 = \<lparr>d2_RequestResponsePairs = pairs, d2_GlobalActions = \<lparr>ga_Delays = Some []\<rparr>\<rparr>,
      s2_MetaView = \<lparr>mv_SchemaVersion = ''v2'', mv_HoverflyVersion = ''v0.10.2'', mv_TimeExported = ''2017-02-23T12:43:48Z''\<rparr>\<rparr>"

definition fixture_ok :: "RequestResponsePairViewV2 \<Rightarrow> bool" where
  "fixture_ok p \<longleftrightarrow> small (rv_Status (p2_Response p)) \<and> rv_Headers (p2_Response p) \<noteq> None \<and> written_pair p = p"

lemma value_read:
  assumes "json_parse body = Some (JObject m)" and "map_get m ''meta'' = Some (JObject meta)"
    and "map_get meta ''schemaVersion'' = Some (JString version)"
  shows "NewSimulationViewFromResponseBody (json_reader is_int64) body = Returns (read_version (json_reader is_int64) body m version)"
proof -
  have "unmarshal_map (json_reader is_int64) body = Some m" using assms(1) by (simp add: json_reader_def)
  then show ?thesis
    using assms(2,3) by (simp add: NewSimulationViewFromResponseBody_def is_nil_def as_map_def as_string_def)
qed

lemma fixture_read:
  assumes "lex_lines ls = Some (tokens_of (JObject (simulation_json (fixture_view ps))))"
    and "distinct_keys (JObject (simulation_json (fixture_view ps)))"
    and "list_all (list_all (\<lambda>c. \<not> digit7 c)) ls" and "list_all fixture_ok ps" and "exact_integers is_int64"
  shows "NewSimulationViewFromResponseBody (json_reader is_int64) (go_text ls) = Returns (Inr (fixture_view ps))"
proof -
  let ?v = "fixture_view ps"
  have parsed: "json_parse (go_text ls) = Some (JObject (simulation_json ?v))"
    unfolding go_text_def by (rule lines_value[OF assms(1-3)])
  have small: "\<forall>p \<in> set (d2_RequestResponsePairs (s2_DataViewV2 ?v)). small (rv_Status (p2_Response p))"
    "delays_small (d2_GlobalActions (s2_DataViewV2 ?v))"
    using assms(4) by (auto simp: fixture_view_def fixture_ok_def delays_small_def list_all_iff)
  have "written_view ?v = ?v"
    using assms(4) by (auto simp: written_view_def fixture_view_def fixture_ok_def list_all_iff intro: map_idI)
  then have v2: "unmarshal_v2 (json_reader is_int64) (go_text ls) = Inr ?v"
    using dec_simulation_json[OF small] by (simp add: json_reader_def unmarshal_def parsed)
  have "ValidateSimulation is_int64 (simulation_json ?v) SimulationViewV2Schema = None"
    unfolding ValidateSimulation_V2
    by (subst conforms_simulation[where ds="[]"])
      (use assms(4,5) small in \<open>auto simp: fixture_view_def fixture_ok_def list_all_iff small_int64\<close>)
  then have "read_version (json_reader is_int64) (go_text ls) (simulation_json ?v) ''v2'' = Inr ?v"
    using v2 by (simp add: read_version_def) (simp add: json_reader_def)
  moreover have "map_get (simulation_json ?v) ''meta'' = Some (meta_json (s2_MetaView ?v))"
    by (simp add: simulation_json_def)
  ultimately show ?thesis
    using value_read[OF parsed, of "[(''schemaVersion'', JString ''v2''), (''hoverflyVersion'', JString ''v0.10.2''),
        (''timeExported'', JString ''2017-02-23T12:43:48Z'')]" "''v2''"] by (simp add: fixture_view_def meta_json_def)
qed


definition json_payload_pairs :: "RequestResponsePairViewV2 list" where
  "json_payload_pairs =
     [pair_view (reply_view ''exact match'' [(''Header'', [''value1'', ''value2''])])
        (exact_request ''test-server.com'' ''GET'' ''/path1''
          (Some [(''Accept-Encoding'', [''gzip'']), (''User-Agent'', [''Go-http-client/1.1''])])),
      pair_view (reply_view ''destination matched'' []) (any_request\<lparr>v2_Destination := exactly ''destination-server.com''\<rparr>)]"

definition get_and_post_pairs :: "RequestResponsePairViewV2 list" where
  "get_and_post_pairs =
     [pair_view ((reply_view ''body1'' [(''Header'', [''value1'', ''value2''])])\<lparr>rv_Status := 201\<rparr>)
        (exact_request ''destination1'' ''GET'' ''/path1'' None),
      pair_view (reply_view ''POST body response'' []) (exact_request ''another-destination.com'' ''POST'' ''/path2/resource'' None)]"

definition exact_match_pairs :: "RequestResponsePairViewV2 list" where
  "exact_match_pairs =
     [pair_view (reply_view ''exact match 1'' [(''Header'', [''value1''])])
        (exact_request ''test-server.com'' ''GET'' ''/path1'' (Some [(''Header'', [''value1''])])),
      pair_view (reply_view ''exact match 2'' [(''Header'', [''value2''])])
        (exact_request ''test-server.com'' ''GET'' ''/path1'' (Some [(''Header'', [''value2''])])),
      pair_view (reply_view ''destination matched'' []) (any_request\<lparr>v2_Destination := exactly ''destination-server.com''\<rparr>)]"

definition body_pairs :: "string \<Rightarrow> RequestFieldMatchersView \<Rightarrow> RequestResponsePairViewV2 list" where
  "body_pairs body f = [pair_view (reply_view body []) (with_body f)]"

definition xml_items :: string where "xml_items = ''<items><item>one</item></items>''"
definition xpath_items :: string where "xpath_items = ''//item[count(preceding::item) < 5]''"
definition jsonpath_items :: string where "jsonpath_items = ''$.items[4]''"
definition regex_field :: string where "regex_field = ''<item field=(.*)>''"
definition glob_field :: string where "glob_field = ''*<item field=*>*''"
definition json_test :: string where \<open>json_test = ''{"test": "data"}''\<close>

definition v2_fixtures :: "(string \<times> RequestResponsePairViewV2 list) list" where
  "v2_fixtures =
     [(JsonPayload, json_payload_pairs),
      (XmlSimulation, body_pairs ''xml match'' (empty_matchers_view\<lparr>fv_XmlMatch := Some xml_items\<rparr>)),
      (XpathSimulation, body_pairs ''xpath match'' (empty_matchers_view\<lparr>fv_XpathMatch := Some xpath_items\<rparr>)),
      (JsonPathMatchSimulation, body_pairs ''json match'' (empty_matchers_view\<lparr>fv_JsonPathMatch := Some jsonpath_items\<rparr>)),
      (RegexMatchSimulation, body_pairs ''regex match'' (empty_matchers_view\<lparr>fv_RegexMatch := Some regex_field\<rparr>)),
      (GlobMatchSimulation, body_pairs ''glob match'' (empty_matchers_view\<lparr>fv_GlobMatch := Some glob_field\<rparr>)),
      (JsonMatchSimulation, body_pairs ''json match'' (empty_matchers_view\<lparr>fv_JsonMatch := Some json_test\<rparr>)),
      (JsonSimulationGetAndPost, get_and_post_pairs),
      (ExactMatchPayload, exact_match_pairs)]"

definition fixture_lines :: "string list \<Rightarrow> RequestResponsePairViewV2 list \<Rightarrow> bool" where
  "fixture_lines ls ps \<longleftrightarrow> lex_lines ls = Some (tokens_of (JObject (simulation_json (fixture_view ps)))) \<and>
     distinct_keys (JObject (simulation_json (fixture_view ps))) \<and> list_all (list_all (\<lambda>c. \<not> digit7 c)) ls \<and>
     list_all fixture_ok ps"

lemma fixture_lines_read:
  "fixture_lines ls ps \<Longrightarrow> exact_integers is_int64 \<Longrightarrow>
     NewSimulationViewFromResponseBody (json_reader is_int64) (go_text ls) = Returns (Inr (fixture_view ps))"
  unfolding fixture_lines_def by (intro fixture_read) auto

lemma JsonPayload_lines: "\<exists>ls. JsonPayload = go_text ls \<and> fixture_lines ls json_payload_pairs"
  unfolding JsonPayload_def by (rule exI, rule conjI, rule refl) code_simp

lemma XmlSimulation_lines: "\<exists>ls. XmlSimulation = go_text ls \<and>
    fixture_lines ls (body_pairs ''xml match'' (empty_matchers_view\<lparr>fv_XmlMatch := Some xml_items\<rparr>))"
  unfolding XmlSimulation_def by (rule exI, rule conjI, rule refl) code_simp

lemma XpathSimulation_lines: "\<exists>ls. XpathSimulation = go_text ls \<and>
    fixture_lines ls (body_pairs ''xpath match'' (empty_matchers_view\<lparr>fv_XpathMatch := Some xpath_items\<rparr>))"
  unfolding XpathSimulation_def by (rule exI, rule conjI, rule refl) code_simp

lemma JsonPathMatchSimulation_lines: "\<exists>ls. JsonPathMatchSimulation = go_text ls \<and>
    fixture_lines ls (body_pairs ''json match'' (empty_matchers_view\<lparr>fv_JsonPathMatch := Some jsonpath_items\<rparr>))"
  unfolding JsonPathMatchSimulation_def by (rule exI, rule conjI, rule refl) code_simp

lemma RegexMatchSimulation_lines: "\<exists>ls. RegexMatchSimulation = go_text ls \<and>
    fixture_lines ls (body_pairs ''regex match'' (empty_matchers_view\<lparr>fv_RegexMatch := Some regex_field\<rparr>))"
  unfolding RegexMatchSimulation_def by (rule exI, rule conjI, rule refl) code_simp

lemma GlobMatchSimulation_lines: "\<exists>ls. GlobMatchSimulation = go_text ls \<and>
    fixture_lines ls (body_pairs ''glob match'' (empty_matchers_view\<lparr>fv_GlobMatch := Some glob_field\<rparr>))"
  unfolding GlobMatchSimulation_def by (rule exI, rule conjI, rule refl) code_simp

lemma JsonMatchSimulation_lines: "\<exists>ls. JsonMatchSimulation = go_text ls \<and>
    fixture_lines ls (body_pairs ''json match'' (empty_matchers_view\<lparr>fv_JsonMatch := Some json_test\<rparr>))"
  unfolding JsonMatchSimulation_def by (rule exI, rule conjI, rule refl) code_simp

lemma JsonSimulationGetAndPost_lines: "\<exists>ls. JsonSimulationGetAndPost = go_text ls \<and> fixture_lines ls get_and_post_pairs"
  unfolding JsonSimulationGetAndPost_def by (rule exI, rule conjI, rule refl) code_simp

lemma ExactMatchPayload_lines: "\<exists>ls. ExactMatchPayload = go_text ls \<and> fixture_lines ls exact_match_pairs"
  unfolding ExactMatchPayload_def by (rule exI, rule conjI, rule refl) code_simp

lemmas fixtures_lines = JsonPayload_lines XmlSimulation_lines XpathSimulation_lines JsonPathMatchSimulation_lines
  RegexMatchSimulation_lines GlobMatchSimulation_lines JsonMatchSimulation_lines JsonSimulationGetAndPost_lines
  ExactMatchPayload_lines

lemma fixtures_read:
  assumes "exact_integers is_int64" and "(body, ps) \<in> set v2_fixtures"
  shows "NewSimulationViewFromResponseBody (json_reader is_int64) body = Returns (Inr (fixture_view ps))"
proof -
  have "list_all (\<lambda>(body, ps). \<exists>ls. body = go_text ls \<and> fixture_lines ls ps) v2_fixtures"
    unfolding v2_fixtures_def list.pred_inject split by (intro conjI fixtures_lines list.pred_inject(1))
  then obtain ls where "body = go_text ls" "fixture_lines ls ps" using assms(2) by (auto simp: list_all_iff)
  then show ?thesis using fixture_lines_read assms(1) by simp
qed

end
