(* ===== verification/FunctionalAnswers.thy ===== *)
theory FunctionalAnswers
  imports FunctionalTests
begin

text \<open>
  What a Hoverfly that has imported a fixture of the functional tests answers, by the importing of
  \<^verbatim>\<open>SimulationHandler.Put\<close>, the reader of \<^verbatim>\<open>Json\<close> and \<^verbatim>\<open>GetResponse\<close>. The other libraries stay arguments.
\<close>

section \<open>Importing a fixture, then asking\<close>

definition asked :: "libs \<Rightarrow> (string \<Rightarrow> bool) \<Rightarrow> string \<Rightarrow> Hoverfly \<Rightarrow> RequestDetails \<Rightarrow> (MatchingError + ResponseDetails) option" where
  "asked L is_int64 body hf r =
     (case NewSimulationViewFromResponseBody (json_reader is_int64) body of
        Returns (Inr v) \<Rightarrow> Some (fst (fst (GetResponse L r (snd (PutSimulation L v (DeleteSimulation hf))))))
      | _ \<Rightarrow> None)"

definition of_pairs :: "libs \<Rightarrow> bool \<Rightarrow> RequestResponsePairViewV2 list \<Rightarrow> RequestDetails \<Rightarrow> MatchingError + ResponseDetails" where
  "of_pairs L webserver ps r =
     (case find (pair_matches L webserver r) (map NewRequestMatcherResponsePairFromView ps) of
        None \<Rightarrow> Inl not_recorded
      | Some p \<Rightarrow> Inr (mp_Response p))"

lemma asked_pairs:
  assumes "NewSimulationViewFromResponseBody (json_reader is_int64) body = Returns (Inr v)" and "wf_matcher (hf_CacheMatcher hf)"
  shows "asked L is_int64 body hf r = Some (of_pairs L (cf_Webserver (hf_Cfg hf)) (d2_RequestResponsePairs (s2_DataViewV2 v)) r)"
proof -
  let ?hf = "snd (PutSimulation L v (DeleteSimulation hf))"
  have hf: "si_MatchingPairs (hf_Simulation ?hf) = map NewRequestMatcherResponsePairFromView (d2_RequestResponsePairs (s2_DataViewV2 v))"
    "hf_CacheMatcher ?hf = snd (FlushCache (hf_CacheMatcher hf))" "hf_Cfg ?hf = hf_Cfg hf"
    by (simp_all add: PutSimulation_eq Let_def SetResponseDelays_eq ImportRequestResponsePairViews_eq DeleteSimulation_eq
        split: option.split)
  obtain e where "GetCachedResponse L (hf_CacheMatcher ?hf) r = Inl e"
    using GetCachedResponse_flushed[OF assms(2)] by (auto simp: hf)
  from GetResponse_uncached[OF this] show ?thesis by (simp add: asked_def assms(1) answer_def hf of_pairs_def)
qed

lemma asked_fixture:
  assumes "(body, ps) \<in> set v2_fixtures" and "exact_integers is_int64" and "wf_matcher (hf_CacheMatcher hf)"
  shows "asked L is_int64 body hf r = Some (of_pairs L (cf_Webserver (hf_Cfg hf)) ps r)"
  using asked_pairs[OF fixtures_read[OF assms(2,1)] assms(3)] by (simp add: fixture_view_def)

section \<open>What the pairs answer\<close>

definition replied :: "int \<Rightarrow> string \<Rightarrow> header_map \<Rightarrow> MatchingError + ResponseDetails" where
  "replied status body hs = Inr \<lparr>rs_Status = status, rs_Body = body, rs_Headers = Some hs\<rparr>"

lemma fixture_matchers:
  "NewRequestFieldMatchersFromView None = None"
  "NewRequestFieldMatchersFromView (Some f) = Some \<lparr>fm_ExactMatch = fv_ExactMatch f, fm_XmlMatch = fv_XmlMatch f,
     fm_XpathMatch = fv_XpathMatch f, fm_JsonMatch = fv_JsonMatch f, fm_JsonPathMatch = fv_JsonPathMatch f,
     fm_RegexMatch = fv_RegexMatch f, fm_GlobMatch = fv_GlobMatch f\<rparr>"
  by (simp_all add: NewRequestFieldMatchersFromView_def)

lemma body_pairs_answer:
  "of_pairs L web (body_pairs body f) r =
     (if FieldMatcher L (NewRequestFieldMatchersFromView (Some f)) (rq_Body r) then replied 200 body [] else Inl not_recorded)"
  by (simp add: of_pairs_def body_pairs_def pair_view_def with_body_def any_request_def reply_view_def replied_def
      NewRequestMatcherResponsePairFromView_def Let_def pair_matches_def fields_match_def headers_match_def
      fixture_matchers(1) sort_query_matcher_def NewResponseDetailsFromResponse_def)


definition exact_asked :: "bool \<Rightarrow> string \<Rightarrow> string \<Rightarrow> string \<Rightarrow> RequestDetails \<Rightarrow> bool" where
  "exact_asked webserver destination method path r \<longleftrightarrow> (webserver \<or> rq_Destination r = destination) \<and>
     rq_Method r = method \<and> rq_Path r = path \<and> rq_Query r = '''' \<and> rq_Body r = ''''"

lemma FieldMatcher_exactly: "FieldMatcher L (NewRequestFieldMatchersFromView (exactly s)) t \<longleftrightarrow> t = s"
  by (auto simp: exactly_def fixture_matchers(2) FieldMatcher_conjunction rejects_def ExactMatch_def empty_matchers_view_def)

lemma pair_matches_exact:
  "pair_matches L web r (NewRequestMatcherResponsePairFromView (pair_view response (exact_request d m p hs))) \<longleftrightarrow>
     exact_asked web d m p r \<and> headers_match hs (rq_Headers r)"
proof -
  have "sort_query_matcher (exactly '''') = exactly ''''" by code_simp
  then show ?thesis
    by (auto simp: pair_matches_def fields_match_def exact_request_def pair_view_def NewRequestMatcherResponsePairFromView_def Let_def
        FieldMatcher_exactly exact_asked_def)
qed

lemma pair_matches_destination:
  "pair_matches L web r (NewRequestMatcherResponsePairFromView (pair_view response (any_request\<lparr>v2_Destination := f\<rparr>))) \<longleftrightarrow>
     web \<or> FieldMatcher L (NewRequestFieldMatchersFromView f) (rq_Destination r)"
  by (auto simp: pair_matches_def fields_match_def any_request_def pair_view_def NewRequestMatcherResponsePairFromView_def Let_def
      fixture_matchers(1) sort_query_matcher_def headers_match_def)

lemma fixture_response:
  "Inr (mp_Response (NewRequestMatcherResponsePairFromView (pair_view ((reply_view body hs)\<lparr>rv_Status := st\<rparr>) request))) = replied st body hs"
  "Inr (mp_Response (NewRequestMatcherResponsePairFromView (pair_view (reply_view body hs) request))) = replied 200 body hs"
  by (simp_all add: pair_view_def NewRequestMatcherResponsePairFromView_def Let_def NewResponseDetailsFromResponse_def reply_view_def replied_def)

lemmas pair_answers = of_pairs_def pair_matches_exact pair_matches_destination FieldMatcher_exactly fixture_response

lemma json_payload_answer:
  "of_pairs L web json_payload_pairs r =
     (if exact_asked web ''test-server.com'' ''GET'' ''/path1'' r \<and>
         headers_match (Some [(''Accept-Encoding'', [''gzip'']), (''User-Agent'', [''Go-http-client/1.1''])]) (rq_Headers r)
      then replied 200 ''exact match'' [(''Header'', [''value1'', ''value2''])]
      else if web \<or> rq_Destination r = ''destination-server.com'' then replied 200 ''destination matched'' []
      else Inl not_recorded)"
  by (simp add: json_payload_pairs_def pair_answers)

lemma get_and_post_answer:
  "of_pairs L web get_and_post_pairs r =
     (if exact_asked web ''destination1'' ''GET'' ''/path1'' r then replied 201 ''body1'' [(''Header'', [''value1'', ''value2''])]
      else if exact_asked web ''another-destination.com'' ''POST'' ''/path2/resource'' r then replied 200 ''POST body response'' []
      else Inl not_recorded)"
  by (simp add: get_and_post_pairs_def pair_answers headers_match_def)

lemma exact_match_answer:
  "of_pairs L web exact_match_pairs r =
     (if exact_asked web ''test-server.com'' ''GET'' ''/path1'' r \<and> headers_match (Some [(''Header'', [''value1''])]) (rq_Headers r)
      then replied 200 ''exact match 1'' [(''Header'', [''value1''])]
      else if exact_asked web ''test-server.com'' ''GET'' ''/path1'' r \<and> headers_match (Some [(''Header'', [''value2''])]) (rq_Headers r)
      then replied 200 ''exact match 2'' [(''Header'', [''value2''])]
      else if web \<or> rq_Destination r = ''destination-server.com'' then replied 200 ''destination matched'' []
      else Inl not_recorded)"
  by (simp add: exact_match_pairs_def pair_answers)

lemma one_matcher:
  "FieldMatcher L (NewRequestFieldMatchersFromView (Some (empty_matchers_view\<lparr>fv_XmlMatch := Some p\<rparr>))) s = XmlMatch L p s"
  "FieldMatcher L (NewRequestFieldMatchersFromView (Some (empty_matchers_view\<lparr>fv_XpathMatch := Some p\<rparr>))) s = XpathMatch L p s"
  "FieldMatcher L (NewRequestFieldMatchersFromView (Some (empty_matchers_view\<lparr>fv_JsonMatch := Some p\<rparr>))) s = JsonMatch L p s"
  "FieldMatcher L (NewRequestFieldMatchersFromView (Some (empty_matchers_view\<lparr>fv_JsonPathMatch := Some p\<rparr>))) s = JsonPathMatch L p s"
  "FieldMatcher L (NewRequestFieldMatchersFromView (Some (empty_matchers_view\<lparr>fv_RegexMatch := Some p\<rparr>))) s = RegexMatch L p s"
  "FieldMatcher L (NewRequestFieldMatchersFromView (Some (empty_matchers_view\<lparr>fv_GlobMatch := Some p\<rparr>))) s = GlobMatch p s"
  by (simp_all add: fixture_matchers(2) FieldMatcher_conjunction rejects_def empty_matchers_view_def)

section \<open>Two fixtures that are not written as an export is\<close>

text \<open>The matchers of the first body in another order than the export has them; and a simulation of version 1.\<close>

definition multiple_pairs :: "RequestResponsePairViewV2 list" where
  "multiple_pairs =
     [pair_view (reply_view ''multiple matches'' [])
        (with_body (empty_matchers_view\<lparr>fv_GlobMatch := Some glob_field, fv_RegexMatch := Some ''something''\<rparr>)),
      pair_view (reply_view ''multiple matches 2'' [])
        (any_request\<lparr>v2_Destination := Some (empty_matchers_view\<lparr>fv_ExactMatch := Some ''destination.com'', fv_GlobMatch := Some ''*.com''\<rparr>)\<rparr>)]"

definition multiple_json :: "(string \<times> json) list" where
  "multiple_json =
     [(''data'', JObject
        [(''pairs'', JArray
           [JObject [(''response'', response_json (reply_view ''multiple matches'' [])),
              (''request'', JObject [(''body'', JObject [(''globMatch'', JString glob_field), (''regexMatch'', JString ''something'')])])],
            pair_json (multiple_pairs ! 1)]),
         (''globalActions'', JObject [(''delays'', JArray [])])]),
      (''meta'', meta_json (s2_MetaView (fixture_view [])))]"

definition v1_request :: RequestDetailsViewV1 where
  "v1_request = \<lparr>v1_RequestType = None, v1_Path = None, v1_Method = None, v1_Destination = Some ''v1-simulation.com'', v1_Scheme = None,
     v1_Query = None, v1_Body = None, v1_Headers = None\<rparr>"

definition v1_pairs :: "RequestResponsePairViewV2 list" where
  "v1_pairs =
     [pair_view (reply_view ''v1 match'' []) (any_request\<lparr>v2_Destination := exactly ''v1-simulation.com''\<rparr>),
      pair_view (reply_view ''v1 match'' []) (exact_request ''v1-simulation.com'' ''GET'' ''/path'' None)]"

definition v1_json :: "(string \<times> json) list" where
  "v1_json =
     [(''data'', JObject
        [(''pairs'', JArray
           [JObject [(''response'', response_json (reply_view ''v1 match'' [])),
              (''request'', JObject [(''destination'', JString ''v1-simulation.com'')])],
            JObject [(''response'', response_json (reply_view ''v1 match'' [])),
              (''request'', JObject
                [(''requestType'', JString ''recording''), (''destination'', JString ''v1-simulation.com''), (''method'', JString ''GET''),
                 (''scheme'', JString ''http''), (''path'', JString ''/path''), (''query'', JString ''''), (''body'', JString ''''),
                 (''headers'', header_map_json [(''Accept-Encoding'', [''gzip'']), (''User-Agent'', [''Go-http-client/1.1''])])])]]),
         (''globalActions'', JObject [(''delays'', JArray [])])]),
      (''meta'', meta_json ((s2_MetaView (fixture_view []))\<lparr>mv_SchemaVersion := ''v1''\<rparr>))]"

definition json_lines :: "string list \<Rightarrow> json \<Rightarrow> bool" where
  "json_lines ls j \<longleftrightarrow> lex_lines ls = Some (tokens_of j) \<and> distinct_keys j \<and> list_all (list_all (\<lambda>c. \<not> digit7 c)) ls"

lemma json_lines_parse: "json_lines ls j \<Longrightarrow> json_parse (go_text ls) = Some j"
  unfolding go_text_def json_lines_def by (intro lines_value) auto

lemma multiple_parse: "json_parse MultipleMatchSimulation = Some (JObject multiple_json)"
  unfolding MultipleMatchSimulation_def by (rule json_lines_parse) code_simp

lemma v1_parse: "json_parse JsonPayloadV1 = Some (JObject v1_json)"
  unfolding JsonPayloadV1_def by (rule json_lines_parse) code_simp

lemma status_200: "exact_integers is_int64 \<Longrightarrow> is_int64 (Itoa 200)"
  by (rule small_int64) (simp_all add: small_def)

lemma multiple_read:
  assumes "exact_integers is_int64"
  shows "NewSimulationViewFromResponseBody (json_reader is_int64) MultipleMatchSimulation = Returns (Inr (fixture_view multiple_pairs))"
proof -
  have dec: "dec_struct dec_simulation (JObject multiple_json) = Some (fixture_view multiple_pairs)" by code_simp
  have "conforms is_int64 (request_schema matchers_schema)
      (JObject [(''body'', JObject [(''globMatch'', JString glob_field), (''regexMatch'', JString ''something'')])])"
    by (simp add: request_schema_def matchers_schema_def)
  then have "ValidateSimulation is_int64 multiple_json SimulationViewV2Schema = None"
    unfolding ValidateSimulation_V2
    by (simp add: simulation_schema_def multiple_json_def has_type_def given_type_def pair_json_def multiple_pairs_def pair_view_def
        conforms_response status_200[OF assms] reply_view_def fixture_view_def)
  then have "read_version (json_reader is_int64) MultipleMatchSimulation multiple_json ''v2'' = Inr (fixture_view multiple_pairs)"
    by (simp add: read_version_def) (simp add: json_reader_def unmarshal_def multiple_parse dec)
  moreover have "map_get multiple_json ''meta'' = Some (JObject [(''schemaVersion'', JString ''v2''),
      (''hoverflyVersion'', JString ''v0.10.2''), (''timeExported'', JString ''2017-02-23T12:43:48Z'')])"
    by (simp add: multiple_json_def meta_json_def fixture_view_def)
  ultimately show ?thesis by (simp add: value_read[OF multiple_parse])
qed


lemma v1_read:
  assumes "exact_integers is_int64"
  shows "\<exists>v. NewSimulationViewFromResponseBody (json_reader is_int64) JsonPayloadV1 = Returns (Inr v) \<and>
    d2_RequestResponsePairs (s2_DataViewV2 v) = v1_pairs"
proof -
  obtain v1 where dec: "dec_struct dec_simulation_v1 (JObject v1_json) = Some v1"
    "d2_RequestResponsePairs (s2_DataViewV2 (Upgrade v1)) = v1_pairs"
  proof -
    have "\<exists>v1. dec_struct dec_simulation_v1 (JObject v1_json) = Some v1 \<and>
        d2_RequestResponsePairs (s2_DataViewV2 (Upgrade v1)) = v1_pairs"
    proof -
      have "map_option (\<lambda>v1. d2_RequestResponsePairs (s2_DataViewV2 (Upgrade v1))) (dec_struct dec_simulation_v1 (JObject v1_json)) =
          Some v1_pairs" by code_simp
      then show ?thesis by (auto simp: map_option_eq_Some)
    qed
    with that show ?thesis by blast
  qed
  have "ValidateSimulation is_int64 v1_json SimulationViewV1Schema = None"
    unfolding ValidateSimulation_V1
    by (simp add: simulation_schema_def v1_json_def has_type_def given_type_def conforms_response status_200[OF assms] reply_view_def
        request_schema_def fixture_view_def)
  then have "read_version (json_reader is_int64) JsonPayloadV1 v1_json ''v1'' = Inr (Upgrade v1)"
    by (simp add: read_version_def) (simp add: json_reader_def unmarshal_def v1_parse dec(1))
  moreover have "map_get v1_json ''meta'' = Some (JObject [(''schemaVersion'', JString ''v1''),
      (''hoverflyVersion'', JString ''v0.10.2''), (''timeExported'', JString ''2017-02-23T12:43:48Z'')])"
    by (simp add: v1_json_def meta_json_def fixture_view_def)
  ultimately show ?thesis using dec(2) by (simp add: value_read[OF v1_parse])
qed

lemma multiple_answer:
  "of_pairs L web multiple_pairs r =
     (if GlobMatch glob_field (rq_Body r) \<and> RegexMatch L ''something'' (rq_Body r) then replied 200 ''multiple matches'' []
      else if web \<or> rq_Destination r = ''destination.com'' then replied 200 ''multiple matches 2'' []
      else Inl not_recorded)"
proof -
  have g: "GlobMatch ''*.com'' ''destination.com''" by code_simp
  have "pair_matches L web r (NewRequestMatcherResponsePairFromView (pair_view response (with_body f))) \<longleftrightarrow>
      FieldMatcher L (NewRequestFieldMatchersFromView (Some f)) (rq_Body r)" for response f
    by (auto simp: pair_matches_def fields_match_def with_body_def any_request_def pair_view_def
        NewRequestMatcherResponsePairFromView_def Let_def fixture_matchers(1) sort_query_matcher_def headers_match_def)
  then show ?thesis
    by (auto simp: multiple_pairs_def pair_answers fixture_matchers(2) FieldMatcher_conjunction rejects_def empty_matchers_view_def
        ExactMatch_def g)
qed

lemma v1_answer:
  "of_pairs L web v1_pairs r =
     (if web \<or> rq_Destination r = ''v1-simulation.com'' then replied 200 ''v1 match'' [] else Inl not_recorded)"
  by (auto simp: v1_pairs_def pair_answers exact_asked_def headers_match_def)


text \<open>Two of the tests: the request of the Go client, and one that no pair is for.\<close>

definition client_get :: "string \<Rightarrow> string \<Rightarrow> RequestDetails" where
  "client_get destination path =
     \<lparr>rq_Path = path, rq_Method = ''GET'', rq_Destination = destination, rq_Scheme = ''http'', rq_Query = '''', rq_Body = '''',
      rq_Headers = Some [(''User-Agent'', [''Go-http-client/1.1'']), (''Accept-Encoding'', [''gzip''])]\<rparr>"


end
