(* ===== verification/Listener.thy ===== *)
theory Listener
  imports Prelude
begin

text \<open>
  \<^verbatim>\<open>core/listener.go\<close>: the loop in which the listener of the proxy waits for a connection, one second
  at a time, until one comes or the listener is stopped. It is a loop that need not end.
\<close>

text \<open>
  What one round sees: the result of \<^verbatim>\<open>Accept\<close> of the TCP listener under a deadline, and whether the
  channel \<open>stop\<close> is closed when it is looked at afterwards.
\<close>

datatype 'c accepted =
    Conn 'c
  | NetError (ne_Timeout: bool) (ne_Temporary: bool) (ne_text: string)
  | OtherError string

record 'c round =
  ro_accepted :: "'c accepted"
  ro_stopped :: bool

text \<open>Whether the round ends the loop, and with what connection and error.\<close>

definition continues :: "'c round \<Rightarrow> bool" where
  "continues ro = (\<not> ro_stopped ro \<and>
     (case ro_accepted ro of NetError timeout temporary err \<Rightarrow> timeout \<and> temporary | _ \<Rightarrow> False))"

definition round_result :: "'c round \<Rightarrow> 'c option \<times> string option" where
  "round_result ro =
     (if ro_stopped ro then (None, Some ''Stopping listener'')
      else (case ro_accepted ro of
          Conn c \<Rightarrow> (Some c, None)
        | NetError timeout temporary err \<Rightarrow> (None, Some err)
        | OtherError err \<Rightarrow> (None, Some err)))"

text \<open>The loop from round \<open>i\<close> on; \<^const>\<open>None\<close> is a loop that never returns.\<close>

partial_function (option) Accept :: "(nat \<Rightarrow> 'c round) \<Rightarrow> nat \<Rightarrow> ('c option \<times> string option) option" where
  "Accept rounds i = (if continues (rounds i) then Accept rounds (i + 1) else Some (round_result (rounds i)))"

lemma Accept_now: "\<not> continues (rounds i) \<Longrightarrow> Accept rounds i = Some (round_result (rounds i))"
  by (subst Accept.simps) simp

lemma Accept_skip: "continues (rounds i) \<Longrightarrow> Accept rounds i = Accept rounds (i + 1)"
  by (subst Accept.simps) simp

lemma Accept_first: "\<lbrakk>i \<le> j; \<forall>k. i \<le> k \<and> k < j \<longrightarrow> continues (rounds k)\<rbrakk> \<Longrightarrow> Accept rounds i = Accept rounds j"
proof (induction "j - i" arbitrary: i)
  case (Suc n)
  have "Accept rounds i = Accept rounds (Suc i)" using Suc.hyps(2) Suc.prems by (simp add: Accept_skip)
  also have "\<dots> = Accept rounds j" using Suc.hyps(2) Suc.prems by (intro Suc.hyps(1)) auto
  finally show ?case .
qed simp

lemma Accept_returns_Some: "Accept rounds i = Some r \<Longrightarrow> \<exists>j\<ge>i. \<not> continues (rounds j)"
proof (erule Accept.raw_induct[rotated, where P = "\<lambda>rounds i r. \<exists>j\<ge>i. \<not> continues (rounds j)"])
  fix f :: "(nat \<Rightarrow> 'a round) \<Rightarrow> nat \<Rightarrow> ('a option \<times> string option) option" and rounds i r
  assume IH: "\<And>rounds i r. f rounds i = Some r \<Longrightarrow> \<exists>j\<ge>i. \<not> continues (rounds j)"
    and step: "(if continues (rounds i) then f rounds (i + 1) else Some (round_result (rounds i))) = Some r"
  show "\<exists>j\<ge>i. \<not> continues (rounds j)"
  proof (cases "continues (rounds i)")
    case True
    with step IH[of rounds "i + 1" r] show ?thesis by (auto intro: Suc_leD)
  qed auto
qed


lemma stopped_ends: "ro_stopped ro \<Longrightarrow> \<not> continues ro \<and> round_result ro = (None, Some ''Stopping listener'')"
  by (simp add: continues_def round_result_def)

text \<open>
  Once the listener is stopped, waiting ends after finitely many rounds, without a connection
  unless one had come in before the stop.
\<close>

lemma Accept_stops:
  assumes "i \<le> n" and "ro_stopped (rounds n)"
  shows "\<exists>j r. i \<le> j \<and> j \<le> n \<and> Accept rounds i = Some r \<and> r = round_result (rounds j) \<and>
    (fst r \<noteq> None \<longrightarrow> \<not> ro_stopped (rounds j))"
proof -
  define j where "j = (LEAST j. i \<le> j \<and> \<not> continues (rounds j))"
  have n: "i \<le> n \<and> \<not> continues (rounds n)" using assms stopped_ends by auto
  have j: "i \<le> j" "\<not> continues (rounds j)" "j \<le> n"
    using LeastI[of "\<lambda>j. i \<le> j \<and> \<not> continues (rounds j)", OF n]
      Least_le[of "\<lambda>j. i \<le> j \<and> \<not> continues (rounds j)", OF n] by (auto simp: j_def)
  have "\<forall>k. i \<le> k \<and> k < j \<longrightarrow> continues (rounds k)" by (auto simp: j_def dest: not_less_Least)
  from Accept_first[OF j(1) this] Accept_now[of rounds j] j(2) have "Accept rounds i = Some (round_result (rounds j))" by simp
  then show ?thesis using j by (auto simp: round_result_def intro!: exI[of _ j])
qed

end
