(* ===== verification/Upkeep.thy ===== *)
theory Upkeep
  imports Service Listener
begin

text \<open>
  What goes on beside the requests: the metrics that are logged every five seconds (\<^verbatim>\<open>Init\<close> of
  \<^verbatim>\<open>core/metrics/metrics.go\<close>), the rest of \<^verbatim>\<open>core/listener.go\<close>, how long a token is remembered
  (\<^verbatim>\<open>getTokenRemainingValidity\<close> of \<^verbatim>\<open>core/authentication/jwt_backend.go\<close>) and the accessors by which views are read
  as \<^verbatim>\<open>interfaces.Response\<close> and \<^verbatim>\<open>interfaces.RequestResponsePair\<close>.
\<close>

section \<open>Metrics in the log\<close>

text \<open>
  The goroutine of \<open>Init\<close> never ends; a run of it is the list of its ticks, each with the time and the counters then, the
  counters being printed by \<open>fmt\<close>. Every entry goes to the hook that keeps the log.
\<close>

definition flushInterval :: int where
  "flushInterval = 5 * 10 ^ 9"

definition metrics_entry :: "(int gomap \<Rightarrow> string) \<Rightarrow> string \<Rightarrow> CounterByMode \<Rightarrow> log_entry" where
  "metrics_entry fmt now c = \<lparr>le_Data = [(''counters'', LogText (fmt (sa_Counters (Flush c))))], le_Time = now,
     le_Message = ''hoverfly metrics'', le_Level = ''info''\<rparr>"

fun Init_ticks :: "(int gomap \<Rightarrow> string) \<Rightarrow> (string \<times> CounterByMode) list \<Rightarrow> StoreLogsHook \<Rightarrow> StoreLogsHook" where
  "Init_ticks fmt [] hook = hook"
| "Init_ticks fmt ((now, c) # ticks) hook = Init_ticks fmt ticks (StoreLogsHook_Fire (metrics_entry fmt now c) hook)"

lemma Init_ticks_entries:
  "lh_Entries (Init_ticks fmt ticks hook) = rev (map (\<lambda>(now, c). metrics_entry fmt now c) ticks) @ lh_Entries hook"
  by (induction fmt ticks hook rule: Init_ticks.induct) (simp_all add: StoreLogsHook_Fire_def)

text \<open>The hook forgets nothing: every tick is one more entry in memory.\<close>

lemma Init_ticks_length: "GetLogsCount (Init_ticks fmt ticks hook) = GetLogsCount hook + int (length ticks)"
  by (simp add: GetLogsCount_def Init_ticks_entries)

text \<open>After 500 quiet ticks, the logs API shows metrics only, unless it is given a higher limit.\<close>

lemma metrics_crowd_logs:
  assumes "length ticks \<ge> 500"
  shows "\<exists>es. GetLogsView (Init_ticks fmt ticks hook) = Returns \<lparr>lv_Logs = map entry_view es\<rparr> \<and> length es = 500 \<and>
    (\<forall>e \<in> set es. le_Message e = ''hoverfly metrics'')"
proof -
  let ?es = "take 500 (rev (map (\<lambda>(now, c). metrics_entry fmt now c) ticks))"
  have "GetLogsView (Init_ticks fmt ticks hook) = Returns \<lparr>lv_Logs = map entry_view ?es\<rparr>"
    using assms by (simp add: GetLogsView_def GetFilteredLogsView_eq Init_ticks_entries)
  moreover have "\<forall>e \<in> set ?es. le_Message e = ''hoverfly metrics''"
    by (auto simp: metrics_entry_def dest!: in_set_takeD)
  moreover have "length ?es = 500" using assms by simp
  ultimately show ?thesis by blast
qed

section \<open>The stoppable listener\<close>

text \<open>A listener that is not a TCP listener is \<^const>\<open>None\<close>; of the stop channel, whether it is closed.\<close>

record 'l StoppableListener =
  sl_TCPListener :: 'l
  sl_stop :: bool

definition NewStoppableListener :: "'l option \<Rightarrow> string + 'l StoppableListener" where
  "NewStoppableListener l = (case l of
     None \<Rightarrow> Inl ''failed to wrap listener''
   | Some tcpListener \<Rightarrow> Inr \<lparr>sl_TCPListener = tcpListener, sl_stop = False\<rparr>)"

definition Stop :: "'l StoppableListener \<Rightarrow> 'l StoppableListener outcome" where
  "Stop sl = (if sl_stop sl then Panics ''close of closed channel'' else Returns (sl\<lparr>sl_stop := True\<rparr>))"

lemma Stop_once: "NewStoppableListener (Some l) = Inr sl \<Longrightarrow> \<exists>sl'. Stop sl = Returns sl' \<and> panics (Stop sl')"
  by (auto simp: NewStoppableListener_def Stop_def)

text \<open>\<open>StopProxy\<close> stops the listener of the model of the core, which keeps of it whether it is closed.\<close>

lemma StopProxy_stops:
  assumes "hf_SL hf = Some (sl_stop sl)"
  shows "StopProxy hf = bind_outcome (Stop sl) (\<lambda>sl'. Returns (hf\<lparr>hf_SL := Some (sl_stop sl'),
     hf_Cfg := (hf_Cfg hf)\<lparr>cf_ProxyControlWG := cf_ProxyControlWG (hf_Cfg hf) - 1\<rparr>\<rparr>))"
  using assms by (simp add: StopProxy_def Stop_def split: bool.split)

section \<open>How long a token is remembered\<close>

text \<open>
  The claim is \<^const>\<open>None\<close> when it is not a number; times are nanoseconds, and a difference that does not fit a duration is
  the longest or the shortest one.
\<close>

definition expireOffset :: int where
  "expireOffset = 3600"

definition duration_between :: "int \<Rightarrow> int \<Rightarrow> int" where
  "duration_between t u = max (- (2 ^ 63)) (min (2 ^ 63 - 1) (t - u))"

definition getTokenRemainingValidity :: "int option \<Rightarrow> int \<Rightarrow> int" where
  "getTokenRemainingValidity timestamp now = (case timestamp of
     Some validity \<Rightarrow>
       (let remainer = duration_between (validity * 10 ^ 9) now in
        if remainer > 0 then remainer div 10 ^ 9 + expireOffset else expireOffset)
   | None \<Rightarrow> expireOffset)"

text \<open>At least an hour, also of a token that has expired, and never more than 292 years and an hour.\<close>

lemma getTokenRemainingValidity_bounds:
  "3600 \<le> getTokenRemainingValidity timestamp now" "getTokenRemainingValidity timestamp now \<le> 9223372036 + 3600"
proof -
  have "duration_between t u div 10 ^ 9 \<le> (2 ^ 63 - 1) div 10 ^ 9" for t u
    by (rule zdiv_mono1) (simp_all add: duration_between_def)
  then have "duration_between t u div 1000000000 \<le> 9223372036" for t u by simp
  then show "getTokenRemainingValidity timestamp now \<le> 9223372036 + 3600"
    by (simp add: getTokenRemainingValidity_def expireOffset_def Let_def split: option.split)
  show "3600 \<le> getTokenRemainingValidity timestamp now"
    by (simp add: getTokenRemainingValidity_def expireOffset_def Let_def pos_imp_zdiv_nonneg_iff split: option.split)
qed

lemma getTokenRemainingValidity_expired: "validity * 10 ^ 9 \<le> now \<Longrightarrow> getTokenRemainingValidity (Some validity) now = 3600"
  by (simp add: getTokenRemainingValidity_def expireOffset_def duration_between_def Let_def)

section \<open>The accessors of the views\<close>

definition Response_GetStatus :: "ResponseDetailsView \<Rightarrow> int" where "Response_GetStatus this = rv_Status this"
definition Response_GetBody :: "ResponseDetailsView \<Rightarrow> string" where "Response_GetBody this = rv_Body this"
definition Response_GetEncodedBody :: "ResponseDetailsView \<Rightarrow> bool" where "Response_GetEncodedBody this = rv_EncodedBody this"
definition Response_GetHeaders :: "ResponseDetailsView \<Rightarrow> headers" where "Response_GetHeaders this = rv_Headers this"
definition PairV1_GetResponse :: "RequestResponsePairViewV1 \<Rightarrow> ResponseDetailsView" where "PairV1_GetResponse this = p1_Response this"
definition PairV1_GetRequest :: "RequestResponsePairViewV1 \<Rightarrow> RequestDetailsViewV1" where "PairV1_GetRequest this = p1_Request this"
definition PairV2_GetResponse :: "RequestResponsePairViewV2 \<Rightarrow> ResponseDetailsView" where "PairV2_GetResponse this = p2_Response this"

lemmas accessor_defs = Response_GetStatus_def Response_GetBody_def Response_GetEncodedBody_def Response_GetHeaders_def
  PairV1_GetResponse_def PairV1_GetRequest_def PairV2_GetResponse_def

text \<open>The conversions of \<^verbatim>\<open>core/models\<close> read the views by them.\<close>

lemma conversions_by_accessors:
  "NewResponseDetailsFromResponse data = \<lparr>rs_Status = Response_GetStatus data,
     rs_Body = (if Response_GetEncodedBody data then fst (DecodeString (Response_GetBody data)) else Response_GetBody data),
     rs_Headers = Response_GetHeaders data\<rparr>"
  "NewRequestResponsePairFromRequestResponsePairView pairView =
     \<lparr>pr_Response = NewResponseDetailsFromResponse (PairV1_GetResponse pairView),
      pr_Request = NewRequestDetailsFromRequest (PairV1_GetRequest pairView)\<rparr>"
  "mp_Response (NewRequestMatcherResponsePairFromView view) = NewResponseDetailsFromResponse (PairV2_GetResponse view)"
  by (simp_all add: accessor_defs NewResponseDetailsFromResponse_def NewRequestResponsePairFromRequestResponsePairView_def
      NewRequestMatcherResponsePairFromView_def Let_def)

end
