(* ===== verification/Spec2Isabelle.thy ===== *)
theory Spec2Isabelle
  imports System Certs Remote Interleaving Admin Payloads FunctionalAnswers Upkeep
begin

text \<open>
  A verification development for Hoverfly, the HTTP service virtualisation proxy of this
  repository, and for \<^verbatim>\<open>hoverctl\<close>, the command line tool that drives it.

  The program. Hoverfly is a proxy (or a web server) that, depending on its mode, answers a request
  from a stored simulation (simulate), forwards it and records the answer (capture), has a
  middleware write the answer (synthesize), or has the middleware change request and answer
  (modify). A cache remembers which pair of the simulation answered a request. An admin API with two
  versions reads and changes the simulation, the mode, the destination, the middleware, the cache,
  delays, metadata and users, behind tokens when authentication is on.

  Conventions (theory Prelude). A Go string is a list of bytes; a map is an association list whose
  order is the order the loops of that run visit; nil maps and pointers are \<^const>\<open>None\<close>; an error is the
  left side of a sum, or \<open>Some\<close> message where a function returns nothing else. A run-time panic, and
  the end of the process by \<^verbatim>\<open>log.Fatal\<close> or \<^verbatim>\<open>os.Exit\<close>, is the outcome \<^const>\<open>Panics\<close>. A step on a state is a
  \<open>prog\<close>; \<^const>\<open>always\<close> and \<^const>\<open>returns\<close> are its partial correctness and its safety from panics, and
  \<^const>\<open>preserves\<close> the invariants of steps, each with rules for sequences and branches.

  Theories and sources, below \<^verbatim>\<open>src/core\<close> unless said otherwise:

  \<^item> Util: \<^verbatim>\<open>util/util.go\<close>. Query strings are sorted to a normal form; bodies; content types.
  \<^item> Glob: \<^verbatim>\<open>go-glob\<close>, whose greedy matcher decides the language of a pattern.
  \<^item> Md5, Base64: the hash of a request and the encoding of binary bodies, written out.
  \<^item> Views: \<^verbatim>\<open>handlers/v1/views.go\<close>, \<^verbatim>\<open>handlers/v2/*views.go\<close>, \<^verbatim>\<open>interfaces\<close>: the formats of the API and the
    upgrade of simulations of version 1.
  \<^item> Models: \<^verbatim>\<open>models/\<close>: requests, responses, matchers, the simulation, delays, and their conversion.
  \<^item> Cache: \<^verbatim>\<open>cache/\<close>: the interface of a cache as a locale, interpreted on the cache in memory and on
    the one in a bolt database; both find the last value stored.
  \<^item> Matching, CacheMatcher: \<^verbatim>\<open>matching/\<close>: one function per matcher, the request matcher, the cache.
  \<^item> Http, Modes: \<^verbatim>\<open>net/http\<close> values and \<^verbatim>\<open>modes/\<close>: what each mode does with a request, on the two
    operations of Hoverfly it is given.
  \<^item> Middleware, Settings, Observability, Auth: \<^verbatim>\<open>middleware.go\<close>, \<^verbatim>\<open>settings.go\<close>, \<^verbatim>\<open>metrics\<close> with the log
    hook and action hooks, \<^verbatim>\<open>authentication/\<close>.
  \<^item> HoverflyCore, Answers: \<^verbatim>\<open>hoverfly.go\<close>: the state of a Hoverfly and the processing of one request;
    what a Hoverfly answers, the invariant \<open>wf_hoverfly\<close>, and that nothing panics under it.
  \<^item> Service: \<^verbatim>\<open>hoverfly_service.go\<close>, \<^verbatim>\<open>import.go\<close>: every operation the API calls.
  \<^item> Writer, Api, ApiLaws: \<^verbatim>\<open>handlers/\<close>, \<^verbatim>\<open>admin.go\<close>: all handlers and routes, on a record \<open>service\<close> of
    the operations they call, with Hoverfly as its instance.
  \<^item> Proxy: \<^verbatim>\<open>proxy.go\<close> with the parts of the library goproxy that decide what is done with a request.
  \<^item> Startup, CommandLine: \<^verbatim>\<open>cmd/hoverfly/main.go\<close>, from the arguments to the running Hoverfly.
  \<^item> System: the states \<^verbatim>\<open>main\<close>, proxied requests and API calls in any order can reach.
  \<^item> Listener, Certs: \<^verbatim>\<open>listener.go\<close>, \<^verbatim>\<open>certs/certs.go\<close>.
  \<^item> Admin: the rest of \<^verbatim>\<open>admin.go\<close>: the router \<^verbatim>\<open>bone\<close> and the chain of \<^verbatim>\<open>negroni\<close> that carry a request to
    its route, the routes of the user interface, the loop of the websockets.
  \<^item> Interleaving: answering and deleting split at their accesses to shared state, any number of them at once.
  \<^item> Exports, Json, Tokens, Payloads: the JSON of simulations and of middleware payloads, by the tags of the
    structs: writing, reading with a model of encoding/json, texts with spaces; and the example middleware in \<^verbatim>\<open>examples/\<close>.
  \<^item> FunctionalTests, FunctionalAnswers: \<^verbatim>\<open>functional-tests/testdata.go\<close> and what its fixtures answer.
  \<^item> Upkeep: the log of metrics, the rest of the listener, the lifetime of tokens, accessors.
  \<^item> Hoverctl, HoverctlClient, HoverctlCommands, HoverctlLaws: \<^verbatim>\<open>src/hoverctl\<close>: configuration, directory
    and files, the client of the API with start and stop of the process, the commands.

  What is shown. Of one request: the matcher returns the first pair that matches, header matchers
  and globs mean what they should, what was captured is what is simulated, a flushed cache does
  not change any answer while keys distinguish requests, errors reach the client. Of the whole: every
  reachable state is well-formed and answers every request; without an accepted token no route
  changes anything; what Hoverfly answers is what the client gets. Of the operations: mode,
  destination, middleware and simulation change as a whole or not at all, with the exceptions that
  are stated as they are; the text of an export can be imported; users, tokens, and what a logout revokes. Of \<^verbatim>\<open>hoverctl\<close>: its configuration
  reaches \<^verbatim>\<open>main\<close> flag by flag, it stops what it started, and asks before it deletes;
  over the wire it sets modes, moves simulations between Hoverflies and is let in with the right password only.
  Of requests at the same time: a deletion between the match and the save of a request leaves a deleted response in the
  cache, and with that one interleaving excluded every answer is from the simulation. Of the tests: every request is
  answered from the fixtures as the functional tests expect.

  Parameters. The JSON of simulations and payloads is written out, for the other views it is a parameter, as are XML, XPath, regular expressions, gob, bcrypt, tokens, YAML, the network, processes
  and clocks: they are functions of the records \<open>libs\<close>, \<open>world\<close>, \<open>import_world\<close>, \<open>main_world\<close>, \<open>auth_libs\<close>,
  \<open>api_codec\<close>, \<open>os\<close>, \<open>crypto\<close> and \<open>websocket\<close>; what a theorem needs of them is a named hypothesis. \<open>json_reader\<close> and
  \<open>marshal_pair\<close> are instances of the JSON readers and writers the handlers and the middleware take as arguments.

  Loops. All loops are total functions, but \<^const>\<open>Accept\<close>, which may wait for ever and is a
  partial function: that it ends is shown exactly for the streams that contain a connection, an error or a
  stop. Reading a schema has fuel for a depth of 16 with the references followed; the two schemas are shown to be
  read within it. The reader of JSON has fuel for twice the length of its text, which is shown never to be too little
  (\<open>parse_enough\<close>). \<^const>\<open>wait_healthy\<close> has the number of ticks before the timeout as its argument; no bound on it is assumed.

  Not modelled: the data of the embedded pages, TLS tunnels and the interception of TLS connections in goproxy,
  serving TCP connections, the recovery of negroni from a panic, the splitting of command lines by cobra, the code that
  runs the tests. Operations are atomic steps in any order, but in Interleaving, where \<open>GetResponse\<close> and
  \<open>DeleteSimulation\<close> are the steps between their accesses to the simulation and the cache.
\<close>

end
